(* ===== verification/Prelude.thy ===== *)
theory Prelude
  imports Complex_Main "HOL-Library.Sublist"
begin

text \<open>
  Shared by every component: results of fallible operations (the crate anyhow's
  \<open>Result\<close>), the Rust string operations the source uses, and generic lemmas on lists and
  maps. Strings are lists of bytes, as Rust's \<open>String\<close> is UTF-8.
\<close>

section \<open>Results\<close>

text \<open>
  An \<open>anyhow::Error\<close> is a chain of messages: the outermost context first, the root cause
  last. \<open>Inl\<close> is \<open>Err\<close>, \<open>Inr\<close> is \<open>Ok\<close>.
\<close>

type_synonym anyhow = "string list"

type_synonym 'a res = "anyhow + 'a"

named_theorems res_simps \<open>rewrite rules for results\<close>

definition bail :: "string \<Rightarrow> 'a res" where
  "bail msg = Inl [msg]"

definition with_context :: "string \<Rightarrow> 'a res \<Rightarrow> 'a res" where
  "with_context msg r = (case r of Inl e \<Rightarrow> Inl (msg # e) | Inr a \<Rightarrow> Inr a)"

definition context_opt :: "string \<Rightarrow> 'a option \<Rightarrow> 'a res" where
  "context_opt msg r = (case r of None \<Rightarrow> Inl [msg] | Some a \<Rightarrow> Inr a)"

definition bind_res :: "('e + 'a) \<Rightarrow> ('a \<Rightarrow> 'e + 'b) \<Rightarrow> 'e + 'b" where
  "bind_res r f = (case r of Inl e \<Rightarrow> Inl e | Inr a \<Rightarrow> f a)"

definition is_ok :: "'e + 'a \<Rightarrow> bool" where
  "is_ok r = (case r of Inl _ \<Rightarrow> False | Inr _ \<Rightarrow> True)"

lemma bind_res_simps [simp, res_simps]:
  "bind_res (Inl e) f = Inl e" "bind_res (Inr a) f = f a"
  by (simp_all add: bind_res_def)

lemma bind_res_Inr_iff [res_simps]:
  "bind_res r f = Inr b \<longleftrightarrow> (\<exists>a. r = Inr a \<and> f a = Inr b)"
  by (cases r) simp_all

lemma with_context_simps [simp, res_simps]:
  "with_context msg (Inl e) = Inl (msg # e)" "with_context msg (Inr a) = Inr a"
  by (simp_all add: with_context_def)

lemma with_context_Inr_iff [simp, res_simps]:
  "with_context msg r = Inr a \<longleftrightarrow> r = Inr a"
  by (cases r) simp_all

lemma context_opt_simps [simp, res_simps]:
  "context_opt msg None = Inl [msg]" "context_opt msg (Some a) = Inr a"
  by (simp_all add: context_opt_def)

lemma context_opt_Inr_iff [simp, res_simps]:
  "context_opt msg r = Inr a \<longleftrightarrow> r = Some a"
  by (cases r) simp_all

lemma is_ok_simps [simp, res_simps]: "\<not> is_ok (Inl e)" "is_ok (Inr a)"
  by (simp_all add: is_ok_def)

lemma is_ok_iff: "is_ok r \<longleftrightarrow> (\<exists>a. r = Inr a)"
  by (cases r) simp_all

section \<open>Strings\<close>

definition starts_with :: "string \<Rightarrow> string \<Rightarrow> bool" where
  "starts_with s p = (take (length p) s = p)"

definition ends_with :: "string \<Rightarrow> string \<Rightarrow> bool" where
  "ends_with s p = starts_with (rev s) (rev p)"

fun contains_str :: "string \<Rightarrow> string \<Rightarrow> bool" where
  "contains_str [] p = (p = [])"
| "contains_str (c # s) p = (starts_with (c # s) p \<or> contains_str s p)"

lemma starts_with_iff: "starts_with s p \<longleftrightarrow> (\<exists>r. s = p @ r)"
  unfolding starts_with_def by (metis append_take_drop_id append_eq_conv_conj)

lemma starts_with_prefix: "starts_with s p \<longleftrightarrow> prefix p s"
  by (auto simp: starts_with_iff prefix_def)

lemma contains_str_iff: "contains_str s p \<longleftrightarrow> (\<exists>a b. s = a @ p @ b)"
proof (induction s)
  case Nil
  then show ?case by auto
next
  case (Cons c s)
  have "(\<exists>a b. c # s = a @ p @ b) \<longleftrightarrow> (\<exists>b. c # s = p @ b) \<or> (\<exists>a b. s = a @ p @ b)"
    by (metis append_Cons append_Nil list.sel(3) list.exhaust tl_append2)
  with Cons show ?case by (simp add: starts_with_iff)
qed

text \<open>White space as \<open>str::trim\<close> and \<open>split_whitespace\<close> see it, on the ASCII range.\<close>

definition is_space :: "char \<Rightarrow> bool" where
  "is_space c = (c \<in> {CHR '' '', CHR 0x09, CHR 0x0A, CHR 0x0B, CHR 0x0C, CHR 0x0D})"

definition trim :: "string \<Rightarrow> string" where
  "trim s = rev (dropWhile is_space (rev (dropWhile is_space s)))"

lemma dropWhile_Nil_iff: "dropWhile P xs = [] \<longleftrightarrow> (\<forall>x \<in> set xs. P x)"
  by (induction xs) auto

lemma trim_empty_iff: "trim s = [] \<longleftrightarrow> (\<forall>c \<in> set s. is_space c)"
proof
  assume "trim s = []"
  then have all: "\<forall>c \<in> set (dropWhile is_space s). is_space c"
    by (auto simp: trim_def dropWhile_Nil_iff)
  show "\<forall>c \<in> set s. is_space c"
  proof (cases "dropWhile is_space s")
    case Nil
    then show ?thesis by (simp add: dropWhile_Nil_iff)
  next
    case (Cons x xs)
    then have "\<not> is_space x" using hd_dropWhile[of is_space s] by auto
    with all Cons show ?thesis by simp
  qed
next
  assume "\<forall>c \<in> set s. is_space c"
  then show "trim s = []" by (auto simp: trim_def dest: set_dropWhileD)
qed

text \<open>\<open>str::split\<close> on one character: always at least one piece.\<close>

fun split_on :: "char \<Rightarrow> string \<Rightarrow> string list" where
  "split_on c [] = [[]]"
| "split_on c (x # xs) =
     (if x = c then [] # split_on c xs
      else case split_on c xs of [] \<Rightarrow> [[x]] | p # ps \<Rightarrow> (x # p) # ps)"

text \<open>\<open>[String]::join\<close> with a separator.\<close>

fun join_with :: "string \<Rightarrow> string list \<Rightarrow> string" where
  "join_with sep [] = []"
| "join_with sep [p] = p"
| "join_with sep (p # q # ps) = p @ sep @ join_with sep (q # ps)"

lemma split_on_not_Nil [simp]: "split_on c s \<noteq> []"
  by (induction s) (auto split: list.splits)

lemma split_on_no_sep: "c \<notin> set s \<Longrightarrow> split_on c s = [s]"
  by (induction s) auto

lemma split_on_append: "c \<notin> set p \<Longrightarrow> split_on c (p @ c # s) = p # split_on c s"
  by (induction p) auto

lemma split_on_join_with:
  "ps \<noteq> [] \<Longrightarrow> \<forall>p \<in> set ps. c \<notin> set p \<Longrightarrow> split_on c (join_with [c] ps) = ps"
  by (induction "[c]" ps rule: join_with.induct) (auto simp: split_on_append split_on_no_sep)

lemma join_with_split_on: "join_with [c] (split_on c s) = s"
proof (induction s)
  case Nil
  then show ?case by simp
next
  case (Cons x xs)
  obtain p ps where "split_on c xs = p # ps" by (meson neq_Nil_conv split_on_not_Nil)
  with Cons show ?case by (cases ps) auto
qed

lemma set_split_on: "p \<in> set (split_on c s) \<Longrightarrow> c \<notin> set p"
proof (induction s arbitrary: p)
  case Nil
  then show ?case by simp
next
  case (Cons x xs)
  obtain q qs where "split_on c xs = q # qs" by (meson neq_Nil_conv split_on_not_Nil)
  with Cons show ?case by (auto split: if_splits)
qed

lemma join_with_append:
  "ps \<noteq> [] \<Longrightarrow> qs \<noteq> [] \<Longrightarrow> join_with sep (ps @ qs) = join_with sep ps @ sep @ join_with sep qs"
  by (induction sep ps rule: join_with.induct) (auto simp: neq_Nil_conv)

text \<open>Decimal notation, as \<open>format!("{}", n)\<close> prints an unsigned number.\<close>

fun show_nat :: "nat \<Rightarrow> string" where
  "show_nat n = (if n < 10 then [char_of (48 + n)] else show_nat (n div 10) @ [char_of (48 + n mod 10)])"

declare show_nat.simps [simp del]

text \<open>The accented letters of the messages, as the bytes of their UTF-8 encoding.\<close>

definition e_acute :: string where "e_acute = [CHR 0xC3, CHR 0xA9]"
definition E_acute :: string where "E_acute = [CHR 0xC3, CHR 0x89]"
definition e_grave :: string where "e_grave = [CHR 0xC3, CHR 0xA8]"
definition e_circ :: string where "e_circ = [CHR 0xC3, CHR 0xAA]"
definition a_grave :: string where "a_grave = [CHR 0xC3, CHR 0xA0]"

section \<open>Lists and maps\<close>

lemma map_of_filter_key:
  "map_of (filter (\<lambda>(k, v). P k) xs) k = (if P k then map_of xs k else None)"
  by (induction xs) auto

lemma fold_invariant_on:
  "I s \<Longrightarrow> (\<And>x s. x \<in> set xs \<Longrightarrow> I s \<Longrightarrow> I (f x s)) \<Longrightarrow> I (fold f xs s)"
  by (induction xs arbitrary: s) auto

end
