(* ===== verification/Paths.thy ===== *)
theory Paths
  imports Prelude
begin

text \<open>
  \<open>std::path::Path\<close> as the source uses it: a path is the list of its components, where the
  root directory is the component \<open>"/"\<close> (as \<open>Component::RootDir.as_os_str()\<close> is).
  \<open>components\<close> parses a string, \<open>path_string\<close> prints one (\<open>to_string_lossy\<close>);
  \<open>join\<close>, \<open>strip_prefix\<close>, \<open>parent\<close> and \<open>file_name\<close> follow the standard
  library. Then the helpers of \<open>engine/worker.rs\<close> that turn an absolute path into the relative
  string used as key by the database and the path cache.
\<close>

type_synonym path = "string list"

definition root_dir :: string where
  "root_dir = ''/''"

definition path_string :: "path \<Rightarrow> string" where
  "path_string p =
     (case p of [] \<Rightarrow> []
      | c # cs \<Rightarrow> if c = root_dir then root_dir @ join_with ''/'' cs else join_with ''/'' (c # cs))"

text \<open>
  Repeated and trailing separators vanish, and so does a \<open>"."\<close> that is not the first component.
\<close>

definition plain_parts :: "string list \<Rightarrow> path" where
  "plain_parts ps = filter (\<lambda>c. c \<noteq> [] \<and> c \<noteq> ''.'') ps"

definition components :: "string \<Rightarrow> path" where
  "components s =
     (if starts_with s ''/'' then root_dir # plain_parts (split_on CHR ''/'' s)
      else case split_on CHR ''/'' s of
        [] \<Rightarrow> []
      | c # cs \<Rightarrow> if c = ''.'' then c # plain_parts cs else plain_parts (c # cs))"

definition is_absolute :: "path \<Rightarrow> bool" where
  "is_absolute p = (case p of [] \<Rightarrow> False | c # _ \<Rightarrow> c = root_dir)"

definition path_join :: "path \<Rightarrow> path \<Rightarrow> path" where
  "path_join p q = (if is_absolute q then q else p @ q)"

fun strip_prefix :: "path \<Rightarrow> path \<Rightarrow> path option" where
  "strip_prefix [] p = Some p"
| "strip_prefix (b # bs) [] = None"
| "strip_prefix (b # bs) (c # cs) = (if b = c then strip_prefix bs cs else None)"

definition path_parent :: "path \<Rightarrow> path option" where
  "path_parent p = (if p = [] \<or> p = [root_dir] then None else Some (butlast p))"

definition path_file_name :: "path \<Rightarrow> string option" where
  "path_file_name p =
     (if p = [] \<or> last p = root_dir \<or> last p = ''..'' \<or> last p = ''.'' then None else Some (last p))"

section \<open>Well-formed paths\<close>

text \<open>
  The paths the file system gives (directory walks and change notifications): an absolute root
  and names that are not empty, not \<open>"."\<close> and hold no separator.
\<close>

definition name_ok :: "string \<Rightarrow> bool" where
  "name_ok c = (c \<noteq> [] \<and> c \<noteq> ''.'' \<and> c \<noteq> ''..'' \<and> CHR ''/'' \<notin> set c)"

definition rel_ok :: "path \<Rightarrow> bool" where
  "rel_ok p = (\<forall>c \<in> set p. name_ok c)"

lemma rel_ok_simps [simp]:
  "rel_ok []" "rel_ok (c # p) \<longleftrightarrow> name_ok c \<and> rel_ok p"
  "rel_ok (p @ q) \<longleftrightarrow> rel_ok p \<and> rel_ok q"
  by (auto simp: rel_ok_def)

lemma name_ok_root_dir [simp]: "\<not> name_ok root_dir"
  by (simp add: name_ok_def root_dir_def)

lemma rel_ok_not_absolute [simp]: "rel_ok p \<Longrightarrow> \<not> is_absolute p"
  by (cases p) (auto simp: is_absolute_def)

lemma plain_parts_rel_ok: "rel_ok p \<Longrightarrow> plain_parts p = p"
  by (auto simp: plain_parts_def rel_ok_def name_ok_def intro!: filter_True)

lemma path_string_rel: "rel_ok p \<Longrightarrow> path_string p = join_with ''/'' p"
  by (cases p) (auto simp: path_string_def)

lemma path_string_Nil_iff: "rel_ok p \<Longrightarrow> path_string p = [] \<longleftrightarrow> p = []"
proof (cases p)
  case (Cons c cs)
  assume "rel_ok p"
  with Cons show ?thesis by (cases cs) (auto simp: path_string_rel name_ok_def)
qed (simp add: path_string_def)

lemma components_path_string:
  assumes "rel_ok p"
  shows "components (path_string p) = p"
proof (cases p)
  case Nil
  then show ?thesis
    by (simp add: path_string_def components_def starts_with_def plain_parts_def)
next
  case (Cons c cs)
  have c: "c \<noteq> []" "c \<noteq> ''.''" "CHR ''/'' \<notin> set c" using assms Cons by (auto simp: name_ok_def)
  have split: "split_on CHR ''/'' (join_with ''/'' p) = p"
    using assms Cons by (intro split_on_join_with) (auto simp: rel_ok_def name_ok_def)
  obtain x xs where x: "c = x # xs" using c(1) by (cases c) auto
  have "\<exists>r. join_with ''/'' p = x # r" using Cons x by (cases cs) auto
  moreover have "x \<noteq> CHR ''/''" using c(3) x by auto
  ultimately have "\<not> starts_with (join_with ''/'' p) ''/''" by (auto simp: starts_with_def)
  with split c assms Cons show ?thesis
    by (simp add: components_def path_string_rel plain_parts_rel_ok)
qed

lemma strip_prefix_iff: "strip_prefix b p = Some r \<longleftrightarrow> p = b @ r"
  by (induction b p rule: strip_prefix.induct) auto

lemma strip_prefix_append [simp]: "strip_prefix b (b @ r) = Some r"
  by (simp add: strip_prefix_iff)

lemma strip_prefix_None_iff: "strip_prefix b p = None \<longleftrightarrow> (\<nexists>r. p = b @ r)"
  using strip_prefix_iff[of b p] by (cases "strip_prefix b p") auto

lemma path_join_rel [simp]: "rel_ok q \<Longrightarrow> path_join p q = p @ q"
  by (simp add: path_join_def)

section \<open>Relative keys (engine/worker.rs)\<close>

text \<open>\<open>rel_str\<close>: an error when the path is not under the root.\<close>

definition rel_str :: "path \<Rightarrow> path \<Rightarrow> string res" where
  "rel_str base p =
     (case strip_prefix base p of
        None \<Rightarrow> Inl [path_string p @ '' not under '' @ path_string base, ''prefix not found'']
      | Some r \<Rightarrow> Inr (path_string r))"

text \<open>
  \<open>parent_rel_str\<close>: the empty string at the root of the synchronised directory, and also
  when the parent is not under the root.
\<close>

definition parent_rel_str :: "path \<Rightarrow> path \<Rightarrow> string" where
  "parent_rel_str base p =
     (case path_parent p of
        None \<Rightarrow> []
      | Some q \<Rightarrow> (case strip_prefix base q of None \<Rightarrow> [] | Some r \<Rightarrow> path_string r))"

lemma rel_str_under [simp]: "rel_str base (base @ r) = Inr (path_string r)"
  by (simp add: rel_str_def)

lemma rel_str_Inr_iff: "rel_str base p = Inr s \<longleftrightarrow> (\<exists>r. p = base @ r \<and> s = path_string r)"
  by (auto simp: rel_str_def strip_prefix_iff split: option.splits
        dest: strip_prefix_None_iff[THEN iffD1])

lemma parent_rel_str_under:
  "r \<noteq> [] \<Longrightarrow> base @ r \<noteq> [root_dir] \<Longrightarrow> parent_rel_str base (base @ r) = path_string (butlast r)"
  by (simp add: parent_rel_str_def path_parent_def butlast_append)

text \<open>The key determines the file: distinct well-formed paths under one root have distinct keys.\<close>

lemma rel_key_inj:
  assumes "rel_ok r" "rel_ok r'" "path_string r = path_string r'"
  shows "r = r'"
  by (metis assms components_path_string)

text \<open>Joining the stored key to the root gives the path back.\<close>

lemma join_rel_key:
  "rel_ok r \<Longrightarrow> path_join base (components (path_string r)) = base @ r"
  by (simp add: components_path_string)

section \<open>Subtrees\<close>

text \<open>
  The string test the path cache uses for \<open>lies under directory p\<close> is the component test.
\<close>

lemma join_with_append_sep:
  "ps \<noteq> [] \<Longrightarrow> qs \<noteq> [] \<Longrightarrow> join_with ''/'' (ps @ qs) = join_with ''/'' ps @ ''/'' @ join_with ''/'' qs"
  by (rule join_with_append)

lemma split_on_append_sep:
  "split_on c (a @ c # b) = split_on c a @ split_on c b"
proof (induction a)
  case Nil
  then show ?case by simp
next
  case (Cons x a)
  obtain p ps where "split_on c a = p # ps" by (meson neq_Nil_conv split_on_not_Nil)
  with Cons show ?case by auto
qed

lemma subtree_string_iff:
  assumes p: "rel_ok p" "p \<noteq> []" and q: "rel_ok q"
  shows "starts_with (path_string q) (path_string p @ ''/'') \<longleftrightarrow> strict_prefix p q"
proof
  assume "starts_with (path_string q) (path_string p @ ''/'')"
  then obtain r where r: "path_string q = path_string p @ CHR ''/'' # r"
    by (auto simp: starts_with_iff)
  then have qne: "q \<noteq> []" by (auto simp: path_string_def)
  have "split_on CHR ''/'' (path_string q) = q" "split_on CHR ''/'' (path_string p) = p"
    using p q qne by (auto simp: path_string_rel rel_ok_def name_ok_def intro!: split_on_join_with)
  then have "q = p @ split_on CHR ''/'' r" using r by (metis split_on_append_sep)
  then show "strict_prefix p q" by (metis prefixI split_on_not_Nil strict_prefix_def append_self_conv)
next
  assume "strict_prefix p q"
  then obtain r where "q = p @ r" "r \<noteq> []"
    by (auto simp: strict_prefix_def prefix_def)
  with p q show "starts_with (path_string q) (path_string p @ ''/'')"
    by (auto simp: starts_with_iff path_string_rel join_with_append_sep)
qed

end
