(* ===== verification/Disk.thy ===== *)
theory Disk
  imports Paths
begin

text \<open>
  The local file system, as far as the source uses it through \<open>std::fs\<close> and \<open>Path\<close>: a map
  from absolute paths to files and directories, and the faults the operating system may report.
  The faults are data, so every error path of the source is reachable.
\<close>

datatype node =
    FileNode (node_content: string) (node_mtime: int)
  | DirNode

datatype io_op = OpStat | OpRead | OpWrite | OpMkdir | OpUnlink

record disk =
  dk_nodes :: "path \<Rightarrow> node option"
  dk_fault :: "io_op \<Rightarrow> path \<Rightarrow> string option"

definition enoent :: string where
  "enoent = ''No such file or directory (os error 2)''"

definition eisdir :: string where
  "eisdir = ''Is a directory (os error 21)''"

definition enotdir :: string where
  "enotdir = ''Not a directory (os error 20)''"

definition io :: "io_op \<Rightarrow> path \<Rightarrow> disk \<Rightarrow> 'a res \<Rightarrow> 'a res" where
  "io op p dk r = (case dk_fault dk op p of Some e \<Rightarrow> Inl [e] | None \<Rightarrow> r)"

text \<open>\<open>std::fs::metadata\<close>; \<open>exists\<close>, \<open>is_file\<close> and \<open>is_dir\<close> map its errors to \<open>false\<close>.\<close>

definition fs_metadata :: "path \<Rightarrow> disk \<Rightarrow> node res" where
  "fs_metadata p dk = io OpStat p dk (case dk_nodes dk p of None \<Rightarrow> Inl [enoent] | Some n \<Rightarrow> Inr n)"

definition path_exists :: "path \<Rightarrow> disk \<Rightarrow> bool" where
  "path_exists p dk = is_ok (fs_metadata p dk)"

definition path_is_dir :: "path \<Rightarrow> disk \<Rightarrow> bool" where
  "path_is_dir p dk = (fs_metadata p dk = Inr DirNode)"

definition path_is_file :: "path \<Rightarrow> disk \<Rightarrow> bool" where
  "path_is_file p dk = (case fs_metadata p dk of Inr (FileNode _ _) \<Rightarrow> True | _ \<Rightarrow> False)"

definition fs_read :: "path \<Rightarrow> disk \<Rightarrow> string res" where
  "fs_read p dk = io OpRead p dk
     (case dk_nodes dk p of
        None \<Rightarrow> Inl [enoent] | Some DirNode \<Rightarrow> Inl [eisdir] | Some (FileNode c _) \<Rightarrow> Inr c)"

text \<open>\<open>std::fs::write\<close> at time \<open>now\<close> (seconds): creates or replaces the file.\<close>

definition fs_write :: "int \<Rightarrow> path \<Rightarrow> string \<Rightarrow> disk \<Rightarrow> disk res" where
  "fs_write now p c dk = io OpWrite p dk
     (if dk_nodes dk p = Some DirNode then Inl [eisdir]
      else case path_parent p of
        None \<Rightarrow> Inl [enoent]
      | Some d \<Rightarrow>
          if d = [] \<or> dk_nodes dk d = Some DirNode
          then Inr (dk\<lparr>dk_nodes := (dk_nodes dk)(p \<mapsto> FileNode c now)\<rparr>)
          else if dk_nodes dk d = None then Inl [enoent] else Inl [enotdir])"

text \<open>\<open>std::fs::remove_file\<close>.\<close>

definition remove_file :: "path \<Rightarrow> disk \<Rightarrow> unit res \<times> disk" where
  "remove_file p dk =
     (case io OpUnlink p dk (case dk_nodes dk p of
             None \<Rightarrow> Inl [enoent] | Some DirNode \<Rightarrow> Inl [eisdir] | Some (FileNode _ _) \<Rightarrow> Inr ()) of
        Inl e \<Rightarrow> (Inl e, dk)
      | Inr _ \<Rightarrow> (Inr (), dk\<lparr>dk_nodes := (dk_nodes dk)(p := None)\<rparr>))"

text \<open>
  \<open>std::fs::create_dir_all\<close>: the directories of the path, outermost first; those made before
  a failure stay.
\<close>

fun mkdir_from :: "path \<Rightarrow> path \<Rightarrow> disk \<Rightarrow> unit res \<times> disk" where
  "mkdir_from outer [] dk = (Inr (), dk)"
| "mkdir_from outer (c # cs) dk =
     (let d = outer @ [c] in
      case dk_nodes dk d of
        Some DirNode \<Rightarrow> mkdir_from d cs dk
      | Some (FileNode _ _) \<Rightarrow> (Inl [enotdir], dk)
      | None \<Rightarrow>
          (case dk_fault dk OpMkdir d of
             Some e \<Rightarrow> (Inl [e], dk)
           | None \<Rightarrow> mkdir_from d cs (dk\<lparr>dk_nodes := (dk_nodes dk)(d \<mapsto> DirNode)\<rparr>)))"

definition create_dir_all :: "path \<Rightarrow> disk \<Rightarrow> unit res \<times> disk" where
  "create_dir_all p dk = mkdir_from [] p dk"

section \<open>Facts\<close>

lemma io_Inr_iff: "io op p dk r = Inr a \<longleftrightarrow> dk_fault dk op p = None \<and> r = Inr a"
  by (simp add: io_def split: option.splits)

lemma path_is_file_iff:
  "path_is_file p dk \<longleftrightarrow> (\<exists>c t. fs_metadata p dk = Inr (FileNode c t))"
  by (auto simp: path_is_file_def split: sum.splits node.splits)

lemma fs_metadata_Inr_iff:
  "fs_metadata p dk = Inr n \<longleftrightarrow> dk_fault dk OpStat p = None \<and> dk_nodes dk p = Some n"
  by (auto simp: fs_metadata_def io_Inr_iff split: option.splits)

lemma fs_read_Inr_iff:
  "fs_read p dk = Inr c \<longleftrightarrow> dk_fault dk OpRead p = None \<and> (\<exists>t. dk_nodes dk p = Some (FileNode c t))"
  by (auto simp: fs_read_def io_Inr_iff split: option.splits node.splits)

lemma fs_write_Inr:
  "fs_write now p c dk = Inr dk' \<Longrightarrow> dk' = dk\<lparr>dk_nodes := (dk_nodes dk)(p \<mapsto> FileNode c now)\<rparr>"
  by (auto simp: fs_write_def io_Inr_iff split: option.splits if_splits)

text \<open>Making directories changes no file and replaces no node.\<close>

definition only_new_dirs :: "disk \<Rightarrow> disk \<Rightarrow> bool" where
  "only_new_dirs dk dk' =
     (dk_fault dk' = dk_fault dk \<and>
      (\<forall>q. dk_nodes dk' q = dk_nodes dk q \<or> (dk_nodes dk q = None \<and> dk_nodes dk' q = Some DirNode)))"

lemma only_new_dirs_refl [simp]: "only_new_dirs dk dk"
  by (simp add: only_new_dirs_def)

lemma only_new_dirs_trans:
  "only_new_dirs a b \<Longrightarrow> only_new_dirs b c \<Longrightarrow> only_new_dirs a c"
  unfolding only_new_dirs_def by metis

lemma only_new_dirs_add:
  "dk_nodes dk d = None \<Longrightarrow> only_new_dirs dk (dk\<lparr>dk_nodes := (dk_nodes dk)(d \<mapsto> DirNode)\<rparr>)"
  by (simp add: only_new_dirs_def)

lemma only_new_dirs_node:
  "only_new_dirs dk dk' \<Longrightarrow> dk_nodes dk q = Some n \<Longrightarrow> dk_nodes dk' q = Some n"
  unfolding only_new_dirs_def by (metis option.distinct(1))

lemma only_new_dirs_fault: "only_new_dirs dk dk' \<Longrightarrow> dk_fault dk' = dk_fault dk"
  by (simp add: only_new_dirs_def)

lemma mkdir_from_only_new_dirs: "only_new_dirs dk (snd (mkdir_from outer p dk))"
proof (induction outer p dk rule: mkdir_from.induct)
  case (2 outer c cs dk)
  show ?case
  proof (cases "dk_nodes dk (outer @ [c])")
    case None
    show ?thesis
    proof (cases "dk_fault dk OpMkdir (outer @ [c])")
      case None': None
      show ?thesis
        using only_new_dirs_trans[OF only_new_dirs_add[OF None] "2.IH"(1)[OF refl None None']] None None'
        by (simp add: Let_def)
    qed (simp add: Let_def None)
  next
    case (Some n)
    then show ?thesis using 2 by (cases n) (auto simp: Let_def)
  qed
qed simp

lemma create_dir_all_only_new_dirs: "only_new_dirs dk (snd (create_dir_all p dk))"
  unfolding create_dir_all_def by (rule mkdir_from_only_new_dirs)

text \<open>Directories that exist already are left alone.\<close>

lemma mkdir_from_existing:
  "(\<And>i. i < length p \<Longrightarrow> dk_nodes dk (outer @ take (Suc i) p) = Some DirNode) \<Longrightarrow>
   mkdir_from outer p dk = (Inr (), dk)"
proof (induction p arbitrary: outer)
  case (Cons c cs)
  from Cons.prems[of 0] have "dk_nodes dk (outer @ [c]) = Some DirNode" by simp
  moreover have "mkdir_from (outer @ [c]) cs dk = (Inr (), dk)"
    using Cons.prems[of "Suc _"] by (intro Cons.IH) simp
  ultimately show ?case by (simp add: Let_def)
qed simp

lemma mkdir_from_Inr_dirs:
  "mkdir_from outer p dk = (Inr u, dk') \<Longrightarrow> i < length p \<Longrightarrow>
   dk_nodes dk' (outer @ take (Suc i) p) = Some DirNode"
proof (induction outer p dk arbitrary: i rule: mkdir_from.induct)
  case (2 outer c cs dk)
  from "2.prems"(1) obtain dk1 where rest: "mkdir_from (outer @ [c]) cs dk1 = (Inr u, dk')"
    and dir: "dk_nodes dk1 (outer @ [c]) = Some DirNode"
    and ih: "\<And>i. i < length cs \<Longrightarrow> dk_nodes dk' ((outer @ [c]) @ take (Suc i) cs) = Some DirNode"
    using 2 by (auto simp: Let_def split: option.splits node.splits)
  show ?case
  proof (cases i)
    case 0
    then show ?thesis
      using only_new_dirs_node[OF mkdir_from_only_new_dirs[of dk1 "outer @ [c]" cs] dir] rest by simp
  next
    case (Suc j)
    then show ?thesis using ih[of j] "2.prems"(2) by simp
  qed
qed simp

lemma create_dir_all_again:
  "create_dir_all p dk = (Inr u, dk') \<Longrightarrow> create_dir_all p dk' = (Inr (), dk')"
  unfolding create_dir_all_def
  by (intro mkdir_from_existing) (auto dest: mkdir_from_Inr_dirs)

end
