(* ===== verification/Config.thy ===== *)
theory Config
  imports Disk "HOL-Library.Word"
begin

text \<open>
  \<open>config.rs\<close>: the configuration file. The crates toml and serde parse and print the TOML
  text, so they are a parameter (\<open>toml_crate\<close>); what the source says of the file's shape
  (the field names, their types, the \<open>#[serde(default)]\<close> attributes) is in
  \<open>app_config_of_toml\<close> and \<open>toml_of_app_config\<close>.
\<close>

section \<open>Data and defaults\<close>

record retry_config =
  rt_max_attempts :: "32 word"
  rt_initial_backoff_ms :: "64 word"
  rt_max_backoff_ms :: "64 word"

record advanced_config =
  av_debounce_ms :: "64 word"
  av_health_check_interval_secs :: "64 word"
  av_max_concurrent_ls :: "64 word"
  av_shutdown_timeout_secs :: "64 word"
  av_log_retention_days :: "64 word"
  av_engine_channel_capacity :: "64 word"
  av_notification_timeout_ms :: "32 word"
  av_resumable_upload_threshold :: "64 word"
  av_upload_limit_kbps :: "64 word"
  av_api_rate_limit_rps :: "32 word"
  av_delete_mode :: string
  av_symlink_mode :: string
  av_api_base :: string
  av_upload_base :: string
  av_chunk_threshold :: "64 word"

record sync_pair =
  sp_name :: string
  sp_local_path :: string
  sp_remote_folder_id :: string
  sp_provider :: string
  sp_active :: bool
  sp_ignore_patterns :: "string list"

record app_config =
  cf_max_workers :: "64 word"
  cf_notifications :: bool
  cf_rescan_interval_min :: "64 word"
  cf_retry :: retry_config
  cf_advanced :: advanced_config
  cf_sync_pairs :: "sync_pair list"

definition default_max_workers :: "64 word" where "default_max_workers = 4"
definition default_rescan_interval_min :: "64 word" where "default_rescan_interval_min = 30"
definition default_provider :: string where "default_provider = ''GoogleDrive''"

definition retry_default :: retry_config where
  "retry_default = \<lparr>rt_max_attempts = 3, rt_initial_backoff_ms = 300, rt_max_backoff_ms = 8000\<rparr>"

definition advanced_default :: advanced_config where
  "advanced_default = \<lparr>av_debounce_ms = 500, av_health_check_interval_secs = 30,
     av_max_concurrent_ls = 8, av_shutdown_timeout_secs = 3, av_log_retention_days = 7,
     av_engine_channel_capacity = 1024, av_notification_timeout_ms = 6000,
     av_resumable_upload_threshold = 5242880, av_upload_limit_kbps = 0,
     av_api_rate_limit_rps = 10, av_delete_mode = ''trash'', av_symlink_mode = ''ignore'',
     av_api_base = ''https://www.googleapis.com/drive/v3'',
     av_upload_base = ''https://www.googleapis.com/upload/drive/v3'',
     av_chunk_threshold = 5 * 1024 * 1024\<rparr>"

text \<open>
  \<open>AppConfig\<close> derives \<open>Default\<close>: its own fields are zero, not the values serde fills in
  for a missing key.
\<close>

definition app_default :: app_config where
  "app_default = \<lparr>cf_max_workers = 0, cf_notifications = False, cf_rescan_interval_min = 0,
     cf_retry = retry_default, cf_advanced = advanced_default, cf_sync_pairs = []\<rparr>"

section \<open>Validation\<close>

datatype config_error =
    NoPairsConfigured
  | PairNameEmpty nat
  | PairLocalEmpty nat
  | PairLocalMissing nat string
  | InvalidAdvanced string

text \<open>The \<open>#[error(..)]\<close> messages.\<close>

definition show_config_error :: "config_error \<Rightarrow> string" where
  "show_config_error e =
     (case e of
        NoPairsConfigured \<Rightarrow> ''aucune paire de synchronisation n'' @ [CHR 0x27] @ ''est configur'' @ e_acute
          @ ''e '' @ [CHR 0xE2, CHR 0x80, CHR 0x94] @ '' ouvrez les r'' @ e_acute @ ''glages''
      | PairNameEmpty i \<Rightarrow> ''la paire #'' @ show_nat i @ '' a un nom vide''
      | PairLocalEmpty i \<Rightarrow> ''la paire #'' @ show_nat i @ '' a un chemin local vide''
      | PairLocalMissing i p \<Rightarrow> ''la paire #'' @ show_nat i @ '' a un chemin local '' @ [CHR 0x27] @ p
          @ [CHR 0x27] @ '' qui n'' @ [CHR 0x27] @ ''existe pas ou n'' @ [CHR 0x27] @ ''est pas un r''
          @ e_acute @ ''pertoire''
      | InvalidAdvanced m \<Rightarrow> ''configuration avanc'' @ e_acute @ ''e invalide: '' @ m)"

definition advanced_validate :: "advanced_config \<Rightarrow> config_error + unit" where
  "advanced_validate a =
     (if av_engine_channel_capacity a = 0
      then Inl (InvalidAdvanced (''engine_channel_capacity doit '' @ e_circ @ ''tre > 0''))
      else if av_max_concurrent_ls a = 0
      then Inl (InvalidAdvanced (''max_concurrent_ls doit '' @ e_circ @ ''tre > 0''))
      else if av_api_rate_limit_rps a = 0
      then Inl (InvalidAdvanced (''api_rate_limit_rps doit '' @ e_circ @ ''tre > 0''))
      else Inr ())"

fun validate_pairs :: "disk \<Rightarrow> nat \<Rightarrow> sync_pair list \<Rightarrow> config_error + unit" where
  "validate_pairs dk i [] = Inr ()"
| "validate_pairs dk i (p # ps) =
     (if trim (sp_name p) = [] then Inl (PairNameEmpty i)
      else if sp_local_path p = [] then Inl (PairLocalEmpty i)
      else if sp_active p \<and> \<not> path_is_dir (components (sp_local_path p)) dk
      then Inl (PairLocalMissing i (sp_local_path p))
      else validate_pairs dk (Suc i) ps)"

definition app_validate :: "disk \<Rightarrow> app_config \<Rightarrow> config_error + unit" where
  "app_validate dk c =
     bind_res (advanced_validate (cf_advanced c)) (\<lambda>_.
       if cf_sync_pairs c = [] then Inl NoPairsConfigured
       else validate_pairs dk 0 (cf_sync_pairs c))"

definition is_valid :: "disk \<Rightarrow> app_config \<Rightarrow> bool" where
  "is_valid dk c = is_ok (app_validate dk c)"

definition get_pair_by_local_path :: "app_config \<Rightarrow> string \<Rightarrow> sync_pair option" where
  "get_pair_by_local_path c p =
     List.find (\<lambda>sp. components (sp_local_path sp) = components p) (cf_sync_pairs c)"

definition get_primary_pair :: "app_config \<Rightarrow> sync_pair option" where
  "get_primary_pair c = List.find sp_active (cf_sync_pairs c)"

section \<open>Paths of the configuration\<close>

text \<open>\<open>PathBuf::join\<close> on the raw strings.\<close>

definition push_str :: "string \<Rightarrow> string \<Rightarrow> string" where
  "push_str base p =
     (if starts_with p ''/'' then p
      else if base = [] \<or> ends_with base ''/'' then base @ p
      else base @ ''/'' @ p)"

text \<open>The environment variables the source reads.\<close>

record environment =
  env_xdg_config_home :: "string option"
  env_home :: "string option"

definition home_dir :: "environment \<Rightarrow> string" where
  "home_dir env = (case env_home env of Some h \<Rightarrow> h | None \<Rightarrow> ''.'')"

definition config_dir :: "environment \<Rightarrow> string" where
  "config_dir env =
     (let base = (case env_xdg_config_home env of
        Some d \<Rightarrow> d
      | None \<Rightarrow> push_str (home_dir env) ''.config'') in
      push_str base ''syncgdrive'')"

definition config_path :: "environment \<Rightarrow> string" where
  "config_path env = push_str (config_dir env) ''config.toml''"

text \<open>\<open>&s[2..]\<close> panics on the one-byte string \<open>"~"\<close>: \<open>None\<close> is the panic.\<close>

definition slice_from :: "nat \<Rightarrow> string \<Rightarrow> string option" where
  "slice_from n s = (if n \<le> length s then Some (drop n s) else None)"

definition expand_tilde :: "environment \<Rightarrow> string \<Rightarrow> string option" where
  "expand_tilde env s =
     (if starts_with s ''~/'' \<or> s = ''~''
      then map_option (push_str (home_dir env)) (slice_from 2 s)
      else Some s)"

fun expand_pairs :: "environment \<Rightarrow> sync_pair list \<Rightarrow> sync_pair list option" where
  "expand_pairs env [] = Some []"
| "expand_pairs env (p # ps) =
     (case expand_tilde env (sp_local_path p) of
        None \<Rightarrow> None
      | Some l \<Rightarrow> map_option (Cons (p\<lparr>sp_local_path := l\<rparr>)) (expand_pairs env ps))"

definition expand_tildes :: "environment \<Rightarrow> app_config \<Rightarrow> app_config option" where
  "expand_tildes env c = map_option (\<lambda>ps. c\<lparr>cf_sync_pairs := ps\<rparr>) (expand_pairs env (cf_sync_pairs c))"

text \<open>\<open>Path::with_extension\<close>: everything after the last dot of the file name is replaced.\<close>

definition file_stem :: "string \<Rightarrow> string" where
  "file_stem n =
     (let pieces = split_on CHR ''.'' n in
      if length pieces \<le> 1 \<or> join_with ''.'' (butlast pieces) = [] then n
      else join_with ''.'' (butlast pieces))"

definition with_extension :: "path \<Rightarrow> string \<Rightarrow> path" where
  "with_extension p ext =
     (case path_file_name p of None \<Rightarrow> p
      | Some n \<Rightarrow> butlast p @ [if ext = [] then file_stem n else file_stem n @ ''.'' @ ext])"

section \<open>The shape of the TOML document\<close>

datatype toml =
    TString string
  | TInteger int
  | TFloat string
  | TBoolean bool
  | TDatetime string
  | TArray "toml list"
  | TTable "(string \<times> toml) list"

record toml_crate =
  tc_parse :: "string \<Rightarrow> string + toml"
  tc_print :: "toml \<Rightarrow> string + string"
  tc_shape_error :: "toml \<Rightarrow> string"
  tc_range_error :: string

definition toml_get :: "string \<Rightarrow> toml \<Rightarrow> toml option" where
  "toml_get k v = (case v of TTable kvs \<Rightarrow> map_of kvs k | _ \<Rightarrow> None)"

fun de_string :: "toml \<Rightarrow> string option" where
  "de_string (TString s) = Some s"
| "de_string _ = None"

fun de_bool :: "toml \<Rightarrow> bool option" where
  "de_bool (TBoolean b) = Some b"
| "de_bool _ = None"

fun de_u64 :: "toml \<Rightarrow> 64 word option" where
  "de_u64 (TInteger i) = (if 0 \<le> i \<and> i < 2 ^ 64 then Some (of_int i) else None)"
| "de_u64 _ = None"

fun de_u32 :: "toml \<Rightarrow> 32 word option" where
  "de_u32 (TInteger i) = (if 0 \<le> i \<and> i < 2 ^ 32 then Some (of_int i) else None)"
| "de_u32 _ = None"

fun de_i32 :: "toml \<Rightarrow> 32 word option" where
  "de_i32 (TInteger i) = (if - (2 ^ 31) \<le> i \<and> i < 2 ^ 31 then Some (of_int i) else None)"
| "de_i32 _ = None"

fun de_list :: "(toml \<Rightarrow> 'a option) \<Rightarrow> toml list \<Rightarrow> 'a list option" where
  "de_list de [] = Some []"
| "de_list de (v # vs) =
     (case de v of None \<Rightarrow> None | Some a \<Rightarrow> map_option (Cons a) (de_list de vs))"

definition de_vec :: "(toml \<Rightarrow> 'a option) \<Rightarrow> toml \<Rightarrow> 'a list option" where
  "de_vec de v = (case v of TArray vs \<Rightarrow> de_list de vs | _ \<Rightarrow> None)"

text \<open>A field with a default, and a required one (\<open>None\<close>: missing field).\<close>

definition field_or :: "string \<Rightarrow> (toml \<Rightarrow> 'a option) \<Rightarrow> 'a option \<Rightarrow> (string \<times> toml) list \<Rightarrow> 'a option" where
  "field_or k de dflt kvs = (case map_of kvs k of None \<Rightarrow> dflt | Some v \<Rightarrow> de v)"

definition app_fields :: "('a \<Rightarrow> 'b) option \<Rightarrow> 'a option \<Rightarrow> 'b option" where
  "app_fields f a = (case f of None \<Rightarrow> None | Some g \<Rightarrow> map_option g a)"

definition retry_of_toml :: "toml \<Rightarrow> retry_config option" where
  "retry_of_toml v = (case v of TTable kvs \<Rightarrow>
     app_fields (app_fields (app_fields (Some retry_config.make)
       (field_or ''max_attempts'' de_u32 (Some 3) kvs))
       (field_or ''initial_backoff_ms'' de_u64 (Some 300) kvs))
       (field_or ''max_backoff_ms'' de_u64 (Some 8000) kvs)
   | _ \<Rightarrow> None)"

definition advanced_of_toml :: "toml \<Rightarrow> advanced_config option" where
  "advanced_of_toml v = (case v of TTable kvs \<Rightarrow>
     app_fields (app_fields (app_fields (app_fields (app_fields
     (app_fields (app_fields (app_fields (app_fields (app_fields
     (app_fields (app_fields (app_fields (app_fields (app_fields (Some advanced_config.make)
       (field_or ''debounce_ms'' de_u64 (Some 500) kvs))
       (field_or ''health_check_interval_secs'' de_u64 (Some 30) kvs))
       (field_or ''max_concurrent_ls'' de_u64 (Some 8) kvs))
       (field_or ''shutdown_timeout_secs'' de_u64 (Some 3) kvs))
       (field_or ''log_retention_days'' de_u64 (Some 7) kvs))
       (field_or ''engine_channel_capacity'' de_u64 (Some 1024) kvs))
       (field_or ''notification_timeout_ms'' de_i32 (Some 6000) kvs))
       (field_or ''resumable_upload_threshold'' de_u64 (Some 5242880) kvs))
       (field_or ''upload_limit_kbps'' de_u64 (Some 0) kvs))
       (field_or ''api_rate_limit_rps'' de_u32 (Some 10) kvs))
       (field_or ''delete_mode'' de_string (Some ''trash'') kvs))
       (field_or ''symlink_mode'' de_string (Some ''ignore'') kvs))
       (field_or ''api_base'' de_string (Some ''https://www.googleapis.com/drive/v3'') kvs))
       (field_or ''upload_base'' de_string (Some ''https://www.googleapis.com/upload/drive/v3'') kvs))
       (field_or ''chunk_threshold'' de_u64 (Some (5 * 1024 * 1024)) kvs)
   | _ \<Rightarrow> None)"

definition pair_of_toml :: "toml \<Rightarrow> sync_pair option" where
  "pair_of_toml v = (case v of TTable kvs \<Rightarrow>
     app_fields (app_fields (app_fields (app_fields (app_fields (app_fields (Some sync_pair.make)
       (field_or ''name'' de_string None kvs))
       (field_or ''local_path'' de_string None kvs))
       (field_or ''remote_folder_id'' de_string (Some []) kvs))
       (field_or ''provider'' de_string (Some default_provider) kvs))
       (field_or ''active'' de_bool (Some True) kvs))
       (field_or ''ignore_patterns'' (de_vec de_string) (Some []) kvs)
   | _ \<Rightarrow> None)"

definition app_config_of_toml :: "toml \<Rightarrow> app_config option" where
  "app_config_of_toml v = (case v of TTable kvs \<Rightarrow>
     app_fields (app_fields (app_fields (app_fields (app_fields (app_fields (Some app_config.make)
       (field_or ''max_workers'' de_u64 (Some default_max_workers) kvs))
       (field_or ''notifications'' de_bool (Some False) kvs))
       (field_or ''rescan_interval_min'' de_u64 (Some default_rescan_interval_min) kvs))
       (field_or ''retry'' retry_of_toml (Some retry_default) kvs))
       (field_or ''advanced'' advanced_of_toml (Some advanced_default) kvs))
       (field_or ''sync_pairs'' (de_vec pair_of_toml) (Some []) kvs)
   | _ \<Rightarrow> None)"

text \<open>TOML integers are signed 64-bit: a larger \<open>u64\<close> cannot be written.\<close>

definition ser_u64 :: "64 word \<Rightarrow> toml option" where
  "ser_u64 w = (if uint w < 2 ^ 63 then Some (TInteger (uint w)) else None)"

fun ser_table :: "(string \<times> toml option) list \<Rightarrow> toml option" where
  "ser_table [] = Some (TTable [])"
| "ser_table ((k, v) # kvs) =
     (case v of None \<Rightarrow> None
      | Some t \<Rightarrow> (case ser_table kvs of Some (TTable r) \<Rightarrow> Some (TTable ((k, t) # r)) | _ \<Rightarrow> None))"

definition toml_of_retry :: "retry_config \<Rightarrow> toml option" where
  "toml_of_retry r = ser_table
     [(''max_attempts'', Some (TInteger (uint (rt_max_attempts r)))),
      (''initial_backoff_ms'', ser_u64 (rt_initial_backoff_ms r)),
      (''max_backoff_ms'', ser_u64 (rt_max_backoff_ms r))]"

definition toml_of_advanced :: "advanced_config \<Rightarrow> toml option" where
  "toml_of_advanced a = ser_table
     [(''debounce_ms'', ser_u64 (av_debounce_ms a)),
      (''health_check_interval_secs'', ser_u64 (av_health_check_interval_secs a)),
      (''max_concurrent_ls'', ser_u64 (av_max_concurrent_ls a)),
      (''shutdown_timeout_secs'', ser_u64 (av_shutdown_timeout_secs a)),
      (''log_retention_days'', ser_u64 (av_log_retention_days a)),
      (''engine_channel_capacity'', ser_u64 (av_engine_channel_capacity a)),
      (''notification_timeout_ms'', Some (TInteger (sint (av_notification_timeout_ms a)))),
      (''resumable_upload_threshold'', ser_u64 (av_resumable_upload_threshold a)),
      (''upload_limit_kbps'', ser_u64 (av_upload_limit_kbps a)),
      (''api_rate_limit_rps'', Some (TInteger (uint (av_api_rate_limit_rps a)))),
      (''delete_mode'', Some (TString (av_delete_mode a))),
      (''symlink_mode'', Some (TString (av_symlink_mode a))),
      (''api_base'', Some (TString (av_api_base a))),
      (''upload_base'', Some (TString (av_upload_base a))),
      (''chunk_threshold'', ser_u64 (av_chunk_threshold a))]"

definition toml_of_pair :: "sync_pair \<Rightarrow> toml" where
  "toml_of_pair p = TTable
     [(''name'', TString (sp_name p)), (''local_path'', TString (sp_local_path p)),
      (''remote_folder_id'', TString (sp_remote_folder_id p)),
      (''provider'', TString (sp_provider p)), (''active'', TBoolean (sp_active p)),
      (''ignore_patterns'', TArray (map TString (sp_ignore_patterns p)))]"

definition toml_of_app_config :: "app_config \<Rightarrow> toml option" where
  "toml_of_app_config c = ser_table
     [(''max_workers'', ser_u64 (cf_max_workers c)),
      (''notifications'', Some (TBoolean (cf_notifications c))),
      (''rescan_interval_min'', ser_u64 (cf_rescan_interval_min c)),
      (''retry'', toml_of_retry (cf_retry c)),
      (''advanced'', toml_of_advanced (cf_advanced c)),
      (''sync_pairs'', Some (TArray (map toml_of_pair (cf_sync_pairs c))))]"

section \<open>Loading, migrating and saving\<close>

definition v1_pair :: "string \<Rightarrow> toml \<Rightarrow> sync_pair" where
  "v1_pair local_root doc =
     \<lparr>sp_name = ''Sync principal'', sp_local_path = local_root,
      sp_remote_folder_id =
        (case Option.bind (toml_get ''remote_root'' doc) de_string of Some s \<Rightarrow> s | None \<Rightarrow> []),
      sp_provider = default_provider, sp_active = True, sp_ignore_patterns = []\<rparr>"

definition has_v2_pairs :: "toml \<Rightarrow> bool" where
  "has_v2_pairs doc = (case toml_get ''sync_pairs'' doc of Some (TArray vs) \<Rightarrow> vs \<noteq> [] | _ \<Rightarrow> False)"

definition parse_and_migrate :: "toml_crate \<Rightarrow> string \<Rightarrow> (app_config \<times> bool) res" where
  "parse_and_migrate tc raw =
     (case tc_parse tc raw of
        Inl e \<Rightarrow> Inl [''Fichier TOML invalide'', e]
      | Inr doc \<Rightarrow>
          (case app_config_of_toml doc of
             None \<Rightarrow> Inl [tc_shape_error tc doc]
           | Some c \<Rightarrow>
               if has_v2_pairs doc then Inr (c, False)
               else case Option.bind (toml_get ''local_root'' doc) de_string of
                 None \<Rightarrow> Inr (c, False)
               | Some local_root \<Rightarrow>
                   if trim local_root = [] then Inr (c, False)
                   else Inr (c\<lparr>cf_sync_pairs := cf_sync_pairs c @ [v1_pair local_root doc]\<rparr>, True)))"

definition ensure_parent :: "path \<Rightarrow> disk \<Rightarrow> unit res \<times> disk" where
  "ensure_parent p dk = (case path_parent p of None \<Rightarrow> (Inr (), dk) | Some d \<Rightarrow> create_dir_all d dk)"

definition config_text :: "toml_crate \<Rightarrow> app_config \<Rightarrow> string res" where
  "config_text tc c = with_context (''Erreur s'' @ e_acute @ ''rialisation V2'')
     (case toml_of_app_config c of
        None \<Rightarrow> Inl [tc_range_error tc]
      | Some v \<Rightarrow> (case tc_print tc v of Inl e \<Rightarrow> Inl [e] | Inr s \<Rightarrow> Inr s))"

text \<open>
  File operations may fail after an earlier one succeeded, so they return the disk they leave
  along with the result.
\<close>

definition save_to_path :: "toml_crate \<Rightarrow> int \<Rightarrow> app_config \<Rightarrow> path \<Rightarrow> disk \<Rightarrow> unit res \<times> disk" where
  "save_to_path tc now c p dk =
     (case ensure_parent p dk of
        (Inl e, dk1) \<Rightarrow> (Inl e, dk1)
      | (Inr _, dk1) \<Rightarrow>
          (case config_text tc c of
             Inl e \<Rightarrow> (Inl e, dk1)
           | Inr s \<Rightarrow> (case fs_write now p s dk1 of Inl e \<Rightarrow> (Inl e, dk1) | Inr dk2 \<Rightarrow> (Inr (), dk2))))"

text \<open>The outer \<open>None\<close> is the panic of \<open>expand_tilde\<close>.\<close>

definition load_from_path ::
  "toml_crate \<Rightarrow> environment \<Rightarrow> int \<Rightarrow> path \<Rightarrow> disk \<Rightarrow> ((app_config \<times> bool) res \<times> disk) option" where
  "load_from_path tc env now p dk =
     (if \<not> path_exists p dk then
        (case ensure_parent p dk of
           (Inl e, dk1) \<Rightarrow> Some (Inl e, dk1)
         | (Inr _, dk1) \<Rightarrow>
             (case save_to_path tc now app_default p dk1 of
                (Inl e, dk2) \<Rightarrow> Some (Inl e, dk2)
              | (Inr _, dk2) \<Rightarrow> Some (Inr (app_default, True), dk2)))
      else case fs_read p dk of
        Inl e \<Rightarrow> Some (Inl e, dk)
      | Inr raw \<Rightarrow>
          (case parse_and_migrate tc raw of
             Inl e \<Rightarrow> Some (Inl e, dk)
           | Inr (c, migrated) \<Rightarrow>
               (let finish = (\<lambda>dk'. map_option (\<lambda>c'. (Inr (c', False), dk')) (expand_tildes env c)) in
                if \<not> migrated then finish dk
                else let backup = with_extension p ''v1.bak'' in
                  case with_context (E_acute @ ''chec cr'' @ e_acute @ ''ation backup V1: '' @ path_string backup)
                         (fs_write now backup raw dk) of
                    Inl e \<Rightarrow> Some (Inl e, dk)
                  | Inr dk1 \<Rightarrow>
                      (case save_to_path tc now c p dk1 of
                         (Inl e, dk2) \<Rightarrow> Some (Inl e, dk2)
                       | (Inr _, dk2) \<Rightarrow> finish dk2))))"

definition load_or_create ::
  "toml_crate \<Rightarrow> environment \<Rightarrow> int \<Rightarrow> disk \<Rightarrow> ((app_config \<times> bool) res \<times> disk) option" where
  "load_or_create tc env now dk = load_from_path tc env now (components (config_path env)) dk"

definition config_save :: "toml_crate \<Rightarrow> environment \<Rightarrow> int \<Rightarrow> app_config \<Rightarrow> disk \<Rightarrow> unit res \<times> disk" where
  "config_save tc env now c dk = save_to_path tc now c (components (config_path env)) dk"

section \<open>Validation, characterised\<close>

definition pair_valid :: "disk \<Rightarrow> sync_pair \<Rightarrow> bool" where
  "pair_valid dk p =
     ((\<exists>x \<in> set (sp_name p). \<not> is_space x) \<and> sp_local_path p \<noteq> [] \<and>
      (sp_active p \<longrightarrow> path_is_dir (components (sp_local_path p)) dk))"

lemma validate_pairs_ok_iff: "validate_pairs dk i ps = Inr u \<longleftrightarrow> (\<forall>p \<in> set ps. pair_valid dk p)"
  by (induction dk i ps rule: validate_pairs.induct) (auto simp: pair_valid_def trim_empty_iff)

lemma advanced_validate_ok_iff:
  "advanced_validate a = Inr u \<longleftrightarrow>
     av_engine_channel_capacity a \<noteq> 0 \<and> av_max_concurrent_ls a \<noteq> 0 \<and> av_api_rate_limit_rps a \<noteq> 0"
  by (simp add: advanced_validate_def)

lemma find_Some_active: "List.find P xs \<noteq> None \<longleftrightarrow> (\<exists>x \<in> set xs. P x)"
  by (induction xs) auto

section \<open>Printing and reading back\<close>

lemma de_ser_u64: "ser_u64 w = Some v \<Longrightarrow> de_u64 v = Some w"
  by (auto simp: ser_u64_def split: if_splits)

lemma de_u32_uint [simp]: "de_u32 (TInteger (uint (w :: 32 word))) = Some w"
  using uint_lt2p[of w] by simp

lemma de_i32_sint [simp]: "de_i32 (TInteger (sint (w :: 32 word))) = Some w"
  using sint_ge[of w] sint_lt[of w] by simp

lemma de_list_map:
  "(\<And>x. x \<in> set xs \<Longrightarrow> de (f x) = Some x) \<Longrightarrow> de_list de (map f xs) = Some xs"
  by (induction xs) auto

lemma ser_table_Some_iff:
  "ser_table ((k, x) # kvs) = Some v \<longleftrightarrow>
     (\<exists>t r. x = Some t \<and> ser_table kvs = Some (TTable r) \<and> v = TTable ((k, t) # r))"
  by (auto split: option.splits toml.splits)

lemma ser_table_Nil_iff: "ser_table [] = Some v \<longleftrightarrow> v = TTable []"
  by auto

lemmas ser_simps = ser_table_Some_iff ser_table_Nil_iff field_or_def app_fields_def

lemma retry_round_trip: "toml_of_retry r = Some v \<Longrightarrow> retry_of_toml v = Some r"
  unfolding toml_of_retry_def retry_of_toml_def
  by (auto simp: ser_simps retry_config.make_def de_ser_u64 simp del: ser_table.simps de_u32.simps de_i32.simps)

lemma advanced_round_trip: "toml_of_advanced a = Some v \<Longrightarrow> advanced_of_toml v = Some a"
  unfolding toml_of_advanced_def advanced_of_toml_def
  by (clarsimp simp: ser_simps de_ser_u64 advanced_config.make_def simp del: ser_table.simps de_u32.simps de_i32.simps)

lemma pair_round_trip [simp]: "pair_of_toml (toml_of_pair p) = Some p"
  by (simp add: toml_of_pair_def pair_of_toml_def ser_simps sync_pair.make_def de_vec_def de_list_map)

lemma app_config_round_trip: "toml_of_app_config c = Some v \<Longrightarrow> app_config_of_toml v = Some c"
  unfolding toml_of_app_config_def app_config_of_toml_def
  by (clarsimp simp: ser_simps de_ser_u64 retry_round_trip advanced_round_trip app_config.make_def
        de_vec_def de_list_map simp del: ser_table.simps de_u32.simps de_i32.simps)

text \<open>A printed configuration is never mistaken for a V1 file.\<close>

lemma printed_no_local_root: "toml_of_app_config c = Some v \<Longrightarrow> toml_get ''local_root'' v = None"
  unfolding toml_of_app_config_def toml_get_def
  by (clarsimp simp: ser_simps simp del: ser_table.simps de_u32.simps de_i32.simps)

lemma printed_has_v2_pairs:
  "toml_of_app_config c = Some v \<Longrightarrow> has_v2_pairs v \<longleftrightarrow> cf_sync_pairs c \<noteq> []"
  unfolding toml_of_app_config_def toml_get_def has_v2_pairs_def
  by (clarsimp simp: ser_simps simp del: ser_table.simps de_u32.simps de_i32.simps)

text \<open>What the crate promises: reading a printed document gives the document.\<close>

definition toml_faithful :: "toml_crate \<Rightarrow> bool" where
  "toml_faithful tc = (\<forall>v s. tc_print tc v = Inr s \<longrightarrow> tc_parse tc s = Inr v)"

lemma config_text_Inr:
  "config_text tc c = Inr s \<longleftrightarrow> (\<exists>v. toml_of_app_config c = Some v \<and> tc_print tc v = Inr s)"
  by (auto simp: config_text_def split: option.splits sum.splits)

lemma parse_printed:
  assumes "toml_faithful tc" "config_text tc c = Inr s"
  shows "parse_and_migrate tc s = Inr (c, False)"
proof -
  obtain v where v: "toml_of_app_config c = Some v" "tc_parse tc s = Inr v"
    using assms by (auto simp: config_text_Inr toml_faithful_def)
  with app_config_round_trip[OF v(1)] printed_no_local_root[OF v(1)] show ?thesis
    by (auto simp: parse_and_migrate_def)
qed

lemma save_to_path_Inr:
  assumes "save_to_path tc now c p dk = (Inr u, dk')"
  obtains s dk1 where "config_text tc c = Inr s" "only_new_dirs dk dk1"
    "dk' = dk1\<lparr>dk_nodes := (dk_nodes dk1)(p \<mapsto> FileNode s now)\<rparr>"
proof -
  obtain u1 dk1 where d: "ensure_parent p dk = (Inr u1, dk1)"
    using assms by (cases "ensure_parent p dk"; cases "fst (ensure_parent p dk)") (auto simp: save_to_path_def)
  have "only_new_dirs dk (snd (ensure_parent p dk))"
    by (auto simp: ensure_parent_def create_dir_all_only_new_dirs split: option.splits)
  with d have "only_new_dirs dk dk1" by simp
  with assms d show thesis
    by (auto simp: save_to_path_def split: sum.splits dest: fs_write_Inr intro: that)
qed

text \<open>A loaded file that needs no migration leaves the disk as it is.\<close>

lemma load_existing:
  assumes "dk_fault dk OpStat p = None" "dk_fault dk OpRead p = None"
    "dk_nodes dk p = Some (FileNode s t)" "parse_and_migrate tc s = Inr (c, False)"
  shows "load_from_path tc env now p dk = map_option (\<lambda>c'. (Inr (c', False), dk)) (expand_tildes env c)"
  using assms
  by (simp add: load_from_path_def path_exists_def fs_metadata_def io_def fs_read_def Let_def)

lemma load_saved:
  assumes "toml_faithful tc" "save_to_path tc now c p dk = (Inr u, dk')"
    "dk_fault dk OpStat p = None" "dk_fault dk OpRead p = None"
  shows "load_from_path tc env now' p dk' =
    map_option (\<lambda>c'. (Inr (c', False), dk')) (expand_tildes env c)"
proof -
  from assms(2) obtain s dk1 where s: "config_text tc c = Inr s" "only_new_dirs dk dk1"
    "dk' = dk1\<lparr>dk_nodes := (dk_nodes dk1)(p \<mapsto> FileNode s now)\<rparr>"
    by (rule save_to_path_Inr)
  then show ?thesis
    using assms only_new_dirs_fault[OF s(2)] parse_printed[OF assms(1) s(1)]
    by (intro load_existing[where s = s and t = now]) simp_all
qed

text \<open>\<open>config.toml\<close> is backed up under \<open>config.v1.bak\<close>.\<close>

lemma with_extension_config:
  "with_extension (d @ [''config.toml'']) ''v1.bak'' = d @ [''config.v1.bak'']"
  by (simp add: with_extension_def path_file_name_def root_dir_def file_stem_def Let_def)

lemma load_migrating:
  assumes tc: "toml_faithful tc" and p: "path_file_name p = Some ''config.toml''"
    and ok: "load_from_path tc env now p dk = Some (Inr (c, b), dk')"
    and fault: "dk_fault dk OpStat p = None"
    and raw: "dk_nodes dk p = Some (FileNode raw t)" and v1: "parse_and_migrate tc raw = Inr (c0, True)"
  shows "dk_nodes dk' (with_extension p ''v1.bak'') = Some (FileNode raw now) \<and>
    load_from_path tc env now' p dk' = Some (Inr (c, False), dk') \<and> \<not> b"
proof -
  let ?bak = "with_extension p ''v1.bak''"
  obtain d where d: "p = d @ [''config.toml'']"
    using p unfolding path_file_name_def by (metis append_butlast_last_id option.distinct(1) option.inject)
  then have bak: "?bak \<noteq> p" by (simp add: with_extension_config)
  have fault': "dk_fault dk OpRead p = None"
    using ok fault raw
    by (auto simp: load_from_path_def path_exists_def fs_metadata_def io_def fs_read_def split: option.splits)
  from ok fault fault' raw v1 obtain dk1 where
    w: "fs_write now ?bak raw dk = Inr dk1"
    and s: "save_to_path tc now c0 p dk1 = (Inr (), dk')"
    and c: "expand_tildes env c0 = Some c" "\<not> b"
    by (auto simp: load_from_path_def path_exists_def fs_metadata_def io_def fs_read_def Let_def
        split: sum.splits prod.splits)
  from fs_write_Inr[OF w] have dk1: "dk1 = dk\<lparr>dk_nodes := (dk_nodes dk)(?bak \<mapsto> FileNode raw now)\<rparr>" .
  from s obtain body dk2 where dk2: "only_new_dirs dk1 dk2"
    "dk' = dk2\<lparr>dk_nodes := (dk_nodes dk2)(p \<mapsto> FileNode body now)\<rparr>"
    by (rule save_to_path_Inr)
  have "dk_nodes dk2 ?bak = Some (FileNode raw now)"
    using only_new_dirs_node[OF dk2(1)] dk1 by simp
  moreover have "load_from_path tc env now' p dk' = Some (Inr (c, False), dk')"
    using load_saved[OF tc s] fault fault' c(1) dk1 by simp
  ultimately show ?thesis using dk2(2) bak c(2) by simp
qed

text \<open>
  When \<open>load_from_path\<close> migrates a first-version \<open>config.toml\<close>, the original text is in
  \<open>config.v1.bak\<close> beside it, and loading once more gives the same configuration and leaves the disk
  as it is.
\<close>

lemma first_version_is_migrated_once:
  assumes "toml_faithful tc" "load_from_path tc env now (d @ [''config.toml'']) dk = Some (Inr (c, b), dk')"
    and "dk_fault dk OpStat (d @ [''config.toml'']) = None"
    and "dk_nodes dk (d @ [''config.toml'']) = Some (FileNode raw t)" "parse_and_migrate tc raw = Inr (c0, True)"
  shows "dk_nodes dk' (d @ [''config.v1.bak'']) = Some (FileNode raw now) \<and>
    load_from_path tc env now' (d @ [''config.toml'']) dk' = Some (Inr (c, False), dk') \<and> \<not> b"
proof -
  have "path_file_name (d @ [''config.toml'']) = Some ''config.toml''"
    by (simp add: path_file_name_def root_dir_def)
  from load_migrating[OF assms(1) this assms(2-5)] show ?thesis by (simp add: with_extension_config)
qed

text \<open>
  A configuration is accepted exactly when its three limits are not zero, it has a pair, and every
  pair has a name that is not blank, a path, and, if active, an existing directory; and one whose
  pairs are all inactive can be accepted although the engine finds no primary pair in it.
\<close>

lemma accepted_configurations:
  assumes "\<not> sp_active p" "pair_valid dk p"
  shows "(is_valid dk c \<longleftrightarrow>
      av_engine_channel_capacity (cf_advanced c) \<noteq> 0 \<and> av_max_concurrent_ls (cf_advanced c) \<noteq> 0 \<and>
      av_api_rate_limit_rps (cf_advanced c) \<noteq> 0 \<and> cf_sync_pairs c \<noteq> [] \<and>
      (\<forall>p \<in> set (cf_sync_pairs c). pair_valid dk p)) \<and>
    is_valid dk (app_default\<lparr>cf_sync_pairs := [p]\<rparr>) \<and> get_primary_pair (app_default\<lparr>cf_sync_pairs := [p]\<rparr>) = None"
proof -
  have valid: "is_valid dk c \<longleftrightarrow>
      av_engine_channel_capacity (cf_advanced c) \<noteq> 0 \<and> av_max_concurrent_ls (cf_advanced c) \<noteq> 0 \<and>
      av_api_rate_limit_rps (cf_advanced c) \<noteq> 0 \<and> cf_sync_pairs c \<noteq> [] \<and>
      (\<forall>p \<in> set (cf_sync_pairs c). pair_valid dk p)" for c
    using advanced_validate_ok_iff[of "cf_advanced c" "()"] validate_pairs_ok_iff[of dk 0 "cf_sync_pairs c" "()"]
    by (auto simp: is_valid_def app_validate_def is_ok_def bind_res_Inr_iff split: sum.split if_splits)
  show ?thesis
    unfolding valid using assms by (simp add: app_default_def advanced_default_def get_primary_pair_def)
qed

end
