(* ===== verification/Ignore.thy ===== *)
theory Ignore
  imports Paths
begin

text \<open>
  \<open>ignore.rs\<close>: the exclusion patterns. The crate globset compiles and matches the globs, so
  it is a parameter: \<open>gs_glob\<close> compiles one pattern (with \<open>literal_separator(false)\<close>),
  \<open>gs_build\<close> makes the set, \<open>gs_is_match\<close> matches a path.
\<close>

record ('g, 's) globset_crate =
  gs_glob :: "string \<Rightarrow> string + 'g"
  gs_build :: "'g list \<Rightarrow> string + 's"
  gs_is_match :: "'s \<Rightarrow> string \<Rightarrow> bool"

fun compile_globs :: "('g, 's) globset_crate \<Rightarrow> string list \<Rightarrow> 'g list res" where
  "compile_globs gc [] = Inr []"
| "compile_globs gc (p # ps) =
     (case gs_glob gc p of
        Inl e \<Rightarrow> Inl [''Pattern glob invalide '' @ [CHR 0x27] @ p @ [CHR 0x27] @ '': '' @ e]
      | Inr g \<Rightarrow> bind_res (compile_globs gc ps) (\<lambda>gs. Inr (g # gs)))"

definition from_patterns :: "('g, 's) globset_crate \<Rightarrow> string list \<Rightarrow> 's res" where
  "from_patterns gc ps = bind_res (compile_globs gc ps) (\<lambda>gs.
     case gs_build gc gs of Inl e \<Rightarrow> Inl [e] | Inr s \<Rightarrow> Inr s)"

text \<open>A directory is tried a second time with a trailing separator.\<close>

definition is_ignored :: "('g, 's) globset_crate \<Rightarrow> 's \<Rightarrow> path \<Rightarrow> bool \<Rightarrow> bool" where
  "is_ignored gc s p is_directory =
     (if gs_is_match gc s (path_string p) then True
      else if is_directory then gs_is_match gc s (path_string p @ ''/'')
      else False)"

text \<open>What the crate documents: a set matches when one of its globs does.\<close>

definition globset_sound :: "('g, 's) globset_crate \<Rightarrow> ('g \<Rightarrow> string \<Rightarrow> bool) \<Rightarrow> bool" where
  "globset_sound gc mt = (\<forall>gs s x. gs_build gc gs = Inr s \<longrightarrow> gs_is_match gc s x = (\<exists>g \<in> set gs. mt g x))"

lemma compile_globs_Inr:
  "compile_globs gc ps = Inr gs \<Longrightarrow> list_all2 (\<lambda>p g. gs_glob gc p = Inr g) ps gs"
  by (induction ps arbitrary: gs) (auto simp: bind_res_Inr_iff split: sum.splits)

lemma from_patterns_Inr:
  assumes "globset_sound gc mt" "from_patterns gc ps = Inr s"
  shows "gs_is_match gc s x \<longleftrightarrow> (\<exists>p \<in> set ps. \<exists>g. gs_glob gc p = Inr g \<and> mt g x)"
proof -
  from assms obtain gs where c: "compile_globs gc ps = Inr gs" and b: "gs_build gc gs = Inr s"
    by (cases "compile_globs gc ps"; cases "gs_build gc (projr (compile_globs gc ps))")
       (auto simp: from_patterns_def)
  note gs = compile_globs_Inr[OF c] b
  have "gs_is_match gc s x \<longleftrightarrow> (\<exists>g \<in> set gs. mt g x)"
    using assms(1) gs(2) by (auto simp: globset_sound_def)
  also have "\<dots> \<longleftrightarrow> (\<exists>p \<in> set ps. \<exists>g. gs_glob gc p = Inr g \<and> mt g x)"
    using gs(1) by (induction rule: list_all2_induct) auto
  finally show ?thesis .
qed

text \<open>
  With a glob crate whose sets match when one of their globs does: a compiled list of patterns ignores a
  path exactly when some pattern matches it, or, for a directory, matches it with a trailing \<open>/\<close>.
\<close>

lemma ignored_means_a_pattern_matches:
  assumes "globset_sound gc mt" "from_patterns gc ps = Inr s"
  shows "is_ignored gc s p d \<longleftrightarrow> (\<exists>q \<in> set ps. \<exists>g. gs_glob gc q = Inr g \<and>
    (mt g (path_string p) \<or> d \<and> mt g (path_string p @ ''/'')))"
  using from_patterns_Inr[OF assms] by (auto simp: is_ignored_def)

end
