(* ===== verification/Stores.thy ===== *)
theory Stores
  imports Prelude
begin

text \<open>
  The interfaces that several components share, as locales. \<open>keyed_store\<close>: a store of values
  under string keys (the in-memory path cache, the SQLite tables \<open>file_index\<close> and
  \<open>path_cache\<close>). \<open>fifo_store\<close>: an append-only queue whose entries get fresh identifiers
  (the offline queue). Each is interpreted on the model's own definitions in the theory of the
  component that provides it.
\<close>

section \<open>Keyed stores\<close>

locale keyed_store =
  fixes get_k :: "'s \<Rightarrow> string \<Rightarrow> 'v option"
    and put_k :: "string \<Rightarrow> 'v \<Rightarrow> 's \<Rightarrow> 's"
    and del_k :: "string \<Rightarrow> 's \<Rightarrow> 's"
    and ok_k :: "'s \<Rightarrow> bool"
  assumes get_put: "ok_k s \<Longrightarrow> get_k (put_k k v s) k' = (if k' = k then Some v else get_k s k')"
    and get_del: "ok_k s \<Longrightarrow> get_k (del_k k s) k' = (if k' = k then None else get_k s k')"
    and ok_put: "ok_k s \<Longrightarrow> ok_k (put_k k v s)"
    and ok_del: "ok_k s \<Longrightarrow> ok_k (del_k k s)"
begin

lemma get_put_same: "ok_k s \<Longrightarrow> get_k (put_k k v s) k = Some v"
  by (simp add: get_put)

lemma get_put_other: "ok_k s \<Longrightarrow> k' \<noteq> k \<Longrightarrow> get_k (put_k k v s) k' = get_k s k'"
  by (simp add: get_put)

lemma get_del_same: "ok_k s \<Longrightarrow> get_k (del_k k s) k = None"
  by (simp add: get_del)

lemma put_put: "ok_k s \<Longrightarrow> get_k (put_k k v (put_k k w s)) = get_k (put_k k v s)"
  by (simp add: fun_eq_iff get_put ok_put)

lemma del_put: "ok_k s \<Longrightarrow> get_k (del_k k (put_k k w s)) = get_k (del_k k s)"
  by (simp add: fun_eq_iff get_put get_del ok_put)

text \<open>Writing a whole list of bindings: the last binding of a key wins, other keys keep theirs.\<close>

lemma ok_put_list: "ok_k s \<Longrightarrow> ok_k (fold (\<lambda>(k, v). put_k k v) kvs s)"
  by (induction kvs arbitrary: s) (auto simp: ok_put)

lemma get_put_list:
  "ok_k s \<Longrightarrow> get_k (fold (\<lambda>(k, v). put_k k v) kvs s) k =
     (case map_of (rev kvs) k of Some v \<Rightarrow> Some v | None \<Rightarrow> get_k s k)"
proof (induction kvs arbitrary: s)
  case Nil
  then show ?case by simp
next
  case (Cons kv kvs)
  obtain a b where kv: "kv = (a, b)" by (cases kv)
  have "ok_k (put_k a b s)" using Cons.prems by (rule ok_put)
  from Cons.IH[OF this] show ?case
    using Cons.prems kv by (auto simp: get_put map_add_def split: option.splits)
qed

lemma get_put_list_mem:
  "ok_k s \<Longrightarrow> k \<in> fst ` set kvs \<Longrightarrow> get_k (fold (\<lambda>(k, v). put_k k v) kvs s) k \<noteq> None"
  by (auto simp: get_put_list map_of_eq_None_iff split: option.splits)

end

section \<open>Append-only queues\<close>

locale fifo_store =
  fixes items :: "'s \<Rightarrow> (int \<times> 'a) list"
    and push :: "'a \<Rightarrow> 's \<Rightarrow> int \<times> 's"
    and remove_id :: "int \<Rightarrow> 's \<Rightarrow> 's"
    and ok_q :: "'s \<Rightarrow> bool"
  assumes items_push: "ok_q s \<Longrightarrow> items (snd (push a s)) = items s @ [(fst (push a s), a)]"
    and items_remove: "ok_q s \<Longrightarrow> items (remove_id i s) = filter (\<lambda>x. fst x \<noteq> i) (items s)"
    and fresh_push: "ok_q s \<Longrightarrow> (j, b) \<in> set (items s) \<Longrightarrow> j < fst (push a s)"
    and distinct_items: "ok_q s \<Longrightarrow> distinct (map fst (items s))"
    and ok_push: "ok_q s \<Longrightarrow> ok_q (snd (push a s))"
    and ok_remove: "ok_q s \<Longrightarrow> ok_q (remove_id i s)"
begin

lemma push_removable:
  assumes "ok_q s"
  shows "items (remove_id (fst (push a s)) (snd (push a s))) = items s"
proof -
  have "filter (\<lambda>x. fst x \<noteq> fst (push a s)) (items s) = items s"
    using fresh_push[OF assms] by (intro filter_True) fastforce
  with assms show ?thesis by (simp add: items_remove ok_push items_push)
qed

lemma remove_head:
  assumes "ok_q s" "items s = x # xs"
  shows "items (remove_id (fst x) s) = xs"
proof -
  have "distinct (map fst (x # xs))" using distinct_items[OF assms(1)] assms(2) by simp
  then have "fst x \<notin> fst ` set xs" by simp
  then have "\<forall>y \<in> set xs. fst y \<noteq> fst x" by (metis imageI)
  then have "filter (\<lambda>y. fst y \<noteq> fst x) xs = xs" by (intro filter_True) auto
  with assms show ?thesis by (simp add: items_remove)
qed

text \<open>Pushing a list of values appends them in order.\<close>

lemma ok_push_list: "ok_q s \<Longrightarrow> ok_q (fold (\<lambda>a. snd \<circ> push a) as s)"
  by (induction as arbitrary: s) (auto simp: ok_push)

lemma items_push_list:
  "ok_q s \<Longrightarrow> map snd (items (fold (\<lambda>a. snd \<circ> push a) as s)) = map snd (items s) @ as"
  by (induction as arbitrary: s) (auto simp: ok_push items_push)

text \<open>Removing a set of identifiers one by one keeps the others in order.\<close>

lemma ok_remove_list: "ok_q s \<Longrightarrow> ok_q (fold remove_id is s)"
  by (induction "is" arbitrary: s) (auto simp: ok_remove)

lemma items_remove_list:
  "ok_q s \<Longrightarrow> items (fold remove_id is s) = filter (\<lambda>x. fst x \<notin> set is) (items s)"
  by (induction "is" arbitrary: s) (auto simp: ok_remove items_remove intro: filter_cong)

end

section \<open>Token buckets\<close>

text \<open>
  A limiter reacts to requests at instants of a clock in nanoseconds; \<open>fst (react t r s)\<close> is the
  amount it grants. \<open>avail s t\<close> is what it could grant at \<open>t\<close>, at most \<open>cap\<close>, growing by at
  most \<open>rate\<close> per nanosecond; \<open>bonus\<close> is what a reaction may grant beyond that.
\<close>

text \<open>A run of requests: what was granted in all, the bonuses, and the final state.\<close>

fun bucket_run ::
  "(nat \<Rightarrow> 'r \<Rightarrow> 's \<Rightarrow> rat \<times> 's) \<Rightarrow> (nat \<Rightarrow> 'r \<Rightarrow> 's \<Rightarrow> rat) \<Rightarrow> (nat \<times> 'r) list \<Rightarrow> 's \<Rightarrow> rat \<times> rat \<times> 's" where
  "bucket_run react bonus [] s = (0, 0, s)"
| "bucket_run react bonus ((t, r) # es) s =
     (let (g, b, s') = bucket_run react bonus es (snd (react t r s)) in
      (fst (react t r s) + g, bonus t r s + b, s'))"

fun end_time :: "nat \<Rightarrow> (nat \<times> 'r) list \<Rightarrow> nat" where
  "end_time t [] = t"
| "end_time t ((t', r) # es) = end_time t' es"

fun forward :: "nat \<Rightarrow> (nat \<times> 'r) list \<Rightarrow> bool" where
  "forward t [] = True"
| "forward t ((t', r) # es) = (t \<le> t' \<and> forward t' es)"

lemma forward_end: "forward t es \<Longrightarrow> t \<le> end_time t es"
  by (induction t es rule: forward.induct) auto

lemma forward_append: "forward t (xs @ ys) \<longleftrightarrow> forward t xs \<and> forward (end_time t xs) ys"
  by (induction t xs rule: forward.induct) auto

lemma end_time_append: "end_time t (xs @ ys) = end_time (end_time t xs) ys"
  by (induction t xs rule: end_time.induct) auto

lemma bucket_run_no_bonus: "bucket_run react (\<lambda>_ _ _. 0) es s = (g, b, s') \<Longrightarrow> b = 0"
  by (induction es arbitrary: s g b) (auto simp: Let_def split: prod.splits)

locale token_bucket =
  fixes react :: "nat \<Rightarrow> 'r \<Rightarrow> 's \<Rightarrow> rat \<times> 's"
    and avail :: "'s \<Rightarrow> nat \<Rightarrow> rat"
    and bonus :: "nat \<Rightarrow> 'r \<Rightarrow> 's \<Rightarrow> rat"
    and cap :: "'s \<Rightarrow> rat"
    and rate :: "'s \<Rightarrow> rat"
    and ok_b :: "'s \<Rightarrow> bool"
  assumes spend: "ok_b s \<Longrightarrow>
      fst (react t r s) + avail (snd (react t r s)) t \<le> avail s t + bonus t r s"
    and grows: "ok_b s \<Longrightarrow> t \<le> t' \<Longrightarrow> avail s t' \<le> avail s t + rate s * of_nat (t' - t)"
    and avail_cap: "ok_b s \<Longrightarrow> avail s t \<le> cap s"
    and avail_nonneg: "ok_b s \<Longrightarrow> 0 \<le> avail s t"
    and ok_react: "ok_b s \<Longrightarrow> ok_b (snd (react t r s))"
    and rate_react: "ok_b s \<Longrightarrow> rate (snd (react t r s)) = rate s"
    and cap_react: "ok_b s \<Longrightarrow> cap (snd (react t r s)) = cap s"
begin

abbreviation run :: "(nat \<times> 'r) list \<Rightarrow> 's \<Rightarrow> rat \<times> rat \<times> 's" where
  "run \<equiv> bucket_run react bonus"

lemma run_spend:
  "ok_b s \<Longrightarrow> forward t0 es \<Longrightarrow> run es s = (g, b, s') \<Longrightarrow>
     g + avail s' (end_time t0 es) \<le> avail s t0 + rate s * of_nat (end_time t0 es - t0) + b \<and> ok_b s'"
proof (induction es arbitrary: s t0 g b)
  case Nil
  then show ?case by simp
next
  case (Cons e es)
  obtain t r where e: "e = (t, r)" by (cases e)
  let ?s1 = "snd (react t r s)"
  obtain g1 b1 where rest: "run es ?s1 = (g1, b1, s')" "g = fst (react t r s) + g1" "b = bonus t r s + b1"
    using Cons.prems e by (auto simp: Let_def split: prod.splits)
  let ?T = "end_time t es"
  have fwd: "t0 \<le> t" "forward t es" using Cons.prems e by auto
  have "t \<le> ?T" using fwd(2) by (rule forward_end)
  have IH: "g1 + avail s' ?T \<le> avail ?s1 t + rate s * of_nat (?T - t) + b1 \<and> ok_b s'"
    using Cons.IH[OF ok_react[OF Cons.prems(1)] fwd(2) rest(1)] rate_react[OF Cons.prems(1)] by simp
  have "of_nat (?T - t0) = (of_nat (?T - t) + of_nat (t - t0) :: rat)"
    using fwd \<open>t \<le> ?T\<close> by (simp add: of_nat_diff)
  then have "rate s * of_nat (?T - t0) = rate s * of_nat (?T - t) + rate s * of_nat (t - t0)"
    by (simp only: distrib_left)
  with IH spend[OF Cons.prems(1), of t r] grows[OF Cons.prems(1) fwd(1)] rest e show ?case
    by (auto simp: algebra_simps)
qed

text \<open>The window bound: in any window the grants are at most the capacity plus what the window earns.\<close>

lemma window_bound:
  assumes "ok_b s" "forward t0 es" "run es s = (g, b, s')"
  shows "g \<le> cap s + rate s * of_nat (end_time t0 es - t0) + b"
  using run_spend[OF assms] avail_cap[OF assms(1), of t0] avail_nonneg[of s' "end_time t0 es"]
  by (auto simp: algebra_simps)

text \<open>The same for a window inside a longer run.\<close>

lemma run_kept: "ok_b s \<Longrightarrow> run es s = (g, b, s') \<Longrightarrow> ok_b s' \<and> rate s' = rate s \<and> cap s' = cap s"
proof (induction es arbitrary: s g b)
  case (Cons e es)
  obtain t r where e: "e = (t, r)" by (cases e)
  with Cons.prems obtain g1 b1 where "run es (snd (react t r s)) = (g1, b1, s')"
    by (auto simp: Let_def split: prod.splits)
  from Cons.IH[OF ok_react[OF Cons.prems(1)] this] show ?case
    using rate_react[OF Cons.prems(1)] cap_react[OF Cons.prems(1)] by simp
qed simp

lemma window_in_run:
  assumes "ok_b s" "forward t0 (prev @ window)" "run prev s = (g0, b0, s1)" "run window s1 = (g, b, s2)"
  shows "g \<le> cap s + rate s * of_nat (end_time t0 (prev @ window) - end_time t0 prev) + b"
  using window_bound[of s1 "end_time t0 prev" window g b s2] run_kept[OF assms(1,3)] assms(2,4)
  by (simp add: forward_append end_time_append)

end

end
