(* ===== verification/Bandwidth.thy ===== *)
theory Bandwidth
  imports Stores "HOL-Library.Word"
begin

text \<open>
  \<open>engine/bandwidth.rs\<close>: the progress tracker and the bandwidth limiter. An \<open>Instant\<close> is a
  number of nanoseconds; \<open>u64\<close> and \<open>usize\<close> are 64-bit words (the release profile wraps); the
  \<open>f64\<close> values of the limiter are exact rationals. Each method locks its mutex once, so it is
  one step; reading the clock is an argument.
\<close>

type_synonym u64 = "64 word"

definition ns_per_sec :: nat where
  "ns_per_sec = 1000000000"

text \<open>\<open>duration_since(..).as_secs_f64()\<close>: zero when the clock is behind.\<close>

definition secs_between :: "nat \<Rightarrow> nat \<Rightarrow> rat" where
  "secs_between t0 t1 = of_nat (t1 - t0) / of_nat ns_per_sec"

text \<open>\<open>n as f64\<close>.\<close>

definition as_f64 :: "u64 \<Rightarrow> rat" where
  "as_f64 n = of_nat (unat n)"

lemma as_f64_nonneg [simp]: "0 \<le> as_f64 n"
  unfolding as_f64_def by (rule of_nat_0_le_iff)

section \<open>ProgressTracker\<close>

record tracker_state =
  ts_current_dir :: string
  ts_current_name :: string
  ts_current_file_size :: u64
  ts_current_bytes_sent :: u64
  ts_speed_samples :: "(nat \<times> u64) list"

record progress_tracker =
  tk_total_files :: u64
  tk_done_files :: u64
  tk_total_bytes :: u64
  tk_sent_bytes :: u64
  tk_state :: tracker_state

record progress_snapshot =
  ps_total_files :: u64
  ps_done_files :: u64
  ps_total_bytes :: u64
  ps_sent_bytes :: u64
  ps_current_file_size :: u64
  ps_current_bytes_sent :: u64
  ps_current_dir :: string
  ps_current_name :: string
  ps_speed_bps :: u64
  ps_eta_string :: string

definition tracker_new :: progress_tracker where
  "tracker_new = \<lparr>tk_total_files = 0, tk_done_files = 0, tk_total_bytes = 0, tk_sent_bytes = 0,
     tk_state = \<lparr>ts_current_dir = [], ts_current_name = [], ts_current_file_size = 0,
       ts_current_bytes_sent = 0, ts_speed_samples = []\<rparr>\<rparr>"

definition set_current_file :: "string \<Rightarrow> string \<Rightarrow> u64 \<Rightarrow> progress_tracker \<Rightarrow> progress_tracker" where
  "set_current_file dir name sz tk = tk\<lparr>tk_state := (tk_state tk)\<lparr>ts_current_dir := dir,
     ts_current_name := name, ts_current_file_size := sz, ts_current_bytes_sent := 0\<rparr>\<rparr>"

text \<open>The samples older than five seconds leave at the front of the deque.\<close>

definition drop_old :: "nat \<Rightarrow> (nat \<times> u64) list \<Rightarrow> (nat \<times> u64) list" where
  "drop_old now = dropWhile (\<lambda>(ts, _). secs_between ts now > 5)"

definition record_bytes :: "nat \<Rightarrow> u64 \<Rightarrow> progress_tracker \<Rightarrow> progress_tracker" where
  "record_bytes now n tk =
     (let current_total = tk_sent_bytes tk + n; st = tk_state tk in
      tk\<lparr>tk_sent_bytes := current_total,
         tk_state := st\<lparr>ts_current_bytes_sent := ts_current_bytes_sent st + n,
           ts_speed_samples := drop_old now (ts_speed_samples st @ [(now, current_total)])\<rparr>\<rparr>)"

text \<open>\<open>saturating_sub\<close>, and the saturating cast of a non-negative \<open>f64\<close> to \<open>u64\<close>.\<close>

definition sat_sub :: "u64 \<Rightarrow> u64 \<Rightarrow> u64" where
  "sat_sub a b = (if a < b then 0 else a - b)"

definition rat_to_u64 :: "rat \<Rightarrow> u64" where
  "rat_to_u64 x = word_of_int (min \<lfloor>x\<rfloor> (2 ^ 64 - 1))"

definition calculate_speed :: "tracker_state \<Rightarrow> u64" where
  "calculate_speed st =
     (let s = ts_speed_samples st in
      if length s < 2 then 0
      else let (first_ts, first_bytes) = hd s; (last_ts, last_bytes) = last s;
               elapsed = secs_between first_ts last_ts in
        if elapsed > 0 then rat_to_u64 (as_f64 (sat_sub last_bytes first_bytes) / elapsed)
        else 0)"

definition calculate_eta_secs :: "u64 \<Rightarrow> u64 \<Rightarrow> u64 \<Rightarrow> u64 option" where
  "calculate_eta_secs speed tot sent =
     (if speed = 0 \<or> tot \<le> sent then None else Some ((tot - sent) div speed))"

text \<open>The placeholder is an hour-glass, a space, \<open>En attente\<close> and an ellipsis, in UTF-8.\<close>

definition eta_waiting :: string where
  "eta_waiting = [CHR 0xE2, CHR 0x8F, CHR 0xB3] @ '' En attente'' @ [CHR 0xE2, CHR 0x80, CHR 0xA6]"

definition format_eta :: "u64 option \<Rightarrow> string" where
  "format_eta eta =
     (case eta of
        None \<Rightarrow> eta_waiting
      | Some secs \<Rightarrow>
          if secs < 60 then ''~'' @ show_nat (unat secs) @ '' s''
          else if secs < 3600 then ''~'' @ show_nat (unat (secs div 60)) @ '' min''
          else ''~'' @ show_nat (unat (secs div 3600)) @ '' h'')"

definition speed_bps :: "progress_tracker \<Rightarrow> u64" where
  "speed_bps tk = calculate_speed (tk_state tk)"

definition eta_secs :: "progress_tracker \<Rightarrow> u64 option" where
  "eta_secs tk =
     calculate_eta_secs (calculate_speed (tk_state tk)) (tk_total_bytes tk) (tk_sent_bytes tk)"

definition human_eta :: "progress_tracker \<Rightarrow> string" where
  "human_eta tk = format_eta (eta_secs tk)"

definition snapshot :: "progress_tracker \<Rightarrow> progress_snapshot" where
  "snapshot tk =
     (let st = tk_state tk; speed = calculate_speed st;
          eta = calculate_eta_secs speed (tk_total_bytes tk) (tk_sent_bytes tk) in
      \<lparr>ps_total_files = tk_total_files tk, ps_done_files = tk_done_files tk,
       ps_total_bytes = tk_total_bytes tk, ps_sent_bytes = tk_sent_bytes tk,
       ps_current_file_size = ts_current_file_size st,
       ps_current_bytes_sent = ts_current_bytes_sent st,
       ps_current_dir = ts_current_dir st, ps_current_name = ts_current_name st,
       ps_speed_bps = speed, ps_eta_string = format_eta eta\<rparr>)"

section \<open>BandwidthLimiter\<close>

record bandwidth_limiter =
  bl_limit_bps :: u64
  bl_tokens :: rat
  bl_last_refill :: nat

definition bl_new :: "u64 \<Rightarrow> nat \<Rightarrow> bandwidth_limiter" where
  "bl_new limit_kbps now =
     (let limit_bps = limit_kbps * 1024 in
      \<lparr>bl_limit_bps = limit_bps, bl_tokens = as_f64 limit_bps, bl_last_refill = now\<rparr>)"

definition bl_limit :: "bandwidth_limiter \<Rightarrow> rat" where
  "bl_limit l = as_f64 (bl_limit_bps l)"

text \<open>
  One turn of the loop of \<open>acquire\<close> under the mutex, at clock \<open>now\<close>: \<open>None\<close> grants the
  \<open>n\<close> bytes, \<open>Some w\<close> is the time to sleep, in seconds.
\<close>

definition bl_poll :: "nat \<Rightarrow> u64 \<Rightarrow> bandwidth_limiter \<Rightarrow> rat option \<times> bandwidth_limiter" where
  "bl_poll now n l =
     (let elapsed = secs_between (bl_last_refill l) now;
          raised = bl_tokens l + elapsed * bl_limit l;
          tokens = (if raised > bl_limit l then bl_limit l else raised);
          l1 = l\<lparr>bl_tokens := tokens, bl_last_refill := now\<rparr> in
      if tokens \<ge> as_f64 n then (None, l1\<lparr>bl_tokens := tokens - as_f64 n\<rparr>)
      else let needed = as_f64 n - tokens; wait_secs = needed / bl_limit l in
        (Some wait_secs, l1))"

text \<open>
  The loop. \<open>wake t w\<close> is the clock when a sleep of \<open>w\<close> seconds started at \<open>t\<close> returns. The
  value \<open>None\<close> means that the loop never ends.
\<close>

partial_function (option) bl_acquire_loop ::
  "(nat \<Rightarrow> rat \<Rightarrow> nat) \<Rightarrow> u64 \<Rightarrow> nat \<Rightarrow> bandwidth_limiter \<Rightarrow> (nat \<times> bandwidth_limiter) option" where
  "bl_acquire_loop wake n now l =
     (case bl_poll now n l of
        (None, l') \<Rightarrow> Some (now, l')
      | (Some d, l') \<Rightarrow> bl_acquire_loop wake n (wake now d) l')"

definition bl_acquire ::
  "(nat \<Rightarrow> rat \<Rightarrow> nat) \<Rightarrow> u64 \<Rightarrow> nat \<Rightarrow> bandwidth_limiter \<Rightarrow> (nat \<times> bandwidth_limiter) option" where
  "bl_acquire wake n now l =
     (if bl_limit_bps l = 0 then Some (now, l) else bl_acquire_loop wake n now l)"

section \<open>The limiter is a token bucket\<close>

definition bl_ok :: "bandwidth_limiter \<Rightarrow> bool" where
  "bl_ok l = (0 \<le> bl_tokens l \<and> bl_tokens l \<le> bl_limit l)"

definition bl_react :: "nat \<Rightarrow> u64 \<Rightarrow> bandwidth_limiter \<Rightarrow> rat \<times> bandwidth_limiter" where
  "bl_react now n l =
     (case bl_poll now n l of (None, l') \<Rightarrow> (as_f64 n, l') | (Some _, l') \<Rightarrow> (0, l'))"

definition bl_rate :: "bandwidth_limiter \<Rightarrow> rat" where
  "bl_rate l = bl_limit l / of_nat ns_per_sec"

definition bl_avail :: "bandwidth_limiter \<Rightarrow> nat \<Rightarrow> rat" where
  "bl_avail l t = min (bl_limit l) (bl_tokens l + bl_rate l * of_nat (t - bl_last_refill l))"

lemma bl_limit_nonneg [simp]: "0 \<le> bl_limit l" and bl_rate_nonneg [simp]: "0 \<le> bl_rate l"
  by (simp_all add: bl_limit_def bl_rate_def)

lemma ns_per_sec_pos [simp]: "0 < ns_per_sec"
  by (simp add: ns_per_sec_def)

lemma bl_tokens_avail:
  "(let raised = bl_tokens l + secs_between (bl_last_refill l) now * bl_limit l in
    if raised > bl_limit l then bl_limit l else raised) = bl_avail l now"
  by (simp add: bl_avail_def bl_rate_def secs_between_def min_def Let_def mult.commute)

lemma bl_poll_eq:
  "bl_poll now n l =
     (if bl_avail l now \<ge> as_f64 n
      then (None, l\<lparr>bl_tokens := bl_avail l now - as_f64 n, bl_last_refill := now\<rparr>)
      else (Some ((as_f64 n - bl_avail l now) / bl_limit l),
            l\<lparr>bl_tokens := bl_avail l now, bl_last_refill := now\<rparr>))"
  using bl_tokens_avail[of l now] by (simp add: bl_poll_def Let_def)

lemma bl_limit_update [simp]:
  "bl_limit (l\<lparr>bl_tokens := a\<rparr>) = bl_limit l" "bl_limit (l\<lparr>bl_last_refill := b\<rparr>) = bl_limit l"
  by (simp_all add: bl_limit_def)

lemma bl_avail_nonneg: "bl_ok l \<Longrightarrow> 0 \<le> bl_avail l t"
  by (simp add: bl_avail_def bl_ok_def)

lemma bl_avail_after:
  "a \<le> bl_limit l \<Longrightarrow> bl_avail (l\<lparr>bl_tokens := a, bl_last_refill := t\<rparr>) t = a"
  by (simp add: bl_avail_def bl_rate_def)

lemma min_add_le: "0 \<le> d \<Longrightarrow> b' \<le> b + d \<Longrightarrow> min a b' \<le> min a b + (d :: rat)"
  by linarith

lemma bl_avail_grows:
  assumes "t \<le> t'"
  shows "bl_avail l t' \<le> bl_avail l t + bl_rate l * of_nat (t' - t)"
proof -
  have "of_nat (t' - bl_last_refill l) \<le> (of_nat (t - bl_last_refill l) + of_nat (t' - t) :: rat)"
    using assms by (simp flip: of_nat_add)
  then have "bl_rate l * of_nat (t' - bl_last_refill l)
      \<le> bl_rate l * of_nat (t - bl_last_refill l) + bl_rate l * of_nat (t' - t)"
    using mult_left_mono[OF _ bl_rate_nonneg] by (fastforce simp: distrib_left)
  then show ?thesis unfolding bl_avail_def by (intro min_add_le) auto
qed

lemma bl_avail_le_limit: "bl_avail l t \<le> bl_limit l"
  by (simp add: bl_avail_def)

interpretation bw: token_bucket bl_react bl_avail "\<lambda>_ _ _. 0" bl_limit bl_rate bl_ok
proof
  fix s :: bandwidth_limiter and t t' :: nat and r :: u64
  assume ok: "bl_ok s"
  have "bl_avail (s\<lparr>bl_tokens := bl_avail s t - as_f64 r, bl_last_refill := t\<rparr>) t = bl_avail s t - as_f64 r"
    using bl_avail_le_limit[of s t] as_f64_nonneg[of r] by (intro bl_avail_after) linarith
  then show "fst (bl_react t r s) + bl_avail (snd (bl_react t r s)) t \<le> bl_avail s t + 0"
    using bl_avail_le_limit[of s t] by (auto simp: bl_react_def bl_poll_eq bl_avail_after)
  show "t \<le> t' \<Longrightarrow> bl_avail s t' \<le> bl_avail s t + bl_rate s * of_nat (t' - t)"
    by (rule bl_avail_grows)
  show "bl_avail s t \<le> bl_limit s" by (rule bl_avail_le_limit)
  show "0 \<le> bl_avail s t" using ok by (rule bl_avail_nonneg)
  show "bl_ok (snd (bl_react t r s))"
    using bl_avail_nonneg[OF ok, of t] bl_avail_le_limit[of s t]
    by (auto simp: bl_ok_def bl_react_def bl_poll_eq) (use as_f64_nonneg[of r] in linarith)
  show "bl_rate (snd (bl_react t r s)) = bl_rate s"
    by (simp add: bl_react_def bl_poll_eq bl_rate_def)
  show "bl_limit (snd (bl_react t r s)) = bl_limit s"
    by (simp add: bl_react_def bl_poll_eq)
qed

lemma bl_new_ok: "bl_ok (bl_new k now)"
  by (simp add: bl_ok_def bl_new_def bl_limit_def Let_def)

section \<open>When acquire returns\<close>

text \<open>A sleep lasts at least as long as asked.\<close>

definition sleeps_long_enough :: "(nat \<Rightarrow> rat \<Rightarrow> nat) \<Rightarrow> bool" where
  "sleeps_long_enough wake = (\<forall>t w. t \<le> wake t w \<and> w \<le> secs_between t (wake t w))"

lemma bl_acquire_loop_stuck:
  assumes "bl_limit l < as_f64 n"
  shows "bl_acquire_loop wake n now l = None"
proof (rule ccontr)
  assume "bl_acquire_loop wake n now l \<noteq> None"
  then obtain r where "bl_acquire_loop wake n now l = Some r" by auto
  then have "\<not> bl_limit l < as_f64 n"
  proof (rule bl_acquire_loop.raw_induct[where P = "\<lambda>wake n now l r. \<not> bl_limit l < as_f64 n",
        rotated])
    fix f wake n now l r
    assume IH: "\<And>wake n now l r. f wake n now l = Some r \<Longrightarrow> \<not> bl_limit l < as_f64 n"
      and eq: "(case bl_poll now n l of (None, l') \<Rightarrow> Some (now, l')
                | (Some d, l') \<Rightarrow> f wake n (wake now d) l') = Some r"
    show "\<not> bl_limit l < as_f64 n"
    proof (cases "bl_avail l now \<ge> as_f64 n")
      case True
      then show ?thesis using bl_avail_le_limit[of l now] by simp
    next
      case False
      then show ?thesis using eq IH by (fastforce simp: bl_poll_eq)
    qed
  qed
  with assms show False by simp
qed

lemma bl_acquire_loop_returns:
  assumes wake: "sleeps_long_enough wake" and n: "as_f64 n \<le> bl_limit l" and lim: "bl_limit l > 0"
  shows "\<exists>r. bl_acquire_loop wake n now l = Some r"
proof (cases "bl_avail l now \<ge> as_f64 n")
  case True
  then show ?thesis by (subst bl_acquire_loop.simps) (simp add: bl_poll_eq)
next
  case False
  define d where "d = (as_f64 n - bl_avail l now) / bl_limit l"
  define l' where "l' = l\<lparr>bl_tokens := bl_avail l now, bl_last_refill := now\<rparr>"
  have "d \<le> of_nat (wake now d - now) / of_nat ns_per_sec"
    using wake unfolding sleeps_long_enough_def secs_between_def by blast
  then have "d * bl_limit l \<le> of_nat (wake now d - now) / of_nat ns_per_sec * bl_limit l"
    by (rule mult_right_mono) simp
  moreover have "d * bl_limit l = as_f64 n - bl_avail l now" using lim by (simp add: d_def)
  ultimately have "bl_avail l now + bl_rate l * of_nat (wake now d - now) \<ge> as_f64 n"
    by (simp add: bl_rate_def mult.commute)
  then have "bl_avail l' (wake now d) \<ge> as_f64 n"
    using n unfolding bl_avail_def[of l'] by (simp add: l'_def bl_rate_def)
  then have "bl_acquire_loop wake n (wake now d) l' \<noteq> None"
    by (subst bl_acquire_loop.simps) (simp add: bl_poll_eq)
  moreover have "bl_acquire_loop wake n now l = bl_acquire_loop wake n (wake now d) l'"
    using False by (subst bl_acquire_loop.simps) (simp add: bl_poll_eq d_def l'_def)
  ultimately show ?thesis by auto
qed

section \<open>The speed window\<close>

text \<open>
  The samples are in clock order, none is older than five seconds, and the last one is the
  running total.
\<close>

definition samples_ok :: "nat \<Rightarrow> progress_tracker \<Rightarrow> bool" where
  "samples_ok now tk =
     (let s = ts_speed_samples (tk_state tk) in
      sorted (map fst s) \<and> (\<forall>(t, _) \<in> set s. t \<le> now \<and> now - t \<le> 5 * ns_per_sec) \<and>
      (s \<noteq> [] \<longrightarrow> snd (last s) = tk_sent_bytes tk))"

lemma secs_between_gt: "secs_between t now > 5 \<longleftrightarrow> now - t > 5 * ns_per_sec"
proof -
  have "secs_between t now > 5 \<longleftrightarrow> (of_nat (5 * ns_per_sec) :: rat) < of_nat (now - t)"
    by (simp add: secs_between_def field_simps ns_per_sec_def)
  then show ?thesis by (simp only: of_nat_less_iff)
qed

lemma drop_old_sorted:
  "sorted (map fst s) \<Longrightarrow> drop_old now s = filter (\<lambda>(t, _). now - t \<le> 5 * ns_per_sec) s"
proof (induction s)
  case Nil
  then show ?case by (simp add: drop_old_def)
next
  case (Cons a s)
  obtain t b where a: "a = (t, b)" by (cases a)
  show ?case
  proof (cases "now - t \<le> 5 * ns_per_sec")
    case True
    then have "\<forall>(u, _) \<in> set (a # s). now - u \<le> 5 * ns_per_sec" using Cons.prems a by fastforce
    then have "filter (\<lambda>(t, _). now - t \<le> 5 * ns_per_sec) (a # s) = a # s" by (intro filter_True) auto
    with True a show ?thesis by (simp add: drop_old_def secs_between_gt)
  next
    case False
    with Cons a show ?thesis by (simp add: drop_old_def secs_between_gt)
  qed
qed

lemma record_bytes_samples:
  assumes "samples_ok now0 tk" "now0 \<le> now"
  shows "ts_speed_samples (tk_state (record_bytes now n tk)) =
     filter (\<lambda>(t, _). now - t \<le> 5 * ns_per_sec) (ts_speed_samples (tk_state tk)) @
       [(now, tk_sent_bytes tk + n)]"
proof -
  have "sorted (map fst (ts_speed_samples (tk_state tk) @ [(now, tk_sent_bytes tk + n)]))"
    using assms by (fastforce simp: samples_ok_def Let_def sorted_append)
  then show ?thesis by (simp add: record_bytes_def Let_def drop_old_sorted)
qed

lemma record_bytes_samples_ok:
  assumes "samples_ok now0 tk" "now0 \<le> now"
  shows "samples_ok now (record_bytes now n tk)"
proof -
  have "sorted (map fst (filter (\<lambda>(t, _). now - t \<le> 5 * ns_per_sec) (ts_speed_samples (tk_state tk))))"
    using assms(1) by (auto simp: samples_ok_def Let_def intro: sorted_filter)
  moreover have "tk_sent_bytes (record_bytes now n tk) = tk_sent_bytes tk + n"
    by (simp add: record_bytes_def Let_def)
  ultimately show ?thesis
    using assms unfolding samples_ok_def[of now] Let_def record_bytes_samples[OF assms]
    by (fastforce simp: samples_ok_def Let_def sorted_append)
qed

text \<open>A sequence of \<open>record_bytes\<close> calls, each with its clock and byte count.\<close>

definition record_all :: "(nat \<times> u64) list \<Rightarrow> progress_tracker \<Rightarrow> progress_tracker" where
  "record_all calls tk = fold (\<lambda>(now, n). record_bytes now n) calls tk"

lemma record_all_totals:
  "tk_sent_bytes (record_all calls tk) = tk_sent_bytes tk + sum_list (map snd calls)
   \<and> ts_current_bytes_sent (tk_state (record_all calls tk)) =
       ts_current_bytes_sent (tk_state tk) + sum_list (map snd calls)"
  by (induction calls arbitrary: tk)
     (auto simp: record_all_def record_bytes_def Let_def add.assoc)

lemma record_all_samples_ok:
  "samples_ok t0 tk \<Longrightarrow> sorted (t0 # map fst calls) \<Longrightarrow>
     samples_ok (last (t0 # map fst calls)) (record_all calls tk)"
proof (induction calls arbitrary: t0 tk)
  case Nil
  then show ?case by (simp add: record_all_def)
next
  case (Cons c calls)
  obtain now n where c: "c = (now, n)" by (cases c)
  have "samples_ok now (record_bytes now n tk)"
    using Cons.prems c by (intro record_bytes_samples_ok[of t0]) auto
  moreover have "sorted (now # map fst calls)" using Cons.prems c by simp
  ultimately show ?case using Cons.IH[of now] c by (simp add: record_all_def)
qed

text \<open>The measured speed is the bytes of the window times \<open>10^9\<close> over its nanoseconds.\<close>

lemma floor_div_secs:
  "0 < d \<Longrightarrow> \<lfloor>of_nat b / (of_nat d / of_nat c :: rat)\<rfloor> = int (b * c div d)"
  by (simp add: floor_divide_of_nat_eq[symmetric, where 'a = rat] zdiv_int flip: of_nat_mult)

lemma calculate_speed_eq:
  assumes "ts_speed_samples st = (t0, b0) # mid @ [(t1, b1)]" "t0 < t1"
  shows "unat (calculate_speed st) =
           min (unat (sat_sub b1 b0) * ns_per_sec div (t1 - t0)) (2 ^ 64 - 1)"
proof -
  have "(0 :: rat) < secs_between t0 t1" using assms(2) by (simp add: secs_between_def)
  then have "calculate_speed st =
      word_of_int (min \<lfloor>as_f64 (sat_sub b1 b0) / secs_between t0 t1\<rfloor> (2 ^ 64 - 1))"
    using assms(1) by (simp add: calculate_speed_def rat_to_u64_def Let_def)
  also have "\<dots> = word_of_int (int (min (unat (sat_sub b1 b0) * ns_per_sec div (t1 - t0)) (2 ^ 64 - 1)))"
    unfolding secs_between_def as_f64_def using assms(2) by (subst floor_div_secs) (auto simp: of_nat_min)
  finally show ?thesis
    by (simp add: unat_of_nat take_bit_nat_eq_self_iff flip: word_of_nat_eq_iff)
qed

text \<open>
  Recording \<open>n\<close> bytes keeps exactly the samples not older than five seconds and appends the new total;
  and the speed of a window that starts and ends at different times is the growth of the total divided
  by the time, rounded down, at most \<open>2^64 - 1\<close>.
\<close>

lemma speed_is_measured_over_five_seconds:
  assumes "samples_ok now0 tk" "now0 \<le> now"
    and "ts_speed_samples (tk_state (record_bytes now n tk)) = (t0, b0) # mid @ [(t1, b1)]" "t0 < t1"
  shows "(t0, b0) # mid @ [(t1, b1)] =
      filter (\<lambda>(t, _). now - t \<le> 5 * ns_per_sec) (ts_speed_samples (tk_state tk)) @ [(now, tk_sent_bytes tk + n)] \<and>
    samples_ok now (record_bytes now n tk) \<and>
    unat (speed_bps (record_bytes now n tk)) =
      min (unat (sat_sub b1 b0) * ns_per_sec div (t1 - t0)) (2 ^ 64 - 1)"
  using record_bytes_samples[OF assms(1,2), of n] record_bytes_samples_ok[OF assms(1,2), of n]
    calculate_speed_eq[OF assms(3,4)] assms(3) by (simp add: speed_bps_def)

end
