(* ===== verification/Remote.thy ===== *)
theory Remote
  imports Paths Bandwidth
begin

text \<open>
  \<open>remote/mod.rs\<close>: the data a storage provider exchanges with the engine, and the provider
  itself. The trait \<open>RemoteProvider\<close> is a record of functions over a provider state
  \<open>'p\<close> (the remote drive and everything the provider keeps); the engine's definitions take
  it as an argument. An upload also moves the progress tracker. \<open>get_changes\<close> and \<open>shutdown\<close> are in the trait but the engine never
  calls them.
\<close>

record remote_file =
  rf_relative_path :: string
  rf_drive_id :: string
  rf_parent_id :: string
  rf_md5 :: string
  rf_size :: nat
  rf_modified_time :: int

record remote_dir =
  rd_relative_path :: string
  rd_drive_id :: string
  rd_parent_id :: string

record remote_index =
  ri_files :: "remote_file list"
  ri_dirs :: "remote_dir list"

record upload_result =
  ur_drive_id :: string
  ur_md5_checksum :: string
  ur_size_bytes :: nat

datatype health_status =
    HealthOk (hs_email: string) (hs_quota_used: nat) (hs_quota_total: nat)
  | AuthExpired
  | Unreachable

datatype change =
    ChModified (ch_drive_id: string) (ch_name: string) (ch_parent_id: string)
  | ChDeleted (ch_drive_id: string)

record changes_page =
  cp_changes :: "change list"
  cp_new_cursor :: string
  cp_has_more :: bool

record 'p remote_provider =
  rp_list_remote :: "'p \<Rightarrow> string \<Rightarrow> remote_index res \<times> 'p"
  rp_mkdir :: "'p \<Rightarrow> string \<Rightarrow> string \<Rightarrow> string res \<times> 'p"
  rp_upload :: "'p \<Rightarrow> path \<Rightarrow> string \<Rightarrow> string \<Rightarrow> string option \<Rightarrow> progress_tracker
    \<Rightarrow> upload_result res \<times> 'p \<times> progress_tracker"
  rp_delete :: "'p \<Rightarrow> string \<Rightarrow> unit res \<times> 'p"
  rp_rename :: "'p \<Rightarrow> string \<Rightarrow> string option \<Rightarrow> string option \<Rightarrow> unit res \<times> 'p"
  rp_get_changes :: "'p \<Rightarrow> string option \<Rightarrow> changes_page res \<times> 'p"
  rp_check_health :: "'p \<Rightarrow> health_status res \<times> 'p"
  rp_refresh_auth :: "'p \<Rightarrow> unit res \<times> 'p"

end
