(* ===== verification/Path_Cache.thy ===== *)
theory Path_Cache
  imports Stores Remote
begin

text \<open>
  \<open>remote/path_cache.rs\<close>: the map from relative paths to drive identifiers. The
  \<open>RwLock<HashMap>\<close> is a map; each method takes the lock once, so each is one step on it.
\<close>

record cache_entry =
  ce_drive_id :: string
  ce_parent_id :: string

type_synonym path_cache = "string \<rightharpoonup> cache_entry"

definition pc_new :: path_cache where
  "pc_new = Map.empty"

definition pc_lookup :: "path_cache \<Rightarrow> string \<Rightarrow> cache_entry option" where
  "pc_lookup m p = m p"

definition pc_insert :: "string \<Rightarrow> string \<Rightarrow> string \<Rightarrow> path_cache \<Rightarrow> path_cache" where
  "pc_insert p drive_id parent_id m = m(p \<mapsto> \<lparr>ce_drive_id = drive_id, ce_parent_id = parent_id\<rparr>)"

definition dir_binding :: "remote_dir \<Rightarrow> string \<times> cache_entry" where
  "dir_binding d = (rd_relative_path d, \<lparr>ce_drive_id = rd_drive_id d, ce_parent_id = rd_parent_id d\<rparr>)"

definition file_binding :: "remote_file \<Rightarrow> string \<times> cache_entry" where
  "file_binding f = (rf_relative_path f, \<lparr>ce_drive_id = rf_drive_id f, ce_parent_id = rf_parent_id f\<rparr>)"

definition pc_put :: "string \<Rightarrow> cache_entry \<Rightarrow> path_cache \<Rightarrow> path_cache" where
  "pc_put p e m = pc_insert p (ce_drive_id e) (ce_parent_id e) m"

text \<open>The two insertion loops (directories first, then files), shared with the scan.\<close>

definition pc_insert_index :: "remote_index \<Rightarrow> path_cache \<Rightarrow> path_cache" where
  "pc_insert_index idx m =
     fold (\<lambda>(k, e). pc_put k e) (map dir_binding (ri_dirs idx) @ map file_binding (ri_files idx)) m"

definition pc_rebuild_from_index :: "remote_index \<Rightarrow> path_cache \<Rightarrow> path_cache" where
  "pc_rebuild_from_index idx m = pc_insert_index idx Map.empty"

text \<open>\<open>map.remove(path)\<close>, then \<open>map.retain\<close> of the keys without the prefix \<open>path/\<close>.\<close>

definition pc_remove_cascades :: "string \<Rightarrow> path_cache \<Rightarrow> path_cache" where
  "pc_remove_cascades p m =
     (let m' = m(p := None) in (\<lambda>k. if starts_with k (p @ ''/'') then None else m' k))"

text \<open>
  \<open>resolve_deepest_known_parent\<close>: the \<open>while let\<close> loop over \<open>Path::parent\<close>. The empty
  path is the last candidate, as \<open>Path::new("a").parent()\<close> is \<open>Some("")\<close>.
\<close>

function resolve_from :: "path_cache \<Rightarrow> path option \<Rightarrow> (string \<times> cache_entry) option" where
  "resolve_from m None = None"
| "resolve_from m (Some p) =
     (case m (path_string p) of
        Some e \<Rightarrow> Some (path_string p, e)
      | None \<Rightarrow> resolve_from m (path_parent p))"
  by pat_completeness auto
termination
  by (relation "measure (\<lambda>(m, q). case q of None \<Rightarrow> 0 | Some p \<Rightarrow> Suc (length p))")
     (auto simp: path_parent_def)

definition pc_resolve_deepest_known_parent ::
  "path_cache \<Rightarrow> string \<Rightarrow> (string \<times> cache_entry) option" where
  "pc_resolve_deepest_known_parent m rel = resolve_from m (path_parent (components rel))"

section \<open>The cache is a keyed store\<close>

lemma pc_put_update: "pc_put k e m = m(k \<mapsto> e)"
  by (cases e) (simp add: pc_put_def pc_insert_def)

interpretation pc: keyed_store pc_lookup pc_put "\<lambda>k m. m(k := None)" "\<lambda>_. True"
  by unfold_locales (auto simp: pc_lookup_def pc_put_update)

text \<open>After a rebuild the cache holds the bindings of the index and nothing else.\<close>

lemma pc_insert_index_lookup:
  "pc_insert_index idx m k =
     (case map_of (rev (map dir_binding (ri_dirs idx) @ map file_binding (ri_files idx))) k of
        Some e \<Rightarrow> Some e | None \<Rightarrow> m k)"
  using pc.get_put_list[where s = m and k = k and
      kvs = "map dir_binding (ri_dirs idx) @ map file_binding (ri_files idx)"]
  unfolding pc_insert_index_def pc_lookup_def by simp

lemma pc_insert_index_known:
  "k \<in> rd_relative_path ` set (ri_dirs idx) \<union> rf_relative_path ` set (ri_files idx)
   \<Longrightarrow> pc_insert_index idx m k \<noteq> None"
  using pc.get_put_list_mem[where s = m and k = k and
      kvs = "map dir_binding (ri_dirs idx) @ map file_binding (ri_files idx)"]
  unfolding pc_insert_index_def pc_lookup_def
  by (auto simp del: fold_append simp: dir_binding_def file_binding_def image_Un image_image)

lemma pc_insert_index_keeps: "m k \<noteq> None \<Longrightarrow> pc_insert_index idx m k \<noteq> None"
  by (auto simp: pc_insert_index_lookup split: option.splits)

section \<open>Cascading removal removes a subtree\<close>

lemma pc_remove_cascades_eq:
  "pc_remove_cascades p m k = (if k = p \<or> starts_with k (p @ ''/'') then None else m k)"
  by (auto simp: pc_remove_cascades_def Let_def)

lemma pc_remove_cascades_path:
  assumes "rel_ok p" "p \<noteq> []" "rel_ok q"
  shows "pc_remove_cascades (path_string p) m (path_string q) =
           (if prefix p q then None else m (path_string q))"
  using subtree_string_iff[OF assms] rel_key_inj[OF assms(3,1)]
  by (auto simp: pc_remove_cascades_eq strict_prefix_def)

section \<open>The deepest known parent\<close>

lemma path_parent_rel_ok:
  "rel_ok p \<Longrightarrow> path_parent p = (if p = [] then None else Some (butlast p))"
  by (auto simp: path_parent_def)

lemma rel_ok_butlast: "rel_ok p \<Longrightarrow> rel_ok (butlast p)"
  by (auto simp: rel_ok_def dest: in_set_butlastD)

text \<open>
  A path and its ancestors, from the path upwards: \<open>resolve_from\<close> is the first of them the cache
  knows.
\<close>

lemma strict_prefix_butlast:
  "p \<noteq> [] \<Longrightarrow> strict_prefix q p \<longleftrightarrow> prefix q (butlast p)"
  by (metis append_butlast_last_id prefix_snoc prefix_order.less_le strict_prefix_def
        prefix_order.dual_order.strict_iff_not prefix_length_le append_eq_conv_conj
        length_append_singleton not_less_eq_eq prefix_order.order_refl)

lemma resolve_from_Some_iff:
  "rel_ok p \<Longrightarrow> resolve_from m (Some p) = Some (k, e) \<longleftrightarrow>
     (\<exists>q. prefix q p \<and> k = path_string q \<and> m k = Some e \<and>
        (\<forall>q'. strict_prefix q q' \<and> prefix q' p \<longrightarrow> m (path_string q') = None))"
proof (induction "length p" arbitrary: p)
  case 0
  then show ?case by (cases "m []") (auto simp: path_string_def path_parent_def)
next
  case (Suc n)
  then have ne: "p \<noteq> []" and IH: "resolve_from m (Some (butlast p)) = Some (k, e) \<longleftrightarrow>
     (\<exists>q. prefix q (butlast p) \<and> k = path_string q \<and> m k = Some e \<and>
        (\<forall>q'. strict_prefix q q' \<and> prefix q' (butlast p) \<longrightarrow> m (path_string q') = None))"
    using Suc.hyps(1)[of "butlast p"] by (auto simp: rel_ok_butlast)
  have pre: "prefix q p \<longleftrightarrow> q = p \<or> prefix q (butlast p)" for q
    using strict_prefix_butlast[OF ne, of q] by (auto simp: strict_prefix_def)
  have sp: "prefix q (butlast p) \<Longrightarrow> strict_prefix q p" for q
    using strict_prefix_butlast[OF ne] by simp
  show ?case
  proof (cases "m (path_string p)")
    case None
    with IH pre sp Suc.prems ne show ?thesis
      by (simp add: path_parent_rel_ok) (metis option.distinct(1))
  next
    case (Some a)
    have "\<not> (prefix p q' \<and> prefix q' (butlast p))" for q'
      using ne prefix_length_le[of p q'] prefix_length_le[of q' "butlast p"] by (cases p) auto
    with Some pre sp show ?thesis by (auto simp: strict_prefix_def)
  qed
qed

lemma resolve_deepest_Some_iff:
  assumes "rel_ok p" "p \<noteq> []"
  shows "pc_resolve_deepest_known_parent m (path_string p) = Some (k, e) \<longleftrightarrow>
     (\<exists>q. strict_prefix q p \<and> k = path_string q \<and> m k = Some e \<and>
        (\<forall>q'. strict_prefix q q' \<and> strict_prefix q' p \<longrightarrow> m (path_string q') = None))"
  using assms resolve_from_Some_iff[of "butlast p" m k e] strict_prefix_butlast[OF assms(2)]
  by (simp add: pc_resolve_deepest_known_parent_def components_path_string path_parent_rel_ok
        rel_ok_butlast)

text \<open>
  Removing a path from the cache forgets exactly the paths of which it is a prefix, component by
  component, and keeps every other binding: a sibling whose name merely begins alike stays.
\<close>

lemma cache_removal_is_the_subtree:
  assumes "rel_ok p" "p \<noteq> []" "rel_ok q"
  shows "pc_lookup (pc_remove_cascades (path_string p) m) (path_string q) =
    (if prefix p q then None else pc_lookup m (path_string q))"
  using pc_remove_cascades_path[OF assms, of m] by (simp add: pc_lookup_def)

text \<open>
  The lookup of the deepest known parent returns a binding exactly when it is that of the longest
  cached strict prefix of the path.
\<close>

lemma deepest_known_parent_is_found:
  assumes "rel_ok p" "p \<noteq> []"
  shows "pc_resolve_deepest_known_parent m (path_string p) = Some (k, e) \<longleftrightarrow>
    (\<exists>q. strict_prefix q p \<and> k = path_string q \<and> pc_lookup m k = Some e \<and>
       (\<forall>q'. strict_prefix q q' \<and> strict_prefix q' p \<longrightarrow> pc_lookup m (path_string q') = None))"
  using resolve_deepest_Some_iff[OF assms, of m k e] by (simp add: pc_lookup_def)

end
