(* ===== verification/Database.thy ===== *)
theory Database
  imports Stores
begin

text \<open>
  \<open>db.rs\<close>: the SQLite database as the SQL text of the source describes it. A table is the
  list of its rows in insertion order, or \<open>None\<close> where the table does not exist; a statement
  on a missing table, a duplicate \<open>CREATE\<close>, a \<open>UNIQUE\<close> violation and a poisoned mutex
  are errors. A writer returns the new database or an error; an error leaves the database as it
  was, as each writer is one statement or one transaction. Disk failures and the end of the 64-bit
  identifiers are not modelled.
\<close>

record file_entry =
  fe_path :: string
  fe_hash :: string
  fe_mtime :: int

record path_cache_row =
  pr_relative_path :: string
  pr_drive_id :: string
  pr_parent_id :: string
  pr_is_folder :: bool
  pr_updated_at :: int

record offline_task =
  ot_id :: int
  ot_action :: string
  ot_relative_path :: string
  ot_extra :: "string option"
  ot_created_at :: int

text \<open>
  \<open>t_dir_has_drive_id\<close>: whether \<open>dir_index\<close> has the column V2 added. \<open>t_sequence\<close> is the
  \<open>AUTOINCREMENT\<close> counter of \<open>offline_queue\<close>, which deletions do not reset.
\<close>

record database =
  t_file_index :: "file_entry list option"
  t_dir_index :: "(string \<times> string option) list option"
  t_dir_has_drive_id :: bool
  t_schema_version :: "int list option"
  t_path_cache :: "path_cache_row list option"
  t_offline_queue :: "offline_task list option"
  t_sequence :: int
  mutex_poisoned :: bool

definition db_fresh :: database where
  "db_fresh = \<lparr>t_file_index = None, t_dir_index = None, t_dir_has_drive_id = False,
     t_schema_version = None, t_path_cache = None, t_offline_queue = None, t_sequence = 0,
     mutex_poisoned = False\<rparr>"

section \<open>Locking and statements on a table\<close>

definition db_lock :: "database \<Rightarrow> unit res" where
  "db_lock db = (if mutex_poisoned db then 
     bail (''Mutex SQLite empoisonn'' @ e_acute @ '' suite '' @ a_grave @ '' un crash pr'' @ e_acute @ ''c'' @ e_acute @ ''dent'') else Inr ())"

definition need :: "string \<Rightarrow> 'r list option \<Rightarrow> 'r list res" where
  "need name t = (case t of None \<Rightarrow> bail (''no such table: '' @ name) | Some rows \<Rightarrow> Inr rows)"

definition with_table :: "string \<Rightarrow> (database \<Rightarrow> 'r list option) \<Rightarrow> database \<Rightarrow> ('r list \<Rightarrow> 'b res) \<Rightarrow> 'b res" where
  "with_table name tbl db f =
     bind_res (db_lock db) (\<lambda>_. bind_res (need name (tbl db)) f)"

text \<open>\<open>INSERT .. ON CONFLICT(key) DO UPDATE\<close>.\<close>

fun upsert_row :: "('r \<Rightarrow> string) \<Rightarrow> 'r \<Rightarrow> 'r list \<Rightarrow> 'r list" where
  "upsert_row key r [] = [r]"
| "upsert_row key r (x # xs) = (if key x = key r then r # xs else x # upsert_row key r xs)"

text \<open>\<open>SELECT .. WHERE key = ?\<close> with \<open>query_row(..).optional()\<close>: the first match.\<close>

definition select_row :: "('r \<Rightarrow> string) \<Rightarrow> string \<Rightarrow> 'r list \<Rightarrow> 'r option" where
  "select_row key k rows = List.find (\<lambda>x. key x = k) rows"

definition delete_rows :: "('r \<Rightarrow> string) \<Rightarrow> string \<Rightarrow> 'r list \<Rightarrow> 'r list" where
  "delete_rows key k rows = filter (\<lambda>x. key x \<noteq> k) rows"

section \<open>Schema version and migrations\<close>

definition db_schema_version :: "database \<Rightarrow> int res" where
  "db_schema_version db =
     bind_res (db_lock db) (\<lambda>_.
       case t_schema_version db of
         None \<Rightarrow> Inr (if t_file_index db \<noteq> None then 1 else 0)
       | Some vs \<Rightarrow> (if vs = [] then bail ''Invalid column type Null'' else Inr (Max (set vs))))"

definition create_file_index :: "database \<Rightarrow> database res" where
  "create_file_index db = (if t_file_index db \<noteq> None then bail ''table file_index already exists''
     else Inr (db\<lparr>t_file_index := Some []\<rparr>))"

definition create_dir_index :: "database \<Rightarrow> database res" where
  "create_dir_index db = (if t_dir_index db \<noteq> None then bail ''table dir_index already exists''
     else Inr (db\<lparr>t_dir_index := Some [], t_dir_has_drive_id := True\<rparr>))"

definition create_schema_version :: "database \<Rightarrow> database res" where
  "create_schema_version db =
     (if t_schema_version db \<noteq> None then bail ''table schema_version already exists''
      else Inr (db\<lparr>t_schema_version := Some []\<rparr>))"

definition insert_schema_version :: "int \<Rightarrow> database \<Rightarrow> database res" where
  "insert_schema_version v db =
     bind_res (need ''schema_version'' (t_schema_version db)) (\<lambda>vs.
       Inr (db\<lparr>t_schema_version := Some (vs @ [v])\<rparr>))"

definition create_path_cache :: "database \<Rightarrow> database res" where
  "create_path_cache db = (if t_path_cache db \<noteq> None then bail ''table path_cache already exists''
     else Inr (db\<lparr>t_path_cache := Some []\<rparr>))"

definition create_offline_queue :: "database \<Rightarrow> database res" where
  "create_offline_queue db =
     (if t_offline_queue db \<noteq> None then bail ''table offline_queue already exists''
      else Inr (db\<lparr>t_offline_queue := Some [], t_sequence := 0\<rparr>))"

definition alter_dir_index :: "database \<Rightarrow> database res" where
  "alter_dir_index db =
     (case t_dir_index db of
        None \<Rightarrow> bail ''no such table: dir_index''
      | Some rows \<Rightarrow>
          if t_dir_has_drive_id db then bail ''duplicate column name: drive_id''
          else Inr (db\<lparr>t_dir_index := Some (map (\<lambda>(p, _). (p, None)) rows),
                      t_dir_has_drive_id := True\<rparr>))"

text \<open>\<open>execute_batch\<close>: the statements in order, up to the first error.\<close>

fun execute_batch :: "(database \<Rightarrow> database res) list \<Rightarrow> database \<Rightarrow> database res" where
  "execute_batch [] db = Inr db"
| "execute_batch (st # sts) db = bind_res (st db) (execute_batch sts)"

definition batch_v2 :: "(database \<Rightarrow> database res) list" where
  "batch_v2 = [create_file_index, create_dir_index, create_schema_version,
     insert_schema_version 2, create_path_cache, create_offline_queue]"

definition batch_v1_to_v2 :: "(database \<Rightarrow> database res) list" where
  "batch_v1_to_v2 = [create_schema_version, insert_schema_version 2, alter_dir_index,
     create_path_cache, create_offline_queue]"

text \<open>
  A failing batch drops the transaction, which rolls back: the result is the error and the
  caller's database is unchanged.
\<close>

definition db_init_and_migrate :: "database \<Rightarrow> database res" where
  "db_init_and_migrate db =
     bind_res (db_schema_version db) (\<lambda>version.
       if version = 0 then bind_res (db_lock db) (\<lambda>_. execute_batch batch_v2 db)
       else if version = 1 then bind_res (db_lock db) (\<lambda>_. execute_batch batch_v1_to_v2 db)
       else Inr db)"

section \<open>file_index\<close>

definition db_get :: "database \<Rightarrow> string \<Rightarrow> file_entry option res" where
  "db_get db p = with_table ''file_index'' t_file_index db (\<lambda>rows. Inr (select_row fe_path p rows))"

definition db_upsert :: "file_entry \<Rightarrow> database \<Rightarrow> database res" where
  "db_upsert e db = with_table ''file_index'' t_file_index db (\<lambda>rows.
     Inr (db\<lparr>t_file_index := Some (upsert_row fe_path e rows)\<rparr>))"

definition db_count :: "database \<Rightarrow> nat res" where
  "db_count db = with_table ''file_index'' t_file_index db (\<lambda>rows. Inr (length rows))"

definition db_delete :: "string \<Rightarrow> database \<Rightarrow> database res" where
  "db_delete p db = with_table ''file_index'' t_file_index db (\<lambda>rows.
     Inr (db\<lparr>t_file_index := Some (delete_rows fe_path p rows)\<rparr>))"

text \<open>\<open>UPDATE file_index SET path = to WHERE path = from\<close> on the primary key.\<close>

definition db_rename :: "string \<Rightarrow> string \<Rightarrow> database \<Rightarrow> database res" where
  "db_rename from to db = with_table ''file_index'' t_file_index db (\<lambda>rows.
     if from \<noteq> to \<and> from \<in> fe_path ` set rows \<and> to \<in> fe_path ` set rows
     then bail ''UNIQUE constraint failed: file_index.path''
     else Inr (db\<lparr>t_file_index :=
       Some (map (\<lambda>e. if fe_path e = from then e\<lparr>fe_path := to\<rparr> else e) rows)\<rparr>))"

definition db_clear :: "database \<Rightarrow> database res" where
  "db_clear db = with_table ''file_index'' t_file_index db (\<lambda>_. Inr (db\<lparr>t_file_index := Some []\<rparr>))"

definition db_all_paths :: "database \<Rightarrow> string list res" where
  "db_all_paths db = with_table ''file_index'' t_file_index db (\<lambda>rows. Inr (map fe_path rows))"

definition db_count_files :: "database \<Rightarrow> nat res" where
  "db_count_files db = with_table ''file_index'' t_file_index db (\<lambda>rows. Inr (length rows))"

section \<open>path_cache\<close>

definition db_upsert_path_cache :: "path_cache_row \<Rightarrow> database \<Rightarrow> database res" where
  "db_upsert_path_cache e db = with_table ''path_cache'' t_path_cache db (\<lambda>rows.
     Inr (db\<lparr>t_path_cache := Some (upsert_row pr_relative_path e rows)\<rparr>))"

definition db_get_path_cache :: "database \<Rightarrow> string \<Rightarrow> path_cache_row option res" where
  "db_get_path_cache db p = with_table ''path_cache'' t_path_cache db (\<lambda>rows.
     Inr (select_row pr_relative_path p rows))"

definition db_delete_path_cache :: "string \<Rightarrow> database \<Rightarrow> database res" where
  "db_delete_path_cache p db = with_table ''path_cache'' t_path_cache db (\<lambda>rows.
     Inr (db\<lparr>t_path_cache := Some (delete_rows pr_relative_path p rows)\<rparr>))"

section \<open>offline_queue\<close>

text \<open>
  \<open>now\<close> is the clock in seconds since the epoch; a clock before the epoch makes
  \<open>duration_since\<close> fail. The new identifier exceeds every row and the sequence counter.
\<close>

definition db_push_offline_task ::
  "int \<Rightarrow> string \<Rightarrow> string \<Rightarrow> string option \<Rightarrow> database \<Rightarrow> (int \<times> database) res" where
  "db_push_offline_task now action p extra db =
     bind_res (db_lock db) (\<lambda>_.
       if now < 0 then bail ''second time provided was later than self''
       else bind_res (need ''offline_queue'' (t_offline_queue db)) (\<lambda>rows.
         let i = Max (set (t_sequence db # map ot_id rows)) + 1 in
         Inr (i, db\<lparr>t_offline_queue := Some (rows @ [\<lparr>ot_id = i, ot_action = action,
                     ot_relative_path = p, ot_extra = extra, ot_created_at = now\<rparr>]),
                   t_sequence := i\<rparr>)))"

definition db_get_offline_tasks :: "database \<Rightarrow> offline_task list res" where
  "db_get_offline_tasks db = with_table ''offline_queue'' t_offline_queue db (\<lambda>rows.
     Inr (sort_key ot_id rows))"

definition db_remove_offline_task :: "int \<Rightarrow> database \<Rightarrow> database res" where
  "db_remove_offline_task i db = with_table ''offline_queue'' t_offline_queue db (\<lambda>rows.
     Inr (db\<lparr>t_offline_queue := Some (filter (\<lambda>t. ot_id t \<noteq> i) rows)\<rparr>))"

definition db_clear_offline_queue :: "database \<Rightarrow> database res" where
  "db_clear_offline_queue db = with_table ''offline_queue'' t_offline_queue db (\<lambda>_.
     Inr (db\<lparr>t_offline_queue := Some []\<rparr>))"

section \<open>dir_index\<close>

text \<open>\<open>INSERT OR IGNORE\<close> of a batch in one transaction.\<close>

definition insert_or_ignore_dir :: "string \<Rightarrow> (string \<times> string option) list \<Rightarrow> (string \<times> string option) list" where
  "insert_or_ignore_dir p rows = (if p \<in> fst ` set rows then rows else rows @ [(p, None)])"

definition db_insert_dirs_batch :: "string list \<Rightarrow> database \<Rightarrow> database res" where
  "db_insert_dirs_batch ps db = with_table ''dir_index'' t_dir_index db (\<lambda>rows.
     Inr (db\<lparr>t_dir_index := Some (fold insert_or_ignore_dir ps rows)\<rparr>))"

definition db_all_dir_paths :: "database \<Rightarrow> string list res" where
  "db_all_dir_paths db = with_table ''dir_index'' t_dir_index db (\<lambda>rows. Inr (map fst rows))"

definition db_clear_dirs :: "database \<Rightarrow> database res" where
  "db_clear_dirs db = with_table ''dir_index'' t_dir_index db (\<lambda>_. Inr (db\<lparr>t_dir_index := Some []\<rparr>))"

end
