(* ===== verification/Database_Laws.thy ===== *)
theory Database_Laws
  imports Database
begin

text \<open>
  What the database promises: the migrations reach the V2 schema and lose no file entry, every
  writer keeps the table invariant, \<open>file_index\<close> and \<open>path_cache\<close> are keyed stores, and the
  offline queue is a first-in first-out store.
\<close>

named_theorems db_simps \<open>definitions of the database operations\<close>

section \<open>The table invariant\<close>

definition table_ok :: "('r list \<Rightarrow> bool) \<Rightarrow> 'r list option \<Rightarrow> bool" where
  "table_ok P t = (case t of None \<Rightarrow> False | Some rows \<Rightarrow> P rows)"

definition queue_rows_ok :: "int \<Rightarrow> offline_task list \<Rightarrow> bool" where
  "queue_rows_ok s rows = (sorted_wrt (<) (map ot_id rows) \<and> (\<forall>t \<in> set rows. ot_id t \<le> s))"

definition db_ok :: "database \<Rightarrow> bool" where
  "db_ok db = (\<not> mutex_poisoned db
     \<and> table_ok (\<lambda>r. distinct (map fe_path r)) (t_file_index db)
     \<and> table_ok (\<lambda>r. distinct (map fst r)) (t_dir_index db) \<and> t_dir_has_drive_id db
     \<and> table_ok (\<lambda>vs. vs \<noteq> [] \<and> Max (set vs) = 2) (t_schema_version db)
     \<and> table_ok (\<lambda>r. distinct (map pr_relative_path r)) (t_path_cache db)
     \<and> table_ok (queue_rows_ok (t_sequence db)) (t_offline_queue db))"

lemma table_ok_simps [simp]: "table_ok P (Some rows) = P rows" "\<not> table_ok P None"
  by (simp_all add: table_ok_def)

lemma table_okD: "table_ok P t \<Longrightarrow> \<exists>rows. t = Some rows \<and> P rows"
  by (cases t) auto

lemma with_table_Some [simp]:
  "\<not> mutex_poisoned db \<Longrightarrow> tbl db = Some rows \<Longrightarrow> with_table name tbl db f = f rows"
  by (simp add: with_table_def db_lock_def need_def)

lemma with_table_Inr_iff:
  "with_table name tbl db f = Inr r \<longleftrightarrow>
     \<not> mutex_poisoned db \<and> (\<exists>rows. tbl db = Some rows \<and> f rows = Inr r)"
  by (cases "tbl db") (auto simp: with_table_def db_lock_def need_def bail_def)

lemma bail_not_Inr [simp]: "bail msg \<noteq> Inr a"
  by (simp add: bail_def)

lemmas db_writer_defs [db_simps] =
  db_upsert_def db_delete_def db_rename_def db_clear_def db_upsert_path_cache_def
  db_delete_path_cache_def db_remove_offline_task_def db_clear_offline_queue_def
  db_insert_dirs_batch_def db_clear_dirs_def

lemmas db_reader_defs [db_simps] =
  db_get_def db_count_def db_all_paths_def db_count_files_def db_get_path_cache_def
  db_get_offline_tasks_def db_all_dir_paths_def

section \<open>Row operations\<close>

lemma map_key_upsert_row:
  "map key (upsert_row key r rows) =
     (if key r \<in> key ` set rows then map key rows else map key rows @ [key r])"
  by (induction rows) auto

lemma distinct_upsert_row: "distinct (map key rows) \<Longrightarrow> distinct (map key (upsert_row key r rows))"
  by (auto simp: map_key_upsert_row)

lemma select_upsert_row:
  "select_row key k (upsert_row key r rows) = (if k = key r then Some r else select_row key k rows)"
  by (induction rows) (auto simp: select_row_def)

lemma select_delete_rows:
  "select_row key k (delete_rows key k' rows) = (if k = k' then None else select_row key k rows)"
  by (induction rows) (auto simp: select_row_def delete_rows_def)

lemma distinct_delete_rows: "distinct (map key rows) \<Longrightarrow> distinct (map key (delete_rows key k rows))"
  by (simp add: delete_rows_def distinct_map_filter)

lemma select_row_None_iff: "select_row key k rows = None \<longleftrightarrow> k \<notin> key ` set rows"
  by (auto simp: select_row_def find_None_iff)

lemma select_row_key: "select_row key k rows = Some r \<Longrightarrow> key r = k \<and> r \<in> set rows"
  by (auto simp: select_row_def find_Some_iff)

lemma distinct_insert_or_ignore:
  "distinct (map fst rows) \<Longrightarrow> distinct (map fst (fold insert_or_ignore_dir ps rows))"
  by (induction ps arbitrary: rows) (auto simp: insert_or_ignore_dir_def)

lemma set_insert_or_ignore:
  "fst ` set (fold insert_or_ignore_dir ps rows) = set ps \<union> fst ` set rows"
  by (induction ps arbitrary: rows) (auto simp: insert_or_ignore_dir_def)

lemma distinct_map_rename:
  assumes "distinct (map fe_path rows)"
    and "\<not> (from \<noteq> to \<and> from \<in> fe_path ` set rows \<and> to \<in> fe_path ` set rows)"
  shows "distinct (map fe_path (map (\<lambda>e. if fe_path e = from then e\<lparr>fe_path := to\<rparr> else e) rows))"
  using assms by (induction rows) (auto simp: image_iff split: if_splits)

section \<open>Every writer keeps the invariant\<close>

inductive db_step :: "database \<Rightarrow> database \<Rightarrow> bool" where
  "db_upsert e db = Inr db' \<Longrightarrow> db_step db db'"
| "db_delete p db = Inr db' \<Longrightarrow> db_step db db'"
| "db_rename from to db = Inr db' \<Longrightarrow> db_step db db'"
| "db_clear db = Inr db' \<Longrightarrow> db_step db db'"
| "db_upsert_path_cache r db = Inr db' \<Longrightarrow> db_step db db'"
| "db_delete_path_cache p db = Inr db' \<Longrightarrow> db_step db db'"
| "db_push_offline_task now act p extra db = Inr (i, db') \<Longrightarrow> db_step db db'"
| "db_remove_offline_task i db = Inr db' \<Longrightarrow> db_step db db'"
| "db_clear_offline_queue db = Inr db' \<Longrightarrow> db_step db db'"
| "db_insert_dirs_batch ps db = Inr db' \<Longrightarrow> db_step db db'"
| "db_clear_dirs db = Inr db' \<Longrightarrow> db_step db db'"
| "db_init_and_migrate db = Inr db' \<Longrightarrow> db_step db db'"

lemma db_upsert_ok: "db_ok db \<Longrightarrow> db_upsert e db = Inr db' \<Longrightarrow> db_ok db'"
  by (auto simp: db_ok_def db_upsert_def with_table_Inr_iff distinct_upsert_row)

lemma db_delete_ok: "db_ok db \<Longrightarrow> db_delete p db = Inr db' \<Longrightarrow> db_ok db'"
  by (auto simp: db_ok_def db_delete_def with_table_Inr_iff distinct_delete_rows)

lemma db_rename_ok: "db_ok db \<Longrightarrow> db_rename from to db = Inr db' \<Longrightarrow> db_ok db'"
  using distinct_map_rename[of _ "from" to]
  by (auto simp: db_ok_def db_rename_def with_table_Inr_iff split: if_splits)

lemma db_clear_ok: "db_ok db \<Longrightarrow> db_clear db = Inr db' \<Longrightarrow> db_ok db'"
  by (auto simp: db_ok_def db_clear_def with_table_Inr_iff)

lemma db_path_cache_ok:
  "db_ok db \<Longrightarrow> db_upsert_path_cache r db = Inr db' \<Longrightarrow> db_ok db'"
  "db_ok db \<Longrightarrow> db_delete_path_cache p db = Inr db' \<Longrightarrow> db_ok db'"
  by (auto simp: db_ok_def db_upsert_path_cache_def db_delete_path_cache_def with_table_Inr_iff
        distinct_upsert_row distinct_delete_rows)

lemma db_push_Inr_iff:
  "db_push_offline_task now act p extra db = Inr (i, db') \<longleftrightarrow>
     (\<exists>rows. \<not> mutex_poisoned db \<and> 0 \<le> now \<and> t_offline_queue db = Some rows \<and>
        i = Max (set (t_sequence db # map ot_id rows)) + 1 \<and>
        db' = db\<lparr>t_offline_queue := Some (rows @ [\<lparr>ot_id = i, ot_action = act,
                ot_relative_path = p, ot_extra = extra, ot_created_at = now\<rparr>]), t_sequence := i\<rparr>)"
  by (cases "t_offline_queue db")
     (auto simp: db_push_offline_task_def db_lock_def need_def bail_def Let_def)

lemma queue_rows_Max: "queue_rows_ok s rows \<Longrightarrow> Max (set (s # map ot_id rows)) = s"
  by (intro Max_eqI) (auto simp: queue_rows_ok_def)

lemma queue_rows_push:
  "queue_rows_ok s rows \<Longrightarrow> ot_id t = s + 1 \<Longrightarrow> queue_rows_ok (s + 1) (rows @ [t])"
  by (fastforce simp: queue_rows_ok_def sorted_wrt_append)

lemma db_push_ok: "db_ok db \<Longrightarrow> db_push_offline_task now act p extra db = Inr (i, db') \<Longrightarrow> db_ok db'"
  by (auto simp: db_ok_def db_push_Inr_iff queue_rows_push queue_rows_Max simp del: set_simps(2)
        list.set(2))

lemma sorted_wrt_filter_map:
  "sorted_wrt P (map f xs) \<Longrightarrow> sorted_wrt P (map f (filter Q xs))"
  by (simp add: sorted_wrt_map sorted_wrt_filter)

lemma db_queue_ok:
  "db_ok db \<Longrightarrow> db_remove_offline_task i db = Inr db' \<Longrightarrow> db_ok db'"
  "db_ok db \<Longrightarrow> db_clear_offline_queue db = Inr db' \<Longrightarrow> db_ok db'"
  by (auto simp: db_ok_def db_remove_offline_task_def db_clear_offline_queue_def with_table_Inr_iff
        queue_rows_ok_def sorted_wrt_filter_map)

lemma db_dirs_ok:
  "db_ok db \<Longrightarrow> db_insert_dirs_batch ps db = Inr db' \<Longrightarrow> db_ok db'"
  "db_ok db \<Longrightarrow> db_clear_dirs db = Inr db' \<Longrightarrow> db_ok db'"
  by (auto simp: db_ok_def db_insert_dirs_batch_def db_clear_dirs_def with_table_Inr_iff
        distinct_insert_or_ignore)

lemma db_ok_version: "db_ok db \<Longrightarrow> db_schema_version db = Inr 2"
  by (auto simp: db_ok_def db_schema_version_def db_lock_def dest!: table_okD)

lemma db_migrate_ok_id: "db_ok db \<Longrightarrow> db_init_and_migrate db = Inr db"
  by (simp add: db_init_and_migrate_def db_ok_version)

lemma db_step_ok: "db_step db db' \<Longrightarrow> db_ok db \<Longrightarrow> db_ok db'"
  by (induction rule: db_step.induct)
     (auto intro: db_upsert_ok db_delete_ok db_rename_ok db_clear_ok db_path_cache_ok db_push_ok
        db_queue_ok db_dirs_ok simp: db_migrate_ok_id)

section \<open>Migrations\<close>

text \<open>
  A database of the V1 program: the two V1 tables, with their primary keys, and nothing else.
\<close>

definition db_v1 :: "database \<Rightarrow> bool" where
  "db_v1 db = (\<not> mutex_poisoned db
     \<and> table_ok (\<lambda>r. distinct (map fe_path r)) (t_file_index db)
     \<and> table_ok (\<lambda>r. distinct (map fst r)) (t_dir_index db) \<and> \<not> t_dir_has_drive_id db
     \<and> t_schema_version db = None \<and> t_path_cache db = None \<and> t_offline_queue db = None)"

definition db_empty :: "database \<Rightarrow> bool" where
  "db_empty db = (\<not> mutex_poisoned db \<and> t_file_index db = None \<and> t_dir_index db = None
     \<and> t_schema_version db = None \<and> t_path_cache db = None \<and> t_offline_queue db = None)"

lemmas batch_defs = batch_v2_def batch_v1_to_v2_def create_file_index_def create_dir_index_def
  create_schema_version_def insert_schema_version_def create_path_cache_def
  create_offline_queue_def alter_dir_index_def need_def

lemma migrate_empty:
  assumes "db_empty db"
  shows "\<exists>db'. db_init_and_migrate db = Inr db' \<and> db_ok db' \<and> t_file_index db' = Some []"
  using assms
  by (simp add: db_empty_def db_init_and_migrate_def db_schema_version_def db_lock_def batch_defs
        db_ok_def queue_rows_ok_def)

lemma map_fst_drop_snd: "map fst (map (\<lambda>(p, _). (p, None)) rows) = map fst rows"
  by (induction rows) auto

lemma migrate_v1:
  assumes "db_v1 db"
  shows "\<exists>db'. db_init_and_migrate db = Inr db' \<and> db_ok db' \<and> t_file_index db' = t_file_index db
           \<and> map_option (map fst) (t_dir_index db') = map_option (map fst) (t_dir_index db)"
proof -
  from assms obtain fs ds where tables: "t_file_index db = Some fs" "distinct (map fe_path fs)"
      "t_dir_index db = Some ds" "distinct (map fst ds)"
    by (auto simp: db_v1_def dest!: table_okD)
  with assms show ?thesis
    by (simp add: db_v1_def db_init_and_migrate_def db_schema_version_def db_lock_def batch_defs
          db_ok_def queue_rows_ok_def map_fst_drop_snd del: map_map)
qed

section \<open>file_index and path_cache are keyed stores\<close>

definition file_index_get :: "database \<Rightarrow> string \<Rightarrow> (string \<times> int) option" where
  "file_index_get db p =
     (case db_get db p of Inr (Some e) \<Rightarrow> Some (fe_hash e, fe_mtime e) | _ \<Rightarrow> None)"

definition file_index_put :: "string \<Rightarrow> string \<times> int \<Rightarrow> database \<Rightarrow> database" where
  "file_index_put p v db =
     (case db_upsert \<lparr>fe_path = p, fe_hash = fst v, fe_mtime = snd v\<rparr> db of
        Inr db' \<Rightarrow> db' | Inl _ \<Rightarrow> db)"

definition file_index_del :: "string \<Rightarrow> database \<Rightarrow> database" where
  "file_index_del p db = (case db_delete p db of Inr db' \<Rightarrow> db' | Inl _ \<Rightarrow> db)"

lemma db_okE:
  assumes "db_ok db"
  obtains fs ds vs cs os where
    "\<not> mutex_poisoned db" "t_file_index db = Some fs" "distinct (map fe_path fs)"
    "t_dir_index db = Some ds" "t_schema_version db = Some vs"
    "t_path_cache db = Some cs" "distinct (map pr_relative_path cs)"
    "t_offline_queue db = Some os" "queue_rows_ok (t_sequence db) os"
  using assms unfolding db_ok_def by (blast dest!: table_okD)

lemma db_get_ok:
  "db_ok db \<Longrightarrow> t_file_index db = Some fs \<Longrightarrow> db_get db p = Inr (select_row fe_path p fs)"
  by (simp add: db_get_def db_ok_def)

lemma db_upsert_total: "db_ok db \<Longrightarrow> \<exists>db'. db_upsert e db = Inr db'"
  by (elim db_okE) (simp add: db_upsert_def)

lemma db_delete_total: "db_ok db \<Longrightarrow> \<exists>db'. db_delete p db = Inr db'"
  by (elim db_okE) (simp add: db_delete_def)

lemma file_index_put_ok: "db_ok db \<Longrightarrow> db_ok (file_index_put p v db)"
  by (auto simp: file_index_put_def intro: db_upsert_ok split: sum.splits)

lemma file_index_del_ok: "db_ok db \<Longrightarrow> db_ok (file_index_del p db)"
  by (auto simp: file_index_del_def intro: db_delete_ok split: sum.splits)

interpretation file_index: keyed_store file_index_get file_index_put file_index_del db_ok
proof
  fix s :: database and k k' v
  assume ok: "db_ok s"
  then show "db_ok (file_index_put k v s)" "db_ok (file_index_del k s)"
    by (auto intro: file_index_put_ok file_index_del_ok)
  from ok obtain fs where fs: "t_file_index s = Some fs" "\<not> mutex_poisoned s" by (auto elim: db_okE)
  then show "file_index_get (file_index_put k v s) k' = (if k' = k then Some v else file_index_get s k')"
    by (auto simp: file_index_get_def file_index_put_def db_get_def db_upsert_def select_upsert_row
          split: option.splits)
  from fs show "file_index_get (file_index_del k s) k' = (if k' = k then None else file_index_get s k')"
    by (auto simp: file_index_get_def file_index_del_def db_get_def db_delete_def select_delete_rows
          split: option.splits)
qed

definition path_row_get :: "database \<Rightarrow> string \<Rightarrow> (string \<times> string \<times> bool \<times> int) option" where
  "path_row_get db p =
     (case db_get_path_cache db p of
        Inr (Some r) \<Rightarrow> Some (pr_drive_id r, pr_parent_id r, pr_is_folder r, pr_updated_at r)
      | _ \<Rightarrow> None)"

definition path_row_put :: "string \<Rightarrow> string \<times> string \<times> bool \<times> int \<Rightarrow> database \<Rightarrow> database" where
  "path_row_put p v db =
     (case db_upsert_path_cache \<lparr>pr_relative_path = p, pr_drive_id = fst v, pr_parent_id = fst (snd v),
             pr_is_folder = fst (snd (snd v)), pr_updated_at = snd (snd (snd v))\<rparr> db of
        Inr db' \<Rightarrow> db' | Inl _ \<Rightarrow> db)"

definition path_row_del :: "string \<Rightarrow> database \<Rightarrow> database" where
  "path_row_del p db = (case db_delete_path_cache p db of Inr db' \<Rightarrow> db' | Inl _ \<Rightarrow> db)"

interpretation path_row: keyed_store path_row_get path_row_put path_row_del db_ok
proof
  fix s :: database and k k' v
  assume ok: "db_ok s"
  then show "db_ok (path_row_put k v s)" "db_ok (path_row_del k s)"
    by (auto simp: path_row_put_def path_row_del_def intro: db_path_cache_ok split: sum.splits)
  from ok obtain cs where cs: "t_path_cache s = Some cs" "\<not> mutex_poisoned s" by (auto elim: db_okE)
  then show "path_row_get (path_row_put k v s) k' = (if k' = k then Some v else path_row_get s k')"
    by (auto simp: path_row_get_def path_row_put_def db_get_path_cache_def db_upsert_path_cache_def
          select_upsert_row split: option.splits)
  from cs show "path_row_get (path_row_del k s) k' = (if k' = k then None else path_row_get s k')"
    by (auto simp: path_row_get_def path_row_del_def db_get_path_cache_def db_delete_path_cache_def
          select_delete_rows split: option.splits)
qed

section \<open>The offline queue is first-in first-out\<close>

text \<open>A queued value: action, relative path, extra, creation time.\<close>

type_synonym queued = "string \<times> string \<times> string option \<times> nat"

definition offline_items :: "database \<Rightarrow> (int \<times> queued) list" where
  "offline_items db =
     (case db_get_offline_tasks db of
        Inl _ \<Rightarrow> []
      | Inr ts \<Rightarrow> map (\<lambda>t. (ot_id t, ot_action t, ot_relative_path t, ot_extra t,
                             nat (ot_created_at t))) ts)"

definition offline_push :: "queued \<Rightarrow> database \<Rightarrow> int \<times> database" where
  "offline_push q db = (case q of (act, p, extra, now) \<Rightarrow>
     (case db_push_offline_task (int now) act p extra db of Inr r \<Rightarrow> r | Inl _ \<Rightarrow> (0, db)))"

definition offline_remove :: "int \<Rightarrow> database \<Rightarrow> database" where
  "offline_remove i db = (case db_remove_offline_task i db of Inr db' \<Rightarrow> db' | Inl _ \<Rightarrow> db)"

lemma sorted_wrt_less_sort_key: "sorted_wrt (<) (map f xs) \<Longrightarrow> sort_key f xs = (xs :: 'a list)"
  for f :: "'a \<Rightarrow> int"
  by (simp add: sort_key_id_if_sorted strict_sorted_imp_sorted)

lemma get_offline_tasks_rows:
  "\<not> mutex_poisoned db \<Longrightarrow> t_offline_queue db = Some rows \<Longrightarrow> queue_rows_ok s rows \<Longrightarrow>
     db_get_offline_tasks db = Inr rows"
  by (simp add: db_get_offline_tasks_def queue_rows_ok_def sorted_wrt_less_sort_key)

lemma offline_items_rows:
  assumes "db_ok db" "t_offline_queue db = Some rows"
  shows "offline_items db = map (\<lambda>t. (ot_id t, ot_action t, ot_relative_path t, ot_extra t,
           nat (ot_created_at t))) rows"
  using assms by (auto simp: offline_items_def get_offline_tasks_rows elim: db_okE)

lemma offline_push_rows:
  assumes "db_ok db" "t_offline_queue db = Some rows"
  shows "offline_push (act, p, extra, now) db =
     (t_sequence db + 1, db\<lparr>t_offline_queue := Some (rows @ [\<lparr>ot_id = t_sequence db + 1,
        ot_action = act, ot_relative_path = p, ot_extra = extra, ot_created_at = int now\<rparr>]),
        t_sequence := t_sequence db + 1\<rparr>)"
proof -
  from assms have "Max (set (t_sequence db # map ot_id rows)) = t_sequence db" "\<not> mutex_poisoned db"
    using queue_rows_Max[of "t_sequence db" rows] by (auto elim!: db_okE)
  with assms(2) show ?thesis
    by (simp add: offline_push_def db_push_offline_task_def db_lock_def need_def Let_def)
qed

lemma offline_push_ok: "db_ok db \<Longrightarrow> db_ok (snd (offline_push q db))"
  by (cases q) (auto simp: offline_push_def split: sum.splits dest: db_push_ok)

lemma offline_remove_rows:
  "db_ok db \<Longrightarrow> t_offline_queue db = Some rows \<Longrightarrow>
     offline_remove i db = db\<lparr>t_offline_queue := Some (filter (\<lambda>t. ot_id t \<noteq> i) rows)\<rparr>"
  by (simp add: offline_remove_def db_remove_offline_task_def db_ok_def)

lemma offline_remove_ok: "db_ok db \<Longrightarrow> db_ok (offline_remove i db)"
  by (auto simp: offline_remove_def intro: db_queue_ok split: sum.splits)

interpretation offq: fifo_store offline_items offline_push offline_remove db_ok
proof
  fix s :: database and a :: queued and i j :: int and b :: queued
  assume ok: "db_ok s"
  then obtain rows where rows: "t_offline_queue s = Some rows" "queue_rows_ok (t_sequence s) rows"
    by (auto elim: db_okE)
  obtain act p extra now where a: "a = (act, p, extra, now)" by (cases a)
  show "db_ok (snd (offline_push a s))" using ok by (rule offline_push_ok)
  show "db_ok (offline_remove i s)" using ok by (rule offline_remove_ok)
  show "offline_items (snd (offline_push a s)) = offline_items s @ [(fst (offline_push a s), a)]"
    using offline_items_rows[OF offline_push_ok[OF ok, of a]] offline_items_rows[OF ok rows(1)]
    by (simp add: a offline_push_rows[OF ok rows(1)])
  show "offline_items (offline_remove i s) = filter (\<lambda>x. fst x \<noteq> i) (offline_items s)"
    using offline_items_rows[OF offline_remove_ok[OF ok, of i]] offline_items_rows[OF ok rows(1)]
    by (simp add: offline_remove_rows[OF ok rows(1)] filter_map comp_def)
  show "(j, b) \<in> set (offline_items s) \<Longrightarrow> j < fst (offline_push a s)"
    using rows(2) by (auto simp: a offline_items_rows[OF ok rows(1)] offline_push_rows[OF ok rows(1)]
        queue_rows_ok_def)
  show "distinct (map fst (offline_items s))"
    using rows(2) by (simp add: offline_items_rows[OF ok rows(1)] queue_rows_ok_def comp_def
        strict_sorted_iff)
qed

section \<open>The file index refines a map\<close>

text \<open>\<open>file_index_get\<close> abstracts the table to a map from paths to hash and time.\<close>

lemma file_index_get_rows:
  assumes "\<not> mutex_poisoned db" "t_file_index db = Some fs"
  shows "file_index_get db = (\<lambda>p. map_option (\<lambda>e. (fe_hash e, fe_mtime e)) (select_row fe_path p fs))"
  using assms by (auto simp: file_index_get_def db_get_def split: option.split)

lemma file_index_get_None_iff:
  assumes "\<not> mutex_poisoned db" "t_file_index db = Some fs"
  shows "file_index_get db p = None \<longleftrightarrow> p \<notin> fe_path ` set fs"
  by (simp add: file_index_get_rows[OF assms] select_row_None_iff)

lemma dom_file_index_get:
  "\<not> mutex_poisoned db \<Longrightarrow> t_file_index db = Some fs \<Longrightarrow> dom (file_index_get db) = fe_path ` set fs"
  by (auto simp: dom_def file_index_get_None_iff)

lemma select_row_renamed:
  "a \<noteq> b \<Longrightarrow> b \<notin> fe_path ` set rows \<Longrightarrow>
   select_row fe_path b (map (\<lambda>e. if fe_path e = a then e\<lparr>fe_path := b\<rparr> else e) rows) =
     map_option (\<lambda>e. e\<lparr>fe_path := b\<rparr>) (select_row fe_path a rows)"
  by (induction rows) (auto simp: select_row_def)

lemma select_map_rename_other:
  "p \<noteq> a \<Longrightarrow> p \<noteq> b \<Longrightarrow>
   select_row fe_path p (map (\<lambda>e. if fe_path e = a then e\<lparr>fe_path := b\<rparr> else e) rows) = select_row fe_path p rows"
  by (induction rows) (auto simp: select_row_def)

lemma select_map_rename:
  assumes "\<not> (a \<noteq> b \<and> b \<in> fe_path ` set rows)" "a \<in> fe_path ` set rows"
  shows "select_row fe_path p (map (\<lambda>e. if fe_path e = a then e\<lparr>fe_path := b\<rparr> else e) rows) =
    (if p = b then map_option (\<lambda>e. e\<lparr>fe_path := b\<rparr>) (select_row fe_path a rows)
     else if p = a then None else select_row fe_path p rows)"
proof (cases "a = b")
  case True
  then have "map (\<lambda>e. if fe_path e = a then e\<lparr>fe_path := b\<rparr> else e) rows = rows"
    by (intro map_idI) auto
  moreover have "map_option (\<lambda>e. e\<lparr>fe_path := b\<rparr>) (select_row fe_path b rows) = select_row fe_path b rows"
    by (cases "select_row fe_path b rows") (auto dest!: select_row_key)
  ultimately show ?thesis using True by (auto simp flip: select_row_None_iff)
next
  case False
  then show ?thesis
    using assms(1) by (auto simp: select_map_rename_other select_row_renamed select_row_None_iff)
qed

lemma index_upsert_map:
  "db_ok db \<Longrightarrow> \<exists>db'. db_upsert e db = Inr db' \<and>
     file_index_get db' = (file_index_get db)(fe_path e \<mapsto> (fe_hash e, fe_mtime e))"
  by (erule db_okE) (auto simp: db_upsert_def file_index_get_rows select_upsert_row)

lemma index_delete_map:
  "db_ok db \<Longrightarrow> \<exists>db'. db_delete p db = Inr db' \<and> file_index_get db' = (file_index_get db)(p := None)"
  by (erule db_okE) (auto simp: db_delete_def file_index_get_rows select_delete_rows)

lemma index_clear_map: "db_ok db \<Longrightarrow> \<exists>db'. db_clear db = Inr db' \<and> file_index_get db' = Map.empty"
  by (erule db_okE) (auto simp: db_clear_def file_index_get_rows select_row_def)

lemma index_rename_map:
  assumes "db_ok db"
  shows "if a \<noteq> b \<and> file_index_get db a \<noteq> None \<and> file_index_get db b \<noteq> None then \<exists>m. db_rename a b db = Inl m
    else \<exists>db'. db_rename a b db = Inr db' \<and> file_index_get db' =
      (if file_index_get db a = None then file_index_get db
       else (file_index_get db)(a := None, b := file_index_get db a))"
  using assms
proof (rule db_okE)
  fix fs assume fs: "\<not> mutex_poisoned db" "t_file_index db = Some fs"
  show ?thesis
  proof (cases "a \<noteq> b \<and> a \<in> fe_path ` set fs \<and> b \<in> fe_path ` set fs")
    case True
    then show ?thesis using fs by (auto simp: db_rename_def bail_def file_index_get_None_iff)
  next
    case False
    define db' where "db' = db\<lparr>t_file_index := Some (map (\<lambda>e. if fe_path e = a then e\<lparr>fe_path := b\<rparr> else e) fs)\<rparr>"
    have run: "db_rename a b db = Inr db'" using False fs by (auto simp: db_rename_def db'_def)
    have rows: "\<not> mutex_poisoned db'"
      "t_file_index db' = Some (map (\<lambda>e. if fe_path e = a then e\<lparr>fe_path := b\<rparr> else e) fs)"
      using fs by (simp_all add: db'_def)
    have "file_index_get db' = (if a \<notin> fe_path ` set fs then file_index_get db
        else (file_index_get db)(a := None, b := file_index_get db a))"
    proof (cases "a \<in> fe_path ` set fs")
      case True
      then show ?thesis
        using select_map_rename[of a b fs] False
        by (auto simp: file_index_get_rows[OF rows] file_index_get_rows[OF fs] option.map_comp comp_def)
    next
      case absent: False
      then have "map (\<lambda>e. if fe_path e = a then e\<lparr>fe_path := b\<rparr> else e) fs = fs" by (intro map_idI) auto
      then show ?thesis using absent by (simp add: file_index_get_rows[OF rows] file_index_get_rows[OF fs])
    qed
    then show ?thesis using run False file_index_get_None_iff[OF fs] by auto
  qed
qed

lemma index_paths_map:
  "db_ok db \<Longrightarrow> \<exists>ps. db_all_paths db = Inr ps \<and> distinct ps \<and> set ps = dom (file_index_get db)"
  by (erule db_okE) (auto simp: db_all_paths_def dom_file_index_get)

lemma index_count_map:
  assumes "db_ok db"
  shows "db_count db = Inr (card (dom (file_index_get db)))"
  using assms
proof (rule db_okE)
  fix fs assume fs: "\<not> mutex_poisoned db" "t_file_index db = Some fs" "distinct (map fe_path fs)"
  have "card (fe_path ` set fs) = length fs" using distinct_card[OF fs(3)] by simp
  then show ?thesis using fs by (simp add: db_count_def dom_file_index_get)
qed

end
