(* ===== verification/World.thy ===== *)
theory World
  imports Config Ignore Path_Cache Database_Laws
begin

text \<open>
  The context of \<open>engine/mod.rs\<close> that \<open>worker\<close>, \<open>scan\<close> and \<open>offline\<close> share. What never
  changes is \<open>engine_context\<close>; what they mutate is \<open>world\<close>: the remote drive, the database,
  the path cache, the tracker and the shutdown token. The token may be cancelled by another
  task at any moment: \<open>w_cancel = Some n\<close> says that it will be found cancelled after \<open>n\<close> more
  looks at it, and \<open>None\<close> that it never is. A statement about every world is then a statement
  about every such interleaving. The local disk is read only and does not change during one
  operation.
\<close>

text \<open>The messages of the engine.\<close>

datatype scan_phase = RemoteListing | LocalListing | Directories | Comparing

datatype engine_status =
    Starting nat
  | Unconfigured string
  | Idle
  | ScanProgress scan_phase nat nat string
  | SyncProgress progress_snapshot
  | Syncing nat
  | StatusPaused
  | StatusError string
  | Stopped
  | StatusSettings
  | StatusHelp

datatype task =
    SyncFile path
  | Delete path
  | Rename path path

text \<open>
  What the crate walkdir yields for one entry, errors included: its iterator, with the filter
  passed to \<open>filter_entry\<close>, is the parameter \<open>cx_walk\<close>. \<open>cx_order\<close> is the order in which
  a \<open>HashSet\<close> is iterated.
\<close>

datatype entry_kind = EntryDir | EntryFile | EntryOther

record dir_entry =
  de_path :: path
  de_kind :: entry_kind

record 'p engine_context =
  cx_cfg :: app_config
  cx_provider :: "'p remote_provider"
  cx_dry_run :: bool
  cx_md5 :: "string \<Rightarrow> string"
  cx_disk :: disk
  cx_walk :: "path \<Rightarrow> (path \<Rightarrow> bool \<Rightarrow> bool) \<Rightarrow> (string + dir_entry) list"
  cx_order :: "string list \<Rightarrow> string list"

text \<open>
  \<open>w_queue\<close>: the tasks sent and not yet received, oldest first; \<open>w_rx_life\<close>: the number of
  sends after which the receiver is gone, if it goes. \<open>w_status\<close>: the status messages sent so
  far, oldest first.
\<close>

record 'p world =
  w_drive :: 'p
  w_db :: database
  w_cache :: path_cache
  w_tracker :: progress_tracker
  w_cancel :: "nat option"
  w_queue :: "task list"
  w_rx_life :: "nat option"
  w_status :: "engine_status list"

type_synonym ('p, 'a) act = "'p world \<Rightarrow> 'a res \<times> 'p world"

definition seq_act :: "('p, 'a) act \<Rightarrow> ('a \<Rightarrow> ('p, 'b) act) \<Rightarrow> ('p, 'b) act" where
  "seq_act m f w = (case m w of (Inl e, w') \<Rightarrow> (Inl e, w') | (Inr a, w') \<Rightarrow> f a w')"

definition ret_act :: "'a \<Rightarrow> ('p, 'a) act" where
  "ret_act a w = (Inr a, w)"

definition fail_act :: "anyhow \<Rightarrow> ('p, 'a) act" where
  "fail_act e w = (Inl e, w)"

definition read_act :: "('p world \<Rightarrow> 'a res) \<Rightarrow> ('p, 'a) act" where
  "read_act f w = (f w, w)"

definition db_act :: "(database \<Rightarrow> database res) \<Rightarrow> ('p, unit) act" where
  "db_act op w = (case op (w_db w) of Inl e \<Rightarrow> (Inl e, w) | Inr db \<Rightarrow> (Inr (), w\<lparr>w_db := db\<rparr>))"

definition cache_act :: "(path_cache \<Rightarrow> path_cache) \<Rightarrow> ('p, unit) act" where
  "cache_act f w = (Inr (), w\<lparr>w_cache := f (w_cache w)\<rparr>)"

definition drive_act :: "('p \<Rightarrow> 'a res \<times> 'p) \<Rightarrow> ('p, 'a) act" where
  "drive_act f w = (case f (w_drive w) of (r, d) \<Rightarrow> (r, w\<lparr>w_drive := d\<rparr>))"

definition tracker_act :: "(progress_tracker \<Rightarrow> progress_tracker) \<Rightarrow> ('p, unit) act" where
  "tracker_act f w = (Inr (), w\<lparr>w_tracker := f (w_tracker w)\<rparr>)"

definition send_status :: "engine_status \<Rightarrow> ('p, unit) act" where
  "send_status s w = (Inr (), w\<lparr>w_status := w_status w @ [s]\<rparr>)"

text \<open>
  \<open>task_tx.send(..).await\<close>: \<open>False\<close> when the receiver is gone. The bound of the channel is
  looked at where it matters, in the theory of the engine.
\<close>

definition send_task :: "task \<Rightarrow> ('p, bool) act" where
  "send_task t w =
     (case w_rx_life w of
        Some 0 \<Rightarrow> (Inr False, w)
      | Some (Suc n) \<Rightarrow> (Inr True, w\<lparr>w_queue := w_queue w @ [t], w_rx_life := Some n\<rparr>)
      | None \<Rightarrow> (Inr True, w\<lparr>w_queue := w_queue w @ [t]\<rparr>))"

text \<open>\<open>CancellationToken::is_cancelled\<close>.\<close>

definition is_cancelled :: "('p, bool) act" where
  "is_cancelled w =
     (case w_cancel w of
        None \<Rightarrow> (Inr False, w)
      | Some 0 \<Rightarrow> (Inr True, w)
      | Some (Suc n) \<Rightarrow> (Inr False, w\<lparr>w_cancel := Some n\<rparr>))"

definition cancelled_msg :: string where
  "cancelled_msg = ''Annul'' @ e_acute"

definition cancelled_retry_msg :: string where
  "cancelled_retry_msg = ''Annul'' @ e_acute @ '' proprement pendant le retry''"

definition unwrap_none_msg :: string where
  "unwrap_none_msg = ''called `Option::unwrap()` on a `None` value''"

text \<open>\<open>Display\<close> of an error: the outermost message.\<close>

definition show_err :: "anyhow \<Rightarrow> string" where
  "show_err e = (case e of [] \<Rightarrow> [] | m # _ \<Rightarrow> m)"

definition max_attempts :: "'p engine_context \<Rightarrow> nat" where
  "max_attempts cx = unat (rt_max_attempts (cf_retry (cx_cfg cx)))"

text \<open>
  \<open>retry\<close> of \<open>engine/scan.rs\<close>: at least one try, at most \<open>max_attempts\<close>, the same pause
  between two of them. The pause ends by the timer or by the token, which is one more look at it.
\<close>

function retry_from :: "nat \<Rightarrow> nat \<Rightarrow> ('p, 'a) act \<Rightarrow> ('p, 'a) act" where
  "retry_from bound attempt f w =
     (case is_cancelled w of
        (Inr False, w1) \<Rightarrow>
          (case f w1 of
             (Inr a, w2) \<Rightarrow> (Inr a, w2)
           | (Inl e, w2) \<Rightarrow>
               if attempt \<ge> bound then (Inl e, w2)
               else (case is_cancelled w2 of
                       (Inr False, w3) \<Rightarrow> retry_from bound (Suc attempt) f w3
                     | (_, w3) \<Rightarrow> (Inl [cancelled_retry_msg], w3)))
      | (_, w1) \<Rightarrow> (Inl [cancelled_msg], w1))"
  by pat_completeness auto

termination
  by (relation "measure (\<lambda>(bound, attempt, f, w). bound - attempt)") auto

declare retry_from.simps [simp del]

definition retry :: "'p engine_context \<Rightarrow> ('p, 'a) act \<Rightarrow> ('p, 'a) act" where
  "retry cx f = retry_from (max_attempts cx) 1 f"

section \<open>Rules for sequences\<close>

named_theorems act_simps \<open>unfolding the combinators of actions\<close>

lemmas [act_simps] = ret_act_def fail_act_def read_act_def cache_act_def tracker_act_def send_status_def

lemma seq_act_Inr_iff:
  "seq_act m f w = (Inr b, w'') \<longleftrightarrow> (\<exists>a w'. m w = (Inr a, w') \<and> f a w' = (Inr b, w''))"
  by (auto simp: seq_act_def split: prod.splits sum.splits)

lemma seq_act_simps [simp]:
  "m w = (Inl e, w') \<Longrightarrow> seq_act m f w = (Inl e, w')"
  "m w = (Inr a, w') \<Longrightarrow> seq_act m f w = f a w'"
  by (simp_all add: seq_act_def)

lemma is_cancelled_cases:
  obtains (no) w' where "is_cancelled w = (Inr False, w')"
      "w' = w\<lparr>w_cancel := map_option (\<lambda>n. n - 1) (w_cancel w)\<rparr>"
  | (yes) "is_cancelled w = (Inr True, w)"
  by (cases "w_cancel w"; cases "the (w_cancel w)") (auto simp: is_cancelled_def)

lemma is_cancelled_never [simp]: "w_cancel w = None \<Longrightarrow> is_cancelled w = (Inr False, w)"
  by (simp add: is_cancelled_def)

section \<open>Frames: what a sequence of actions cannot break\<close>

text \<open>
  A relation between the world before and after. A client proves it for the primitive actions it
  uses; the sequence, the retry and the loops built from them then keep it.
\<close>

locale frame =
  fixes R :: "'p world \<Rightarrow> 'p world \<Rightarrow> bool"
  assumes R_refl: "R w w"
    and R_trans: "R a b \<Longrightarrow> R b c \<Longrightarrow> R a c"
    and R_look: "R w (snd (is_cancelled w))"
begin

definition kept :: "('p, 'a) act \<Rightarrow> bool" where
  "kept m = (\<forall>w. R w (snd (m w)))"

lemma keptD: "kept m \<Longrightarrow> m w = (r, w') \<Longrightarrow> R w w'"
  unfolding kept_def by (metis snd_conv)

lemma kept_is_cancelled: "kept is_cancelled"
  unfolding kept_def by (simp add: R_look)

lemma kept_seq_act:
  assumes "kept m" "\<And>a. kept (f a)"
  shows "kept (seq_act m f)"
  unfolding kept_def
proof
  fix w
  obtain r w1 where m: "m w = (r, w1)" by fastforce
  then have "R w w1" using assms(1) by (rule keptD[rotated])
  with m show "R w (snd (seq_act m f w))"
    using assms(2)[unfolded kept_def] R_trans by (cases r) auto
qed

lemma kept_pure: "kept (ret_act a)" "kept (fail_act e)" "kept (read_act g)"
  by (simp_all add: kept_def act_simps R_refl)

lemma kept_cond: "kept m \<Longrightarrow> kept n \<Longrightarrow> kept (if b then m else n)"
  by simp

lemma kept_retry_from:
  assumes f: "kept f"
  shows "R w (snd (retry_from bound attempt f w))"
  using f
proof (induction bound attempt f w rule: retry_from.induct)
  case (1 bound attempt f w)
  obtain r w1 where l1: "is_cancelled w = (r, w1)" by fastforce
  obtain q w2 where l2: "f w1 = (q, w2)" by fastforce
  obtain r' w3 where l3: "is_cancelled w2 = (r', w3)" by fastforce
  have s1: "R w w1" and s2: "R w w2" and s3: "R w w3"
    using keptD[OF kept_is_cancelled l1] keptD[OF "1.prems" l2] keptD[OF kept_is_cancelled l3]
    by (blast intro: R_trans)+
  show ?case
  proof (cases "r = Inr False \<and> (\<exists>e. q = Inl e) \<and> \<not> bound \<le> attempt \<and> r' = Inr False")
    case True
    then have "R w3 (snd (retry_from bound (Suc attempt) f w3))"
      using "1.IH" "1.prems" l1 l2 l3 by fastforce
    then have "R w (snd (retry_from bound (Suc attempt) f w3))" using s3 R_trans by blast
    with True l1 l2 l3 show ?thesis by (subst retry_from.simps) auto
  next
    case False
    with l1 l2 l3 s1 s2 s3 show ?thesis
      by (subst retry_from.simps) (auto split: sum.splits bool.splits)
  qed
qed

lemma kept_retry: "kept f \<Longrightarrow> kept (retry cx f)"
  using kept_retry_from unfolding retry_def kept_def by blast

end

text \<open>
  The frame of the database invariant: a writer of \<open>db.rs\<close> keeps it, and nothing else touches
  the database.
\<close>

definition db_ok_kept :: "'p world \<Rightarrow> 'p world \<Rightarrow> bool" where
  "db_ok_kept w w' = (db_ok (w_db w) \<longrightarrow> db_ok (w_db w'))"

lemma is_cancelled_frame [simp]:
  "w_drive (snd (is_cancelled w)) = w_drive w" "w_db (snd (is_cancelled w)) = w_db w"
  "w_cache (snd (is_cancelled w)) = w_cache w" "w_tracker (snd (is_cancelled w)) = w_tracker w"
  "w_queue (snd (is_cancelled w)) = w_queue w" "w_rx_life (snd (is_cancelled w)) = w_rx_life w"
  "w_status (snd (is_cancelled w)) = w_status w"
  by (simp_all add: is_cancelled_def split: option.splits nat.splits)

interpretation db_frame: frame db_ok_kept
  by unfold_locales (auto simp: db_ok_kept_def)

lemma db_kept_db_act:
  "(\<And>db db'. db_ok db \<Longrightarrow> op db = Inr db' \<Longrightarrow> db_ok db') \<Longrightarrow> db_frame.kept (db_act op)"
  unfolding db_frame.kept_def db_ok_kept_def db_act_def by (auto split: sum.splits)

text \<open>The frame of a stopped engine: once the token is cancelled the drive is left alone.\<close>

definition stopped_kept :: "'p world \<Rightarrow> 'p world \<Rightarrow> bool" where
  "stopped_kept w w' = (w_cancel w = Some 0 \<longrightarrow> w_drive w' = w_drive w \<and> w_cancel w' = Some 0)"

interpretation stop_frame: frame stopped_kept
  by unfold_locales (auto simp: stopped_kept_def is_cancelled_def)

lemma is_cancelled_stopped [simp]: "w_cancel w = Some 0 \<Longrightarrow> is_cancelled w = (Inr True, w)"
  by (simp add: is_cancelled_def)

lemma retry_stopped: "w_cancel w = Some 0 \<Longrightarrow> retry cx f w = (Inl [cancelled_msg], w)"
  unfolding retry_def by (subst retry_from.simps) simp

end
