(* ===== verification/Worker.thy ===== *)
theory Worker
  imports World
begin

text \<open>
  \<open>engine/worker.rs\<close> and \<open>engine/integrity.rs\<close>: what one task does. \<open>ign\<close> is
  \<open>IgnoreMatcher::is_ignored\<close> of the current patterns. The hash of a file's bytes is the
  crate md-5's digest in lower-case hexadecimal, the parameter \<open>cx_md5\<close>. A panic of
  \<open>unwrap\<close> is an error with that message.
\<close>

section \<open>Integrity\<close>

datatype integrity_result = IntegrityOk | Mismatch string string

definition compute_hash :: "'p engine_context \<Rightarrow> path \<Rightarrow> string res" where
  "compute_hash cx p = bind_res (fs_read p (cx_disk cx)) (\<lambda>content. Inr (cx_md5 cx content))"

definition verify_upload :: "'p engine_context \<Rightarrow> path \<Rightarrow> upload_result \<Rightarrow> integrity_result res" where
  "verify_upload cx p up =
     bind_res (compute_hash cx p) (\<lambda>local_hash.
       if local_hash = ur_md5_checksum up then Inr IntegrityOk
       else Inr (Mismatch local_hash (ur_md5_checksum up)))"

section \<open>Helpers\<close>

definition hash_file :: "'p engine_context \<Rightarrow> path \<Rightarrow> string res" where
  "hash_file cx p =
     bind_res (with_context ''read'' (fs_read p (cx_disk cx))) (\<lambda>content. Inr (cx_md5 cx content))"

text \<open>
  The directory case cannot occur: the time is asked of regular files only. A time before 1970
  is an error.
\<close>

definition file_mtime :: "path \<Rightarrow> disk \<Rightarrow> int res" where
  "file_mtime p dk =
     bind_res (with_context ''stat'' (fs_metadata p dk)) (\<lambda>n.
       case n of
         DirNode \<Rightarrow> Inr 0
       | FileNode _ t \<Rightarrow> if t < 0 then bail ''second time provided was later than self'' else Inr t)"

definition node_len :: "node \<Rightarrow> nat" where
  "node_len n = (case n of FileNode c _ \<Rightarrow> length c | DirNode \<Rightarrow> 0)"

definition pair_base :: "sync_pair \<Rightarrow> path" where
  "pair_base sp = components (sp_local_path sp)"

definition primary_pair :: "'p engine_context \<Rightarrow> ('p, sync_pair) act" where
  "primary_pair cx = read_act (\<lambda>_. context_opt ''Aucun dossier'' (get_primary_pair (cx_cfg cx)))"

text \<open>The file is indexed with the given property and cached.\<close>

definition index_hit :: "string \<Rightarrow> (file_entry \<Rightarrow> bool) \<Rightarrow> ('p, bool) act" where
  "index_hit rel P = read_act (\<lambda>w.
     bind_res (db_get (w_db w) rel) (\<lambda>r.
       Inr (case r of None \<Rightarrow> False | Some e \<Rightarrow> P e \<and> pc_lookup (w_cache w) rel \<noteq> None)))"

definition parent_folder_id :: "sync_pair \<Rightarrow> string \<Rightarrow> string \<Rightarrow> ('p, string) act" where
  "parent_folder_id primary parent_rel missing =
     (if parent_rel = [] then ret_act (sp_remote_folder_id primary)
      else read_act (\<lambda>w. context_opt missing (map_option ce_drive_id (pc_lookup (w_cache w) parent_rel))))"

section \<open>Uploading\<close>

definition upload_once ::
  "'p engine_context \<Rightarrow> path \<Rightarrow> string \<Rightarrow> string \<Rightarrow> string option \<Rightarrow> ('p, upload_result) act" where
  "upload_once cx p parent_id file_name last_id w =
     (case rp_upload (cx_provider cx) (w_drive w) p parent_id file_name last_id (w_tracker w) of
        (r, d, tk) \<Rightarrow> (r, w\<lparr>w_drive := d, w_tracker := tk\<rparr>))"

text \<open>
  The loop of \<open>sync_file\<close>: a try is good when the remote checksum is that of the local file;
  after a mismatch the next try overwrites the file just made.
\<close>

function upload_from ::
  "'p engine_context \<Rightarrow> nat \<Rightarrow> path \<Rightarrow> string \<Rightarrow> string \<Rightarrow> string option \<Rightarrow> ('p, upload_result) act" where
  "upload_from cx attempt p parent_id file_name last_id w =
     (case is_cancelled w of
        (Inr False, w1) \<Rightarrow>
          (case upload_once cx p parent_id file_name last_id w1 of
             (r, w2) \<Rightarrow>
               (case r of
                  Inr up \<Rightarrow>
                    if verify_upload cx p up = Inr IntegrityOk then (Inr up, w2)
                    else if attempt \<ge> max_attempts cx
                    then (bail (''mismatch md5 d'' @ e_acute @ ''tect'' @ e_acute @ '' post-upload apr''
                            @ e_grave @ ''s '' @ show_nat (max_attempts cx) @ '' essais''), w2)
                    else (case is_cancelled w2 of
                            (Inr False, w3) \<Rightarrow>
                              upload_from cx (Suc attempt) p parent_id file_name (Some (ur_drive_id up)) w3
                          | (_, w3) \<Rightarrow> (bail cancelled_retry_msg, w3))
                | Inl e \<Rightarrow>
                    if attempt \<ge> max_attempts cx
                    then (bail (''upload a '' @ e_acute @ ''chou'' @ e_acute @ '': '' @ show_err e), w2)
                    else (case is_cancelled w2 of
                            (Inr False, w3) \<Rightarrow>
                              upload_from cx (Suc attempt) p parent_id file_name last_id w3
                          | (_, w3) \<Rightarrow> (bail cancelled_retry_msg, w3))))
      | (_, w1) \<Rightarrow> (bail cancelled_msg, w1))"
  by pat_completeness auto

termination
  by (relation "measure (\<lambda>(cx, attempt, p, pid, nm, last, w). max_attempts cx - attempt)") auto

declare upload_from.simps [simp del]

definition set_current :: "path \<Rightarrow> string \<Rightarrow> nat \<Rightarrow> ('p, unit) act" where
  "set_current p file_name sz w =
     (let parent_dir = (case path_parent p of None \<Rightarrow> [] | Some q \<Rightarrow> path_string q) in
      (Inr (), w\<lparr>w_tracker := set_current_file parent_dir file_name (of_nat sz) (w_tracker w)\<rparr>))"

definition commit_upload :: "string \<Rightarrow> string \<Rightarrow> string \<Rightarrow> int \<Rightarrow> upload_result \<Rightarrow> ('p, unit) act" where
  "commit_upload rel parent_id hash mt up =
     seq_act (cache_act (pc_insert rel (ur_drive_id up) parent_id)) (\<lambda>_.
       db_act (db_upsert \<lparr>fe_path = rel, fe_hash = hash, fe_mtime = mt\<rparr>))"

definition sync_upload ::
  "'p engine_context \<Rightarrow> path \<Rightarrow> sync_pair \<Rightarrow> string \<Rightarrow> nat \<Rightarrow> string \<Rightarrow> int \<Rightarrow> ('p, unit) act" where
  "sync_upload cx p primary rel file_size hash mt =
     (case path_file_name p of
        None \<Rightarrow> fail_act [unwrap_none_msg]
      | Some file_name \<Rightarrow>
          (let parent_rel = parent_rel_str (pair_base primary) p in
           seq_act (parent_folder_id primary parent_rel
                      (''Dossier parent introuvable dans le cache : '' @ parent_rel)) (\<lambda>parent_id.
           seq_act (read_act (\<lambda>w. Inr (map_option ce_drive_id (pc_lookup (w_cache w) rel)))) (\<lambda>last_id.
           seq_act (set_current p file_name file_size) (\<lambda>_.
           seq_act (upload_from cx 1 p parent_id file_name last_id) (\<lambda>up.
           commit_upload rel parent_id hash mt up))))))"

definition sync_hashed ::
  "'p engine_context \<Rightarrow> path \<Rightarrow> sync_pair \<Rightarrow> string \<Rightarrow> nat \<Rightarrow> int \<Rightarrow> ('p, unit) act" where
  "sync_hashed cx p primary rel file_size mt =
     (case hash_file cx p of
        Inl e \<Rightarrow>
          if \<not> path_is_file p (cx_disk cx) then ret_act ()
          else seq_act is_cancelled (\<lambda>c. if c then ret_act () else fail_act e)
      | Inr hash \<Rightarrow>
          seq_act (index_hit rel (\<lambda>e. fe_hash e = hash)) (\<lambda>hit.
            if hit then db_act (db_upsert \<lparr>fe_path = rel, fe_hash = hash, fe_mtime = mt\<rparr>)
            else sync_upload cx p primary rel file_size hash mt))"

definition sync_file :: "'p engine_context \<Rightarrow> (path \<Rightarrow> bool \<Rightarrow> bool) \<Rightarrow> path \<Rightarrow> ('p, unit) act" where
  "sync_file cx ign p =
     seq_act (read_act (\<lambda>_. fs_metadata p (cx_disk cx))) (\<lambda>meta.
       if ign p (meta = DirNode) \<or> meta = DirNode then ret_act ()
       else
         seq_act (read_act (\<lambda>_. with_context ''Metadata inaccessible'' (fs_metadata p (cx_disk cx)))) (\<lambda>metadata.
         let file_size = node_len metadata in
         if file_size = 0 then ret_act ()
         else
           seq_act (primary_pair cx) (\<lambda>primary.
           seq_act (read_act (\<lambda>_. rel_str (pair_base primary) p)) (\<lambda>rel.
           seq_act (read_act (\<lambda>_. file_mtime p (cx_disk cx))) (\<lambda>mt.
           seq_act (index_hit rel (\<lambda>e. fe_mtime e = mt)) (\<lambda>hit.
             if hit then ret_act ()
             else seq_act is_cancelled (\<lambda>c.
               if c then ret_act ()
               else sync_hashed cx p primary rel file_size mt)))))))"

section \<open>Deleting\<close>

definition delete_file :: "'p engine_context \<Rightarrow> (path \<Rightarrow> bool \<Rightarrow> bool) \<Rightarrow> path \<Rightarrow> ('p, unit) act" where
  "delete_file cx ign p =
     (if ign p (path_is_dir p (cx_disk cx)) then ret_act ()
      else seq_act (primary_pair cx) (\<lambda>primary.
        case rel_str (pair_base primary) p of
          Inl _ \<Rightarrow> ret_act ()
        | Inr rel \<Rightarrow>
            seq_act (read_act (\<lambda>w. Inr (pc_lookup (w_cache w) rel))) (\<lambda>entry.
            seq_act (case entry of
                 None \<Rightarrow> ret_act ()
               | Some e \<Rightarrow>
                   seq_act (retry cx (drive_act (\<lambda>d. rp_delete (cx_provider cx) d (ce_drive_id e)))) (\<lambda>_.
                     cache_act (pc_remove_cascades rel))) (\<lambda>_.
            db_act (db_delete rel)))))"

section \<open>Renaming\<close>

text \<open>\<open>unwrap_or_default\<close>: the empty string for a path outside the root.\<close>

definition rel_or_empty :: "path \<Rightarrow> path \<Rightarrow> string" where
  "rel_or_empty base p = (case rel_str base p of Inl _ \<Rightarrow> [] | Inr r \<Rightarrow> r)"

definition rename_known ::
  "'p engine_context \<Rightarrow> sync_pair \<Rightarrow> cache_entry \<Rightarrow> string \<Rightarrow> string \<Rightarrow> path \<Rightarrow> ('p, unit) act" where
  "rename_known cx primary entry from_rel to_rel to =
     (let file_id = ce_drive_id entry in
      case path_file_name to of
        None \<Rightarrow> fail_act [unwrap_none_msg]
      | Some new_name \<Rightarrow>
          seq_act (parent_folder_id primary (parent_rel_str (pair_base primary) to)
                     ''Dossier destination introuvable'') (\<lambda>new_parent_id.
          seq_act (retry cx (drive_act (\<lambda>d.
                     rp_rename (cx_provider cx) d file_id (Some new_name) (Some new_parent_id)))) (\<lambda>_.
          seq_act (cache_act (pc_remove_cascades from_rel)) (\<lambda>_.
          seq_act (cache_act (pc_insert to_rel file_id new_parent_id)) (\<lambda>_.
          db_act (db_rename from_rel to_rel))))))"

definition rename_file :: "'p engine_context \<Rightarrow> (path \<Rightarrow> bool \<Rightarrow> bool) \<Rightarrow> path \<Rightarrow> path \<Rightarrow> ('p, unit) act" where
  "rename_file cx ign from to =
     (let dk = cx_disk cx in
      if ign from (path_is_dir from dk) \<and> ign to (path_is_dir to dk) then ret_act ()
      else seq_act (primary_pair cx) (\<lambda>primary.
        let from_rel = rel_or_empty (pair_base primary) from;
            to_rel = rel_or_empty (pair_base primary) to in
        seq_act (read_act (\<lambda>w. Inr (pc_lookup (w_cache w) from_rel))) (\<lambda>from_entry.
        seq_act (if from_rel = [] then ret_act False
                 else read_act (\<lambda>w. bind_res (db_get (w_db w) from_rel) (\<lambda>r. Inr (r \<noteq> None)))) (\<lambda>from_in_db.
          case from_entry of
            Some entry \<Rightarrow>
              if from_in_db then rename_known cx primary entry from_rel to_rel to
              else if path_is_file to dk \<and> \<not> ign to (path_is_dir to dk)
              then sync_file cx ign to else ret_act ()
          | None \<Rightarrow>
              if path_is_file to dk \<and> \<not> ign to (path_is_dir to dk)
              then sync_file cx ign to else ret_act ()))))"

section \<open>handle\<close>

definition handle :: "'p engine_context \<Rightarrow> (path \<Rightarrow> bool \<Rightarrow> bool) \<Rightarrow> task \<Rightarrow> ('p, unit) act" where
  "handle cx ign t =
     (if cx_dry_run cx then ret_act ()
      else case t of
        SyncFile p \<Rightarrow> sync_file cx ign p
      | Delete p \<Rightarrow> delete_file cx ign p
      | Rename from to \<Rightarrow> rename_file cx ign from to)"

end
