(* ===== verification/Scan.thy ===== *)
theory Scan
  imports Worker
begin

text \<open>
  \<open>engine/scan.rs\<close>: the full comparison of the local tree, the index and the remote listing.
  \<open>run\<close> is cut at its phases. The desktop notifications and the log lines are left out; the
  status messages, the tasks and every change of the cache, the index and the tracker are kept.
\<close>

definition interrupted_msg :: string where
  "interrupted_msg = ''shutdown: scan interrupted''"

definition queue_closed_msg :: string where
  "queue_closed_msg = ''shutdown: task queue closed''"

definition ellipsis :: string where "ellipsis = [CHR 0xE2, CHR 0x80, CHR 0xA6]"

definition while_running :: "('p, 'a) act \<Rightarrow> ('p, 'a) act" where
  "while_running m = seq_act is_cancelled (\<lambda>c. if c then fail_act [interrupted_msg] else m)"

definition name_of :: "path \<Rightarrow> string" where
  "name_of p = (case path_file_name p of Some n \<Rightarrow> n | None \<Rightarrow> [])"

text \<open>A loop with \<open>enumerate\<close>, and one that collects.\<close>

fun each :: "(nat \<Rightarrow> 'b \<Rightarrow> ('p, unit) act) \<Rightarrow> nat \<Rightarrow> 'b list \<Rightarrow> ('p, unit) act" where
  "each f i [] = ret_act ()"
| "each f i (x # xs) = seq_act (f i x) (\<lambda>_. each f (Suc i) xs)"

fun keep_each :: "(nat \<Rightarrow> 'b \<Rightarrow> ('p, bool) act) \<Rightarrow> nat \<Rightarrow> 'b list \<Rightarrow> ('p, 'b list) act" where
  "keep_each f i [] = ret_act []"
| "keep_each f i (x # xs) =
     seq_act (f i x) (\<lambda>keep. seq_act (keep_each f (Suc i) xs) (\<lambda>ys.
       ret_act (if keep then x # ys else ys)))"

section \<open>Helpers\<close>

definition mtime_of :: "path \<Rightarrow> disk \<Rightarrow> int" where
  "mtime_of p dk = (case fs_metadata p dk of Inr (FileNode _ t) \<Rightarrow> if t < 0 then 0 else t | _ \<Rightarrow> 0)"

definition hash_of :: "'p engine_context \<Rightarrow> path \<Rightarrow> string res" where
  "hash_of cx p = bind_res (fs_read p (cx_disk cx)) (\<lambda>content. Inr (cx_md5 cx content))"

definition file_len :: "path \<Rightarrow> disk \<Rightarrow> nat" where
  "file_len p dk = (case fs_metadata p dk of Inr n \<Rightarrow> node_len n | Inl _ \<Rightarrow> 0)"

text \<open>\<open>to_lowercase\<close> on ASCII and on the accented letters of Latin-1.\<close>

definition lower_ascii :: "char \<Rightarrow> char" where
  "lower_ascii c = (if 65 \<le> (of_char c :: nat) \<and> (of_char c :: nat) \<le> 90 then char_of (of_char c + 32 :: nat) else c)"

fun to_lowercase :: "string \<Rightarrow> string" where
  "to_lowercase [] = []"
| "to_lowercase [c] = [lower_ascii c]"
| "to_lowercase (c # d # s) =
     (if c = CHR 0xC3
      then c # (if 128 \<le> (of_char d :: nat) \<and> (of_char d :: nat) \<le> 158 \<and> (of_char d :: nat) \<noteq> 151
                then char_of (of_char d + 32 :: nat) else d) # to_lowercase s
      else lower_ascii c # to_lowercase (d # s))"

definition quota_words :: "string list" where
  "quota_words = [''quota'', ''insufficient storage'', ''espace insuffisant'', ''storage full'',
     ''disk full'', ''no space left'']"

definition fatal_words :: "string list" where
  "fatal_words = [''jetons d'' @ [CHR 0x27] @ ''acc'' @ e_grave @ ''s'', ''access token'', ''token expired'',
     ''authentication required'', ''authentification requise'', ''permission denied'',
     ''unauthorized'', ''403'', ''401''] @ quota_words"

definition is_fatal_remote_err :: "anyhow \<Rightarrow> bool" where
  "is_fatal_remote_err e = list_ex (\<lambda>c. list_ex (contains_str (to_lowercase c)) fatal_words) e"

definition is_quota_err :: "anyhow \<Rightarrow> bool" where
  "is_quota_err e = list_ex (\<lambda>c. list_ex (contains_str (to_lowercase c)) quota_words) e"

section \<open>Phases 0 and 1: listings\<close>

text \<open>A failed listing counts as an empty one.\<close>

definition list_remote_or_empty :: "'p engine_context \<Rightarrow> string \<Rightarrow> ('p, remote_index) act" where
  "list_remote_or_empty cx folder w =
     (case rp_list_remote (cx_provider cx) (w_drive w) folder of
        (Inr idx, d) \<Rightarrow> (Inr idx, w\<lparr>w_drive := d\<rparr>)
      | (Inl _, d) \<Rightarrow> (Inr \<lparr>ri_files = [], ri_dirs = []\<rparr>, w\<lparr>w_drive := d\<rparr>))"

definition phase_remote :: "'p engine_context \<Rightarrow> sync_pair \<Rightarrow> ('p, remote_index) act" where
  "phase_remote cx primary =
     seq_act (send_status (ScanProgress RemoteListing 0 0 (''listing remote'' @ ellipsis))) (\<lambda>_.
     seq_act (list_remote_or_empty cx (sp_remote_folder_id primary)) (\<lambda>idx.
     seq_act (cache_act (pc_insert_index idx)) (\<lambda>_. ret_act idx)))"

text \<open>The walk drops the entries it could not read.\<close>

fun walk_entries :: "path \<Rightarrow> nat \<Rightarrow> (string + dir_entry) list \<Rightarrow> ('p, path list \<times> path list) act" where
  "walk_entries base n [] = ret_act ([], [])"
| "walk_entries base n (Inl _ # es) = walk_entries base n es"
| "walk_entries base n (Inr e # es) =
     while_running
       (seq_act (if Suc n mod 100 = 0
                 then send_status (ScanProgress LocalListing (Suc n) 0
                        (show_nat (Suc n) @ '' '' @ e_acute @ ''l'' @ e_acute @ ''ments index'' @ e_acute @ ''s''))
                 else ret_act ()) (\<lambda>_.
        seq_act (walk_entries base (Suc n) es) (\<lambda>(dirs, files).
          ret_act
            (case de_kind e of
               EntryDir \<Rightarrow>
                 (case strip_prefix base (de_path e) of
                    Some r \<Rightarrow> if r \<noteq> [] then (de_path e # dirs, files) else (dirs, files)
                  | None \<Rightarrow> (dirs, files))
             | EntryFile \<Rightarrow> (dirs, de_path e # files)
             | EntryOther \<Rightarrow> (dirs, files)))))"

definition phase_local :: "'p engine_context \<Rightarrow> (path \<Rightarrow> bool \<Rightarrow> bool) \<Rightarrow> path \<Rightarrow> ('p, path list \<times> path list) act" where
  "phase_local cx ign base =
     seq_act (send_status (ScanProgress LocalListing 0 0 (''inventaire local'' @ ellipsis))) (\<lambda>_.
       walk_entries base 0 (cx_walk cx base (\<lambda>p d. \<not> ign p d)))"

section \<open>Phase 2: remote directories\<close>

definition dry_run_id :: "string \<Rightarrow> string" where
  "dry_run_id rel = ''dry_run_dir_'' @ map (\<lambda>c. if c = CHR ''/'' then CHR ''_'' else c) rel"

definition make_remote_dir :: "'p engine_context \<Rightarrow> string \<Rightarrow> string \<Rightarrow> string \<Rightarrow> ('p, string) act" where
  "make_remote_dir cx cur parent part =
     (if cx_dry_run cx then ret_act (dry_run_id cur)
      else retry cx (drive_act (\<lambda>d. rp_mkdir (cx_provider cx) d parent part)))"

definition extend_rel :: "string \<Rightarrow> string \<Rightarrow> string" where
  "extend_rel cur part = (if cur = [] then part else cur @ ''/'' @ part)"

fun ensure_chain :: "'p engine_context \<Rightarrow> string \<Rightarrow> string \<Rightarrow> string list \<Rightarrow> ('p, unit) act" where
  "ensure_chain cx cur parent [] = ret_act ()"
| "ensure_chain cx cur parent (part # parts) =
     (let cur' = extend_rel cur part in
      seq_act (read_act (\<lambda>w. Inr (pc_lookup (w_cache w) cur'))) (\<lambda>known.
        case known of
          Some e \<Rightarrow> ensure_chain cx cur' (ce_drive_id e) parts
        | None \<Rightarrow>
            seq_act (make_remote_dir cx cur' parent part) (\<lambda>new_id.
            seq_act (cache_act (pc_insert cur' new_id parent)) (\<lambda>_.
            ensure_chain cx cur' new_id parts))))"

definition ensure_dir :: "'p engine_context \<Rightarrow> sync_pair \<Rightarrow> nat \<Rightarrow> nat \<Rightarrow> path \<Rightarrow> ('p, unit) act" where
  "ensure_dir cx primary tot i p =
     while_running
       (case strip_prefix (pair_base primary) p of
          None \<Rightarrow> fail_act [''prefix not found'']
        | Some rel \<Rightarrow>
            seq_act (send_status (ScanProgress Directories (Suc i) tot (name_of rel))) (\<lambda>_.
            seq_act (read_act (\<lambda>w. Inr (pc_lookup (w_cache w) (path_string rel)))) (\<lambda>known.
              if known \<noteq> None then ret_act ()
              else ensure_chain cx [] (sp_remote_folder_id primary) rel)))"

definition phase_dirs :: "'p engine_context \<Rightarrow> sync_pair \<Rightarrow> path list \<Rightarrow> ('p, unit) act" where
  "phase_dirs cx primary dirs = each (ensure_dir cx primary (length dirs)) 0 dirs"

section \<open>Phase 3: comparison\<close>

text \<open>\<open>let _ = db.upsert(..)\<close>: a failing write is ignored.\<close>

definition try_upsert :: "file_entry \<Rightarrow> ('p, unit) act" where
  "try_upsert e w = (case db_upsert e (w_db w) of Inl _ \<Rightarrow> (Inr (), w) | Inr db \<Rightarrow> (Inr (), w\<lparr>w_db := db\<rparr>))"

definition compare_indexed :: "'p engine_context \<Rightarrow> path \<Rightarrow> string \<Rightarrow> ('p, bool) act" where
  "compare_indexed cx p rel w =
     (case db_get (w_db w) rel of
        Inr (Some e) \<Rightarrow>
          (let mt = mtime_of p (cx_disk cx) in
           if mt = fe_mtime e then (Inr False, w)
           else case hash_of cx p of
             Inr h \<Rightarrow>
               if h = fe_hash e
               then (Inr False, snd (try_upsert \<lparr>fe_path = rel, fe_hash = h, fe_mtime = mt\<rparr> w))
               else (Inr True, w)
           | Inl _ \<Rightarrow> (Inr True, w))
      | _ \<Rightarrow> (Inr True, w))"

text \<open>A file the drive already has but the index does not is recorded with its local hash.\<close>

definition adopt_remote :: "'p engine_context \<Rightarrow> path \<Rightarrow> string \<Rightarrow> ('p, bool) act" where
  "adopt_remote cx p rel =
     seq_act (case hash_of cx p of
         Inr h \<Rightarrow> try_upsert \<lparr>fe_path = rel, fe_hash = h, fe_mtime = mtime_of p (cx_disk cx)\<rparr>
       | Inl _ \<Rightarrow> ret_act ()) (\<lambda>_. ret_act False)"

definition compare_file ::
  "'p engine_context \<Rightarrow> sync_pair \<Rightarrow> string list \<Rightarrow> nat \<Rightarrow> nat \<Rightarrow> path \<Rightarrow> ('p, bool) act" where
  "compare_file cx primary db_index tot i p =
     while_running
       (case strip_prefix (pair_base primary) p of
          None \<Rightarrow> ret_act False
        | Some r \<Rightarrow>
            (let rel = path_string r in
             seq_act (if i mod 50 = 0 \<or> Suc i = tot
                      then send_status (ScanProgress Comparing (Suc i) tot (name_of p)) else ret_act ()) (\<lambda>_.
             seq_act (read_act (\<lambda>w. Inr (pc_lookup (w_cache w) rel \<noteq> None))) (\<lambda>remote_exists.
               if rel \<in> set db_index \<and> remote_exists then compare_indexed cx p rel
               else if remote_exists then adopt_remote cx p rel
               else ret_act True))))"

definition phase_compare ::
  "'p engine_context \<Rightarrow> sync_pair \<Rightarrow> string list \<Rightarrow> path list \<Rightarrow> ('p, path list) act" where
  "phase_compare cx primary db_index files =
     seq_act (keep_each (compare_file cx primary db_index (length files)) 0 files) (\<lambda>to_sync.
       ret_act (filter (\<lambda>p. file_len p (cx_disk cx) > 0) to_sync))"

section \<open>Phases 4 to 6: tasks\<close>

definition set_totals :: "'p engine_context \<Rightarrow> path list \<Rightarrow> ('p, unit) act" where
  "set_totals cx to_sync =
     (if cx_dry_run cx then ret_act ()
      else tracker_act (\<lambda>tk. tk\<lparr>tk_total_files := of_nat (length to_sync),
             tk_total_bytes := sum_list (map (\<lambda>p. of_nat (file_len p (cx_disk cx))) to_sync)\<rparr>))"

definition send_or_fail :: "'p engine_context \<Rightarrow> task \<Rightarrow> ('p, unit) act" where
  "send_or_fail cx t =
     (if cx_dry_run cx then ret_act ()
      else seq_act (send_task t) (\<lambda>sent. if sent then ret_act () else fail_act [queue_closed_msg]))"

definition enqueue_sync :: "'p engine_context \<Rightarrow> nat \<Rightarrow> nat \<Rightarrow> path \<Rightarrow> ('p, unit) act" where
  "enqueue_sync cx tot i p =
     while_running
       (seq_act (send_status (ScanProgress Comparing (Suc i) tot (name_of p))) (\<lambda>_.
         send_or_fail cx (SyncFile p)))"

definition count_one_more :: "'p engine_context \<Rightarrow> ('p, unit) act" where
  "count_one_more cx =
     (if cx_dry_run cx then ret_act () else tracker_act (\<lambda>tk. tk\<lparr>tk_total_files := tk_total_files tk + 1\<rparr>))"

definition orphan_db :: "'p engine_context \<Rightarrow> path \<Rightarrow> string list \<Rightarrow> nat \<Rightarrow> string \<Rightarrow> ('p, unit) act" where
  "orphan_db cx base local_rels i db_path =
     while_running
       (if db_path \<in> set local_rels then ret_act ()
        else seq_act (count_one_more cx) (\<lambda>_.
          send_or_fail cx (Delete (path_join base (components db_path)))))"

definition orphan_remote ::
  "'p engine_context \<Rightarrow> (path \<Rightarrow> bool \<Rightarrow> bool) \<Rightarrow> path \<Rightarrow> string list \<Rightarrow> string list \<Rightarrow> nat \<Rightarrow> remote_file
   \<Rightarrow> ('p, unit) act" where
  "orphan_remote cx ign base local_rels db_index i rf =
     while_running
       (let rel = rf_relative_path rf; local_path = path_join base (components rel) in
        if rel \<in> set local_rels then ret_act ()
        else if path_is_dir local_path (cx_disk cx) then ret_act ()
        else if rel \<in> set db_index then ret_act ()
        else if ign local_path (path_is_dir local_path (cx_disk cx)) then ret_act ()
        else seq_act (count_one_more cx) (\<lambda>_. send_or_fail cx (Delete local_path)))"

definition local_rel_set :: "path \<Rightarrow> path list \<Rightarrow> string list" where
  "local_rel_set base files = map path_string (List.map_filter (strip_prefix base) files)"

section \<open>run\<close>

definition scan_tasks ::
  "'p engine_context \<Rightarrow> (path \<Rightarrow> bool \<Rightarrow> bool) \<Rightarrow> path \<Rightarrow> remote_index \<Rightarrow> string list \<Rightarrow> path list \<Rightarrow> path list
   \<Rightarrow> ('p, unit) act" where
  "scan_tasks cx ign base remote_index db_index local_files to_sync =
     (let local_rels = local_rel_set base local_files in
      seq_act (set_totals cx to_sync) (\<lambda>_.
      seq_act (each (enqueue_sync cx (length to_sync)) 0 to_sync) (\<lambda>_.
      seq_act (each (orphan_db cx base local_rels) 0 db_index) (\<lambda>_.
      seq_act (each (orphan_remote cx ign base local_rels db_index) 0 (ri_files remote_index)) (\<lambda>_.
      if cx_dry_run cx then send_status Idle else ret_act ())))))"

definition scan_compare ::
  "'p engine_context \<Rightarrow> (path \<Rightarrow> bool \<Rightarrow> bool) \<Rightarrow> sync_pair \<Rightarrow> remote_index \<Rightarrow> path list \<Rightarrow> ('p, unit) act" where
  "scan_compare cx ign primary remote_index local_files =
     seq_act (send_status (ScanProgress Comparing 0 (length local_files) (''comparaison'' @ ellipsis))) (\<lambda>_.
     seq_act (read_act (\<lambda>w. db_all_paths (w_db w))) (\<lambda>paths.
     seq_act (phase_compare cx primary (cx_order cx paths) local_files) (\<lambda>to_sync.
     scan_tasks cx ign (pair_base primary) remote_index (cx_order cx paths) local_files to_sync)))"

definition scan_run :: "'p engine_context \<Rightarrow> (path \<Rightarrow> bool \<Rightarrow> bool) \<Rightarrow> ('p, unit) act" where
  "scan_run cx ign =
     seq_act (primary_pair cx) (\<lambda>primary.
     seq_act (phase_remote cx primary) (\<lambda>remote_index.
     seq_act (phase_local cx ign (pair_base primary)) (\<lambda>(local_dirs, local_files).
     seq_act (phase_dirs cx primary local_dirs) (\<lambda>_.
     scan_compare cx ign primary remote_index local_files))))"

end
