(* ===== verification/Offline.thy ===== *)
theory Offline
  imports World
begin

text \<open>
  \<open>engine/offline.rs\<close>: the queue kept while the network is down is turned back into tasks, one
  row at a time; a row is removed once its task has been sent.
\<close>

definition task_of_offline :: "path \<Rightarrow> offline_task \<Rightarrow> task option" where
  "task_of_offline base ot =
     (let here = path_join base (components (ot_relative_path ot)) in
      if ot_action ot = ''sync'' then Some (SyncFile here)
      else if ot_action ot = ''delete'' then Some (Delete here)
      else if ot_action ot = ''rename''
      then Some (Rename (path_join base (components (case ot_extra ot of None \<Rightarrow> [] | Some x \<Rightarrow> x))) here)
      else None)"

fun flush_rows :: "path \<Rightarrow> offline_task list \<Rightarrow> ('p, unit) act" where
  "flush_rows base [] = ret_act ()"
| "flush_rows base (ot # ots) =
     (case task_of_offline base ot of
        None \<Rightarrow> flush_rows base ots
      | Some t \<Rightarrow>
          seq_act (send_task t) (\<lambda>sent.
            if \<not> sent then ret_act ()
            else seq_act (db_act (db_remove_offline_task (ot_id ot))) (\<lambda>_. flush_rows base ots)))"

definition flush_queue :: "path \<Rightarrow> ('p, unit) act" where
  "flush_queue base =
     seq_act (read_act (\<lambda>w. db_get_offline_tasks (w_db w))) (\<lambda>tasks.
       if tasks = [] then ret_act () else flush_rows base tasks)"

section \<open>What a flush sends and what it keeps\<close>

definition known_action :: "offline_task \<Rightarrow> bool" where
  "known_action ot = (ot_action ot \<in> {''sync'', ''delete'', ''rename''})"

lemma task_of_offline_Some_iff: "task_of_offline base ot \<noteq> None \<longleftrightarrow> known_action ot"
  by (auto simp: task_of_offline_def known_action_def Let_def)

definition queue_rows :: "database \<Rightarrow> offline_task list" where
  "queue_rows db = (case t_offline_queue db of Some rows \<Rightarrow> rows | None \<Rightarrow> [])"

definition unsent :: "offline_task list \<Rightarrow> offline_task list" where
  "unsent rows = filter (\<lambda>ot. \<not> known_action ot) rows"

lemma remove_known_head:
  assumes "sorted_wrt (<) (map ot_id (us @ ot # ots))"
  shows "filter (\<lambda>t. ot_id t \<noteq> ot_id ot) (us @ ot # ots) = us @ ots"
proof -
  have "filter (\<lambda>t. ot_id t \<noteq> ot_id ot) us = us" "filter (\<lambda>t. ot_id t \<noteq> ot_id ot) ots = ots"
    using assms by (auto simp: sorted_wrt_append intro!: filter_True)
  then show ?thesis by simp
qed

text \<open>
  After \<open>k\<close> rows: the known ones among them are sent, in order, and gone from the table; the
  others stay. It stops early only when the receiver is gone.
\<close>

definition flush_end :: "path \<Rightarrow> offline_task list \<Rightarrow> offline_task list \<Rightarrow> 'p world \<Rightarrow> 'p world \<Rightarrow> nat \<Rightarrow> bool" where
  "flush_end base us ots w w' k =
     (k \<le> length ots \<and>
      w_queue w' = w_queue w @ List.map_filter (task_of_offline base) (take k ots) \<and>
      w_db w' = (w_db w)\<lparr>t_offline_queue := Some (us @ unsent (take k ots) @ drop k ots)\<rparr> \<and>
      (w_rx_life w = None \<longrightarrow> k = length ots) \<and>
      (k < length ots \<longrightarrow> w_rx_life w' = Some 0))"

lemma flush_rows_ends:
  assumes "\<not> mutex_poisoned (w_db w)" "t_offline_queue (w_db w) = Some (us @ ots)"
    "sorted_wrt (<) (map ot_id (us @ ots))"
  shows "\<exists>w' k. flush_rows base ots w = (Inr (), w') \<and> flush_end base us ots w w' k"
  using assms
proof (induction ots arbitrary: w us)
  case Nil
  then show ?case by (auto simp: ret_act_def unsent_def map_filter_def flush_end_def)
next
  case (Cons ot ots)
  show ?case
  proof (cases "task_of_offline base ot")
    case None
    then have unk: "\<not> known_action ot" using task_of_offline_Some_iff[of base ot] by simp
    have "\<exists>w' k. flush_rows base ots w = (Inr (), w') \<and> flush_end base (us @ [ot]) ots w w' k"
      using Cons.prems by (intro Cons.IH) simp_all
    then obtain w' k where r: "flush_rows base ots w = (Inr (), w')" "flush_end base (us @ [ot]) ots w w' k"
      by blast
    from r(2) None unk have "flush_end base us (ot # ots) w w' (Suc k)"
      by (simp add: flush_end_def unsent_def map_filter_def)
    with r(1) None show ?thesis by auto
  next
    case (Some t)
    then have kn: "known_action ot" using task_of_offline_Some_iff[of base ot] by auto
    show ?thesis
    proof (cases "w_rx_life w = Some 0")
      case True
      with Some Cons.prems show ?thesis
        by (intro exI[of _ w] exI[of _ 0])
           (simp add: seq_act_def send_task_def ret_act_def map_filter_def unsent_def flush_end_def)
    next
      case False
      define w1 where "w1 = snd (send_task t w)"
      have w1: "send_task t w = (Inr True, w1)" "w_db w1 = w_db w" "w_queue w1 = w_queue w @ [t]"
        "w_rx_life w = None \<Longrightarrow> w_rx_life w1 = None"
        using False by (auto simp: w1_def send_task_def split: option.splits nat.splits)
      define w2 where "w2 = w1\<lparr>w_db := (w_db w)\<lparr>t_offline_queue := Some (us @ ots)\<rparr>\<rparr>"
      have del: "db_act (db_remove_offline_task (ot_id ot)) w1 = (Inr (), w2)"
        using Cons.prems remove_known_head[OF Cons.prems(3)] w1(2)
        by (simp add: db_act_def db_remove_offline_task_def w2_def)
      have "\<exists>w' k. flush_rows base ots w2 = (Inr (), w') \<and> flush_end base us ots w2 w' k"
        using Cons.prems by (intro Cons.IH) (simp_all add: w2_def sorted_wrt_append)
      then obtain w' k where r: "flush_rows base ots w2 = (Inr (), w')" "flush_end base us ots w2 w' k"
        by blast
      from r(2) Some kn w1 have "flush_end base us (ot # ots) w w' (Suc k)"
        by (simp add: flush_end_def unsent_def map_filter_def w2_def)
      with r(1) Some w1(1) del show ?thesis by (auto simp: seq_act_def)
    qed
  qed
qed

lemma flush_queue_ends:
  assumes "db_ok (w_db w)" "t_offline_queue (w_db w) = Some rows"
  shows "\<exists>w' k. flush_queue base w = (Inr (), w') \<and> flush_end base [] rows w w' k"
proof -
  have rows: "\<not> mutex_poisoned (w_db w)" "queue_rows_ok (t_sequence (w_db w)) rows"
    using assms by (auto simp: db_ok_def)
  then have got: "db_get_offline_tasks (w_db w) = Inr rows" using assms get_offline_tasks_rows by blast
  show ?thesis
  proof (cases "rows = []")
    case True
    with got assms show ?thesis
      by (simp add: flush_queue_def seq_act_def read_act_def ret_act_def flush_end_def unsent_def map_filter_def)
  next
    case False
    then show ?thesis
      using flush_rows_ends[of w "[]" rows base] rows assms got
      by (auto simp: flush_queue_def seq_act_def read_act_def queue_rows_ok_def)
  qed
qed

end
