(* ===== verification/Dispatch.thy ===== *)
theory Dispatch
  imports Offline Worker
begin

text \<open>
  \<open>engine/watcher.rs\<close> and \<open>spawn_debounced_dispatch\<close> of \<open>engine/mod.rs\<close>: from a
  notification of the file system to a task, or to a row of the offline queue. The crate notify
  delivers its events; \<open>event_kind\<close> has one constructor for each pattern the source matches.
\<close>

section \<open>Watcher\<close>

datatype event_kind =
    AccessCloseWrite | CreateAny | RemoveAny | NameBoth | NameFrom | NameTo | ModifyData | OtherKind

datatype watch_event =
    Modified path
  | Deleted path
  | Renamed path path

definition first_path :: "(path \<Rightarrow> watch_event) \<Rightarrow> path list \<Rightarrow> watch_event option" where
  "first_path f ps = (case ps of [] \<Rightarrow> None | p # _ \<Rightarrow> Some (f p))"

definition translate_event :: "event_kind \<Rightarrow> path list \<Rightarrow> watch_event option" where
  "translate_event k ps =
     (case k of
        AccessCloseWrite \<Rightarrow> first_path Modified ps
      | CreateAny \<Rightarrow> first_path Modified ps
      | RemoveAny \<Rightarrow> first_path Deleted ps
      | NameBoth \<Rightarrow> (case ps of from # to # _ \<Rightarrow> Some (Renamed from to) | _ \<Rightarrow> None)
      | NameFrom \<Rightarrow> first_path Deleted ps
      | NameTo \<Rightarrow> first_path Modified ps
      | ModifyData \<Rightarrow> first_path Modified ps
      | OtherKind \<Rightarrow> None)"

text \<open>The channel to the dispatcher: \<open>try_send\<close> fails when it is full or closed.\<close>

record watcher =
  wt_channel :: "watch_event list"
  wt_capacity :: nat
  wt_closed :: bool
  wt_overflow :: bool

definition watcher_start :: "nat \<Rightarrow> watcher" where
  "watcher_start capacity = \<lparr>wt_channel = [], wt_capacity = capacity, wt_closed = False, wt_overflow = False\<rparr>"

definition try_send :: "watch_event \<Rightarrow> watcher \<Rightarrow> bool \<times> watcher" where
  "try_send ev wt =
     (if wt_closed wt \<or> length (wt_channel wt) \<ge> wt_capacity wt then (False, wt)
      else (True, wt\<lparr>wt_channel := wt_channel wt @ [ev]\<rparr>))"

definition on_notify :: "(string + event_kind \<times> path list) \<Rightarrow> watcher \<Rightarrow> watcher" where
  "on_notify r wt =
     (case r of
        Inl _ \<Rightarrow> wt
      | Inr (k, ps) \<Rightarrow>
          (case translate_event k ps of
             None \<Rightarrow> wt
           | Some ev \<Rightarrow>
               (case try_send ev wt of (True, wt') \<Rightarrow> wt' | (False, wt') \<Rightarrow> wt'\<lparr>wt_overflow := True\<rparr>)))"

definition take_overflow :: "watcher \<Rightarrow> bool \<times> watcher" where
  "take_overflow wt = (wt_overflow wt, wt\<lparr>wt_overflow := False\<rparr>)"

section \<open>Dispatcher\<close>

text \<open>
  \<open>pending\<close> is a \<open>HashMap\<close>: a list of pairs with distinct keys, iterated in the order the
  parameter \<open>order\<close> gives. Clocks in milliseconds; \<open>unix\<close> is the time stored with a row.
\<close>

type_synonym pending = "(path \<times> nat) list"

definition pending_insert :: "path \<Rightarrow> nat \<Rightarrow> pending \<Rightarrow> pending" where
  "pending_insert p t pd =
     (if p \<in> fst ` set pd then map (\<lambda>(q, s). if q = p then (q, t) else (q, s)) pd else pd @ [(p, t)])"

definition pending_remove :: "path \<Rightarrow> pending \<Rightarrow> pending" where
  "pending_remove p pd = filter (\<lambda>(q, _). q \<noteq> p) pd"

record dispatcher =
  dp_local_root :: path
  dp_debounce_ms :: nat
  dp_disk :: disk
  dp_order :: "path list \<Rightarrow> path list"

definition push_offline :: "int \<Rightarrow> string \<Rightarrow> string \<Rightarrow> string option \<Rightarrow> ('p, unit) act" where
  "push_offline unix action rel extra w =
     (case db_push_offline_task unix action rel extra (w_db w) of
        Inl _ \<Rightarrow> (Inr (), w)
      | Inr (_, db) \<Rightarrow> (Inr (), w\<lparr>w_db := db\<rparr>))"

definition count_task :: "nat \<Rightarrow> ('p, unit) act" where
  "count_task bytes = tracker_act (\<lambda>tk. tk\<lparr>tk_total_files := tk_total_files tk + 1,
     tk_total_bytes := tk_total_bytes tk + of_nat bytes\<rparr>)"

definition disk_len :: "path \<Rightarrow> disk \<Rightarrow> nat" where
  "disk_len p dk = (case fs_metadata p dk of Inr n \<Rightarrow> node_len n | Inl _ \<Rightarrow> 0)"

text \<open>
  The offline flag is read once per path, and may change between two of them: a tick takes it as
  a function of the path. The result is \<open>False\<close> when the dispatcher returns because the task
  channel is closed.
\<close>

definition dispatch_path :: "dispatcher \<Rightarrow> bool \<Rightarrow> int \<Rightarrow> path \<Rightarrow> ('p, bool) act" where
  "dispatch_path dp offline unix p =
     (if offline then
        (case strip_prefix (dp_local_root dp) p of
           Some rel \<Rightarrow> seq_act (push_offline unix ''sync'' (path_string rel) None) (\<lambda>_. ret_act True)
         | None \<Rightarrow> ret_act True)
      else seq_act (count_task (disk_len p (dp_disk dp))) (\<lambda>_. send_task (SyncFile p)))"

fun dispatch_paths :: "dispatcher \<Rightarrow> (path \<Rightarrow> bool) \<Rightarrow> int \<Rightarrow> path list \<Rightarrow> pending \<Rightarrow> ('p, bool \<times> pending) act" where
  "dispatch_paths dp offline unix [] pd = ret_act (True, pd)"
| "dispatch_paths dp offline unix (p # ps) pd =
     (let pd' = pending_remove p pd in
      seq_act (dispatch_path dp (offline p) unix p) (\<lambda>go.
        if go then dispatch_paths dp offline unix ps pd' else ret_act (False, pd')))"

definition ready_paths :: "dispatcher \<Rightarrow> nat \<Rightarrow> pending \<Rightarrow> path list" where
  "ready_paths dp now pd =
     dp_order dp (map fst (filter (\<lambda>(_, ts). now - ts \<ge> dp_debounce_ms dp) pd))"

definition dispatch_tick :: "dispatcher \<Rightarrow> (path \<Rightarrow> bool) \<Rightarrow> int \<Rightarrow> nat \<Rightarrow> pending \<Rightarrow> ('p, bool \<times> pending) act" where
  "dispatch_tick dp offline unix now pd = dispatch_paths dp offline unix (ready_paths dp now pd) pd"

definition dispatch_event :: "dispatcher \<Rightarrow> bool \<Rightarrow> int \<Rightarrow> nat \<Rightarrow> watch_event \<Rightarrow> pending \<Rightarrow> ('p, bool \<times> pending) act" where
  "dispatch_event dp offline unix now ev pd =
     (case ev of
        Modified p \<Rightarrow> ret_act (True, pending_insert p now pd)
      | Deleted p \<Rightarrow>
          (let pd' = pending_remove p pd in
           if offline then
             (case strip_prefix (dp_local_root dp) p of
                Some rel \<Rightarrow>
                  seq_act (push_offline unix ''delete'' (path_string rel) None) (\<lambda>_. ret_act (True, pd'))
              | None \<Rightarrow> ret_act (True, pd'))
           else seq_act (count_task 0) (\<lambda>_. seq_act (send_task (Delete p)) (\<lambda>go. ret_act (go, pd'))))
      | Renamed from to \<Rightarrow>
          (let pd' = pending_remove to (pending_remove from pd) in
           if offline then
             (case (strip_prefix (dp_local_root dp) from, strip_prefix (dp_local_root dp) to) of
                (Some rel_from, Some rel_to) \<Rightarrow>
                  seq_act (push_offline unix ''rename'' (path_string rel_to) (Some (path_string rel_from)))
                    (\<lambda>_. ret_act (True, pd'))
              | _ \<Rightarrow> ret_act (True, pd'))
           else seq_act (count_task 0) (\<lambda>_. seq_act (send_task (Rename from to)) (\<lambda>go. ret_act (go, pd')))))"

section \<open>Watcher: nothing is lost unless the flag is up\<close>

definition accepted :: "(string + event_kind \<times> path list) list \<Rightarrow> watch_event list" where
  "accepted rs = List.map_filter (\<lambda>r. case r of Inl _ \<Rightarrow> None | Inr (k, ps) \<Rightarrow> translate_event k ps) rs"

lemma on_notify_static [simp]:
  "wt_capacity (on_notify r wt) = wt_capacity wt" "wt_closed (on_notify r wt) = wt_closed wt"
  by (auto simp: on_notify_def try_send_def split: sum.splits option.splits)

lemma on_notify_overflow_stays: "wt_overflow wt \<Longrightarrow> wt_overflow (on_notify r wt)"
  by (auto simp: on_notify_def try_send_def split: sum.splits option.splits)

lemma fold_overflow_stays: "wt_overflow wt \<Longrightarrow> wt_overflow (fold on_notify rs wt)"
  by (induction rs arbitrary: wt) (auto intro: on_notify_overflow_stays)

lemma on_notify_channel:
  assumes "\<not> wt_overflow (on_notify r wt)"
  shows "wt_channel (on_notify r wt) = wt_channel wt @ accepted [r]"
  using assms
  by (auto simp: on_notify_def try_send_def accepted_def map_filter_simps split: sum.splits option.splits if_splits)

lemma accepted_Cons: "accepted (r # rs) = accepted [r] @ accepted rs"
  by (simp add: accepted_def map_filter_simps split: option.split)

lemma fold_on_notify_channel:
  "\<not> wt_overflow (fold on_notify rs wt) \<Longrightarrow> wt_channel (fold on_notify rs wt) = wt_channel wt @ accepted rs"
proof (induction rs arbitrary: wt)
  case Nil
  then show ?case by (simp add: accepted_def map_filter_simps)
next
  case (Cons r rs)
  then have "\<not> wt_overflow (on_notify r wt)" using fold_overflow_stays by fastforce
  with Cons show ?case using on_notify_channel accepted_Cons[of r rs] by simp
qed

section \<open>Dispatcher\<close>

text \<open>Which task an event stands for, and whether its paths are under the root.\<close>

fun event_task :: "watch_event \<Rightarrow> task" where
  "event_task (Modified p) = SyncFile p"
| "event_task (Deleted p) = Delete p"
| "event_task (Renamed from to) = Rename from to"

fun event_under :: "path \<Rightarrow> watch_event \<Rightarrow> bool" where
  "event_under base (Modified p) = (\<exists>r. p = base @ r \<and> rel_ok r)"
| "event_under base (Deleted p) = (\<exists>r. p = base @ r \<and> rel_ok r)"
| "event_under base (Renamed from to) =
     (\<exists>r r'. from = base @ r \<and> to = base @ r' \<and> rel_ok r \<and> rel_ok r')"

lemma push_offline_row:
  assumes "db_ok (w_db w)" "t_offline_queue (w_db w) = Some rows" "0 \<le> unix"
  shows "\<exists>w' row. push_offline unix action rel extra w = (Inr (), w') \<and>
    t_offline_queue (w_db w') = Some (rows @ [row]) \<and> ot_action row = action \<and>
    ot_relative_path row = rel \<and> ot_extra row = extra \<and>
    db_ok (w_db w') \<and> w_queue w' = w_queue w \<and> w_rx_life w' = w_rx_life w"
proof -
  have "\<not> mutex_poisoned (w_db w)" using assms(1) by (simp add: db_ok_def)
  then obtain i db where push: "db_push_offline_task unix action rel extra (w_db w) = Inr (i, db)"
    "\<exists>row. t_offline_queue db = Some (rows @ [row]) \<and> ot_action row = action \<and>
       ot_relative_path row = rel \<and> ot_extra row = extra"
    using assms by (auto simp: db_push_Inr_iff)
  then show ?thesis using db_push_ok[OF assms(1)] by (auto simp: push_offline_def)
qed

lemma event_offline_row:
  assumes ok: "db_ok (w_db w)" "t_offline_queue (w_db w) = Some rows" "0 \<le> unix"
    and under: "event_under (dp_local_root dp) ev" and ev: "\<And>p. ev \<noteq> Modified p"
  shows "\<exists>w' pd' row. dispatch_event dp True unix now ev pd w = (Inr (True, pd'), w') \<and>
    t_offline_queue (w_db w') = Some (rows @ [row]) \<and>
    task_of_offline (dp_local_root dp) row = Some (event_task ev) \<and>
    db_ok (w_db w') \<and> w_queue w' = w_queue w \<and> w_rx_life w' = w_rx_life w"
proof (cases ev)
  case (Modified p)
  with ev show ?thesis by blast
next
  case (Deleted p)
  with under obtain r where r: "p = dp_local_root dp @ r" "rel_ok r" by auto
  with push_offline_row[OF ok, of "''delete''" "path_string r" None] Deleted show ?thesis
    by (fastforce simp: dispatch_event_def seq_act_def ret_act_def task_of_offline_def Let_def join_rel_key)
next
  case (Renamed a b)
  with under obtain r r' where r: "a = dp_local_root dp @ r" "b = dp_local_root dp @ r'" "rel_ok r" "rel_ok r'"
    by auto
  with push_offline_row[OF ok, of "''rename''" "path_string r'" "Some (path_string r)"] Renamed show ?thesis
    by (fastforce simp: dispatch_event_def seq_act_def ret_act_def task_of_offline_def Let_def join_rel_key)
qed

lemma event_online_task:
  assumes "w_rx_life w = None" "\<And>p. ev \<noteq> Modified p"
  shows "\<exists>w' pd'. dispatch_event dp False unix now ev pd w = (Inr (True, pd'), w') \<and>
    w_queue w' = w_queue w @ [event_task ev] \<and> w_db w' = w_db w"
  using assms
  by (cases ev) (auto simp: dispatch_event_def seq_act_def ret_act_def count_task_def tracker_act_def
      send_task_def Let_def)

text \<open>A tick sends the quiet paths and forgets them.\<close>

lemma dispatch_paths_online:
  assumes "w_rx_life w = None" "\<And>p. p \<in> set ps \<Longrightarrow> \<not> offline p"
  shows "\<exists>w'. dispatch_paths dp offline unix ps pd w = (Inr (True, filter (\<lambda>(q, _). q \<notin> set ps) pd), w') \<and>
    w_queue w' = w_queue w @ map SyncFile ps \<and> w_db w' = w_db w"
  using assms
proof (induction ps arbitrary: w pd)
  case Nil
  then show ?case by (simp add: ret_act_def)
next
  case (Cons p ps)
  define w1 where "w1 = w\<lparr>w_tracker := (w_tracker w)\<lparr>tk_total_files := tk_total_files (w_tracker w) + 1,
     tk_total_bytes := tk_total_bytes (w_tracker w) + of_nat (disk_len p (dp_disk dp))\<rparr>,
     w_queue := w_queue w @ [SyncFile p]\<rparr>"
  have step: "dispatch_path dp (offline p) unix p w = (Inr True, w1)"
    using Cons.prems by (simp add: dispatch_path_def seq_act_def count_task_def tracker_act_def send_task_def w1_def)
  have "w_rx_life w1 = None" using Cons.prems(1) by (simp add: w1_def)
  with Cons obtain w' where
    "dispatch_paths dp offline unix ps (pending_remove p pd) w1 =
       (Inr (True, filter (\<lambda>(q, _). q \<notin> set ps) (pending_remove p pd)), w')"
    "w_queue w' = w_queue w1 @ map SyncFile ps" "w_db w' = w_db w1"
    by (metis list.set_intros(2))
  moreover have "filter (\<lambda>(q, _). q \<notin> set ps) (pending_remove p pd) = filter (\<lambda>(q, _). q \<notin> set (p # ps)) pd"
    by (auto simp: pending_remove_def intro: filter_cong)
  ultimately show ?case using step by (simp add: seq_act_def w1_def Let_def)
qed

lemma pending_insert_lookup:
  "(q, s) \<in> set (pending_insert p t pd) \<longleftrightarrow> (if q = p then s = t else (q, s) \<in> set pd)"
proof (cases "p \<in> fst ` set pd")
  case True
  then obtain s' where "(p, s') \<in> set pd" by auto
  have "(\<exists>x\<in>set pd. (q, s) = (case x of (q, s) \<Rightarrow> if q = p then (q, t) else (q, s))) \<longleftrightarrow>
      (if q = p then s = t else (q, s) \<in> set pd)"
    using \<open>(p, s') \<in> set pd\<close>
    by (cases "q = p") (auto split: if_splits intro!: bexI[of _ "if q = p then (p, s') else (q, s)"])
  with True show ?thesis by (simp add: pending_insert_def image_iff)
next
  case False
  then have "(p, s) \<notin> set pd" by force
  with False show ?thesis by (auto simp: pending_insert_def)
qed

lemma pending_insert_distinct: "distinct (map fst pd) \<Longrightarrow> distinct (map fst (pending_insert p t pd))"
proof -
  assume "distinct (map fst pd)"
  moreover have "map fst (map (\<lambda>(q, s). if q = p then (q, t) else (q, s)) pd) = map fst pd"
    by (induction pd) auto
  ultimately show ?thesis by (auto simp: pending_insert_def simp del: map_map)
qed

section \<open>Events in sequence\<close>

text \<open>The dispatcher's loop over the events it receives, at one time and with one offline flag.\<close>

fun dispatch_events :: "dispatcher \<Rightarrow> bool \<Rightarrow> int \<Rightarrow> nat \<Rightarrow> watch_event list \<Rightarrow> pending \<Rightarrow> ('p, bool \<times> pending) act" where
  "dispatch_events dp offline unix now [] pd = ret_act (True, pd)"
| "dispatch_events dp offline unix now (ev # evs) pd =
     seq_act (dispatch_event dp offline unix now ev pd) (\<lambda>(go, pd').
       if go then dispatch_events dp offline unix now evs pd' else ret_act (False, pd'))"

definition needs_no_wait :: "watch_event \<Rightarrow> bool" where
  "needs_no_wait ev = (case ev of Modified _ \<Rightarrow> False | _ \<Rightarrow> True)"

lemma needs_no_waitD: "needs_no_wait ev \<Longrightarrow> ev \<noteq> Modified p"
  by (auto simp: needs_no_wait_def)

lemma dispatch_event_life: "w_rx_life w = None \<Longrightarrow> w_rx_life (snd (dispatch_event dp False unix now ev pd w)) = None"
  by (cases ev) (auto simp: dispatch_event_def seq_act_def ret_act_def count_task_def tracker_act_def
      send_task_def Let_def)

lemma dispatch_events_online:
  assumes "w_rx_life w = None" "\<forall>ev \<in> set evs. needs_no_wait ev"
  shows "w_queue (snd (dispatch_events dp False unix now evs pd w)) = w_queue w @ map event_task evs"
  using assms
proof (induction evs arbitrary: w pd)
  case Nil
  then show ?case by (simp add: ret_act_def)
next
  case (Cons ev evs)
  then have "\<And>p. ev \<noteq> Modified p" by (auto dest: needs_no_waitD)
  with Cons.prems(1) obtain w1 pd1 where
    one: "dispatch_event dp False unix now ev pd w = (Inr (True, pd1), w1)" "w_queue w1 = w_queue w @ [event_task ev]"
    using event_online_task by metis
  moreover have "w_rx_life w1 = None" using dispatch_event_life[OF Cons.prems(1)] one(1) by (metis snd_conv)
  ultimately show ?case using Cons by (simp add: seq_act_def)
qed

lemma dispatch_events_offline:
  assumes "db_ok (w_db w)" "t_offline_queue (w_db w) = Some rows" "0 \<le> unix"
    and "\<forall>ev \<in> set evs. needs_no_wait ev \<and> event_under (dp_local_root dp) ev"
  shows "\<exists>w' pd' rows'. dispatch_events dp True unix now evs pd w = (Inr (True, pd'), w') \<and>
    t_offline_queue (w_db w') = Some (rows @ rows') \<and>
    map (task_of_offline (dp_local_root dp)) rows' = map (Some \<circ> event_task) evs \<and>
    db_ok (w_db w') \<and> w_queue w' = w_queue w \<and> w_rx_life w' = w_rx_life w"
  using assms
proof (induction evs arbitrary: w pd rows)
  case Nil
  then show ?case by (auto simp: ret_act_def)
next
  case (Cons ev evs)
  then have "\<And>p. ev \<noteq> Modified p" "event_under (dp_local_root dp) ev" by (auto dest: needs_no_waitD)
  from event_offline_row[OF Cons.prems(1-3) this(2,1)] obtain w1 pd1 row where
    one: "dispatch_event dp True unix now ev pd w = (Inr (True, pd1), w1)"
    "t_offline_queue (w_db w1) = Some (rows @ [row])"
    "task_of_offline (dp_local_root dp) row = Some (event_task ev)"
    "db_ok (w_db w1)" "w_queue w1 = w_queue w" "w_rx_life w1 = w_rx_life w" by metis
  from Cons.IH[OF one(4,2) Cons.prems(3)] Cons.prems(4) obtain w' pd' rows' where
    "dispatch_events dp True unix now evs pd1 w1 = (Inr (True, pd'), w')"
    "t_offline_queue (w_db w') = Some ((rows @ [row]) @ rows')"
    "map (task_of_offline (dp_local_root dp)) rows' = map (Some \<circ> event_task) evs"
    "db_ok (w_db w')" "w_queue w' = w_queue w1" "w_rx_life w' = w_rx_life w1"
    by fastforce
  with one show ?case
    by (intro exI[of _ w'] exI[of _ pd'] exI[of _ "row # rows'"]) (simp add: seq_act_def)
qed

lemma map_filter_all_Some: "map f xs = map (Some \<circ> g) ys \<Longrightarrow> List.map_filter f xs = map g ys"
proof (induction xs arbitrary: ys)
  case (Cons x xs)
  then show ?case by (cases ys) (auto simp: map_filter_simps)
qed (simp add: map_filter_simps)

lemma unsent_all_known: "(\<And>ot. ot \<in> set ots \<Longrightarrow> task_of_offline base ot \<noteq> None) \<Longrightarrow> unsent ots = []"
  using task_of_offline_Some_iff[of base] by (auto simp: unsent_def filter_empty_conv)

lemma offline_then_flush:
  assumes "db_ok (w_db w)" "t_offline_queue (w_db w) = Some []" "0 \<le> unix" "w_rx_life w = None"
    and "\<forall>ev \<in> set evs. needs_no_wait ev \<and> event_under (dp_local_root dp) ev"
    and "seq_act (dispatch_events dp True unix now evs pd) (\<lambda>_. flush_queue (dp_local_root dp)) w = (r, w')"
  shows "r = Inr () \<and> w_queue w' = w_queue (snd (dispatch_events dp False unix now evs pd w)) \<and>
    t_offline_queue (w_db w') = Some []"
proof -
  from dispatch_events_offline[OF assms(1,2,3,5), of now pd] obtain w1 pd1 rows where
    one: "dispatch_events dp True unix now evs pd w = (Inr (True, pd1), w1)"
    "t_offline_queue (w_db w1) = Some rows"
    "map (task_of_offline (dp_local_root dp)) rows = map (Some \<circ> event_task) evs"
    "db_ok (w_db w1)" "w_queue w1 = w_queue w" "w_rx_life w1 = w_rx_life w" by auto
  from flush_queue_ends[OF one(4,2), of "dp_local_root dp"] obtain w2 k where
    two: "flush_queue (dp_local_root dp) w1 = (Inr (), w2)" "flush_end (dp_local_root dp) [] rows w1 w2 k" by auto
  then have "k = length rows" using one(6) assms(4) by (simp add: flush_end_def)
  moreover have "ot \<in> set rows \<Longrightarrow> task_of_offline (dp_local_root dp) ot \<noteq> None" for ot
  proof -
    assume "ot \<in> set rows"
    then have "task_of_offline (dp_local_root dp) ot \<in> set (map (Some \<circ> event_task) evs)"
      unfolding one(3)[symmetric] by simp
    then show ?thesis by auto
  qed
  then have "unsent rows = []" by (rule unsent_all_known)
  ultimately show ?thesis
    using two one assms(4,5,6) dispatch_events_online[OF assms(4), of evs dp unix now pd] map_filter_all_Some[OF one(3)]
    by (auto simp: seq_act_def flush_end_def)
qed
text \<open>
  After any sequence of native events on a new watcher: either the overflow flag is up, or the
  channel holds exactly the translations of all of them in order.
\<close>

lemma no_event_is_lost_silently:
  "wt_overflow (fold on_notify rs (watcher_start n)) \<or>
   wt_channel (fold on_notify rs (watcher_start n)) = accepted rs"
  using fold_on_notify_channel[of rs "watcher_start n"] by (auto simp: watcher_start_def)

end
