(* ===== verification/Engine.thy ===== *)
theory Engine
  imports Scan Dispatch
begin

text \<open>
  \<open>engine/mod.rs\<close>: the orchestrator. Its \<open>select!\<close> loop is a step function: an event is the
  branch that fires, with what the outside world supplies; \<open>None\<close> means that the event cannot
  happen in the state. The tasks it spawns (workers, dispatcher, publisher) run between its own
  steps, each of theirs in one step.
\<close>

section \<open>Types\<close>

datatype engine_command =
    ForceScan
  | Shutdown
  | ApplyConfig app_config
  | Pause
  | Resume
  | OpenSettings
  | OpenHelp

record ('g, 's, 'p) engine_env =
  ev_provider :: "'p remote_provider"
  ev_md5 :: "string \<Rightarrow> string"
  ev_walk :: "disk \<Rightarrow> path \<Rightarrow> (path \<Rightarrow> bool \<Rightarrow> bool) \<Rightarrow> (string + dir_entry) list"
  ev_order :: "string list \<Rightarrow> string list"
  ev_globs :: "('g, 's) globset_crate"
  ev_watch :: "path \<Rightarrow> anyhow option"
  ev_pending_order :: "path list \<Rightarrow> path list"

text \<open>
  \<open>Stuck\<close>: a send into the full task channel waits for the loop that is doing the sending.
  \<open>Aborted\<close>: a panic.
\<close>

datatype engine_phase = Running | Returned "unit res" | Stuck | Aborted

text \<open>
  \<open>en_scan_cfg\<close> is the configuration captured in \<open>ctx\<close> when the engine starts; \<open>en_cfg\<close> is
  \<open>self.cfg\<close>, which \<open>ApplyConfig\<close> replaces. A job is a spawned worker: its task, the
  configuration and the patterns it captured.
\<close>

record 'p engine =
  en_world :: "'p world"
  en_cfg :: app_config
  en_scan_cfg :: app_config
  en_dry_run :: bool
  en_paused :: bool
  en_rescan_on_resume :: bool
  en_offline :: bool
  en_local_root :: path
  en_pending :: pending
  en_debounce :: nat
  en_permits :: nat
  en_rescan_enabled :: bool
  en_jobs :: "(task \<times> app_config \<times> string list) list"
  en_active :: nat
  en_phase :: engine_phase

definition task_capacity :: nat where
  "task_capacity = 1024"

text \<open>
  The tasks of \<open>w_queue\<close> beyond the capacity are those whose sender is still waiting. A sender
  that runs inside the loop, between \<open>w\<close> and \<open>w'\<close>, waits for ever: the loop is the receiver.
\<close>

definition blocks :: "'p world \<Rightarrow> 'p world \<Rightarrow> bool" where
  "blocks w w' = (w_queue w' \<noteq> w_queue w \<and> length (w_queue w') > task_capacity)"

definition engine_ctx :: "('g, 's, 'p) engine_env \<Rightarrow> app_config \<Rightarrow> bool \<Rightarrow> disk \<Rightarrow> 'p engine_context" where
  "engine_ctx env cfg dry dk = \<lparr>cx_cfg = cfg, cx_provider = ev_provider env, cx_dry_run = dry,
     cx_md5 = ev_md5 env, cx_disk = dk, cx_walk = ev_walk env dk, cx_order = ev_order env\<rparr>"

definition is_shutdown_err :: "anyhow \<Rightarrow> bool" where
  "is_shutdown_err e = list_ex (\<lambda>s. contains_str s ''shutdown'' \<or> contains_str s ''interrupted'') e"

definition send_st :: "engine_status \<Rightarrow> 'p engine \<Rightarrow> 'p engine" where
  "send_st s e = e\<lparr>en_world := snd (send_status s (en_world e))\<rparr>"

definition cancel_token :: "'p engine \<Rightarrow> 'p engine" where
  "cancel_token e = e\<lparr>en_world := (en_world e)\<lparr>w_cancel := Some 0\<rparr>\<rparr>"

definition finish :: "'p engine \<Rightarrow> 'p engine" where
  "finish e = (send_st Stopped e)\<lparr>en_phase := Returned (Inr ())\<rparr>"

definition return_err :: "anyhow \<Rightarrow> 'p engine \<Rightarrow> 'p engine" where
  "return_err m e = e\<lparr>en_phase := Returned (Inl m)\<rparr>"

definition no_folder_msg :: string where "no_folder_msg = ''Aucun dossier''"

definition no_folder_configured_msg :: string where
  "no_folder_configured_msg = ''Aucun dossier n'' @ [CHR 0x27] @ ''est configur'' @ e_acute @ ''!''"

definition offline_scan_msg :: string where
  "offline_scan_msg = ''Mode Hors-ligne (Scan initial '' @ e_acute @ ''chou'' @ e_acute @ '')''"

definition offline_net_msg :: string where
  "offline_net_msg = ''R'' @ e_acute @ ''seau indisponible (Mode Hors-ligne)''"

section \<open>Scans that can be interrupted\<close>

text \<open>
  The commands received while a scan runs: the first that cuts it, all others being dropped.
  \<open>Shutdown\<close> and a closed channel (\<open>None\<close>) cancel the token.
\<close>

fun first_cut :: "(engine_command \<Rightarrow> bool) \<Rightarrow> engine_command option list \<Rightarrow> engine_command option option" where
  "first_cut cuts [] = None"
| "first_cut cuts (c # cs) =
     (case c of
        None \<Rightarrow> Some None
      | Some k \<Rightarrow> if k = Shutdown \<or> cuts k then Some c else first_cut cuts cs)"

text \<open>
  A scan cut after \<open>n\<close> looks at the token has done what it would have done had the token been
  cancelled there; \<open>None\<close> when it ends before.
\<close>

definition cut_scan ::
  "'p engine_context \<Rightarrow> (path \<Rightarrow> bool \<Rightarrow> bool) \<Rightarrow> nat \<Rightarrow> 'p world \<Rightarrow> 'p world option" where
  "cut_scan cx ign n w =
     (case scan_run cx ign (w\<lparr>w_cancel := Some n\<rparr>) of (r, w') \<Rightarrow>
        if r \<in> {Inl [interrupted_msg], Inl [cancelled_msg], Inl [cancelled_retry_msg]}
           \<and> \<not> blocks w w'
        then Some (w'\<lparr>w_cancel := w_cancel w\<rparr>) else None)"

definition after_scan :: "unit res \<Rightarrow> 'p engine \<Rightarrow> 'p engine" where
  "after_scan r e =
     (case r of
        Inl m \<Rightarrow> if is_shutdown_err m then cancel_token e else send_st (StatusError (show_err m)) e
      | Inr _ \<Rightarrow> if tk_total_files (w_tracker (en_world e)) = 0 then send_st Idle e else e)"

definition pause_for :: "engine_status \<Rightarrow> 'p engine \<Rightarrow> 'p engine" where
  "pause_for s e = send_st s (e\<lparr>en_paused := True, en_rescan_on_resume := True\<rparr>)"

definition run_whole_scan ::
  "'p engine_context \<Rightarrow> (path \<Rightarrow> bool \<Rightarrow> bool) \<Rightarrow> (unit res \<Rightarrow> 'p engine \<Rightarrow> 'p engine) \<Rightarrow> 'p engine \<Rightarrow> 'p engine" where
  "run_whole_scan cx ign k e =
     (case scan_run cx ign (en_world e) of (r, w') \<Rightarrow>
        if blocks (en_world e) w' then e\<lparr>en_world := w', en_phase := Stuck\<rparr>
        else k r (e\<lparr>en_world := w'\<rparr>))"

definition apply_cut :: "engine_command option \<Rightarrow> 'p engine \<Rightarrow> 'p engine" where
  "apply_cut c e =
     (if c = Some Pause then pause_for StatusPaused e
      else if c = Some OpenSettings then pause_for StatusSettings e
      else cancel_token e)"

definition await_scan ::
  "'p engine_context \<Rightarrow> (path \<Rightarrow> bool \<Rightarrow> bool) \<Rightarrow> engine_command option list \<Rightarrow> nat \<Rightarrow> 'p engine \<Rightarrow> 'p engine option" where
  "await_scan cx ign cmds n e =
     (case first_cut (\<lambda>c. c \<in> {Pause, OpenSettings}) cmds of
        None \<Rightarrow> Some (run_whole_scan cx ign after_scan e)
      | Some c \<Rightarrow> map_option (\<lambda>w'. apply_cut c (e\<lparr>en_world := w'\<rparr>)) (cut_scan cx ign n (en_world e)))"

text \<open>
  What \<open>ForceScan\<close>, \<open>Resume\<close> and a new root share: the totals are reset, the patterns of
  the current configuration compiled, and the scan run on the captured context.
\<close>

definition start_scan ::
  "('g, 's, 'p) engine_env \<Rightarrow> disk \<Rightarrow> sync_pair option \<Rightarrow> engine_command option list \<Rightarrow> nat \<Rightarrow> 'p engine
   \<Rightarrow> 'p engine option" where
  "start_scan env dk pair cmds n e =
     (let e1 = send_st (Syncing 0) (e\<lparr>en_world := (en_world e)\<lparr>w_tracker :=
                 (w_tracker (en_world e))\<lparr>tk_total_files := 0\<rparr>\<rparr>\<rparr>) in
      case pair of
        None \<Rightarrow> Some (return_err [no_folder_msg] e1)
      | Some p \<Rightarrow>
          (case from_patterns (ev_globs env) (sp_ignore_patterns p) of
             Inl m \<Rightarrow> Some (return_err m e1)
           | Inr gs \<Rightarrow>
               await_scan (engine_ctx env (en_scan_cfg e1) (en_dry_run e1) dk) (is_ignored (ev_globs env) gs) cmds n e1))"

section \<open>Starting\<close>

definition engine_new :: "app_config \<Rightarrow> bool \<Rightarrow> 'p \<Rightarrow> database \<Rightarrow> 'p engine" where
  "engine_new cfg dry drive db =
     \<lparr>en_world = \<lparr>w_drive = drive, w_db = db, w_cache = pc_new, w_tracker = tracker_new, w_cancel = None,
        w_queue = [], w_rx_life = None, w_status = [Starting 25, Starting 50, Starting 75]\<rparr>,
      en_cfg = cfg, en_scan_cfg = cfg, en_dry_run = dry, en_paused = False, en_rescan_on_resume = False,
      en_offline = False, en_local_root = [], en_pending = [], en_debounce = 0, en_permits = 0,
      en_rescan_enabled = False, en_jobs = [], en_active = 0, en_phase = Running\<rparr>"

text \<open>The \<open>biased\<close> select looks at the token before it looks at the scan.\<close>

definition after_initial_scan :: "unit res \<Rightarrow> 'p engine \<Rightarrow> 'p engine" where
  "after_initial_scan r e =
     (case r of
        Inr _ \<Rightarrow> e
      | Inl m \<Rightarrow> if is_shutdown_err m \<or> w_cancel (en_world e) = Some 0 then finish e
          else send_st (StatusError offline_scan_msg) (e\<lparr>en_offline := True\<rparr>))"

definition apply_initial_cut :: "engine_command option \<Rightarrow> 'p engine \<Rightarrow> 'p engine" where
  "apply_initial_cut c e =
     (if c = Some Pause then pause_for StatusPaused e
      else if c = Some OpenSettings then pause_for StatusSettings e
      else if c = Some OpenHelp then pause_for StatusHelp e
      else finish (cancel_token e))"

definition initial_scan ::
  "'p engine_context \<Rightarrow> (path \<Rightarrow> bool \<Rightarrow> bool) \<Rightarrow> engine_command option list \<Rightarrow> nat \<Rightarrow> 'p engine \<Rightarrow> 'p engine option" where
  "initial_scan cx ign cmds n e =
     (case first_cut (\<lambda>c. c \<in> {Pause, OpenSettings, OpenHelp}) cmds of
        None \<Rightarrow> Some (run_whole_scan cx ign after_initial_scan e)
      | Some c \<Rightarrow> map_option (\<lambda>w'. apply_initial_cut c (e\<lparr>en_world := w'\<rparr>)) (cut_scan cx ign n (en_world e)))"

text \<open>After the initial scan: the watcher, the dispatcher, the semaphore and the timers.\<close>

definition enter_loop :: "('g, 's, 'p) engine_env \<Rightarrow> sync_pair \<Rightarrow> 'p engine \<Rightarrow> 'p engine" where
  "enter_loop env primary e =
     (if en_phase e \<noteq> Running then e
      else let e1 = (if \<not> en_paused e \<and> \<not> en_offline e then send_st Idle e else e);
               base = pair_base primary in
        case ev_watch env base of
          Some m \<Rightarrow> return_err m e1
        | None \<Rightarrow> e1\<lparr>en_local_root := base, en_pending := [],
            en_debounce := unat (av_debounce_ms (cf_advanced (en_cfg e1))),
            en_permits := max 1 (unat (cf_max_workers (en_cfg e1))),
            en_rescan_enabled := (cf_rescan_interval_min (en_cfg e1) > 0)\<rparr>)"

definition run_with_provider ::
  "('g, 's, 'p) engine_env \<Rightarrow> disk \<Rightarrow> engine_command option list \<Rightarrow> nat \<Rightarrow> 'p engine \<Rightarrow> 'p engine option" where
  "run_with_provider env dk cmds n e =
     (case get_primary_pair (en_cfg e) of
        None \<Rightarrow> Some (return_err [no_folder_configured_msg] e)
      | Some primary \<Rightarrow>
          (case from_patterns (ev_globs env) (sp_ignore_patterns primary) of
             Inl m \<Rightarrow> Some (return_err m e)
           | Inr gs \<Rightarrow>
               map_option (enter_loop env primary)
                 (initial_scan (engine_ctx env (en_cfg e) (en_dry_run e) dk) (is_ignored (ev_globs env) gs) cmds n
                   (send_st (Syncing 0) (send_st (Starting 100) e)))))"

section \<open>Commands\<close>

text \<open>The status sent after a command, unless the loop was left.\<close>

definition idle_if_running :: "'p engine \<Rightarrow> 'p engine" where
  "idle_if_running e = (if en_phase e = Running then send_st Idle e else e)"

definition rewatch :: "('g, 's, 'p) engine_env \<Rightarrow> path \<Rightarrow> 'p engine \<Rightarrow> 'p engine" where
  "rewatch env base e =
     (let e1 = e\<lparr>en_local_root := base\<rparr> in
      case db_act db_clear (en_world e1) of
        (Inl m, w) \<Rightarrow> return_err m (e1\<lparr>en_world := w\<rparr>)
      | (Inr _, w) \<Rightarrow>
          (case db_act db_clear_dirs w of
             (Inl m, w') \<Rightarrow> return_err m (e1\<lparr>en_world := w'\<rparr>)
           | (Inr _, w') \<Rightarrow>
               (case ev_watch env base of
                  Some m \<Rightarrow> return_err m (e1\<lparr>en_world := w'\<rparr>)
                | None \<Rightarrow> e1\<lparr>en_world := w', en_pending := [],
                    en_debounce := unat (av_debounce_ms (cf_advanced (en_cfg e1)))\<rparr>)))"

definition on_command_paused ::
  "('g, 's, 'p) engine_env \<Rightarrow> disk \<Rightarrow> engine_command option \<Rightarrow> engine_command option list \<Rightarrow> nat \<Rightarrow> 'p engine
   \<Rightarrow> 'p engine option" where
  "on_command_paused env dk c cmds n e =
     (case c of
        None \<Rightarrow> Some (finish (cancel_token e))
      | Some Shutdown \<Rightarrow> Some (finish (cancel_token e))
      | Some Resume \<Rightarrow>
          (let e1 = e\<lparr>en_paused := False\<rparr> in
           if en_rescan_on_resume e1 \<and> \<not> en_offline e1
           then map_option idle_if_running
             (start_scan env dk (get_primary_pair (en_cfg e1)) cmds n (e1\<lparr>en_rescan_on_resume := False\<rparr>))
           else Some (send_st Idle e1))
      | Some (ApplyConfig new_cfg) \<Rightarrow>
          (case get_primary_pair new_cfg of
             None \<Rightarrow> Some (return_err [no_folder_configured_msg] e)
           | Some new_primary \<Rightarrow>
               (let root_changed = (pair_base new_primary \<noteq> en_local_root e);
                    e1 = e\<lparr>en_cfg := new_cfg, en_rescan_on_resume := True\<rparr> in
                Some (if root_changed then rewatch env (pair_base new_primary) e1 else e1)))
      | Some OpenSettings \<Rightarrow> Some (send_st StatusSettings e)
      | Some OpenHelp \<Rightarrow> Some (send_st StatusHelp e)
      | Some _ \<Rightarrow> Some e)"

definition on_command ::
  "('g, 's, 'p) engine_env \<Rightarrow> disk \<Rightarrow> engine_command option \<Rightarrow> engine_command option list \<Rightarrow> nat \<Rightarrow> 'p engine
   \<Rightarrow> 'p engine option" where
  "on_command env dk c cmds n e =
     (case c of
        None \<Rightarrow> Some (finish (cancel_token e))
      | Some Shutdown \<Rightarrow> Some (finish (cancel_token e))
      | Some Pause \<Rightarrow> Some (send_st StatusPaused (e\<lparr>en_paused := True\<rparr>))
      | Some Resume \<Rightarrow> Some e
      | Some ForceScan \<Rightarrow>
          if en_offline e then Some e else start_scan env dk (get_primary_pair (en_cfg e)) cmds n e
      | Some (ApplyConfig new_cfg) \<Rightarrow>
          (case get_primary_pair new_cfg of
             None \<Rightarrow> Some (return_err [''Pas de dossier''] e)
           | Some new_primary \<Rightarrow>
               (let root_changed = (pair_base new_primary \<noteq> en_local_root e);
                    e1 = e\<lparr>en_cfg := new_cfg\<rparr> in
                if \<not> root_changed then Some (idle_if_running e1)
                else let e2 = rewatch env (pair_base new_primary) e1 in
                  if en_phase e2 \<noteq> Running \<or> en_offline e2 then Some (idle_if_running e2)
                  else map_option idle_if_running (start_scan env dk (Some new_primary) cmds n e2)))
      | Some OpenHelp \<Rightarrow> Some (send_st StatusHelp (e\<lparr>en_paused := True\<rparr>))
      | Some OpenSettings \<Rightarrow> Some (send_st StatusSettings (e\<lparr>en_paused := True\<rparr>)))"

section \<open>Health, rescans and tasks\<close>

definition flush_now :: "'p engine \<Rightarrow> 'p engine" where
  "flush_now e =
     (case flush_queue (en_local_root e) (en_world e) of (_, w) \<Rightarrow>
        if blocks (en_world e) w then e\<lparr>en_world := w, en_phase := Stuck\<rparr>
        else e\<lparr>en_world := w\<rparr>)"

definition on_health :: "('g, 's, 'p) engine_env \<Rightarrow> 'p engine \<Rightarrow> 'p engine" where
  "on_health env e =
     (case drive_act (rp_check_health (ev_provider env)) (en_world e) of (r, w1) \<Rightarrow>
      let e1 = e\<lparr>en_world := w1\<rparr>;
          up = (case r of Inr (HealthOk _ _ _) \<Rightarrow> True | Inr AuthExpired \<Rightarrow> True | _ \<Rightarrow> False) in
      if up then
        (if en_offline e1
         then (case drive_act (rp_refresh_auth (ev_provider env)) w1 of (_, w2) \<Rightarrow>
                 flush_now (send_st Idle (e1\<lparr>en_world := w2, en_offline := False\<rparr>)))
         else e1)
      else if \<not> en_offline e1 then send_st (StatusError offline_net_msg) (e1\<lparr>en_offline := True\<rparr>)
      else e1)"

definition after_rescan :: "unit res \<Rightarrow> 'p engine \<Rightarrow> 'p engine" where
  "after_rescan r e =
     (case r of
        Inl m \<Rightarrow> if is_shutdown_err m then finish (cancel_token e) else send_st (StatusError (show_err m)) e
      | Inr _ \<Rightarrow> if tk_total_files (w_tracker (en_world e)) = 0 then send_st Idle e else e)"

definition on_rescan :: "('g, 's, 'p) engine_env \<Rightarrow> disk \<Rightarrow> 'p engine \<Rightarrow> 'p engine" where
  "on_rescan env dk e =
     (if en_offline e then e
      else let e1 = send_st (Syncing 0) (e\<lparr>en_world := (en_world e)\<lparr>w_tracker :=
                      (w_tracker (en_world e))\<lparr>tk_total_files := 0\<rparr>\<rparr>\<rparr>) in
        case get_primary_pair (en_cfg e1) of
          None \<Rightarrow> return_err [no_folder_msg] e1
        | Some p \<Rightarrow>
            (case from_patterns (ev_globs env) (sp_ignore_patterns p) of
               Inl m \<Rightarrow> return_err m e1
             | Inr gs \<Rightarrow>
                 run_whole_scan (engine_ctx env (en_scan_cfg e1) (en_dry_run e1) dk)
                   (is_ignored (ev_globs env) gs) after_rescan e1))"

text \<open>
  A task leaves the channel when a permit is free; the worker is spawned with the current
  configuration.
\<close>

definition on_task :: "'p engine \<Rightarrow> 'p engine option" where
  "on_task e =
     (case w_queue (en_world e) of
        [] \<Rightarrow> None
      | t # ts \<Rightarrow>
          if length (en_jobs e) \<ge> en_permits e then None
          else (let e1 = e\<lparr>en_world := (en_world e)\<lparr>w_queue := ts\<rparr>\<rparr> in
            case get_primary_pair (en_cfg e1) of
              None \<Rightarrow> Some (return_err [no_folder_msg] e1)
            | Some p \<Rightarrow> Some (e1\<lparr>en_active := Suc (en_active e1),
                en_jobs := en_jobs e1 @ [(t, en_cfg e1, sp_ignore_patterns p)]\<rparr>)))"

definition job_done :: "nat \<Rightarrow> 'p engine \<Rightarrow> 'p engine" where
  "job_done i e =
     (let w = en_world e; prev = en_active e;
          e1 = e\<lparr>en_world := w\<lparr>w_tracker := (w_tracker w)\<lparr>tk_done_files := tk_done_files (w_tracker w) + 1\<rparr>\<rparr>,
                 en_active := prev - 1, en_jobs := take i (en_jobs e) @ drop (Suc i) (en_jobs e)\<rparr> in
      if prev = 1 then send_st Idle e1 else e1)"

definition report_err :: "anyhow \<Rightarrow> 'p engine \<Rightarrow> 'p engine" where
  "report_err m e =
     (if is_shutdown_err m then e
      else case is_cancelled (en_world e) of
        (Inr False, w) \<Rightarrow> send_st (StatusError (show_err m)) (e\<lparr>en_world := w\<rparr>)
      | (_, w) \<Rightarrow> e\<lparr>en_world := w\<rparr>)"

definition run_job :: "('g, 's, 'p) engine_env \<Rightarrow> disk \<Rightarrow> nat \<Rightarrow> 'p engine \<Rightarrow> 'p engine option" where
  "run_job env dk i e =
     (if i \<ge> length (en_jobs e) then None
      else case en_jobs e ! i of (t, cfg, pats) \<Rightarrow>
        (case is_cancelled (en_world e) of
           (Inr False, w) \<Rightarrow>
             (let e1 = e\<lparr>en_world := w\<rparr> in
              case from_patterns (ev_globs env) pats of
                Inl _ \<Rightarrow> Some (e1\<lparr>en_phase := Aborted\<rparr>)
              | Inr gs \<Rightarrow>
                  (case handle (engine_ctx env cfg (en_dry_run e1) dk) (is_ignored (ev_globs env) gs) t w of
                     (Inr _, w') \<Rightarrow> Some (job_done i (e1\<lparr>en_world := w'\<rparr>))
                   | (Inl m, w') \<Rightarrow> Some (job_done i (report_err m (e1\<lparr>en_world := w'\<rparr>)))))
         | (_, w) \<Rightarrow> Some (job_done i (e\<lparr>en_world := w\<rparr>))))"

definition publish_progress :: "'p engine \<Rightarrow> 'p engine" where
  "publish_progress e =
     (let snap = snapshot (w_tracker (en_world e)) in
      if ps_total_files snap > 0 \<and> ps_done_files snap < ps_total_files snap
      then send_st (SyncProgress snap) e else e)"

section \<open>One step\<close>

datatype engine_event =
    MainCommand "engine_command option" "engine_command option list" nat disk
  | MainHealth
  | MainRescan disk
  | MainTask
  | MainStop
  | BgJob nat disk
  | BgTick int nat disk
  | BgNotify int nat disk watch_event
  | BgPublish

definition engine_dispatcher :: "('g, 's, 'p) engine_env \<Rightarrow> disk \<Rightarrow> 'p engine \<Rightarrow> dispatcher" where
  "engine_dispatcher env dk e = \<lparr>dp_local_root = en_local_root e, dp_debounce_ms = en_debounce e,
     dp_disk = dk, dp_order = ev_pending_order env\<rparr>"

definition put_dispatch :: "(bool \<times> pending) res \<times> 'p world \<Rightarrow> 'p engine \<Rightarrow> 'p engine option" where
  "put_dispatch r e =
     (case r of
        (Inr (_, pd), w) \<Rightarrow> Some (e\<lparr>en_world := w, en_pending := pd\<rparr>)
      | (Inl _, w) \<Rightarrow> None)"

text \<open>The top of the loop, then the branch: the select is \<open>biased\<close> towards the token.\<close>

definition main_step :: "('p engine \<Rightarrow> 'p engine option) \<Rightarrow> 'p engine \<Rightarrow> 'p engine option" where
  "main_step k e =
     (if en_phase e \<noteq> Running then None
      else case is_cancelled (en_world e) of
        (Inr False, w) \<Rightarrow> k (e\<lparr>en_world := w\<rparr>)
      | (_, w) \<Rightarrow> Some (finish (e\<lparr>en_world := w\<rparr>)))"

definition bg_step :: "'p engine option \<Rightarrow> 'p engine \<Rightarrow> 'p engine option" where
  "bg_step r e = (if en_phase e = Aborted then None else r)"

text \<open>The dispatcher and the publisher stop with the token; a job runs to its end.\<close>

definition engine_step :: "('g, 's, 'p) engine_env \<Rightarrow> engine_event \<Rightarrow> 'p engine \<Rightarrow> 'p engine option" where
  "engine_step env ev e =
     (case ev of
        MainCommand c cmds n dk \<Rightarrow>
          main_step (\<lambda>e. if en_paused e then on_command_paused env dk c cmds n e
                         else on_command env dk c cmds n e) e
      | MainHealth \<Rightarrow> main_step (\<lambda>e. if en_paused e then None else Some (on_health env e)) e
      | MainRescan dk \<Rightarrow>
          main_step (\<lambda>e. if en_paused e \<or> \<not> en_rescan_enabled e then None else Some (on_rescan env dk e)) e
      | MainTask \<Rightarrow> main_step (\<lambda>e. if en_paused e then None else on_task e) e
      | MainStop \<Rightarrow> main_step (\<lambda>e. None) e
      | BgJob i dk \<Rightarrow> bg_step (run_job env dk i e) e
      | BgTick unix now dk \<Rightarrow>
          if w_cancel (en_world e) = Some 0 then None
          else bg_step (put_dispatch (dispatch_tick (engine_dispatcher env dk e)
                 (\<lambda>_. en_offline e) unix now (en_pending e) (en_world e)) e) e
      | BgNotify unix now dk we \<Rightarrow>
          if w_cancel (en_world e) = Some 0 then None
          else bg_step (put_dispatch (dispatch_event (engine_dispatcher env dk e)
                 (en_offline e) unix now we (en_pending e) (en_world e)) e) e
      | BgPublish \<Rightarrow>
          if w_cancel (en_world e) = Some 0 then None else bg_step (Some (publish_progress e)) e)"

text \<open>The states the engine can be in, from its start.\<close>

inductive engine_reach :: "('g, 's, 'p) engine_env \<Rightarrow> 'p engine \<Rightarrow> 'p engine \<Rightarrow> bool"
  for env :: "('g, 's, 'p) engine_env" and e0 :: "'p engine" where
  start: "engine_reach env e0 e0"
| step: "engine_reach env e0 e \<Longrightarrow> engine_step env ev e = Some e' \<Longrightarrow> engine_reach env e0 e'"

inductive_cases engine_reachE: "engine_reach env e0 e"

section \<open>The engine without a configuration\<close>

text \<open>The token being cancelled ends the wait as a closed command channel does.\<close>

datatype unconfigured_outcome =
    Waiting "engine_status list"
  | StartEngine app_config "engine_status list"
  | GaveUp anyhow "engine_status list"
  | Ended "engine_status list"

definition unconfigured_step ::
  "disk \<Rightarrow> engine_command option \<Rightarrow> engine_status list \<Rightarrow> unconfigured_outcome" where
  "unconfigured_step dk c sent =
     (case c of
        None \<Rightarrow> Ended (sent @ [Stopped])
      | Some Shutdown \<Rightarrow> Ended (sent @ [Stopped])
      | Some (ApplyConfig cfg) \<Rightarrow>
          (case get_primary_pair cfg of
             None \<Rightarrow> GaveUp [no_folder_configured_msg] sent
           | Some _ \<Rightarrow>
               (case app_validate dk cfg of
                  Inl m \<Rightarrow> Waiting (sent @ [Unconfigured (show_config_error m)])
                | Inr _ \<Rightarrow> StartEngine cfg sent))
      | Some _ \<Rightarrow> Waiting sent)"

fun run_unconfigured :: "disk \<Rightarrow> engine_command option list \<Rightarrow> engine_status list \<Rightarrow> unconfigured_outcome" where
  "run_unconfigured dk [] sent = Waiting sent"
| "run_unconfigured dk (c # cs) sent =
     (case unconfigured_step dk c sent of
        Waiting sent' \<Rightarrow> run_unconfigured dk cs sent'
      | r \<Rightarrow> r)"

end
