(* ===== verification/Worker_Laws.thy ===== *)
theory Worker_Laws
  imports Worker
begin

text \<open>
  Facts about \<open>worker.rs\<close>: the frame of a task, how many tries an upload makes, what a
  finished upload guarantees, and what deletion and renaming leave behind.
\<close>

section \<open>The frame of a task\<close>

text \<open>A relation that the calls a task makes keep, is kept by the task.\<close>

locale task_frame = frame R for R :: "'p world \<Rightarrow> 'p world \<Rightarrow> bool" +
  fixes cx :: "'p engine_context"
  assumes R_upload: "R w (snd (upload_from cx 1 p pid nm prev w))"
    and R_delete: "R w (snd (retry cx (drive_act (\<lambda>d. rp_delete (cx_provider cx) d i)) w))"
    and R_rename: "R w (snd (retry cx (drive_act (\<lambda>d. rp_rename (cx_provider cx) d i n q)) w))"
    and R_cache: "R w (w\<lparr>w_cache := c\<rparr>)"
    and R_tracker: "R w (w\<lparr>w_tracker := tk\<rparr>)"
    and R_upsert: "db_upsert e (w_db w) = Inr db \<Longrightarrow> R w (w\<lparr>w_db := db\<rparr>)"
    and R_db_delete: "db_delete r (w_db w) = Inr db \<Longrightarrow> R w (w\<lparr>w_db := db\<rparr>)"
    and R_db_rename: "db_rename r r' (w_db w) = Inr db \<Longrightarrow> R w (w\<lparr>w_db := db\<rparr>)"
begin

lemma kept_calls:
  "kept (upload_from cx 1 p pid nm prev)"
  "kept (retry cx (drive_act (\<lambda>d. rp_delete (cx_provider cx) d i)))"
  "kept (retry cx (drive_act (\<lambda>d. rp_rename (cx_provider cx) d i n q)))"
  "kept (cache_act f)" "kept (set_current p nm sz)"
  "kept (db_act (db_upsert e))" "kept (db_act (db_delete r))" "kept (db_act (db_rename r r'))"
  using R_upload R_delete R_rename R_cache R_tracker R_upsert R_db_delete R_db_rename R_refl
  unfolding kept_def by (simp_all add: act_simps db_act_def set_current_def Let_def split: sum.splits)

lemma kept_sync_file: "kept (sync_file cx ign p)"
  unfolding sync_file_def sync_hashed_def sync_upload_def commit_upload_def primary_pair_def
    index_hit_def parent_folder_id_def Let_def
  by (intro kept_seq_act kept_calls kept_pure kept_is_cancelled kept_cond | rule kept_pure
      | simp split: option.split sum.split, intro conjI allI impI)+

lemma kept_handle: "kept (handle cx ign t)"
proof -
  have d: "kept (delete_file cx ign p)" for p
    unfolding delete_file_def primary_pair_def
    by (intro kept_seq_act kept_calls kept_pure kept_cond
      | simp split: option.split sum.split, intro conjI allI impI)+
  have r: "kept (rename_file cx ign a b)" for a b
    unfolding rename_file_def rename_known_def primary_pair_def parent_folder_id_def Let_def
    by (intro kept_seq_act kept_calls kept_pure kept_cond kept_sync_file
      | simp split: option.split sum.split, intro conjI allI impI)+
  show ?thesis unfolding handle_def using kept_sync_file d r kept_pure by (auto split: task.split)
qed

end

section \<open>The upload loop, one turn at a time\<close>

lemma upload_from_cases:
  obtains
    (cancelled) "is_cancelled w = (Inr True, w)"
      "upload_from cx attempt p pid nm prev w = (bail cancelled_msg, w)"
  | (verified) w1 up w2 where "is_cancelled w = (Inr False, w1)"
      "upload_once cx p pid nm prev w1 = (Inr up, w2)" "verify_upload cx p up = Inr IntegrityOk"
      "upload_from cx attempt p pid nm prev w = (Inr up, w2)"
  | (failed) w1 q w2 e where "is_cancelled w = (Inr False, w1)"
      "upload_once cx p pid nm prev w1 = (q, w2)"
      "upload_from cx attempt p pid nm prev w = (Inl e, w2)"
  | (again) w1 q w2 w3 prev' where "is_cancelled w = (Inr False, w1)"
      "upload_once cx p pid nm prev w1 = (q, w2)" "is_cancelled w2 = (Inr False, w3)"
      "attempt < max_attempts cx"
      "upload_from cx attempt p pid nm prev w = upload_from cx (Suc attempt) p pid nm prev' w3"
proof -
  let ?r = "upload_from cx attempt p pid nm prev w"
  note step = upload_from.simps[of cx attempt p pid nm prev w]
  consider (yes) "is_cancelled w = (Inr True, w)" | (no) w1 where "is_cancelled w = (Inr False, w1)"
    by (cases w rule: is_cancelled_cases) auto
  then show thesis
  proof cases
    case yes
    then show thesis by (intro cancelled) (simp_all add: step)
  next
    case (no w1)
    obtain q w2 where up: "upload_once cx p pid nm prev w1 = (q, w2)" by fastforce
    consider (ok) u where "q = Inr u" "verify_upload cx p u = Inr IntegrityOk"
      | (bad) "\<And>u. q = Inr u \<Longrightarrow> verify_upload cx p u \<noteq> Inr IntegrityOk" by blast
    then show thesis
    proof cases
      case (ok u)
      with no up show thesis by (intro verified[of w1 u w2]) (simp_all add: step)
    next
      case bad
      show thesis
      proof (cases "attempt < max_attempts cx \<and> fst (is_cancelled w2) = Inr False")
        case False
        then have "\<exists>e. ?r = (Inl e, w2)"
          using no up bad by (cases q; cases w2 rule: is_cancelled_cases) (simp_all add: step bail_def)
        then show thesis using failed[OF no up] by blast
      next
        case True
        then obtain w3 where w3: "is_cancelled w2 = (Inr False, w3)" by (metis prod.collapse)
        have "\<exists>prev'. ?r = upload_from cx (Suc attempt) p pid nm prev' w3"
          using no up bad True w3 by (cases q) (auto simp: step)
        then show thesis using again[OF no up w3] True by blast
      qed
    qed
  qed
qed

lemma upload_once_world:
  "upload_once cx p pid nm prev w = (q, w') \<Longrightarrow>
   \<exists>d tk. w' = w\<lparr>w_drive := d, w_tracker := tk\<rparr> \<and>
     rp_upload (cx_provider cx) (w_drive w) p pid nm prev (w_tracker w) = (q, d, tk)"
  by (auto simp: upload_once_def split: prod.splits)

context frame
begin

lemma kept_upload_from:
  assumes up: "\<And>w d tk. R w (w\<lparr>w_drive := d, w_tracker := tk\<rparr>)"
  shows "R w (snd (upload_from cx attempt p pid nm prev w))"
proof (induction "max_attempts cx - attempt" arbitrary: attempt prev w rule: less_induct)
  case less
  have once: "R a b" if "upload_once cx p pid nm prev a = (q, b)" for a b q
    using upload_once_world[OF that] up by blast
  have look: "R a b" if "is_cancelled a = (r, b)" for a b r
    using keptD[OF kept_is_cancelled that] .
  show ?case
  proof (cases rule: upload_from_cases[of w cx attempt p pid nm prev])
    case cancelled
    then show ?thesis by (simp add: R_refl)
  next
    case (verified w1 up w2)
    then show ?thesis using R_trans[OF look[OF verified(1)] once[OF verified(2)]] by simp
  next
    case (failed w1 q w2 e)
    then show ?thesis using R_trans[OF look[OF failed(1)] once[OF failed(2)]] by simp
  next
    case (again w1 q w2 w3 prev')
    then have "R w w3" using look once by (blast intro: R_trans)
    moreover have "R w3 (snd (upload_from cx (Suc attempt) p pid nm prev' w3))"
      using again(4) by (intro less) simp
    ultimately show ?thesis using again(5) R_trans by simp
  qed
qed

lemma kept_drive_act: "(\<And>w d. R w (w\<lparr>w_drive := d\<rparr>)) \<Longrightarrow> kept (drive_act f)"
  unfolding kept_def drive_act_def by (auto split: prod.splits)

end

interpretation db_task: task_frame db_ok_kept cx for cx
proof
  show "db_ok_kept w (snd (upload_from cx 1 p pid nm prev w))" for w p pid nm prev
    by (rule db_frame.kept_upload_from) (simp add: db_ok_kept_def)
  have call: "db_frame.kept (retry cx (drive_act f))" for f :: "'a \<Rightarrow> unit res \<times> 'a"
    by (intro db_frame.kept_retry db_frame.kept_drive_act) (simp add: db_ok_kept_def)
  show "db_ok_kept w (snd (retry cx (drive_act (\<lambda>d. rp_delete (cx_provider cx) d i)) w))"
    "db_ok_kept w (snd (retry cx (drive_act (\<lambda>d. rp_rename (cx_provider cx) d i n q)) w))" for w i n q
    using call unfolding db_frame.kept_def by blast+
qed (auto simp: db_ok_kept_def intro: db_upsert_ok db_delete_ok db_rename_ok)

lemma upload_from_stopped:
  "w_cancel w = Some 0 \<Longrightarrow> upload_from cx attempt p pid nm prev w = (bail cancelled_msg, w)"
  by (subst upload_from.simps) simp

interpretation stop_task: task_frame stopped_kept cx for cx
  by unfold_locales (auto simp: stopped_kept_def upload_from_stopped retry_stopped)


section \<open>The index and the cache are not touched by calls to the drive\<close>

definition records_kept :: "'p world \<Rightarrow> 'p world \<Rightarrow> bool" where
  "records_kept w w' = (w_db w' = w_db w \<and> w_cache w' = w_cache w)"

interpretation rec_frame: frame records_kept
  by unfold_locales (auto simp: records_kept_def)

lemma retry_records:
  assumes "retry cx (drive_act f) w = (r, w')"
  shows "w_db w' = w_db w" "w_cache w' = w_cache w"
proof -
  have "rec_frame.kept (retry cx (drive_act f))"
    by (intro rec_frame.kept_retry rec_frame.kept_drive_act) (simp add: records_kept_def)
  from rec_frame.keptD[OF this assms] show "w_db w' = w_db w" "w_cache w' = w_cache w"
    by (simp_all add: records_kept_def)
qed

lemma upload_from_records:
  assumes "upload_from cx attempt p pid nm prev w = (r, w')"
  shows "w_db w' = w_db w" "w_cache w' = w_cache w"
proof -
  have "records_kept w (snd (upload_from cx attempt p pid nm prev w))"
    by (rule rec_frame.kept_upload_from) (simp add: records_kept_def)
  with assms show "w_db w' = w_db w" "w_cache w' = w_cache w"
    by (simp_all add: records_kept_def)
qed

lemma db_get_after_upsert: "db_upsert e db = Inr db' \<Longrightarrow> db_get db' (fe_path e) = Inr (Some e)"
  by (auto simp: db_upsert_def db_get_def with_table_Inr_iff select_upsert_row)

lemma db_get_after_delete: "db_delete p db = Inr db' \<Longrightarrow> db_get db' p = Inr None"
  by (auto simp: db_delete_def db_get_def with_table_Inr_iff select_delete_rows)

lemma db_get_after_rename:
  assumes "db_rename a b db = Inr db'" "db_get db a = Inr (Some e)"
  shows "db_get db' b = Inr (Some (e\<lparr>fe_path := b\<rparr>))" "a \<noteq> b \<Longrightarrow> db_get db' a = Inr None"
proof -
  from assms obtain rows where r: "\<not> mutex_poisoned db" "t_file_index db = Some rows"
    "select_row fe_path a rows = Some e" "a \<noteq> b \<longrightarrow> b \<notin> fe_path ` set rows"
    "db' = db\<lparr>t_file_index := Some (map (\<lambda>e. if fe_path e = a then e\<lparr>fe_path := b\<rparr> else e) rows)\<rparr>"
    by (auto simp: db_rename_def db_get_def with_table_Inr_iff split: if_splits dest: select_row_key)
  have same: "map (\<lambda>e. if fe_path e = b then e\<lparr>fe_path := b\<rparr> else e) rows = rows"
    by (intro map_idI) auto
  have e: "fe_path e = b \<Longrightarrow> e\<lparr>fe_path := b\<rparr> = e" by auto
  show "db_get db' b = Inr (Some (e\<lparr>fe_path := b\<rparr>))"
  proof (cases "a = b")
    case True
    with r same e select_row_key[OF r(3)] show ?thesis by (simp add: db_get_def)
  next
    case False
    with r show ?thesis by (simp add: db_get_def select_row_renamed)
  qed
  show "a \<noteq> b \<Longrightarrow> db_get db' a = Inr None"
    using r by (auto simp: db_get_def select_row_None_iff)
qed

section \<open>Uploads\<close>

text \<open>A finished upload is one whose checksum is that of the local file.\<close>

lemma upload_from_verified:
  "upload_from cx attempt p pid nm prev w = (Inr up, w') \<Longrightarrow> verify_upload cx p up = Inr IntegrityOk"
proof (induction "max_attempts cx - attempt" arbitrary: attempt prev w rule: less_induct)
  case less
  show ?case
  proof (cases rule: upload_from_cases[of w cx attempt p pid nm prev])
    case (again w1 q w2 w3 prev')
    then show ?thesis using less.prems less.hyps[of "Suc attempt" prev' w3] by simp
  qed (use less.prems in \<open>simp_all add: bail_def\<close>)
qed

lemma verify_upload_ok_iff:
  "verify_upload cx p up = Inr IntegrityOk \<longleftrightarrow>
     (\<exists>content. fs_read p (cx_disk cx) = Inr content \<and> ur_md5_checksum up = cx_md5 cx content)"
  by (auto simp: verify_upload_def compute_hash_def bind_res_Inr_iff)

text \<open>Any count that one upload call raises by at most one is raised by at most the bound.\<close>

lemma upload_from_calls:
  assumes one: "\<And>d p pid nm prev tk.
      calls (fst (snd (rp_upload (cx_provider cx) d p pid nm prev tk))) \<le> Suc (calls d)"
  shows "calls (w_drive (snd (upload_from cx attempt p pid nm prev w)))
    \<le> calls (w_drive w) + max 1 (Suc (max_attempts cx) - attempt)"
proof (induction "max_attempts cx - attempt" arbitrary: attempt prev w rule: less_induct)
  case less
  have once: "calls (w_drive b) \<le> Suc (calls (w_drive a))"
    if "upload_once cx p pid nm prev a = (q, b)" for a b q
    using upload_once_world[OF that] one[of "w_drive a" p pid nm prev "w_tracker a"] by auto
  have look: "w_drive b = w_drive a" if "is_cancelled a = (r, b)" for a b :: "'a world" and r
    using is_cancelled_frame(1)[of a] that by simp
  show ?case
  proof (cases rule: upload_from_cases[of w cx attempt p pid nm prev])
    case cancelled
    then show ?thesis by simp
  next
    case (verified w1 up w2)
    then show ?thesis using once[OF verified(2)] look[OF verified(1)] by simp
  next
    case (failed w1 q w2 e)
    then show ?thesis using once[OF failed(2)] look[OF failed(1)] by simp
  next
    case (again w1 q w2 w3 prev')
    have "calls (w_drive (snd (upload_from cx (Suc attempt) p pid nm prev' w3)))
        \<le> calls (w_drive w3) + max 1 (Suc (max_attempts cx) - Suc attempt)"
      using again(4) by (intro less) simp
    then show ?thesis
      using again(4,5) once[OF again(2)] look[OF again(1)] look[OF again(3)] by simp
  qed
qed

section \<open>Synchronising a file\<close>

definition recorded :: "string \<Rightarrow> string \<Rightarrow> int \<Rightarrow> 'p world \<Rightarrow> bool" where
  "recorded rel hash mt w =
     (db_get (w_db w) rel = Inr (Some \<lparr>fe_path = rel, fe_hash = hash, fe_mtime = mt\<rparr>) \<and>
      pc_lookup (w_cache w) rel \<noteq> None)"

lemma db_act_upsert_Inr:
  "db_act (db_upsert e) w = (Inr (), w') \<Longrightarrow>
     db_get (w_db w') (fe_path e) = Inr (Some e) \<and> w_cache w' = w_cache w \<and> w_drive w' = w_drive w"
  by (auto simp: db_act_def split: sum.splits dest: db_get_after_upsert)

lemma sync_upload_Inr:
  assumes "sync_upload cx p primary rel sz hash mt w = (Inr (), w')"
  shows "recorded rel hash mt w'"
    "\<exists>(up :: upload_result) content. fs_read p (cx_disk cx) = Inr content \<and> ur_md5_checksum up = cx_md5 cx content \<and>
       map_option ce_drive_id (pc_lookup (w_cache w') rel) = Some (ur_drive_id up)"
proof -
  from assms obtain nm pid prev w1 up w2 where
    up: "upload_from cx 1 p pid nm prev w1 = (Inr up, w2)"
    and fin: "commit_upload rel pid hash mt up w2 = (Inr (), w')"
    by (auto simp: sync_upload_def Let_def seq_act_Inr_iff fail_act_def split: option.splits)
  from fin have "recorded rel hash mt w' \<and> pc_lookup (w_cache w') rel =
      Some \<lparr>ce_drive_id = ur_drive_id up, ce_parent_id = pid\<rparr>"
    by (auto simp: commit_upload_def seq_act_Inr_iff cache_act_def recorded_def pc_insert_def pc_lookup_def
      dest!: db_act_upsert_Inr)
  moreover from upload_from_verified[OF up] obtain content where
    "fs_read p (cx_disk cx) = Inr content" "ur_md5_checksum up = cx_md5 cx content"
    by (auto simp: verify_upload_ok_iff)
  ultimately have all: "recorded rel hash mt w'" "fs_read p (cx_disk cx) = Inr content"
    "ur_md5_checksum up = cx_md5 cx content"
    "map_option ce_drive_id (pc_lookup (w_cache w') rel) = Some (ur_drive_id up)"
    by simp_all
  show "recorded rel hash mt w'" by (rule all(1))
  show "\<exists>(up :: upload_result) content. fs_read p (cx_disk cx) = Inr content \<and> ur_md5_checksum up = cx_md5 cx content \<and>
       map_option ce_drive_id (pc_lookup (w_cache w') rel) = Some (ur_drive_id up)"
    using all(2-) by blast
qed

lemma index_hit_Inr:
  "index_hit rel P w = (Inr b, w') \<longleftrightarrow> w' = w \<and> (\<exists>r. db_get (w_db w) rel = Inr r \<and>
     b = (case r of None \<Rightarrow> False | Some e \<Rightarrow> P e \<and> pc_lookup (w_cache w) rel \<noteq> None))"
  by (auto simp: index_hit_def read_act_def bind_res_Inr_iff)

lemma hash_file_Inr:
  "hash_file cx p = Inr h \<longleftrightarrow> (\<exists>c. fs_read p (cx_disk cx) = Inr c \<and> h = cx_md5 cx c)"
  by (auto simp: hash_file_def bind_res_Inr_iff)

lemma sync_hashed_Inr:
  assumes "sync_hashed cx p primary rel sz mt w = (Inr (), w')" "path_is_file p (cx_disk cx)"
  shows "(\<exists>hash. hash_file cx p = Inr hash \<and> recorded rel hash mt w')
    \<or> (w_cancel w = Some 0 \<and> w' = w)"
proof (cases "hash_file cx p")
  case (Inl e)
  with assms show ?thesis
    by (cases w rule: is_cancelled_cases)
       (auto simp: sync_hashed_def seq_act_Inr_iff act_simps is_cancelled_def split: option.splits nat.splits)
next
  case (Inr hash)
  with assms obtain hit where hit: "index_hit rel (\<lambda>e. fe_hash e = hash) w = (Inr hit, w)"
    and rest: "(if hit then db_act (db_upsert \<lparr>fe_path = rel, fe_hash = hash, fe_mtime = mt\<rparr>)
        else sync_upload cx p primary rel sz hash mt) w = (Inr (), w')"
    by (auto simp: sync_hashed_def seq_act_Inr_iff index_hit_Inr)
  have "recorded rel hash mt w'"
  proof (cases hit)
    case True
    then have "pc_lookup (w_cache w) rel \<noteq> None" using hit by (auto simp: index_hit_Inr split: option.splits)
    with rest True show ?thesis
      by (auto simp: recorded_def dest!: db_act_upsert_Inr)
  next
    case False
    with rest show ?thesis by (auto intro: sync_upload_Inr(1))
  qed
  with Inr show ?thesis by blast
qed

text \<open>
  What an \<open>Ok\<close> of \<open>sync_file\<close> means: nothing to do, stopped, or the file is recorded.
\<close>

definition stage_of :: "'p engine_context \<Rightarrow> path \<Rightarrow> sync_pair \<Rightarrow> string \<Rightarrow> nat \<Rightarrow> int \<Rightarrow> ('p, unit) act" where
  "stage_of cx p primary rel sz mt =
     seq_act (index_hit rel (\<lambda>e. fe_mtime e = mt)) (\<lambda>hit.
       if hit then ret_act ()
       else seq_act is_cancelled (\<lambda>c. if c then ret_act () else sync_hashed cx p primary rel sz mt))"

lemma sync_file_stage:
  assumes "sync_file cx ign p w = (Inr (), w')"
  obtains
    (nothing) "\<And>v. sync_file cx ign p v = (Inr (), v)"
  | (stage) primary r mt sz where "\<And>v. sync_file cx ign p v = stage_of cx p primary (path_string r) sz mt v"
      "path_is_file p (cx_disk cx)" "get_primary_pair (cx_cfg cx) = Some primary"
      "p = pair_base primary @ r" "file_mtime p (cx_disk cx) = Inr mt"
proof -
  from assms obtain meta where meta: "fs_metadata p (cx_disk cx) = Inr meta"
    by (auto simp: sync_file_def seq_act_Inr_iff read_act_def)
  show thesis
  proof (cases "ign p (meta = DirNode) \<or> meta = DirNode \<or> node_len meta = 0")
    case True
    show thesis
      by (rule nothing) (use True in \<open>auto simp: sync_file_def seq_act_def read_act_def meta ret_act_def Let_def\<close>)
  next
    case False
    then have isf: "path_is_file p (cx_disk cx)"
      by (cases meta) (auto simp: path_is_file_def meta)
    from assms False obtain primary rel mt where
      pr: "get_primary_pair (cx_cfg cx) = Some primary" "rel_str (pair_base primary) p = Inr rel"
        "file_mtime p (cx_disk cx) = Inr mt"
      by (auto simp: sync_file_def seq_act_Inr_iff read_act_def meta Let_def primary_pair_def split: if_splits)
    have body: "sync_file cx ign p v = stage_of cx p primary rel (node_len meta) mt v" for v
      using pr False by (cases meta) (simp_all add: sync_file_def stage_of_def seq_act_def[of "read_act _"]
        read_act_def meta primary_pair_def Let_def)
    with pr isf show thesis by (auto simp: rel_str_Inr_iff intro: stage)
  qed
qed

lemma stage_of_cases:
  assumes "stage_of cx p primary rel sz mt w = (Inr (), w')" "path_is_file p (cx_disk cx)"
  obtains (kept) "w' = w"
  | (cancelled) "w_cancel w' = Some 0" "w_db w' = w_db w" "w_cache w' = w_cache w" "w_drive w' = w_drive w"
  | (recorded) hash where "hash_file cx p = Inr hash" "recorded rel hash mt w'"
proof -
  from assms(1) obtain hit where
    hit: "index_hit rel (\<lambda>e. fe_mtime e = mt) w = (Inr hit, w)"
    and rest: "(if hit then ret_act () else seq_act is_cancelled (\<lambda>c. if c then ret_act ()
        else sync_hashed cx p primary rel sz mt)) w = (Inr (), w')"
    by (auto simp: stage_of_def seq_act_Inr_iff index_hit_Inr)
  show thesis
  proof (cases "hit \<or> w_cancel w = Some 0")
    case True
    with rest show thesis by (intro kept) (auto simp: ret_act_def seq_act_def split: if_splits)
  next
    case go: False
    then obtain w1 where w1: "is_cancelled w = (Inr False, w1)"
      by (cases w rule: is_cancelled_cases) (auto simp: is_cancelled_def split: option.splits nat.splits)
    with rest go have "sync_hashed cx p primary rel sz mt w1 = (Inr (), w')"
      by (auto simp: seq_act_Inr_iff)
    from sync_hashed_Inr[OF this assms(2)] show thesis
    proof
      assume "w_cancel w1 = Some 0 \<and> w' = w1"
      with is_cancelled_frame[of w] w1 show thesis by (intro cancelled) auto
    qed (blast intro: recorded)
  qed
qed

lemma recorded_hit:
  "recorded rel hash mt w \<Longrightarrow> index_hit rel (\<lambda>e. fe_mtime e = mt) w = (Inr True, w)"
  by (auto simp: recorded_def index_hit_Inr)

lemma stage_of_again:
  assumes "stage_of cx p primary rel sz mt w = (Inr (), w')" "path_is_file p (cx_disk cx)"
  shows "stage_of cx p primary rel sz mt w' = (Inr (), w')"
  using assms
proof (cases rule: stage_of_cases)
  case cancelled
  from assms(1) obtain hit where "index_hit rel (\<lambda>e. fe_mtime e = mt) w = (Inr hit, w)"
    by (auto simp: stage_of_def seq_act_Inr_iff index_hit_Inr)
  then have "index_hit rel (\<lambda>e. fe_mtime e = mt) w' = (Inr hit, w')"
    unfolding index_hit_Inr cancelled(2,3) by simp
  with cancelled(1) show ?thesis by (simp add: stage_of_def seq_act_def ret_act_def)
next
  case (recorded hash)
  then show ?thesis by (simp add: stage_of_def seq_act_def recorded_hit[OF recorded(2)] ret_act_def)
qed (use assms in simp)

lemma sync_file_again:
  assumes "sync_file cx ign p w = (Inr (), w')"
  shows "sync_file cx ign p w' = (Inr (), w')"
  using assms
proof (cases rule: sync_file_stage)
  case (stage primary r mt sz)
  then show ?thesis using stage_of_again assms by metis
qed simp

lemma sync_file_outcome:
  assumes "sync_file cx ign p w = (Inr (), w')"
  shows "w' = w \<or> w_db w' = w_db w \<and> w_cache w' = w_cache w \<and> w_drive w' = w_drive w \<and> w_cancel w' = Some 0
    \<or> (\<exists>primary r content mt. get_primary_pair (cx_cfg cx) = Some primary \<and> p = pair_base primary @ r \<and>
         fs_read p (cx_disk cx) = Inr content \<and> file_mtime p (cx_disk cx) = Inr mt \<and>
         recorded (path_string r) (cx_md5 cx content) mt w')"
  using assms
proof (cases rule: sync_file_stage)
  case (stage primary r mt sz)
  from stage(1)[of w] assms have s: "stage_of cx p primary (path_string r) sz mt w = (Inr (), w')" by simp
  show ?thesis
    using s stage(2)
  proof (cases rule: stage_of_cases)
    case (recorded hash)
    with stage show ?thesis by (auto simp: hash_file_Inr)
  qed auto
qed (use assms in simp)

section \<open>Deleting and renaming\<close>

text \<open>
  A task not ignored, on a path under the root: either the call to the drive failed and nothing
  changed, or the whole subtree left the cache and the file left the index.
\<close>

lemma delete_file_outcome:
  assumes "cx_dry_run cx = False" "get_primary_pair (cx_cfg cx) = Some primary"
    "p = pair_base primary @ r" "\<not> ign p (path_is_dir p (cx_disk cx))"
    "db_ok (w_db w)" "delete_file cx ign p w = (res, w')"
  shows "(\<exists>e. res = Inl e) \<and> w_db w' = w_db w \<and> w_cache w' = w_cache w \<or>
    res = Inr () \<and> db_get (w_db w') (path_string r) = Inr None \<and>
    w_cache w' = (if pc_lookup (w_cache w) (path_string r) = None then w_cache w
                  else pc_remove_cascades (path_string r) (w_cache w))"
proof -
  let ?rel = "path_string r"
  have fin: "\<exists>db'. db_act (db_delete ?rel) v = (Inr (), v\<lparr>w_db := db'\<rparr>) \<and> db_get db' ?rel = Inr None"
    if "w_db v = w_db w" for v :: "'a world"
    using db_delete_total[OF assms(5), of ?rel] that by (auto simp: db_act_def dest: db_get_after_delete)
  show ?thesis
  proof (cases "pc_lookup (w_cache w) ?rel")
    case None
    with assms fin[OF refl] show ?thesis
      by (auto simp: delete_file_def seq_act_def read_act_def primary_pair_def ret_act_def)
  next
    case (Some entry)
    obtain q w1 where call: "retry cx (drive_act (\<lambda>d. rp_delete (cx_provider cx) d (ce_drive_id entry))) w = (q, w1)"
      by fastforce
    note same = retry_records[OF call]
    show ?thesis
    proof (cases q)
      case (Inl e)
      with Some call assms same show ?thesis
        by (auto simp: delete_file_def seq_act_def read_act_def primary_pair_def)
    next
      case (Inr u)
      from fin[of "w1\<lparr>w_cache := pc_remove_cascades ?rel (w_cache w1)\<rparr>"] same
      obtain db' where "db_act (db_delete ?rel) (w1\<lparr>w_cache := pc_remove_cascades ?rel (w_cache w1)\<rparr>) =
          (Inr (), w1\<lparr>w_cache := pc_remove_cascades ?rel (w_cache w1)\<rparr>\<lparr>w_db := db'\<rparr>)"
        "db_get db' ?rel = Inr None" by auto
      with Inr Some call assms same show ?thesis
        by (auto simp: delete_file_def seq_act_def read_act_def primary_pair_def cache_act_def)
    qed
  qed
qed

text \<open>A file that is cached and indexed takes the renaming path.\<close>

lemma rename_file_known:
  assumes "get_primary_pair (cx_cfg cx) = Some primary"
    "from = pair_base primary @ a" "to = pair_base primary @ b" "path_string a \<noteq> []"
    "\<not> (ign from (path_is_dir from (cx_disk cx)) \<and> ign to (path_is_dir to (cx_disk cx)))"
    "pc_lookup (w_cache w) (path_string a) = Some entry"
    "db_get (w_db w) (path_string a) = Inr (Some e)"
  shows "rename_file cx ign from to w = rename_known cx primary entry (path_string a) (path_string b) to w"
  using assms
  by (auto simp: rename_file_def seq_act_def[of "read_act _"] seq_act_def[of "if _ then _ else _"]
      primary_pair_def read_act_def rel_or_empty_def Let_def)

lemma rename_known_run:
  assumes "rename_known cx primary entry ra rb to w = (res, w')"
  shows "(\<exists>e. res = Inl e) \<and> w_db w' = w_db w \<and> w_cache w' = w_cache w \<or>
    (\<exists>w1 pid. w_db w1 = w_db w \<and>
      w_cache w1 = pc_insert rb (ce_drive_id entry) pid (pc_remove_cascades ra (w_cache w)) \<and>
      db_act (db_rename ra rb) w1 = (res, w'))"
proof (cases "path_file_name to")
  case None
  with assms show ?thesis by (auto simp: rename_known_def fail_act_def)
next
  case (Some nm)
  obtain q w0 where par: "parent_folder_id primary (parent_rel_str (pair_base primary) to)
      ''Dossier destination introuvable'' w = (q, w0)" by fastforce
  then have w0: "w0 = w" by (auto simp: parent_folder_id_def ret_act_def read_act_def split: if_splits)
  show ?thesis
  proof (cases q)
    case (Inl e)
    with assms Some par w0 show ?thesis by (auto simp: rename_known_def Let_def seq_act_def)
  next
    case (Inr pid)
    obtain c w1 where call: "retry cx (drive_act (\<lambda>d. rp_rename (cx_provider cx) d (ce_drive_id entry)
        (Some nm) (Some pid))) w = (c, w1)" by fastforce
    note same = retry_records[OF call]
    show ?thesis
    proof (cases c)
      case (Inl e)
      with assms Some par w0 Inr call same show ?thesis
        by (auto simp: rename_known_def Let_def seq_act_def)
    next
      case c: (Inr u)
      let ?w2 = "w1\<lparr>w_cache := pc_insert rb (ce_drive_id entry) pid (pc_remove_cascades ra (w_cache w1))\<rparr>"
      have "db_act (db_rename ra rb) ?w2 = (res, w')"
        using assms Some par w0 Inr call c
        by (simp add: rename_known_def Let_def seq_act_def cache_act_def)
      with same show ?thesis by (intro disjI2 exI[of _ ?w2] exI[of _ pid]) simp
    qed
  qed
qed

lemma db_act_Inr_iff: "db_act op w = (Inr u, w') \<longleftrightarrow> (\<exists>db. op (w_db w) = Inr db \<and> w' = w\<lparr>w_db := db\<rparr>)"
  by (auto simp: db_act_def split: sum.splits)

lemma rename_known_ok:
  assumes "rename_known cx primary entry ra rb to w = (Inr (), w')" "db_get (w_db w) ra = Inr (Some e)"
  shows "map_option ce_drive_id (pc_lookup (w_cache w') rb) = Some (ce_drive_id entry)"
    "db_get (w_db w') rb = Inr (Some (e\<lparr>fe_path := rb\<rparr>))"
    "ra \<noteq> rb \<Longrightarrow> db_get (w_db w') ra = Inr None"
    "ra \<noteq> rb \<Longrightarrow> pc_lookup (w_cache w') ra = None"
  using rename_known_run[OF assms(1)] db_get_after_rename[OF _ assms(2)]
  by (auto simp: db_act_Inr_iff pc_lookup_def pc_insert_def pc_remove_cascades_eq)

text \<open>Onto a path already indexed: the statement fails after the drive and the cache moved.\<close>

lemma db_rename_conflict:
  assumes "db_get db ra = Inr (Some e)" "db_get db rb = Inr (Some e')" "ra \<noteq> rb"
  shows "db_rename ra rb db = bail ''UNIQUE constraint failed: file_index.path''"
  using assms by (auto simp: db_get_def db_rename_def with_table_Inr_iff dest!: select_row_key)

lemma rename_known_conflict:
  assumes "rename_known cx primary entry ra rb to w = (res, w')"
    "db_get (w_db w) ra = Inr (Some e)" "db_get (w_db w) rb = Inr (Some e')" "ra \<noteq> rb"
  shows "(\<exists>m. res = Inl m) \<and> w_db w' = w_db w"
  using rename_known_run[OF assms(1)] db_rename_conflict[OF assms(2-4)]
  by (auto simp: db_act_def bail_def)

text \<open>No rename uploads: the provider's \<open>upload\<close> plays no part.\<close>

lemma retry_cong_provider:
  "retry (cx\<lparr>cx_provider := q\<rparr>) f = retry cx f"
  by (rule ext) (simp add: retry_def max_attempts_def)

lemma rename_known_no_upload:
  "rename_known (cx\<lparr>cx_provider := (cx_provider cx)\<lparr>rp_upload := u\<rparr>\<rparr>) primary entry ra rb to =
   rename_known cx primary entry ra rb to"
  by (simp add: rename_known_def retry_cong_provider cong: option.case_cong)

text \<open>
  Renaming a file that is cached and indexed onto a path that is indexed too: the task always ends in
  an error and leaves the index as it was, also when the drive has already renamed the file and the
  cache has followed it.
\<close>

lemma rename_onto_an_indexed_path_fails:
  assumes "\<not> cx_dry_run cx" "get_primary_pair (cx_cfg cx) = Some primary"
    and "from = pair_base primary @ a" "to = pair_base primary @ b"
    and "path_string a \<noteq> []" "path_string a \<noteq> path_string b"
    and "\<not> (ign from (path_is_dir from (cx_disk cx)) \<and> ign to (path_is_dir to (cx_disk cx)))"
    and "pc_lookup (w_cache w) (path_string a) = Some entry"
    and "db_get (w_db w) (path_string a) = Inr (Some e)" "db_get (w_db w) (path_string b) = Inr (Some e')"
    and "handle cx ign (Rename from to) w = (res, w')"
  shows "(\<exists>m. res = Inl m) \<and> w_db w' = w_db w"
proof -
  have "rename_file cx ign from to w = rename_known cx primary entry (path_string a) (path_string b) to w"
    using assms by (intro rename_file_known) auto
  then have "rename_known cx primary entry (path_string a) (path_string b) to w = (res, w')"
    using assms(1,11) by (simp add: handle_def)
  from rename_known_conflict[OF this assms(9,10,6)] show ?thesis .
qed

end
