(* ===== verification/Scan_Laws.thy ===== *)
theory Scan_Laws
  imports Scan Worker_Laws
begin

text \<open>
  Facts about \<open>scan.rs\<close>: what each phase leaves alone, the exact list of tasks a finished scan
  has queued, and that the directories it met are cached.
\<close>

section \<open>Loops keep what their bodies keep\<close>

context frame
begin

lemma kept_each: "(\<And>i x. kept (f i x)) \<Longrightarrow> kept (each f i xs)"
  by (induction f i xs rule: each.induct) (auto intro: kept_seq_act kept_pure)

lemma kept_keep_each: "(\<And>i x. kept (f i x)) \<Longrightarrow> kept (keep_each f i xs)"
  by (induction f i xs rule: keep_each.induct) (auto intro!: kept_seq_act kept_pure)

lemma kept_while_running: "kept m \<Longrightarrow> kept (while_running m)"
  unfolding while_running_def by (intro kept_seq_act kept_is_cancelled) (simp add: kept_pure)

lemma kept_case_prod: "(\<And>a b. kept (f a b)) \<Longrightarrow> kept (case p of (a, b) \<Rightarrow> f a b)"
  by (cases p) simp

lemma kept_walk_entries:
  "(\<And>s. kept (send_status s)) \<Longrightarrow> kept (walk_entries base n es)"
  by (induction base n es rule: walk_entries.induct)
     (auto intro!: kept_seq_act kept_pure kept_while_running split: prod.split)

lemma kept_phase_local:
  assumes "\<And>s. kept (send_status s)"
  shows "kept (phase_local cx ign base)"
  unfolding phase_local_def by (intro kept_seq_act kept_walk_entries assms)

lemma kept_ensure_chain:
  assumes "\<And>f. kept (cache_act f)" "\<And>cur parent part. kept (make_remote_dir cx cur parent part)"
  shows "kept (ensure_chain cx cur parent parts)"
  by (induction parts arbitrary: cur parent)
     (auto simp: Let_def intro!: kept_seq_act kept_pure assms split: option.split)

lemma kept_phase_dirs:
  assumes "\<And>s. kept (send_status s)" "\<And>f. kept (cache_act f)"
    "\<And>cur parent part. kept (make_remote_dir cx cur parent part)"
  shows "kept (phase_dirs cx primary dirs)"
  unfolding phase_dirs_def ensure_dir_def
  by (auto intro!: kept_each kept_while_running kept_seq_act kept_pure kept_ensure_chain assms split: option.split)

lemma kept_compare_file:
  assumes "\<And>s. kept (send_status s)" "\<And>e. kept (try_upsert e)"
  shows "kept (compare_file cx primary idx tot i p)"
proof -
  have "kept (compare_indexed cx p rel)" for rel
    using assms(2) R_refl unfolding kept_def compare_indexed_def
    by (auto simp: Let_def split: sum.split option.split)
  moreover have "kept (adopt_remote cx p rel)" for rel
    unfolding adopt_remote_def by (auto intro!: kept_seq_act kept_pure assms(2) split: sum.split)
  ultimately show ?thesis
    unfolding compare_file_def Let_def
    by (auto intro!: kept_while_running kept_seq_act kept_pure assms(1) split: option.split)
qed

lemma kept_phase_compare:
  assumes "\<And>s. kept (send_status s)" "\<And>e. kept (try_upsert e)"
  shows "kept (phase_compare cx primary idx files)"
  unfolding phase_compare_def by (intro kept_seq_act kept_keep_each kept_compare_file kept_pure assms)

lemma kept_send_or_fail: "(\<And>t. \<not> cx_dry_run cx \<Longrightarrow> kept (send_task t)) \<Longrightarrow> kept (send_or_fail cx t)"
  unfolding send_or_fail_def by (auto intro!: kept_seq_act kept_pure)

lemma kept_phase_tasks:
  assumes "\<And>s. kept (send_status s)" "\<And>f. \<not> cx_dry_run cx \<Longrightarrow> kept (tracker_act f)"
    "\<And>t. \<not> cx_dry_run cx \<Longrightarrow> kept (send_task t)"
  shows "kept (set_totals cx ps)" "kept (each (enqueue_sync cx tot) i ps)"
    "kept (each (orphan_db cx base rels) i ks)" "kept (each (orphan_remote cx ign base rels idx) i rfs)"
  unfolding set_totals_def enqueue_sync_def orphan_db_def orphan_remote_def count_one_more_def Let_def
  by (auto intro!: kept_each kept_while_running kept_seq_act kept_pure kept_send_or_fail assms)

end

section \<open>Frames of the phases\<close>

text \<open>The database invariant survives a scan, finished or not.\<close>

lemma db_kept_basic:
  "db_frame.kept (send_status s)" "db_frame.kept (cache_act f)" "db_frame.kept (tracker_act g)"
  "db_frame.kept (send_task t)" "db_frame.kept (try_upsert e)"
  "db_frame.kept (list_remote_or_empty cx folder)" "db_frame.kept (make_remote_dir cx cur parent part)"
proof -
  show "db_frame.kept (try_upsert e)"
    unfolding db_frame.kept_def db_ok_kept_def try_upsert_def
    by (auto intro: db_upsert_ok split: sum.splits)
  show "db_frame.kept (make_remote_dir cx cur parent part)"
    unfolding make_remote_dir_def
    by (auto intro!: db_frame.kept_retry db_frame.kept_drive_act db_frame.kept_pure simp: db_ok_kept_def)
qed (auto simp: db_frame.kept_def db_ok_kept_def act_simps send_task_def list_remote_or_empty_def
      split: option.splits nat.splits prod.splits sum.splits)

lemma scan_run_db_ok: "db_frame.kept (scan_run cx ign)"
  unfolding scan_run_def primary_pair_def phase_remote_def scan_compare_def scan_tasks_def Let_def
  by (intro db_frame.kept_seq_act db_frame.kept_pure db_frame.kept_phase_local db_frame.kept_phase_dirs
      db_frame.kept_phase_compare db_frame.kept_phase_tasks db_frame.kept_cond db_frame.kept_case_prod
      db_kept_basic)

text \<open>Tasks are queued by phases 4 to 6 only.\<close>

definition queue_kept :: "'p world \<Rightarrow> 'p world \<Rightarrow> bool" where
  "queue_kept w w' = (w_queue w' = w_queue w)"

interpretation q_frame: frame queue_kept
  by unfold_locales (auto simp: queue_kept_def)

lemma q_kept_basic:
  "q_frame.kept (send_status s)" "q_frame.kept (cache_act f)" "q_frame.kept (tracker_act g)"
  "q_frame.kept (try_upsert e)" "q_frame.kept (list_remote_or_empty cx folder)"
  "q_frame.kept (make_remote_dir cx cur parent part)"
proof -
  show "q_frame.kept (make_remote_dir cx cur parent part)"
    unfolding make_remote_dir_def
    by (auto intro!: q_frame.kept_retry q_frame.kept_drive_act q_frame.kept_pure simp: queue_kept_def)
qed (auto simp: q_frame.kept_def queue_kept_def act_simps list_remote_or_empty_def try_upsert_def
      split: option.splits nat.splits prod.splits sum.splits)

text \<open>The cache is changed by phases 0 and 2 only, where it only grows.\<close>

definition cache_kept :: "'p world \<Rightarrow> 'p world \<Rightarrow> bool" where
  "cache_kept w w' = (w_cache w' = w_cache w)"

interpretation c_frame: frame cache_kept
  by unfold_locales (auto simp: cache_kept_def)

lemma c_kept_basic:
  "c_frame.kept (send_status s)" "c_frame.kept (tracker_act g)" "c_frame.kept (try_upsert e)"
  "c_frame.kept (send_task t)"
  by (auto simp: c_frame.kept_def cache_kept_def act_simps try_upsert_def send_task_def
      split: option.splits nat.splits sum.splits)

definition cache_grows :: "'p world \<Rightarrow> 'p world \<Rightarrow> bool" where
  "cache_grows w w' = (dom (w_cache w) \<subseteq> dom (w_cache w'))"

interpretation g_frame: frame cache_grows
  by unfold_locales (auto simp: cache_grows_def)

text \<open>The index is changed by phase 3 only.\<close>

definition index_kept :: "'p world \<Rightarrow> 'p world \<Rightarrow> bool" where
  "index_kept w w' = (w_db w' = w_db w)"

interpretation i_frame: frame index_kept
  by unfold_locales (auto simp: index_kept_def)

lemma i_kept_basic:
  "i_frame.kept (send_status s)" "i_frame.kept (cache_act f)" "i_frame.kept (tracker_act g)"
  "i_frame.kept (send_task t)" "i_frame.kept (list_remote_or_empty cx folder)"
  "i_frame.kept (make_remote_dir cx cur parent part)"
proof -
  show "i_frame.kept (make_remote_dir cx cur parent part)"
    unfolding make_remote_dir_def
    by (auto intro!: i_frame.kept_retry i_frame.kept_drive_act i_frame.kept_pure simp: index_kept_def)
qed (auto simp: i_frame.kept_def index_kept_def act_simps list_remote_or_empty_def send_task_def
      split: option.splits nat.splits prod.splits sum.splits)

text \<open>A dry run changes neither the drive nor the queue nor the totals.\<close>

definition dry_kept :: "'p world \<Rightarrow> 'p world \<Rightarrow> bool" where
  "dry_kept w w' = (w_drive w' = w_drive w \<and> w_queue w' = w_queue w \<and> w_tracker w' = w_tracker w)"

interpretation d_frame: frame dry_kept
  by unfold_locales (auto simp: dry_kept_def)

lemma d_kept_basic:
  "d_frame.kept (send_status s)" "d_frame.kept (cache_act f)" "d_frame.kept (try_upsert e)"
  "cx_dry_run cx \<Longrightarrow> d_frame.kept (make_remote_dir cx cur parent part)"
  by (auto simp: d_frame.kept_def dry_kept_def act_simps try_upsert_def make_remote_dir_def split: sum.splits)

section \<open>The tasks of a finished scan\<close>

lemma while_running_Inr:
  "while_running m w = (Inr a, w') \<Longrightarrow> m (snd (is_cancelled w)) = (Inr a, w')"
  by (auto simp: while_running_def seq_act_Inr_iff fail_act_def split: if_splits)

lemma each_queue:
  assumes "\<And>i x w w'. f i x w = (Inr (), w') \<Longrightarrow> w_queue w' = w_queue w @ g x"
  shows "each f i xs w = (Inr (), w') \<Longrightarrow> w_queue w' = w_queue w @ concat (map g xs)"
proof (induction xs arbitrary: i w)
  case (Cons x xs)
  then obtain w1 where "f i x w = (Inr (), w1)" "each f (Suc i) xs w1 = (Inr (), w')"
    by (auto simp: seq_act_Inr_iff)
  with Cons.IH assms show ?case by fastforce
qed (simp add: ret_act_def)

lemma send_or_fail_Inr:
  "\<not> cx_dry_run cx \<Longrightarrow> send_or_fail cx t w = (Inr u, w') \<Longrightarrow> w_queue w' = w_queue w @ [t]"
  by (auto simp: send_or_fail_def seq_act_Inr_iff send_task_def ret_act_def fail_act_def
      split: option.splits nat.splits if_splits)

lemma enqueue_sync_Inr:
  "\<not> cx_dry_run cx \<Longrightarrow> enqueue_sync cx tot i p w = (Inr (), w') \<Longrightarrow> w_queue w' = w_queue w @ [SyncFile p]"
  by (auto simp: enqueue_sync_def seq_act_Inr_iff send_status_def dest!: while_running_Inr send_or_fail_Inr)

lemma orphan_db_Inr:
  "\<not> cx_dry_run cx \<Longrightarrow> orphan_db cx base rels i k w = (Inr (), w') \<Longrightarrow>
   w_queue w' = w_queue w @ (if k \<in> set rels then [] else [Delete (path_join base (components k))])"
  by (auto simp: orphan_db_def seq_act_Inr_iff count_one_more_def tracker_act_def ret_act_def
      dest!: while_running_Inr send_or_fail_Inr split: if_splits)

text \<open>The remote files phase 6 gives up on the drive.\<close>

definition orphan_path :: "path \<Rightarrow> remote_file \<Rightarrow> path" where
  "orphan_path base rf = path_join base (components (rf_relative_path rf))"

definition is_orphan ::
  "'p engine_context \<Rightarrow> (path \<Rightarrow> bool \<Rightarrow> bool) \<Rightarrow> path \<Rightarrow> string list \<Rightarrow> string list \<Rightarrow> remote_file \<Rightarrow> bool" where
  "is_orphan cx ign base rels idx rf =
     (rf_relative_path rf \<notin> set rels \<and> rf_relative_path rf \<notin> set idx \<and>
      \<not> path_is_dir (orphan_path base rf) (cx_disk cx) \<and> \<not> ign (orphan_path base rf) False)"

lemma orphan_remote_Inr:
  "\<not> cx_dry_run cx \<Longrightarrow> orphan_remote cx ign base rels idx i rf w = (Inr (), w') \<Longrightarrow>
   w_queue w' = w_queue w @ (if is_orphan cx ign base rels idx rf then [Delete (orphan_path base rf)] else [])"
  by (auto simp: orphan_remote_def seq_act_Inr_iff count_one_more_def tracker_act_def ret_act_def Let_def
      is_orphan_def orphan_path_def dest!: while_running_Inr send_or_fail_Inr split: if_splits)

lemma concat_map_if:
  "concat (map (\<lambda>x. if P x then [] else [h x]) xs) = map h (filter (\<lambda>x. \<not> P x) xs)"
  "concat (map (\<lambda>x. if P x then [h x] else []) xs) = map h (filter P xs)"
  "concat (map (\<lambda>x. [h x]) xs) = map h xs"
  by (induction xs) auto

lemma scan_tasks_queue:
  assumes "\<not> cx_dry_run cx" "scan_tasks cx ign base idx db_index files to_sync w = (Inr (), w')"
  shows "w_queue w' = w_queue w @ map SyncFile to_sync
    @ map (\<lambda>k. Delete (path_join base (components k)))
        (filter (\<lambda>k. k \<notin> set (local_rel_set base files)) db_index)
    @ map (\<lambda>rf. Delete (orphan_path base rf))
        (filter (is_orphan cx ign base (local_rel_set base files) db_index) (ri_files idx))"
proof -
  let ?rels = "local_rel_set base files"
  from assms obtain w1 w2 w3 where s:
    "set_totals cx to_sync w = (Inr (), w1)"
    "each (enqueue_sync cx (length to_sync)) 0 to_sync w1 = (Inr (), w2)"
    "each (orphan_db cx base ?rels) 0 db_index w2 = (Inr (), w3)"
    "each (orphan_remote cx ign base ?rels db_index) 0 (ri_files idx) w3 = (Inr (), w')"
    by (auto simp: scan_tasks_def Let_def seq_act_Inr_iff ret_act_def)
  have "w_queue w1 = w_queue w" using s(1) assms(1) by (auto simp: set_totals_def tracker_act_def)
  moreover have "w_queue w2 = w_queue w1 @ concat (map (\<lambda>p. [SyncFile p]) to_sync)"
    by (rule each_queue[OF _ s(2)]) (rule enqueue_sync_Inr[OF assms(1)])
  moreover have "w_queue w3 = w_queue w2 @ concat (map (\<lambda>k. if k \<in> set ?rels then []
      else [Delete (path_join base (components k))]) db_index)"
    by (rule each_queue[OF _ s(3)]) (rule orphan_db_Inr[OF assms(1)])
  moreover have "w_queue w' = w_queue w3 @ concat (map (\<lambda>rf. if is_orphan cx ign base ?rels db_index rf
      then [Delete (orphan_path base rf)] else []) (ri_files idx))"
    by (rule each_queue[OF _ s(4)]) (rule orphan_remote_Inr[OF assms(1)])
  ultimately show ?thesis by (simp only: concat_map_if append_assoc)
qed

section \<open>The comparison\<close>

definition needs_sync ::
  "'p engine_context \<Rightarrow> string list \<Rightarrow> path_cache \<Rightarrow> database \<Rightarrow> path \<Rightarrow> string \<Rightarrow> bool" where
  "needs_sync cx idx cache db p rel =
     (if pc_lookup cache rel = None then True
      else if rel \<notin> set idx then False
      else case db_get db rel of
        Inr (Some e) \<Rightarrow>
          mtime_of p (cx_disk cx) \<noteq> fe_mtime e \<and>
          (case hash_of cx p of Inr h \<Rightarrow> h \<noteq> fe_hash e | Inl _ \<Rightarrow> True)
      | _ \<Rightarrow> True)"

definition needs_sync_in ::
  "'p engine_context \<Rightarrow> path \<Rightarrow> string list \<Rightarrow> path_cache \<Rightarrow> database \<Rightarrow> path \<Rightarrow> bool" where
  "needs_sync_in cx base idx cache db p =
     (case strip_prefix base p of None \<Rightarrow> False | Some r \<Rightarrow> needs_sync cx idx cache db p (path_string r))"

lemma try_upsert_other:
  "k \<noteq> fe_path e \<Longrightarrow> db_get (w_db (snd (try_upsert e w))) k = db_get (w_db w) k"
  by (auto simp: try_upsert_def db_upsert_def db_get_def with_table_def bind_res_def db_lock_def need_def
      select_upsert_row split: sum.splits option.splits if_splits)

lemma compare_indexed_Inr:
  assumes "compare_indexed cx p rel w = (Inr b, w')"
  shows "b \<longleftrightarrow> (case db_get (w_db w) rel of
        Inr (Some e) \<Rightarrow> mtime_of p (cx_disk cx) \<noteq> fe_mtime e \<and>
          (case hash_of cx p of Inr h \<Rightarrow> h \<noteq> fe_hash e | Inl _ \<Rightarrow> True)
      | _ \<Rightarrow> True)"
    "k \<noteq> rel \<Longrightarrow> db_get (w_db w') k = db_get (w_db w) k"
proof -
  consider (hit) e where "db_get (w_db w) rel = Inr (Some e)"
    | (miss) "\<And>e. db_get (w_db w) rel \<noteq> Inr (Some e)" by blast
  then show "b \<longleftrightarrow> (case db_get (w_db w) rel of
        Inr (Some e) \<Rightarrow> mtime_of p (cx_disk cx) \<noteq> fe_mtime e \<and>
          (case hash_of cx p of Inr h \<Rightarrow> h \<noteq> fe_hash e | Inl _ \<Rightarrow> True)
      | _ \<Rightarrow> True)"
    using assms by cases (auto simp: compare_indexed_def Let_def split: sum.splits option.splits if_splits)
  show "db_get (w_db w') k = db_get (w_db w) k" if "k \<noteq> rel"
    using assms that
    by (auto simp: compare_indexed_def Let_def try_upsert_other split: sum.splits option.splits if_splits)
qed

lemma adopt_remote_Inr:
  assumes "adopt_remote cx p rel w = (Inr b, w')"
  shows "\<not> b" "k \<noteq> rel \<Longrightarrow> db_get (w_db w') k = db_get (w_db w) k"
proof -
  from assms show "\<not> b" by (auto simp: adopt_remote_def seq_act_Inr_iff ret_act_def)
  show "db_get (w_db w') k = db_get (w_db w) k" if "k \<noteq> rel"
    using assms that try_upsert_other[of k _ w]
    by (cases "hash_of cx p") (auto simp: adopt_remote_def seq_act_Inr_iff ret_act_def, metis snd_conv file_entry.select_convs(1))
qed

lemma seq_status_if:
  "seq_act (if c then send_status s else ret_act ()) f w =
     f () (if c then w\<lparr>w_status := w_status w @ [s]\<rparr> else w)"
  by (simp add: seq_act_def act_simps)

lemma seq_status: "seq_act (send_status s) f w = f () (w\<lparr>w_status := w_status w @ [s]\<rparr>)"
  by (simp add: seq_act_def act_simps)

lemma seq_read_Inr: "seq_act (read_act (\<lambda>w. Inr (g w))) f w = f (g w) w"
  by (simp add: seq_act_def act_simps)

lemma compare_file_Inr:
  assumes "compare_file cx primary idx tot i p w = (Inr b, w')" "base = pair_base primary"
  shows "b = needs_sync_in cx base idx (w_cache w) (w_db w) p"
    and "w_cache w' = w_cache w"
    and "(\<And>r. strip_prefix base p = Some r \<Longrightarrow> k \<noteq> path_string r) \<Longrightarrow>
      db_get (w_db w') k = db_get (w_db w) k"
proof -
  let ?keep = "b = needs_sync_in cx base idx (w_cache w) (w_db w) p"
  let ?frame = "db_get (w_db w') k = db_get (w_db w) k"
  have c: "c_frame.kept (compare_file cx primary idx tot i p)"
    by (rule c_frame.kept_compare_file) (rule c_kept_basic)+
  from c_frame.keptD[OF c assms(1)] show "w_cache w' = w_cache w" by (simp add: cache_kept_def)
  note run = while_running_Inr[OF assms(1)[unfolded compare_file_def]]
  have "?keep \<and> ((\<forall>r. strip_prefix base p = Some r \<longrightarrow> k \<noteq> path_string r) \<longrightarrow> ?frame)"
  proof (cases "strip_prefix base p")
    case None
    with run assms(2) have "b = False \<and> w' = snd (is_cancelled w)" by (simp add: ret_act_def)
    with None show ?thesis by (simp add: needs_sync_in_def)
  next
    case (Some r)
    define v where "v = (if i mod 50 = 0 \<or> Suc i = tot
      then (snd (is_cancelled w))\<lparr>w_status := w_status (snd (is_cancelled w))
             @ [ScanProgress Comparing (Suc i) tot (name_of p)]\<rparr>
      else snd (is_cancelled w))"
    have same: "w_cache v = w_cache w" "w_db v = w_db w" by (simp_all add: v_def)
    have "(if path_string r \<in> set idx \<and> pc_lookup (w_cache w) (path_string r) \<noteq> None
        then compare_indexed cx p (path_string r)
        else if pc_lookup (w_cache w) (path_string r) \<noteq> None then adopt_remote cx p (path_string r)
        else ret_act True) v = (Inr b, w')"
      using run assms(2) Some
      by (simp only: Let_def option.case seq_status_if seq_read_Inr v_def[symmetric] same)
    note v = same this
    show ?thesis
    proof (cases "pc_lookup (w_cache w) (path_string r) = None")
      case True
      with v Some show ?thesis by (simp add: needs_sync_in_def needs_sync_def ret_act_def)
    next
      case cached: False
      show ?thesis
      proof (cases "path_string r \<in> set idx")
        case True
        with v cached have "compare_indexed cx p (path_string r) v = (Inr b, w')" by simp
        from compare_indexed_Inr[OF this] v(2) True cached Some show ?thesis
          by (auto simp: needs_sync_in_def needs_sync_def)
      next
        case False
        with v cached have "adopt_remote cx p (path_string r) v = (Inr b, w')" by simp
        from adopt_remote_Inr[OF this] v(2) False cached Some show ?thesis
          by (auto simp: needs_sync_in_def needs_sync_def)
      qed
    qed
  qed
  then show ?keep and "(\<And>r. strip_prefix base p = Some r \<Longrightarrow> k \<noteq> path_string r) \<Longrightarrow> ?frame"
    by blast+
qed

lemma local_rel_set_Cons:
  "local_rel_set base (p # ps) = (case strip_prefix base p of
     None \<Rightarrow> local_rel_set base ps | Some r \<Rightarrow> path_string r # local_rel_set base ps)"
  by (simp add: local_rel_set_def map_filter_simps split: option.split)

lemma in_local_rel_set:
  "k \<in> set (local_rel_set base ps) \<longleftrightarrow> (\<exists>r. base @ r \<in> set ps \<and> k = path_string r)"
  by (induction ps) (auto simp: local_rel_set_Cons strip_prefix_iff split: option.split
      dest: strip_prefix_None_iff[THEN iffD1], simp add: local_rel_set_def map_filter_simps)

text \<open>No file's comparison changes the index row of another.\<close>

lemma keep_each_compare:
  assumes "distinct (local_rel_set (pair_base primary) ps)"
    "keep_each (compare_file cx primary idx tot) i ps w = (Inr ys, w')"
  shows "ys = filter (needs_sync_in cx (pair_base primary) idx (w_cache w) (w_db w)) ps"
  using assms
proof (induction ps arbitrary: i w ys)
  case Nil
  then show ?case by (simp add: ret_act_def)
next
  case (Cons p ps)
  let ?b = "pair_base primary"
  from Cons.prems(2) obtain b w1 zs where
    f: "compare_file cx primary idx tot i p w = (Inr b, w1)"
    and g: "keep_each (compare_file cx primary idx tot) (Suc i) ps w1 = (Inr zs, w')"
    and ys: "ys = (if b then p # zs else zs)"
    by (auto simp: seq_act_Inr_iff ret_act_def)
  note cf = compare_file_Inr[OF f refl]
  have d: "distinct (local_rel_set ?b ps)"
    using Cons.prems(1) by (auto simp: local_rel_set_Cons split: option.splits)
  have "needs_sync_in cx ?b idx (w_cache w1) (w_db w1) q = needs_sync_in cx ?b idx (w_cache w) (w_db w) q"
    if q: "q \<in> set ps" for q
  proof (cases "strip_prefix ?b q")
    case (Some r)
    have "db_get (w_db w1) (path_string r) = db_get (w_db w) (path_string r)"
    proof (rule cf(3))
      fix r' assume r': "strip_prefix ?b p = Some r'"
      have "path_string r \<in> set (local_rel_set ?b ps)"
        using q Some by (auto simp: in_local_rel_set strip_prefix_iff)
      then show "path_string r \<noteq> path_string r'"
        using Cons.prems(1) r' by (auto simp: local_rel_set_Cons)
    qed
    with Some cf(2) show ?thesis by (simp add: needs_sync_in_def needs_sync_def)
  qed (simp add: needs_sync_in_def)
  with Cons.IH[OF d g] have "zs = filter (needs_sync_in cx ?b idx (w_cache w) (w_db w)) ps"
    by (metis (mono_tags, lifting) filter_cong)
  with ys cf(1) show ?case by simp
qed

section \<open>The inventory\<close>

fun walk_files :: "(string + dir_entry) list \<Rightarrow> path list" where
  "walk_files [] = []"
| "walk_files (Inl m # es) = walk_files es"
| "walk_files (Inr e # es) = (if de_kind e = EntryFile then de_path e # walk_files es else walk_files es)"

fun walk_dirs :: "path \<Rightarrow> (string + dir_entry) list \<Rightarrow> path list" where
  "walk_dirs base [] = []"
| "walk_dirs base (Inl m # es) = walk_dirs base es"
| "walk_dirs base (Inr e # es) =
     (if de_kind e = EntryDir \<and> strip_prefix base (de_path e) \<noteq> None \<and> strip_prefix base (de_path e) \<noteq> Some []
      then de_path e # walk_dirs base es else walk_dirs base es)"

lemma in_walk_files: "p \<in> set (walk_files es) \<longleftrightarrow> (\<exists>e. Inr e \<in> set es \<and> de_kind e = EntryFile \<and> de_path e = p)"
  by (induction es rule: walk_files.induct) auto

lemma in_walk_dirs:
  "r \<noteq> [] \<Longrightarrow> base @ r \<in> set (walk_dirs base es) \<longleftrightarrow>
     (\<exists>e. Inr e \<in> set es \<and> de_kind e = EntryDir \<and> de_path e = base @ r)"
  by (induction es rule: walk_files.induct) auto

lemma walk_entries_Inr:
  "walk_entries base n es w = (Inr r, w') \<Longrightarrow> r = (walk_dirs base es, walk_files es)"
proof (induction base n es arbitrary: w r w' rule: walk_entries.induct)
  case (3 base n e es)
  let ?pick = "\<lambda>(dirs, files). ret_act (case de_kind e of
               EntryDir \<Rightarrow>
                 (case strip_prefix base (de_path e) of
                    Some r \<Rightarrow> if r \<noteq> [] then (de_path e # dirs, files) else (dirs, files)
                  | None \<Rightarrow> (dirs, files))
             | EntryFile \<Rightarrow> (dirs, de_path e # files)
             | EntryOther \<Rightarrow> (dirs, files))"
  from "3.prems"[unfolded walk_entries.simps, THEN while_running_Inr] obtain v where
    "seq_act (walk_entries base (Suc n) es) ?pick v = (Inr r, w')"
    by (simp only: seq_status_if)
  then obtain q w2 where rec: "walk_entries base (Suc n) es v = (Inr q, w2)" and "?pick q w2 = (Inr r, w')"
    unfolding seq_act_Inr_iff by blast
  then have r: "r = (case q of (dirs, files) \<Rightarrow>
            (case de_kind e of
               EntryDir \<Rightarrow>
                 (case strip_prefix base (de_path e) of
                    Some r \<Rightarrow> if r \<noteq> [] then (de_path e # dirs, files) else (dirs, files)
                  | None \<Rightarrow> (dirs, files))
             | EntryFile \<Rightarrow> (dirs, de_path e # files)
             | EntryOther \<Rightarrow> (dirs, files)))"
    by (cases q) (simp add: ret_act_def)
  from "3.IH"[OF rec] r show ?case
    by (auto split: entry_kind.splits option.splits)
qed (simp_all add: ret_act_def)

section \<open>The directories of a finished scan are cached\<close>

lemma g_kept_insert: "g_frame.kept (cache_act (pc_insert k i p))" "g_frame.kept (cache_act (pc_insert_index idx))"
  using pc_insert_index_keeps
  by (auto simp: g_frame.kept_def cache_grows_def cache_act_def pc_insert_def dom_def)

lemma g_kept_make_remote_dir: "g_frame.kept (make_remote_dir cx cur parent part)"
  unfolding make_remote_dir_def
  by (auto intro!: g_frame.kept_retry g_frame.kept_drive_act g_frame.kept_pure simp: cache_grows_def)

lemma g_kept_ensure_chain: "g_frame.kept (ensure_chain cx cur parent parts)"
  by (induction parts arbitrary: cur parent)
     (auto simp: Let_def intro!: g_frame.kept_seq_act g_frame.kept_pure g_kept_insert g_kept_make_remote_dir
       split: option.split)

lemma g_kept_ensure_dir: "g_frame.kept (ensure_dir cx primary tot i p)"
proof -
  have "g_frame.kept (send_status s)" for s
    by (simp add: g_frame.kept_def cache_grows_def send_status_def)
  then show ?thesis
    unfolding ensure_dir_def
    by (auto intro!: g_frame.kept_while_running g_frame.kept_seq_act g_frame.kept_pure g_kept_ensure_chain
        split: option.split)
qed

lemma ensure_chain_Inr:
  "ensure_chain cx cur parent parts w = (Inr (), w') \<Longrightarrow> parts \<noteq> [] \<Longrightarrow>
   pc_lookup (w_cache w') (foldl extend_rel cur parts) \<noteq> None"
proof (induction parts arbitrary: cur parent w)
  case (Cons part parts)
  let ?cur = "extend_rel cur part"
  from Cons.prems(1) obtain parent' w1 where
    rest: "ensure_chain cx ?cur parent' parts w1 = (Inr (), w')" and known: "?cur \<in> dom (w_cache w1)"
    by (auto simp: Let_def seq_act_Inr_iff act_simps pc_lookup_def pc_insert_def split: option.splits)
  show ?case
  proof (cases "parts = []")
    case True
    with rest known show ?thesis by (auto simp: ret_act_def pc_lookup_def)
  next
    case False
    with Cons.IH[OF rest] show ?thesis by simp
  qed
qed simp

lemma foldl_extend_rel:
  "rel_ok ps \<Longrightarrow> cur \<noteq> [] \<Longrightarrow> foldl extend_rel cur ps = (if ps = [] then cur else cur @ ''/'' @ join_with ''/'' ps)"
proof (induction ps arbitrary: cur)
  case (Cons p ps)
  have "foldl extend_rel cur (p # ps) = foldl extend_rel (cur @ ''/'' @ p) ps"
    using Cons.prems by (simp add: extend_rel_def)
  also have "\<dots> = (if ps = [] then cur @ ''/'' @ p else (cur @ ''/'' @ p) @ ''/'' @ join_with ''/'' ps)"
    using Cons.prems by (intro Cons.IH) simp_all
  finally show ?case by (cases ps) simp_all
qed simp

lemma foldl_extend_path_string: "rel_ok r \<Longrightarrow> foldl extend_rel [] r = path_string r"
proof (cases r)
  case (Cons p ps)
  moreover assume "rel_ok r"
  ultimately show ?thesis
    using foldl_extend_rel[of ps p] by (cases ps) (auto simp: extend_rel_def path_string_rel name_ok_def)
qed (simp add: path_string_def)

lemma ensure_dir_Inr:
  assumes "ensure_dir cx primary tot i p w = (Inr (), w')" "p = pair_base primary @ r" "rel_ok r" "r \<noteq> []"
  shows "pc_lookup (w_cache w') (path_string r) \<noteq> None"
proof -
  define w1 where "w1 = (snd (is_cancelled w))\<lparr>w_status := w_status (snd (is_cancelled w))
    @ [ScanProgress Directories (Suc i) tot (name_of r)]\<rparr>"
  have "strip_prefix (pair_base primary) p = Some r" using assms(2) by simp
  with while_running_Inr[OF assms(1)[unfolded ensure_dir_def]] have
    "(if pc_lookup (w_cache w1) (path_string r) \<noteq> None then ret_act ()
      else ensure_chain cx [] (sp_remote_folder_id primary) r) w1 = (Inr (), w')"
    by (simp only: option.case seq_status seq_read_Inr w1_def)
  then show ?thesis
    using ensure_chain_Inr[of cx "[]" "sp_remote_folder_id primary" r w1 w'] assms(3,4)
    by (auto simp: ret_act_def foldl_extend_path_string split: if_splits)
qed

lemma each_dirs_cached:
  assumes "each (ensure_dir cx primary tot) i ps w = (Inr (), w')"
    "pair_base primary @ r \<in> set ps" "rel_ok r" "r \<noteq> []"
  shows "pc_lookup (w_cache w') (path_string r) \<noteq> None"
  using assms(1,2)
proof (induction ps arbitrary: i w)
  case (Cons p ps)
  from Cons.prems(1) obtain w1 where f: "ensure_dir cx primary tot i p w = (Inr (), w1)"
    and g: "each (ensure_dir cx primary tot) (Suc i) ps w1 = (Inr (), w')"
    by (auto simp: seq_act_Inr_iff)
  show ?case
  proof (cases "p = pair_base primary @ r")
    case True
    have "g_frame.kept (each (ensure_dir cx primary tot) (Suc i) ps)"
      by (intro g_frame.kept_each g_kept_ensure_dir)
    from g_frame.keptD[OF this g] ensure_dir_Inr[OF f True assms(3,4)] show ?thesis
      by (auto simp: cache_grows_def pc_lookup_def)
  next
    case False
    with Cons g show ?thesis by simp
  qed
qed simp

section \<open>A finished scan\<close>

definition remote_listing :: "'p engine_context \<Rightarrow> string \<Rightarrow> 'p world \<Rightarrow> remote_index" where
  "remote_listing cx folder w =
     (case fst (rp_list_remote (cx_provider cx) (w_drive w) folder) of
        Inr idx \<Rightarrow> idx | Inl _ \<Rightarrow> \<lparr>ri_files = [], ri_dirs = []\<rparr>)"

definition walked :: "'p engine_context \<Rightarrow> (path \<Rightarrow> bool \<Rightarrow> bool) \<Rightarrow> path \<Rightarrow> (string + dir_entry) list" where
  "walked cx ign base = cx_walk cx base (\<lambda>p d. \<not> ign p d)"

lemma phase_remote_Inr:
  "phase_remote cx primary w = (Inr idx, w') \<Longrightarrow> idx = remote_listing cx (sp_remote_folder_id primary) w"
  by (auto simp: phase_remote_def seq_act_Inr_iff act_simps list_remote_or_empty_def remote_listing_def
      split: prod.splits sum.splits)

lemma phase_local_Inr:
  "phase_local cx ign base w = (Inr (ds, fs), w') \<Longrightarrow>
     ds = walk_dirs base (walked cx ign base) \<and> fs = walk_files (walked cx ign base)"
  by (auto simp: phase_local_def seq_act_Inr_iff act_simps walked_def dest!: walk_entries_Inr)

text \<open>The files to upload, and the whole list of tasks, as functions of the state.\<close>

definition files_to_sync ::
  "'p engine_context \<Rightarrow> path \<Rightarrow> string list \<Rightarrow> path_cache \<Rightarrow> database \<Rightarrow> path list \<Rightarrow> path list" where
  "files_to_sync cx base idx cache db files =
     filter (\<lambda>p. file_len p (cx_disk cx) > 0 \<and> needs_sync_in cx base idx cache db p) files"

definition expected_tasks ::
  "'p engine_context \<Rightarrow> (path \<Rightarrow> bool \<Rightarrow> bool) \<Rightarrow> path \<Rightarrow> string list \<Rightarrow> path_cache \<Rightarrow> database \<Rightarrow> remote_file list
   \<Rightarrow> task list" where
  "expected_tasks cx ign base idx cache db rfs =
     (let files = walk_files (walked cx ign base); rels = local_rel_set base files in
      map SyncFile (files_to_sync cx base idx cache db files)
      @ map (\<lambda>k. Delete (path_join base (components k))) (filter (\<lambda>k. k \<notin> set rels) idx)
      @ map (\<lambda>rf. Delete (orphan_path base rf)) (filter (is_orphan cx ign base rels idx) rfs))"

lemma scan_compare_Inr:
  assumes "scan_compare cx ign primary idx files w = (Inr (), w')"
  obtains paths to_sync v where "db_all_paths (w_db w) = Inr paths"
    "w_queue v = w_queue w" "w_cache v = w_cache w" "w_cache w' = w_cache w"
    "distinct (local_rel_set (pair_base primary) files) \<Longrightarrow>
       to_sync = files_to_sync cx (pair_base primary) (cx_order cx paths) (w_cache w) (w_db w) files"
    "scan_tasks cx ign (pair_base primary) idx (cx_order cx paths) files to_sync v = (Inr (), w')"
proof -
  define w1 where "w1 = w\<lparr>w_status := w_status w
    @ [ScanProgress Comparing 0 (length files) (''comparaison'' @ ellipsis)]\<rparr>"
  have same: "w_db w1 = w_db w" "w_queue w1 = w_queue w" "w_cache w1 = w_cache w" by (simp_all add: w1_def)
  from assms[unfolded scan_compare_def seq_status w1_def[symmetric]] obtain paths to_sync v where
    paths: "db_all_paths (w_db w1) = Inr paths"
    and cmp: "phase_compare cx primary (cx_order cx paths) files w1 = (Inr to_sync, v)"
    and tasks: "scan_tasks cx ign (pair_base primary) idx (cx_order cx paths) files to_sync v = (Inr (), w')"
    by (auto simp: seq_act_Inr_iff read_act_def)
  have "q_frame.kept (phase_compare cx primary (cx_order cx paths) files)"
    by (intro q_frame.kept_phase_compare q_kept_basic)
  from q_frame.keptD[OF this cmp] have q: "w_queue v = w_queue w1" by (simp add: queue_kept_def)
  have "c_frame.kept (phase_compare cx primary (cx_order cx paths) files)"
    by (intro c_frame.kept_phase_compare c_kept_basic)
  from c_frame.keptD[OF this cmp] have c: "w_cache v = w_cache w1" by (simp add: cache_kept_def)
  have "c_frame.kept (scan_tasks cx ign (pair_base primary) idx (cx_order cx paths) files to_sync)"
    unfolding scan_tasks_def Let_def
    by (intro c_frame.kept_seq_act c_frame.kept_phase_tasks c_frame.kept_cond c_kept_basic c_frame.kept_pure)
  from c_frame.keptD[OF this tasks] have c': "w_cache w' = w_cache v" by (simp add: cache_kept_def)
  from cmp obtain zs where z: "keep_each (compare_file cx primary (cx_order cx paths) (length files)) 0 files w1 = (Inr zs, v)"
    "to_sync = filter (\<lambda>p. file_len p (cx_disk cx) > 0) zs"
    by (auto simp: phase_compare_def seq_act_Inr_iff ret_act_def)
  show thesis
  proof (rule that[OF _ _ _ _ _ tasks])
    assume d: "distinct (local_rel_set (pair_base primary) files)"
    show "to_sync = files_to_sync cx (pair_base primary) (cx_order cx paths) (w_cache w) (w_db w) files"
      using keep_each_compare[OF d z(1)] z(2) same by (simp add: files_to_sync_def conj_commute)
  qed (use paths q c c' same in simp_all)
qed

lemma q_kept_phases:
  "q_frame.kept (phase_remote cx primary)" "q_frame.kept (phase_local cx ign base)"
  "q_frame.kept (phase_dirs cx primary ds)"
  unfolding phase_remote_def
  by (intro q_frame.kept_seq_act q_frame.kept_pure q_frame.kept_phase_local q_frame.kept_phase_dirs q_kept_basic)+

lemma i_kept_phases:
  "i_frame.kept (phase_remote cx primary)" "i_frame.kept (phase_local cx ign base)"
  "i_frame.kept (phase_dirs cx primary ds)"
  unfolding phase_remote_def
  by (intro i_frame.kept_seq_act i_frame.kept_pure i_frame.kept_phase_local i_frame.kept_phase_dirs i_kept_basic)+

lemma scan_run_Inr:
  assumes run: "scan_run cx ign w = (Inr (), w')" and primary: "get_primary_pair (cx_cfg cx) = Some primary"
  obtains paths to_sync v where
    "\<And>r. rel_ok r \<Longrightarrow> r \<noteq> [] \<Longrightarrow> pair_base primary @ r \<in> set (walk_dirs (pair_base primary)
       (walked cx ign (pair_base primary))) \<Longrightarrow> pc_lookup (w_cache w') (path_string r) \<noteq> None"
    "db_all_paths (w_db w) = Inr paths" "w_queue v = w_queue w" "w_cache v = w_cache w'"
    "distinct (local_rel_set (pair_base primary) (walk_files (walked cx ign (pair_base primary)))) \<Longrightarrow>
       to_sync = files_to_sync cx (pair_base primary) (cx_order cx paths) (w_cache w') (w_db w)
         (walk_files (walked cx ign (pair_base primary)))"
    "scan_tasks cx ign (pair_base primary) (remote_listing cx (sp_remote_folder_id primary) w) (cx_order cx paths)
       (walk_files (walked cx ign (pair_base primary))) to_sync v = (Inr (), w')"
proof -
  let ?b = "pair_base primary"
  have "primary_pair cx w = (Inr primary, w)" by (simp add: primary_pair_def read_act_def primary)
  with run obtain idx w1 ds fs w2 w3 where
    r: "phase_remote cx primary w = (Inr idx, w1)"
    and l: "phase_local cx ign ?b w1 = (Inr (ds, fs), w2)"
    and d: "phase_dirs cx primary ds w2 = (Inr (), w3)"
    and s: "scan_compare cx ign primary idx fs w3 = (Inr (), w')"
    by (auto simp: scan_run_def seq_act_Inr_iff)
  note idx = phase_remote_Inr[OF r] and inv = phase_local_Inr[OF l]
  note q = q_kept_phases(1)[THEN q_frame.keptD, OF r] q_kept_phases(2)[THEN q_frame.keptD, OF l]
    q_kept_phases(3)[THEN q_frame.keptD, OF d]
  note i = i_kept_phases(1)[THEN i_frame.keptD, OF r] i_kept_phases(2)[THEN i_frame.keptD, OF l]
    i_kept_phases(3)[THEN i_frame.keptD, OF d]
  from s obtain paths to_sync v where c: "db_all_paths (w_db w3) = Inr paths"
    "w_queue v = w_queue w3" "w_cache v = w_cache w3" "w_cache w' = w_cache w3"
    "distinct (local_rel_set ?b fs) \<Longrightarrow> to_sync = files_to_sync cx ?b (cx_order cx paths) (w_cache w3) (w_db w3) fs"
    "scan_tasks cx ign ?b idx (cx_order cx paths) fs to_sync v = (Inr (), w')"
    by (rule scan_compare_Inr) blast
  show thesis
  proof (rule that[of paths v to_sync])
    fix r assume "rel_ok r" "r \<noteq> []" "?b @ r \<in> set (walk_dirs ?b (walked cx ign ?b))"
    then show "pc_lookup (w_cache w') (path_string r) \<noteq> None"
      using each_dirs_cached[OF d[unfolded phase_dirs_def]] inv c(4) by simp
  qed (use c q i idx inv in \<open>simp_all add: queue_kept_def index_kept_def\<close>)
qed

section \<open>Dry runs\<close>

lemma d_kept_compare:
  assumes "cx_dry_run cx"
  shows "d_frame.kept (scan_compare cx ign primary idx files)"
  unfolding scan_compare_def scan_tasks_def Let_def
  by (intro d_frame.kept_seq_act d_frame.kept_pure d_frame.kept_phase_compare d_frame.kept_phase_tasks
      d_frame.kept_cond d_kept_basic) (use assms in simp_all)

lemma list_remote_world:
  "list_remote_or_empty cx folder w =
     (Inr (remote_listing cx folder w), w\<lparr>w_drive := snd (rp_list_remote (cx_provider cx) (w_drive w) folder)\<rparr>)"
  by (simp add: list_remote_or_empty_def remote_listing_def split: prod.split sum.split)

lemma scan_dry_run_keeps:
  assumes "cx_dry_run cx" "get_primary_pair (cx_cfg cx) = Some primary" "scan_run cx ign w = (res, w')"
  shows "w_queue w' = w_queue w \<and> w_tracker w' = w_tracker w \<and>
    w_drive w' = snd (rp_list_remote (cx_provider cx) (w_drive w) (sp_remote_folder_id primary))"
proof -
  let ?rest = "\<lambda>idx. seq_act (phase_local cx ign (pair_base primary)) (\<lambda>(local_dirs, local_files).
     seq_act (phase_dirs cx primary local_dirs) (\<lambda>_. scan_compare cx ign primary idx local_files))"
  have rest: "d_frame.kept (?rest idx)" for idx
    by (intro d_frame.kept_seq_act d_frame.kept_case_prod d_frame.kept_phase_local d_frame.kept_phase_dirs
        d_kept_compare d_kept_basic assms(1))
  have "primary_pair cx w = (Inr primary, w)" by (simp add: primary_pair_def read_act_def assms(2))
  then have run: "scan_run cx ign w = seq_act (phase_remote cx primary) ?rest w" by (simp add: scan_run_def)
  obtain idx w1 where r: "phase_remote cx primary w = (Inr idx, w1)"
    "w_queue w1 = w_queue w" "w_tracker w1 = w_tracker w"
    "w_drive w1 = snd (rp_list_remote (cx_provider cx) (w_drive w) (sp_remote_folder_id primary))"
    by (simp add: phase_remote_def seq_act_def list_remote_world send_status_def cache_act_def ret_act_def)
  from assms(3) run r(1) have "?rest idx w1 = (res, w')" by simp
  from d_frame.keptD[OF rest this] r show ?thesis by (simp add: dry_kept_def)
qed

section \<open>Stopping\<close>

text \<open>A stopped engine sends no more task and makes no more directory.\<close>

lemma while_running_stopped: "w_cancel w = Some 0 \<Longrightarrow> while_running m w = (Inl [interrupted_msg], w)"
  by (simp add: while_running_def seq_act_def fail_act_def)

section \<open>Remote files stay cached\<close>

lemma g_kept_status: "g_frame.kept (send_status s)"
  by (simp add: g_frame.kept_def cache_grows_def send_status_def)

lemma cache_kept_grows: "c_frame.kept m \<Longrightarrow> g_frame.kept m"
  unfolding c_frame.kept_def g_frame.kept_def cache_kept_def cache_grows_def by simp

lemma g_kept_compare: "g_frame.kept (scan_compare cx ign primary idx files)"
  unfolding scan_compare_def scan_tasks_def Let_def
  by (intro cache_kept_grows c_frame.kept_seq_act c_frame.kept_pure c_frame.kept_phase_compare
      c_frame.kept_phase_tasks c_frame.kept_cond c_kept_basic)

lemma scan_run_remote_cached:
  assumes run: "scan_run cx ign w = (Inr (), w')" and primary: "get_primary_pair (cx_cfg cx) = Some primary"
    and rf: "rf \<in> set (ri_files (remote_listing cx (sp_remote_folder_id primary) w))"
  shows "pc_lookup (w_cache w') (rf_relative_path rf) \<noteq> None"
proof -
  let ?b = "pair_base primary"
  have "primary_pair cx w = (Inr primary, w)" by (simp add: primary_pair_def read_act_def primary)
  with run obtain idx w1 w2 where r: "phase_remote cx primary w = (Inr idx, w1)"
    and rest: "seq_act (phase_local cx ign ?b) (\<lambda>(ds, fs). seq_act (phase_dirs cx primary ds) (\<lambda>_.
      scan_compare cx ign primary idx fs)) w1 = (Inr (), w')"
    by (auto simp: scan_run_def seq_act_Inr_iff)
  have "rf \<in> set (ri_files idx)" using rf phase_remote_Inr[OF r] by simp
  moreover obtain m where "w_cache w1 = pc_insert_index idx m"
    using r by (auto simp: phase_remote_def seq_act_Inr_iff act_simps)
  ultimately have in1: "rf_relative_path rf \<in> dom (w_cache w1)"
    using pc_insert_index_known[of "rf_relative_path rf" idx m] by auto
  have k: "g_frame.kept (seq_act (phase_local cx ign ?b) (\<lambda>(ds, fs). seq_act (phase_dirs cx primary ds) (\<lambda>_.
      scan_compare cx ign primary idx fs)))"
    unfolding phase_dirs_def
    by (intro g_frame.kept_seq_act g_frame.kept_case_prod g_frame.kept_phase_local g_frame.kept_each
        g_kept_ensure_dir g_kept_status g_kept_compare)
  from in1 g_frame.keptD[OF k rest] show ?thesis by (auto simp: cache_grows_def pc_lookup_def)
qed

text \<open>The queue of a finished scan, put together.\<close>

lemma scan_run_queue:
  assumes "scan_run cx ign w = (Inr (), w')" "\<not> cx_dry_run cx" "get_primary_pair (cx_cfg cx) = Some primary"
    and "distinct (local_rel_set (pair_base primary) (walk_files (walked cx ign (pair_base primary))))"
  obtains paths where "db_all_paths (w_db w) = Inr paths"
    "w_queue w' = w_queue w @ expected_tasks cx ign (pair_base primary) (cx_order cx paths) (w_cache w') (w_db w)
      (ri_files (remote_listing cx (sp_remote_folder_id primary) w))"
proof -
  from scan_run_Inr[OF assms(1,3)] obtain paths to_sync v where
    s: "db_all_paths (w_db w) = Inr paths" "w_queue v = w_queue w"
    "distinct (local_rel_set (pair_base primary) (walk_files (walked cx ign (pair_base primary)))) \<Longrightarrow>
       to_sync = files_to_sync cx (pair_base primary) (cx_order cx paths) (w_cache w') (w_db w)
         (walk_files (walked cx ign (pair_base primary)))"
    "scan_tasks cx ign (pair_base primary) (remote_listing cx (sp_remote_folder_id primary) w) (cx_order cx paths)
       (walk_files (walked cx ign (pair_base primary))) to_sync v = (Inr (), w')"
    by metis
  with scan_tasks_queue[OF assms(2) s(4)] s(3)[OF assms(4)] show thesis
    by (intro that) (simp_all add: expected_tasks_def Let_def)
qed

lemma walk_files_unreadable: "\<forall>x \<in> set es. \<exists>m. x = Inl m \<Longrightarrow> walk_files es = []"
  by (induction es rule: walk_files.induct) auto

lemma in_files_to_sync:
  "SyncFile p \<in> set (expected_tasks cx ign base idx cache db rfs) \<Longrightarrow> needs_sync_in cx base idx cache db p"
  by (auto simp: expected_tasks_def files_to_sync_def Let_def)

text \<open>
  A scan queues no upload for a local file that is not in the index when the remote listing has a file
  of the same path: whatever its content and the remote checksum, it is taken for synchronised.
\<close>

lemma listed_files_are_adopted_unseen:
  assumes "scan_run cx ign w = (Inr (), w')" "\<not> cx_dry_run cx" "get_primary_pair (cx_cfg cx) = Some primary"
    and "distinct (local_rel_set (pair_base primary) (walk_files (walked cx ign (pair_base primary))))"
    and "db_ok (w_db w)" "\<And>ps. set (cx_order cx ps) = set ps" "w_queue w = []"
    and "file_index_get (w_db w) (path_string r) = None"
    and "rf \<in> set (ri_files (remote_listing cx (sp_remote_folder_id primary) w))" "rf_relative_path rf = path_string r"
  shows "SyncFile (pair_base primary @ r) \<notin> set (w_queue w')"
proof
  assume queued: "SyncFile (pair_base primary @ r) \<in> set (w_queue w')"
  from scan_run_queue[OF assms(1-4)] obtain paths where q: "db_all_paths (w_db w) = Inr paths"
    "w_queue w' = w_queue w @ expected_tasks cx ign (pair_base primary) (cx_order cx paths) (w_cache w') (w_db w)
      (ri_files (remote_listing cx (sp_remote_folder_id primary) w))" by metis
  have "path_string r \<notin> set (cx_order cx paths)"
    using index_paths_map[OF assms(5)] q(1) assms(6,8) by auto
  moreover have "pc_lookup (w_cache w') (path_string r) \<noteq> None"
    using scan_run_remote_cached[OF assms(1,3,9)] assms(10) by simp
  moreover have "needs_sync_in cx (pair_base primary) (cx_order cx paths) (w_cache w') (w_db w) (pair_base primary @ r)"
    using queued q(2) assms(7) by (auto dest!: in_files_to_sync)
  ultimately show False by (simp add: needs_sync_in_def needs_sync_def split: if_splits)
qed

end
