(* ===== verification/Engine_Laws.thy ===== *)
theory Engine_Laws
  imports Engine Scan_Laws
begin

text \<open>
  Invariants of the engine: what a relation between worlds needs to survive every step, the
  bound on running workers, and what a cancelled token stops.
\<close>

section \<open>World relations kept by every step\<close>

locale engine_frame = frame W for W :: "'p world \<Rightarrow> 'p world \<Rightarrow> bool" +
  assumes W_scan: "W w (snd (scan_run cx ign w))"
    and W_handle: "W w (snd (handle cx ign t w))"
    and W_flush: "W w (snd (flush_queue base w))"
    and W_drive: "W w (w\<lparr>w_drive := d\<rparr>)"
    and W_clear: "W w (snd (db_act db_clear w))"
    and W_clear_dirs: "W w (snd (db_act db_clear_dirs w))"
    and W_cancel: "W w (w\<lparr>w_cancel := c\<rparr>)"
    and W_tracker: "W w (w\<lparr>w_tracker := tk\<rparr>)"
    and W_status: "W w (w\<lparr>w_status := s\<rparr>)"
    and W_queue: "W w (w\<lparr>w_queue := q\<rparr>)"
    and W_tick: "W w (snd (dispatch_tick dp off unix now pd w))"
    and W_notify: "W w (snd (dispatch_event dp b unix now ev pd w))"
begin

definition ek :: "'p engine \<Rightarrow> 'p engine \<Rightarrow> bool" where
  "ek e e' = W (en_world e) (en_world e')"

lemma ek_refl [simp]: "ek e e"
  by (simp add: ek_def R_refl)

lemma ek_trans: "ek a b \<Longrightarrow> ek b c \<Longrightarrow> ek a c"
  unfolding ek_def by (rule R_trans)

lemma ek_send_st: "ek e (send_st s e)"
  by (simp add: ek_def send_st_def send_status_def W_status)

lemma ek_cancel_token: "ek e (cancel_token e)"
  by (simp add: ek_def cancel_token_def W_cancel)

lemma ek_finish: "ek e (finish e)"
  using ek_send_st[of e] by (simp add: ek_def finish_def)

lemma ek_return_err: "ek e (return_err m e)"
  by (simp add: ek_def return_err_def R_refl)

lemma ek_after_scan: "ek e (after_scan r e)" "ek e (after_rescan r e)" "ek e (after_initial_scan r e)"
  using ek_send_st ek_cancel_token ek_finish ek_trans[OF ek_cancel_token ek_finish]
  by (auto simp: after_scan_def after_rescan_def after_initial_scan_def split: sum.split)
     (simp add: ek_def send_st_def send_status_def W_status)

lemma ek_pause_for: "ek e (pause_for s e)"
  by (simp add: ek_def pause_for_def send_st_def send_status_def W_status)

lemma cut_scan_kept: "cut_scan cx ign n w = Some w' \<Longrightarrow> W w w'"
  using W_scan[of "w\<lparr>w_cancel := Some n\<rparr>" cx ign] W_cancel[of w "Some n"] W_cancel[of _ "w_cancel w"]
  by (auto simp: cut_scan_def split: prod.splits if_splits intro: R_trans)

lemma ek_world: "W (en_world e) w \<Longrightarrow> ek e (e\<lparr>en_world := w\<rparr>)"
  by (simp add: ek_def)

lemma ek_run_whole_scan:
  assumes "\<And>r e. ek e (k r e)"
  shows "ek e (run_whole_scan cx ign k e)"
proof -
  obtain r w where r: "scan_run cx ign (en_world e) = (r, w)" by fastforce
  then have w: "W (en_world e) w" using W_scan[of "en_world e" cx ign] by simp
  then have "ek e (k r (e\<lparr>en_world := w\<rparr>))" using ek_trans[OF ek_world assms] by blast
  with r w show ?thesis by (simp add: run_whole_scan_def ek_def)
qed

lemma ek_cuts: "ek e (apply_cut c e)" "ek e (apply_initial_cut c e)"
  using ek_pause_for ek_cancel_token ek_trans[OF ek_cancel_token ek_finish]
  by (auto simp: apply_cut_def apply_initial_cut_def)

lemma ek_cut:
  "cut_scan cx ign n (en_world e) = Some w \<Longrightarrow> (\<And>e. ek e (f e)) \<Longrightarrow> ek e (f (e\<lparr>en_world := w\<rparr>))"
  using ek_trans[OF ek_world[OF cut_scan_kept]] by blast

lemma ek_await_scan: "await_scan cx ign cmds n e = Some e' \<Longrightarrow> ek e e'"
  by (auto simp: await_scan_def intro: ek_run_whole_scan ek_after_scan ek_cut ek_cuts split: option.splits)

lemma ek_initial_scan: "initial_scan cx ign cmds n e = Some e' \<Longrightarrow> ek e e'"
  by (auto simp: initial_scan_def intro: ek_run_whole_scan ek_after_scan ek_cut ek_cuts split: option.splits)

lemma ek_reset: "ek e (send_st s (e\<lparr>en_world := (en_world e)\<lparr>w_tracker := tk\<rparr>\<rparr>))"
  using ek_trans[OF ek_world[OF W_tracker] ek_send_st] .

lemma ek_start_scan: "start_scan env dk pr cmds n e = Some e' \<Longrightarrow> ek e e'"
  by (auto simp: start_scan_def Let_def intro: ek_trans[OF ek_reset ek_return_err] ek_trans[OF ek_reset ek_await_scan]
      split: option.splits sum.splits)

lemma ek_same: "en_world e' = en_world e \<Longrightarrow> ek e e'"
  by (simp add: ek_def R_refl)

lemma ek_idle: "ek e (idle_if_running e)"
  by (simp add: idle_if_running_def ek_send_st)

lemma ek_rewatch: "ek e (rewatch env base e)"
proof -
  obtain r w where c: "db_act db_clear (en_world e) = (r, w)" by fastforce
  obtain r' w' where d: "db_act db_clear_dirs w = (r', w')" by fastforce
  have "W (en_world e) w" "W w w'" using W_clear[of "en_world e"] W_clear_dirs[of w] c d by simp_all
  then have "W (en_world e) w" "W (en_world e) w'" by (auto intro: R_trans)
  with c d show ?thesis
    by (simp add: rewatch_def Let_def ek_def return_err_def split: sum.split option.split)
qed

lemma ek_on_command_paused:
  assumes "on_command_paused env dk c cmds n e = Some e'"
  shows "ek e e'"
proof -
  have r: "ek e e2" if "start_scan env dk pr cmds n (e\<lparr>en_paused := False, en_rescan_on_resume := False\<rparr>) = Some e2"
    for pr e2 using ek_start_scan[OF that] by (simp add: ek_def)
  have w: "ek e (rewatch env b (e\<lparr>en_cfg := cfg, en_rescan_on_resume := True\<rparr>))" for b cfg
    using ek_rewatch[of "e\<lparr>en_cfg := cfg, en_rescan_on_resume := True\<rparr>" env b] by (simp add: ek_def)
  have i: "ek e (send_st Idle (e\<lparr>en_paused := False\<rparr>))"
    using ek_send_st[of "e\<lparr>en_paused := False\<rparr>"] by (simp add: ek_def)
  show ?thesis
    using assms r w i ek_send_st ek_trans[OF ek_cancel_token ek_finish] ek_trans[OF _ ek_idle] ek_return_err
    by (auto simp: on_command_paused_def Let_def ek_same split: option.splits engine_command.splits if_splits)
qed

lemma ek_on_command:
  assumes "on_command env dk c cmds n e = Some e'"
  shows "ek e e'"
proof -
  have p: "ek e (send_st s (e\<lparr>en_paused := b\<rparr>))" for s b
    using ek_send_st[of "e\<lparr>en_paused := b\<rparr>"] by (simp add: ek_def)
  have i: "ek e (idle_if_running (e\<lparr>en_cfg := cfg\<rparr>))" for cfg
    using ek_idle[of "e\<lparr>en_cfg := cfg\<rparr>"] by (simp add: ek_def)
  have w: "ek e (rewatch env b (e\<lparr>en_cfg := cfg\<rparr>))" for b cfg
    using ek_rewatch[of "e\<lparr>en_cfg := cfg\<rparr>" env b] by (simp add: ek_def)
  note w' = ek_trans[OF w ek_idle] ek_trans[OF w ek_trans[OF ek_start_scan ek_idle]]
  show ?thesis
    using assms p i w' ek_start_scan ek_trans[OF ek_cancel_token ek_finish] ek_return_err
    by (auto simp: on_command_def Let_def ek_same split: option.splits engine_command.splits if_splits)
qed

lemma W_drive_act: "W w (snd (drive_act f w))"
  using W_drive by (auto simp: drive_act_def split: prod.splits)

lemma ek_flush_now: "ek e (flush_now e)"
  using W_flush[of "en_world e" "en_local_root e"]
  by (auto simp: flush_now_def ek_def split: prod.splits)

lemma ek_on_health: "ek e (on_health env e)"
proof -
  obtain r w1 where h: "drive_act (rp_check_health (ev_provider env)) (en_world e) = (r, w1)" by fastforce
  obtain q w2 where a: "drive_act (rp_refresh_auth (ev_provider env)) w1 = (q, w2)" by fastforce
  have w1: "W (en_world e) w1" using W_drive_act[of "en_world e"] h by (metis snd_conv)
  moreover have "W w1 w2" using W_drive_act[of w1] a by (metis snd_conv)
  ultimately have w2: "W (en_world e) w2" by (rule R_trans)
  let ?e2 = "e\<lparr>en_world := w2, en_offline := False\<rparr>"
  have "ek e ?e2" using w2 by (simp add: ek_def)
  then have f: "ek e (flush_now (send_st Idle ?e2))" using ek_send_st ek_flush_now ek_trans by blast
  have o: "ek e (send_st s (e\<lparr>en_world := w1, en_offline := True\<rparr>))" for s
    using ek_trans[OF _ ek_send_st] w1 by (simp add: ek_def)
  show ?thesis using h a w1 f o by (auto simp: on_health_def Let_def ek_def)
qed

lemma ek_on_rescan: "ek e (on_rescan env dk e)"
  by (auto simp: on_rescan_def Let_def intro: ek_trans[OF ek_reset ek_return_err]
      ek_trans[OF ek_reset ek_run_whole_scan[OF ek_after_scan(2)]] split: option.splits sum.splits)

lemma ek_on_task: "on_task e = Some e' \<Longrightarrow> ek e e'"
  by (auto simp: on_task_def Let_def ek_def return_err_def W_queue split: list.splits option.splits if_splits)

lemma ek_job_done: "ek e (job_done i e)"
proof -
  have "ek e (e\<lparr>en_world := (en_world e)\<lparr>w_tracker := tk\<rparr>, en_active := a, en_jobs := js\<rparr>)" for tk a js
    by (simp add: ek_def W_tracker)
  then show ?thesis using ek_trans[OF _ ek_send_st] by (simp add: job_done_def Let_def)
qed

lemma ek_look: "is_cancelled (en_world e) = (r, w) \<Longrightarrow> ek e (e\<lparr>en_world := w\<rparr>)"
  using R_look[of "en_world e"] by (simp add: ek_def)

lemma ek_report_err: "ek e (report_err m e)"
  using ek_trans[OF ek_look ek_send_st] ek_look
  by (auto simp: report_err_def split: prod.splits sum.splits bool.splits)

lemma ek_run_job:
  assumes "run_job env dk i e = Some e'"
  shows "ek e e'"
proof -
  obtain t cfg pats where j: "en_jobs e ! i = (t, cfg, pats)" by (cases "en_jobs e ! i") auto
  have h: "ek e (job_done i e1)" "ek e (job_done i (report_err m e1))"
    if "is_cancelled (en_world e) = (r, w)" "handle cx ign t w = (q, w')" "e1 = e\<lparr>en_world := w'\<rparr>"
    for r w cx ign q w' e1 m
  proof -
    have "W (en_world e) w'"
      using R_look[of "en_world e"] W_handle[of w cx ign t] that(1,2) by (auto intro: R_trans)
    then have "ek e e1" using that(3) by (simp add: ek_def)
    then show "ek e (job_done i e1)" "ek e (job_done i (report_err m e1))"
      using ek_job_done ek_report_err ek_trans by blast+
  qed
  show ?thesis
    using assms j h ek_look ek_trans[OF ek_look ek_job_done]
    by (fastforce simp: run_job_def Let_def ek_def split: if_splits prod.splits sum.splits bool.splits)
qed

lemma ek_main_step:
  assumes "main_step k e = Some e'" "\<And>e e'. k e = Some e' \<Longrightarrow> ek e e'"
  shows "ek e e'"
  using assms ek_look ek_trans[OF ek_look ek_finish] ek_trans[OF ek_look assms(2)]
  by (auto simp: main_step_def split: if_splits prod.splits sum.splits bool.splits)

lemma ek_put_dispatch:
  "put_dispatch r e = Some e' \<Longrightarrow> W (en_world e) (snd r) \<Longrightarrow> ek e e'"
  by (auto simp: put_dispatch_def ek_def split: prod.splits sum.splits)

lemma engine_step_kept:
  assumes "engine_step env ev e = Some e'"
  shows "W (en_world e) (en_world e')"
proof -
  have "ek e e'"
  proof (cases ev)
    case (MainCommand c cmds n dk)
    with assms show ?thesis
      by (auto simp: engine_step_def intro: ek_on_command ek_on_command_paused elim!: ek_main_step split: if_splits)
  next
    case MainHealth
    with assms show ?thesis
      by (auto simp: engine_step_def intro!: ek_on_health elim!: ek_main_step split: if_splits)
  next
    case (MainRescan dk)
    with assms show ?thesis
      by (auto simp: engine_step_def intro!: ek_on_rescan elim!: ek_main_step split: if_splits)
  next
    case MainTask
    with assms show ?thesis
      by (auto simp: engine_step_def intro!: ek_on_task elim!: ek_main_step split: if_splits)
  next
    case MainStop
    with assms show ?thesis by (auto simp: engine_step_def elim!: ek_main_step)
  next
    case (BgJob i dk)
    with assms show ?thesis by (auto simp: engine_step_def bg_step_def ek_run_job split: if_splits)
  next
    case (BgTick unix now dk)
    with assms show ?thesis
      by (auto simp: engine_step_def bg_step_def intro: ek_put_dispatch W_tick split: if_splits)
  next
    case (BgNotify unix now dk we)
    with assms show ?thesis
      by (auto simp: engine_step_def bg_step_def intro: ek_put_dispatch W_notify split: if_splits)
  next
    case BgPublish
    with assms show ?thesis
      by (auto simp: engine_step_def bg_step_def publish_progress_def Let_def ek_send_st split: if_splits)
  qed
  then show ?thesis by (simp add: ek_def)
qed

lemma engine_reach_kept: "engine_reach env e0 e \<Longrightarrow> W (en_world e0) (en_world e)"
  by (induction rule: engine_reach.induct) (auto intro: R_refl R_trans engine_step_kept)

lemma run_with_provider_kept:
  assumes "run_with_provider env dk cmds n e = Some e'"
  shows "W (en_world e) (en_world e')"
proof -
  have loop: "ek e (enter_loop env pr e)" for e pr
    using ek_send_st[of e] by (auto simp: enter_loop_def Let_def ek_def return_err_def R_refl split: option.split)
  have "ek e e'"
    using assms ek_return_err ek_trans[OF ek_trans[OF ek_send_st ek_send_st] ek_trans[OF ek_initial_scan loop]]
    by (auto simp: run_with_provider_def split: option.splits sum.splits)
  then show ?thesis by (simp add: ek_def)
qed

end

section \<open>The database and the task channel\<close>

context frame
begin

lemma kept_flush_queue:
  assumes "\<And>t. kept (send_task t)" "\<And>i. kept (db_act (db_remove_offline_task i))"
  shows "kept (flush_queue base)"
proof -
  have "kept (flush_rows base ots)" for ots
    by (induction base ots rule: flush_rows.induct)
       (auto intro!: kept_seq_act kept_pure assms split: option.split)
  then show ?thesis unfolding flush_queue_def by (intro kept_seq_act kept_pure kept_cond)
qed

lemma kept_dispatch:
  assumes "\<And>t. kept (send_task t)" "\<And>b. kept (count_task b)" "\<And>u a r x. kept (push_offline u a r x)"
  shows "kept (dispatch_tick dp off unix now pd)" "kept (dispatch_event dp b unix now ev pd)"
proof -
  have path: "kept (dispatch_path dp b unix p)" for b p
    unfolding dispatch_path_def by (auto intro!: kept_seq_act kept_pure assms split: option.split)
  have "kept (dispatch_paths dp off unix ps pd)" for ps
    by (induction ps arbitrary: pd)
       (auto simp: Let_def intro!: kept_seq_act kept_pure path assms)
  then show "kept (dispatch_tick dp off unix now pd)" by (simp add: dispatch_tick_def)
  show "kept (dispatch_event dp b unix now ev pd)"
    unfolding dispatch_event_def Let_def
    by (auto intro!: kept_seq_act kept_pure assms split: watch_event.split option.split)
qed

end

lemma db_kept_more:
  "db_frame.kept (count_task b)" "db_frame.kept (push_offline u a r x)"
  "db_frame.kept (db_act (db_remove_offline_task i))" "db_frame.kept (db_act db_clear)"
  "db_frame.kept (db_act db_clear_dirs)"
proof -
  show "db_frame.kept (count_task b)"
    by (simp add: db_frame.kept_def db_ok_kept_def count_task_def tracker_act_def)
  show "db_frame.kept (push_offline u a r x)"
    by (auto simp: db_frame.kept_def db_ok_kept_def push_offline_def intro: db_push_ok split: sum.splits)
qed (auto intro!: db_kept_db_act intro: db_queue_ok db_clear_ok db_dirs_ok)

interpretation db_engine: engine_frame db_ok_kept
proof
  show "db_ok_kept w (snd (scan_run cx ign w))" for w :: "'a world" and cx ign
    using scan_run_db_ok unfolding db_frame.kept_def by blast
  show "db_ok_kept w (snd (handle cx ign t w))" for w :: "'a world" and cx ign t
    using db_task.kept_handle unfolding db_frame.kept_def by blast
  show "db_ok_kept w (snd (flush_queue base w))" for w :: "'a world" and base
    using db_frame.kept_flush_queue[OF db_kept_basic(4) db_kept_more(3)] unfolding db_frame.kept_def by blast
  show "db_ok_kept w (snd (dispatch_tick dp off unix now pd w))" for w :: "'a world" and dp off unix now pd
    using db_frame.kept_dispatch(1)[OF db_kept_basic(4) db_kept_more(1,2)] unfolding db_frame.kept_def by blast
  show "db_ok_kept w (snd (dispatch_event dp b unix now ev pd w))" for w :: "'a world" and dp b unix now ev pd
    using db_frame.kept_dispatch(2)[OF db_kept_basic(4) db_kept_more(1,2)] unfolding db_frame.kept_def by blast
  show "db_ok_kept w (snd (db_act db_clear w))" "db_ok_kept w (snd (db_act db_clear_dirs w))" for w :: "'a world"
    using db_kept_more(4,5) unfolding db_frame.kept_def by blast+
qed (auto simp: db_ok_kept_def)

section \<open>Workers\<close>

definition statics :: "'p engine \<Rightarrow> 'p engine \<Rightarrow> bool" where
  "statics e e' = (en_jobs e' = en_jobs e \<and> en_active e' = en_active e \<and> en_permits e' = en_permits e \<and>
     en_scan_cfg e' = en_scan_cfg e \<and> en_dry_run e' = en_dry_run e)"

lemma statics_basic [simp]:
  "statics e e" "statics e (send_st s e)" "statics e (cancel_token e)" "statics e (finish e)"
  "statics e (return_err m e)" "statics e (pause_for s e)" "statics e (idle_if_running e)"
  "statics e (after_scan r e)" "statics e (after_rescan r e)" "statics e (apply_cut c e)"
  "statics e (report_err m e)" "statics e (publish_progress e)"
  by (auto simp: statics_def send_st_def cancel_token_def finish_def return_err_def pause_for_def
      idle_if_running_def after_scan_def after_rescan_def apply_cut_def report_err_def publish_progress_def Let_def
      split: sum.split prod.split bool.split)

lemma statics_trans: "statics a b \<Longrightarrow> statics b c \<Longrightarrow> statics a c"
  by (simp add: statics_def)

lemma statics_flags [simp]:
  "statics e (e'\<lparr>en_world := w\<rparr>) = statics e e'" "statics e (e'\<lparr>en_paused := b\<rparr>) = statics e e'"
  "statics e (e'\<lparr>en_rescan_on_resume := b\<rparr>) = statics e e'" "statics e (e'\<lparr>en_offline := b\<rparr>) = statics e e'"
  "statics e (e'\<lparr>en_cfg := c\<rparr>) = statics e e'" "statics e (e'\<lparr>en_phase := ph\<rparr>) = statics e e'"
  "statics e (e'\<lparr>en_pending := pd\<rparr>) = statics e e'" "statics e (e'\<lparr>en_local_root := p\<rparr>) = statics e e'"
  "statics e (e'\<lparr>en_debounce := d\<rparr>) = statics e e'"
  "statics (e\<lparr>en_world := w\<rparr>) e' = statics e e'" "statics (e\<lparr>en_paused := b\<rparr>) e' = statics e e'"
  "statics (e\<lparr>en_rescan_on_resume := b\<rparr>) e' = statics e e'" "statics (e\<lparr>en_offline := b\<rparr>) e' = statics e e'"
  "statics (e\<lparr>en_cfg := c\<rparr>) e' = statics e e'"
  by (simp_all add: statics_def)

lemma statics_send_st [simp]: "statics (send_st s e) e' = statics e e'" "statics e (send_st s e') = statics e e'"
  by (simp_all add: statics_def send_st_def)

lemma statics_run_whole_scan:
  "(\<And>r e. statics e (k r e)) \<Longrightarrow> statics e (run_whole_scan cx ign k e)"
proof -
  assume k: "\<And>r e. statics e (k r e)"
  obtain r w where "scan_run cx ign (en_world e) = (r, w)" by fastforce
  with k[of "e\<lparr>en_world := w\<rparr>" r] show ?thesis by (simp add: run_whole_scan_def)
qed

lemma statics_start_scan: "start_scan env dk pr cmds n e = Some e' \<Longrightarrow> statics e e'"
proof -
  have cut: "statics e (apply_cut c (e\<lparr>en_world := w\<rparr>))" for e c w
  proof -
    have "statics (e\<lparr>en_world := w\<rparr>) (apply_cut c (e\<lparr>en_world := w\<rparr>))" by (rule statics_basic(10))
    then show ?thesis by (simp only: statics_flags)
  qed
  have aw: "await_scan cx ign cmds n e = Some e' \<Longrightarrow> statics e e'" for cx ign e
    by (auto simp: await_scan_def cut intro: statics_run_whole_scan split: option.splits)
  assume "start_scan env dk pr cmds n e = Some e'"
  then show ?thesis
    by (auto simp: start_scan_def Let_def return_err_def dest!: aw split: option.splits sum.splits)
qed

lemma statics_rewatch: "statics e (rewatch env b e)"
  by (simp add: rewatch_def Let_def return_err_def split: prod.split sum.split option.split)

lemma statics_idle [simp]: "statics e (idle_if_running e') = statics e e'"
  by (simp add: idle_if_running_def)

lemma statics_rescan: "statics e (run_whole_scan cx ign after_rescan (send_st s (e\<lparr>en_world := w\<rparr>)))"
proof -
  have "statics (send_st s (e\<lparr>en_world := w\<rparr>)) (run_whole_scan cx ign after_rescan (send_st s (e\<lparr>en_world := w\<rparr>)))"
    by (rule statics_run_whole_scan) (rule statics_basic(9))
  then show ?thesis by (simp only: statics_send_st statics_flags)
qed

lemma statics_flush_now: "statics a b \<Longrightarrow> statics a (flush_now b)"
  by (simp add: flush_now_def split: prod.split)

lemma statics_main:
  "on_command env dk c cmds n e = Some e' \<Longrightarrow> statics e e'"
  "on_command_paused env dk c cmds n e = Some e' \<Longrightarrow> statics e e'"
  "statics e (on_health env e)" "statics e (on_rescan env dk e)"
proof -
  have fc: "statics e (finish (cancel_token e))" by (rule statics_trans[of e "cancel_token e"]) simp_all
  have rw: "statics e (rewatch env b (e\<lparr>en_cfg := cf\<rparr>))"
    "statics e (rewatch env b (e\<lparr>en_cfg := cf, en_rescan_on_resume := x\<rparr>))" for b cf x
    using statics_rewatch[of "e\<lparr>en_cfg := cf\<rparr>" env b]
      statics_rewatch[of "e\<lparr>en_cfg := cf, en_rescan_on_resume := x\<rparr>" env b] by simp_all
  show "on_command env dk c cmds n e = Some e' \<Longrightarrow> statics e e'"
    using fc rw statics_trans[OF rw(1) statics_start_scan]
    by (auto simp: on_command_def Let_def return_err_def statics_start_scan
        split: option.splits engine_command.splits if_splits)
  show "on_command_paused env dk c cmds n e = Some e' \<Longrightarrow> statics e e'"
    using fc rw by (auto simp: on_command_paused_def Let_def return_err_def dest!: statics_start_scan
        split: option.splits engine_command.splits if_splits)
  show "statics e (on_health env e)"
    by (auto simp: on_health_def Let_def intro!: statics_flush_now split: prod.split)
  show "statics e (on_rescan env dk e)"
    by (auto simp: on_rescan_def Let_def return_err_def intro: statics_rescan split: option.split sum.split)
qed

text \<open>The number of running workers is counted and bounded by the permits.\<close>

definition workers_ok :: "'p engine \<Rightarrow> bool" where
  "workers_ok e = (en_active e = length (en_jobs e) \<and> length (en_jobs e) \<le> en_permits e)"

lemma workers_ok_statics: "statics e e' \<Longrightarrow> workers_ok e' = workers_ok e"
  by (simp add: statics_def workers_ok_def)

lemma main_stepE:
  assumes "main_step k e = Some e'"
  obtains (go) w where "en_phase e = Running" "is_cancelled (en_world e) = (Inr False, w)"
      "k (e\<lparr>en_world := w\<rparr>) = Some e'"
  | (stop) w where "en_phase e = Running" "is_cancelled (en_world e) = (Inr True, w)" "e' = finish (e\<lparr>en_world := w\<rparr>)"
  using assms by (cases "en_world e" rule: is_cancelled_cases) (auto simp: main_step_def split: if_splits)

lemma statics_main_step:
  assumes "main_step k e = Some e'" "\<And>e e'. k e = Some e' \<Longrightarrow> statics e e'"
  shows "statics e e'"
  using assms(1)
proof (cases rule: main_stepE)
  case (go w)
  then show ?thesis using assms(2)[OF go(3)] by simp
next
  case (stop w)
  then show ?thesis using statics_basic(4)[of "e\<lparr>en_world := w\<rparr>"] by (simp add: statics_def)
qed

lemma on_task_workers: "on_task e = Some e' \<Longrightarrow> workers_ok e \<Longrightarrow> workers_ok e'"
  by (auto simp: on_task_def workers_ok_def return_err_def Let_def split: list.splits option.splits if_splits)

lemma job_done_workers: "i < length (en_jobs e) \<Longrightarrow> workers_ok e \<Longrightarrow> workers_ok (job_done i e)"
  by (auto simp: job_done_def workers_ok_def send_st_def Let_def)

lemma report_err_jobs [simp]: "en_jobs (report_err m e) = en_jobs e"
  using statics_basic(11)[of e m] by (simp add: statics_def)

lemma run_job_workers:
  assumes "run_job env dk i e = Some e'" "workers_ok e"
  shows "workers_ok e'"
proof -
  have same: "workers_ok (e\<lparr>en_world := w\<rparr>)" "workers_ok (report_err m (e\<lparr>en_world := w\<rparr>))" for w m
    using assms(2) workers_ok_statics[of e "e\<lparr>en_world := w\<rparr>"]
      workers_ok_statics[OF statics_basic(11)[of "e\<lparr>en_world := w\<rparr>" m]] by simp_all
  have fin: "workers_ok (job_done i (e\<lparr>en_world := w\<rparr>))"
    "workers_ok (job_done i (report_err m (e\<lparr>en_world := w\<rparr>)))" if "i < length (en_jobs e)" for w m
    using job_done_workers[OF _ same(1)] job_done_workers[OF _ same(2)] that by simp_all
  from assms(1) same(1) fin show ?thesis
    by (auto simp: run_job_def Let_def workers_ok_def split: if_splits prod.splits sum.splits bool.splits)
qed

definition fixed_parts :: "'p engine \<Rightarrow> 'p engine \<Rightarrow> bool" where
  "fixed_parts e e' = (en_permits e' = en_permits e \<and> en_scan_cfg e' = en_scan_cfg e \<and> en_dry_run e' = en_dry_run e)"

lemma fixed_parts_statics: "statics e e' \<Longrightarrow> fixed_parts e e'"
  by (simp add: statics_def fixed_parts_def)

lemma fixed_parts_jobs:
  "on_task e = Some e' \<Longrightarrow> fixed_parts e e'" "run_job env dk i e = Some e' \<Longrightarrow> fixed_parts e e'"
  by (auto simp: on_task_def run_job_def job_done_def fixed_parts_def return_err_def send_st_def report_err_def Let_def
      split: list.splits option.splits if_splits prod.splits sum.splits bool.splits)

lemma engine_step_cases:
  assumes "engine_step env ev e = Some e'"
  obtains (statics) "statics e e'"
  | (task) w where "on_task (e\<lparr>en_world := w\<rparr>) = Some e'"
  | (job) i dk where "run_job env dk i e = Some e'"
proof (cases ev)
  case (MainCommand c cmds n dk)
  with assms have "statics e e'"
    by (auto simp: engine_step_def intro: statics_main elim!: statics_main_step split: if_splits)
  then show thesis by (rule statics)
next
  case MainHealth
  with assms have "statics e e'"
    by (auto simp: engine_step_def intro: statics_main elim!: statics_main_step split: if_splits)
  then show thesis by (rule statics)
next
  case (MainRescan dk)
  with assms have "statics e e'"
    by (auto simp: engine_step_def intro: statics_main elim!: statics_main_step split: if_splits)
  then show thesis by (rule statics)
next
  case MainTask
  with assms have m: "main_step (\<lambda>e. if en_paused e then None else on_task e) e = Some e'"
    by (simp add: engine_step_def)
  then show thesis
  proof (cases rule: main_stepE)
    case (go w)
    then show thesis by (auto intro: task split: if_splits)
  next
    case (stop w)
    then have "statics e e'" using statics_basic(4)[of "e\<lparr>en_world := w\<rparr>"] by (simp add: statics_def)
    then show thesis by (rule statics)
  qed
next
  case MainStop
  with assms have "statics e e'" by (auto simp: engine_step_def elim!: statics_main_step)
  then show thesis by (rule statics)
next
  case (BgJob i dk)
  with assms show thesis by (auto simp: engine_step_def bg_step_def intro: job split: if_splits)
next
  case (BgTick unix now dk)
  with assms have "statics e e'"
    by (auto simp: engine_step_def bg_step_def put_dispatch_def split: if_splits prod.splits sum.splits)
  then show thesis by (rule statics)
next
  case (BgNotify unix now dk we)
  with assms have "statics e e'"
    by (auto simp: engine_step_def bg_step_def put_dispatch_def split: if_splits prod.splits sum.splits)
  then show thesis by (rule statics)
next
  case BgPublish
  with assms have "statics e e'" by (auto simp: engine_step_def bg_step_def split: if_splits)
  then show thesis by (rule statics)
qed

lemma engine_step_workers:
  assumes "engine_step env ev e = Some e'"
  shows "workers_ok e \<Longrightarrow> workers_ok e'" "fixed_parts e e'"
proof -
  have w: "workers_ok e \<Longrightarrow> workers_ok (e\<lparr>en_world := w\<rparr>)" for w by (simp add: workers_ok_def)
  show "workers_ok e \<Longrightarrow> workers_ok e'"
    using assms
    by (cases rule: engine_step_cases) (auto dest: workers_ok_statics on_task_workers run_job_workers w)
  show "fixed_parts e e'"
    using assms
  proof (cases rule: engine_step_cases)
    case (task w)
    then show ?thesis using fixed_parts_jobs(1)[OF task] by (simp add: fixed_parts_def)
  qed (auto intro: fixed_parts_statics fixed_parts_jobs)
qed

lemma engine_reach_workers:
  "engine_reach env e0 e \<Longrightarrow> workers_ok e0 \<Longrightarrow> workers_ok e \<and> fixed_parts e0 e"
proof (induction rule: engine_reach.induct)
  case start
  then show ?case by (simp add: fixed_parts_def)
next
  case (step e ev e')
  then show ?case using engine_step_workers[OF step(2)] by (simp add: fixed_parts_def)
qed

lemma statics_initial: "statics e (after_initial_scan r e)" "statics e (apply_initial_cut c e)"
  by (auto simp: after_initial_scan_def apply_initial_cut_def statics_def cancel_token_def finish_def send_st_def
      pause_for_def split: sum.split)

lemma statics_initial_scan: "initial_scan cx ign cmds n e = Some e2 \<Longrightarrow> statics e e2"
proof -
  have cut: "statics e (apply_initial_cut c (e\<lparr>en_world := w\<rparr>))" for c w
    using statics_initial(2)[of "e\<lparr>en_world := w\<rparr>" c] by (simp add: statics_def)
  assume "initial_scan cx ign cmds n e = Some e2"
  then show ?thesis
    by (auto simp: initial_scan_def cut intro: statics_run_whole_scan statics_initial split: option.splits)
qed

lemma run_with_provider_workers:
  assumes "run_with_provider env dk cmds n e = Some e'" "en_jobs e = []" "en_active e = 0"
  shows "workers_ok e'"
proof -
  have none: "statics e e2 \<Longrightarrow> workers_ok e2" for e2
    using assms(2,3) by (simp add: statics_def workers_ok_def)
  have loop: "statics e e2 \<Longrightarrow> workers_ok (enter_loop env pr e2)" for pr e2
    using assms(2,3)
    by (auto simp: statics_def workers_ok_def enter_loop_def return_err_def send_st_def Let_def split: option.split)
  show ?thesis
  proof (cases "\<exists>m. e' = return_err m e")
    case True
    then show ?thesis using none statics_basic(5) by blast
  next
    case False
    with assms(1) obtain pr cx ign e2 where
      i: "initial_scan cx ign cmds n (send_st (Syncing 0) (send_st (Starting 100) e)) = Some e2"
      and e': "e' = enter_loop env pr e2"
      by (auto simp: run_with_provider_def split: option.splits sum.splits)
    from statics_initial_scan[OF i] have "statics e e2" by simp
    then show ?thesis unfolding e' by (rule loop)
  qed
qed

text \<open>The permits come from the configuration the engine starts with.\<close>

lemma cfg_kept_initial:
  "initial_scan cx ign cmds n e = Some e2 \<Longrightarrow> en_cfg e2 = en_cfg e"
  by (auto simp: initial_scan_def run_whole_scan_def after_initial_scan_def apply_initial_cut_def cancel_token_def
      finish_def send_st_def pause_for_def split: option.splits prod.splits sum.splits if_splits)

lemma run_with_provider_permits:
  assumes "run_with_provider env dk cmds n e = Some e'" "en_permits e = 0"
  shows "en_permits e' \<le> max 1 (unat (cf_max_workers (en_cfg e)))"
proof (cases "\<exists>m. e' = return_err m e")
  case True
  then show ?thesis using assms(2) by (auto simp: return_err_def)
next
  case False
  with assms(1) obtain pr cx ign e2 where
    i: "initial_scan cx ign cmds n (send_st (Syncing 0) (send_st (Starting 100) e)) = Some e2"
    and e': "e' = enter_loop env pr e2"
    by (auto simp: run_with_provider_def split: option.splits sum.splits)
  have "en_permits e2 = 0" using statics_initial_scan[OF i] assms(2) by (simp add: statics_def send_st_def)
  moreover have "en_cfg e2 = en_cfg e" using cfg_kept_initial[OF i] by (simp add: send_st_def)
  ultimately show ?thesis
    unfolding e' by (auto simp: enter_loop_def return_err_def send_st_def Let_def split: option.split)
qed

lemma run_with_provider_scan_cfg:
  assumes "run_with_provider env dk cmds n e = Some e'"
  shows "en_scan_cfg e' = en_scan_cfg e"
proof (cases "\<exists>m. e' = return_err m e")
  case True
  then show ?thesis by (auto simp: return_err_def)
next
  case False
  with assms obtain pr cx ign e2 where
    i: "initial_scan cx ign cmds n (send_st (Syncing 0) (send_st (Starting 100) e)) = Some e2"
    and e': "e' = enter_loop env pr e2"
    by (auto simp: run_with_provider_def split: option.splits sum.splits)
  then show ?thesis
    using statics_initial_scan[OF i]
    by (auto simp: statics_def enter_loop_def return_err_def send_st_def Let_def split: option.split)
qed

section \<open>After the token is cancelled\<close>

lemma handle_stopped:
  "w_cancel w = Some 0 \<Longrightarrow> w_drive (snd (handle cx ign t w)) = w_drive w \<and> w_cancel (snd (handle cx ign t w)) = Some 0"
  using stop_task.kept_handle unfolding stop_frame.kept_def stopped_kept_def by blast

lemma dispatch_stopped_irrelevant: "w_cancel w = Some 0 \<Longrightarrow> is_cancelled w = (Inr True, w)"
  by simp

lemma job_done_world [simp]:
  "w_drive (en_world (job_done i e)) = w_drive (en_world e)"
  "w_cancel (en_world (job_done i e)) = w_cancel (en_world e)"
  by (simp_all add: job_done_def Let_def send_st_def send_status_def)

lemma engine_step_stopped:
  assumes "engine_step env ev e = Some e'" "w_cancel (en_world e) = Some 0"
  shows "w_drive (en_world e') = w_drive (en_world e) \<and> w_cancel (en_world e') = Some 0 \<and>
    ((\<nexists>i dk. ev = BgJob i dk) \<longrightarrow> e' = finish e)"
proof (cases ev)
  case (BgJob i dk)
  with assms show ?thesis
    by (auto simp: engine_step_def bg_step_def run_job_def split: if_splits prod.splits)
qed (use assms in \<open>auto simp: engine_step_def main_step_def bg_step_def finish_def send_st_def send_status_def
      split: if_splits\<close>)

lemma engine_reach_stopped:
  "engine_reach env e0 e \<Longrightarrow> w_cancel (en_world e0) = Some 0 \<Longrightarrow>
   w_drive (en_world e) = w_drive (en_world e0) \<and> w_cancel (en_world e) = Some 0"
  by (induction rule: engine_reach.induct) (auto dest: engine_step_stopped)

end
