(* ===== verification/Mirror.thy ===== *)
theory Mirror
  imports Scan_Laws
begin

text \<open>
  A whole round: a scan and then its tasks, in whatever order they are run. Seen through the map
  \<open>file_index_get\<close> each task changes at most the row of its own path, so that the effect on one row can
  be followed through the round: the index ends up as the image of the local directory.
\<close>

section \<open>Tasks on the map of the index\<close>

fun run_tasks :: "'p engine_context \<Rightarrow> (path \<Rightarrow> bool \<Rightarrow> bool) \<Rightarrow> task list \<Rightarrow> ('p, unit) act" where
  "run_tasks cx ign [] = ret_act ()"
| "run_tasks cx ign (t # ts) = seq_act (handle cx ign t) (\<lambda>_. run_tasks cx ign ts)"

abbreviation index_of :: "'p world \<Rightarrow> string \<Rightarrow> (string \<times> int) option" where
  "index_of w \<equiv> file_index_get (w_db w)"

lemma db_get_index: "db_ok db \<Longrightarrow> db_get db k = Inr (Some e) \<Longrightarrow> file_index_get db k = Some (fe_hash e, fe_mtime e)"
  by (simp add: file_index_get_def)

lemma upsert_index:
  assumes "db_ok db" "db_upsert e db = Inr db'"
  shows "file_index_get db' = (file_index_get db)(fe_path e \<mapsto> (fe_hash e, fe_mtime e))"
  using index_upsert_map[OF assms(1), of e] assms(2) by auto

lemma delete_index:
  assumes "db_ok db" "db_delete k db = Inr db'"
  shows "file_index_get db' = (file_index_get db)(k := None)"
  using index_delete_map[OF assms(1), of k] assms(2) by auto

text \<open>A finished \<open>sync_file\<close> leaves the database, or writes the row of its file.\<close>

lemma sync_upload_db:
  assumes "sync_upload cx p primary rel sz hash mt w = (Inr (), w')"
  shows "db_upsert \<lparr>fe_path = rel, fe_hash = hash, fe_mtime = mt\<rparr> (w_db w) = Inr (w_db w')"
proof -
  from assms obtain nm pid prev w1 w2 up where
    up: "upload_from cx (Suc 0) p pid nm prev w1 = (Inr up, w2)" and same: "w_db w1 = w_db w"
    and fin: "commit_upload rel pid hash mt up w2 = (Inr (), w')"
    by (auto simp: sync_upload_def Let_def seq_act_Inr_iff fail_act_def parent_folder_id_def act_simps
        set_current_def split: option.splits if_splits; fastforce)
  from fin same upload_from_records(1)[OF up] show ?thesis
    by (auto simp: commit_upload_def seq_act_Inr_iff cache_act_def db_act_Inr_iff)
qed

lemma sync_hashed_db:
  assumes "sync_hashed cx p primary rel sz mt w = (Inr (), w')" "path_is_file p (cx_disk cx)"
  shows "(w_db w' = w_db w \<and> w_cancel w' = Some 0) \<or>
    (\<exists>h. hash_of cx p = Inr h \<and> db_upsert \<lparr>fe_path = rel, fe_hash = h, fe_mtime = mt\<rparr> (w_db w) = Inr (w_db w'))"
proof (cases "hash_file cx p")
  case (Inl e)
  with assms show ?thesis
    by (cases w rule: is_cancelled_cases)
       (auto simp: sync_hashed_def seq_act_Inr_iff act_simps is_cancelled_def split: option.splits nat.splits)
next
  case (Inr h)
  then have h: "hash_of cx p = Inr h" by (auto simp: hash_file_Inr hash_of_def bind_res_Inr_iff)
  from assms Inr obtain hit where
    "(if hit then db_act (db_upsert \<lparr>fe_path = rel, fe_hash = h, fe_mtime = mt\<rparr>)
      else sync_upload cx p primary rel sz h mt) w = (Inr (), w')"
    by (auto simp: sync_hashed_def seq_act_Inr_iff index_hit_Inr)
  then have "db_upsert \<lparr>fe_path = rel, fe_hash = h, fe_mtime = mt\<rparr> (w_db w) = Inr (w_db w')"
    using sync_upload_db[of cx p primary rel sz h mt w w'] by (auto simp: db_act_Inr_iff split: if_splits)
  with h show ?thesis by blast
qed

lemma stage_of_db:
  assumes "stage_of cx p primary rel sz mt w = (Inr (), w')" "path_is_file p (cx_disk cx)"
  obtains (stopped) "w_db w' = w_db w" "w_cancel w' = Some 0"
  | (hit) e where "w_db w' = w_db w" "db_get (w_db w) rel = Inr (Some e)" "fe_mtime e = mt"
  | (written) h where "hash_of cx p = Inr h"
      "db_upsert \<lparr>fe_path = rel, fe_hash = h, fe_mtime = mt\<rparr> (w_db w) = Inr (w_db w')"
proof -
  from assms(1) obtain b where
    b: "index_hit rel (\<lambda>e. fe_mtime e = mt) w = (Inr b, w)"
    and rest: "(if b then ret_act () else seq_act is_cancelled (\<lambda>c. if c then ret_act ()
        else sync_hashed cx p primary rel sz mt)) w = (Inr (), w')"
    by (auto simp: stage_of_def seq_act_Inr_iff index_hit_Inr)
  show thesis
  proof (cases b)
    case True
    with b rest show thesis by (auto simp: index_hit_Inr ret_act_def split: option.splits intro: hit)
  next
    case False
    with rest have run: "seq_act is_cancelled (\<lambda>c. if c then ret_act () else sync_hashed cx p primary rel sz mt) w = (Inr (), w')"
      by simp
    show thesis
    proof (cases w rule: is_cancelled_cases)
      case (no w1)
      with run have "sync_hashed cx p primary rel sz mt w1 = (Inr (), w')" by (auto simp: seq_act_Inr_iff)
      from sync_hashed_db[OF this assms(2)] no(2) show thesis by (auto intro: stopped written)
    next
      case yes
      then have "w_cancel w = Some 0" by (auto simp: is_cancelled_def split: option.splits nat.splits)
      with yes run show thesis by (intro stopped) (auto simp: seq_act_Inr_iff ret_act_def)
    qed
  qed
qed

text \<open>
  The row a file is to have: the hash of its content and its time. A row is trusted when it does not
  carry the time of the file with another hash, as the code takes an equal time for an equal content.
\<close>

definition mirrored :: "'p engine_context \<Rightarrow> path \<Rightarrow> (string \<times> int) option \<Rightarrow> bool" where
  "mirrored cx p row = (case row of None \<Rightarrow> False | Some (h, t) \<Rightarrow> t = mtime_of p (cx_disk cx) \<and> hash_of cx p = Inr h)"

definition trusted_row :: "'p engine_context \<Rightarrow> path \<Rightarrow> (string \<times> int) option \<Rightarrow> bool" where
  "trusted_row cx p row =
     (case row of None \<Rightarrow> True | Some (h, t) \<Rightarrow> t = mtime_of p (cx_disk cx) \<longrightarrow> hash_of cx p = Inr h)"

lemma mirrored_trusted: "mirrored cx p row \<Longrightarrow> trusted_row cx p row"
  by (auto simp: mirrored_def trusted_row_def split: option.splits)

lemma file_mtime_of:
  assumes "file_mtime p dk = Inr mt" "path_is_file p dk"
  shows "mt = mtime_of p dk"
proof -
  from assms(2) obtain c t where "fs_metadata p dk = Inr (FileNode c t)"
    by (auto simp: path_is_file_def split: sum.splits node.splits)
  with assms(1) show ?thesis by (auto simp: file_mtime_def mtime_of_def bind_res_def with_context_def bail_def split: if_splits)
qed

text \<open>What a task that ends well does to the rows: nothing, or the row of its own file is mirrored.\<close>

lemma sync_file_index:
  assumes "sync_file cx ign p w = (Inr (), w')" "db_ok (w_db w)" "get_primary_pair (cx_cfg cx) = Some primary"
  shows "index_of w' = index_of w \<or>
    (\<exists>r v. p = pair_base primary @ r \<and> mirrored cx p (Some v) \<and> index_of w' = (index_of w)(path_string r \<mapsto> v))"
  using assms(1)
proof (cases rule: sync_file_stage)
  case (stage primary' r mt sz)
  then have pr: "primary' = primary" using assms(3) by simp
  from stage(1)[of w] assms(1) have s: "stage_of cx p primary' (path_string r) sz mt w = (Inr (), w')" by simp
  show ?thesis
    using s stage(2)
  proof (cases rule: stage_of_db)
    case (written h)
    from upsert_index[OF assms(2) written(2)] written(1) stage(4) pr file_mtime_of[OF stage(5,2)] show ?thesis
      by (auto simp: mirrored_def)
  qed simp_all
qed (use assms in simp)

text \<open>A file that is there, not empty and not ignored is mirrored by its task, unless the program is stopping.\<close>

lemma sync_file_mirrors:
  assumes "sync_file cx ign p w = (Inr (), w')" "db_ok (w_db w)" "get_primary_pair (cx_cfg cx) = Some primary"
    and "p = pair_base primary @ r" "path_is_file p (cx_disk cx)" "\<not> ign p False" "file_len p (cx_disk cx) > 0"
    and "w_cancel w' \<noteq> Some 0" "trusted_row cx p (index_of w (path_string r))"
  shows "mirrored cx p (index_of w' (path_string r))"
proof -
  obtain c t where meta: "fs_metadata p (cx_disk cx) = Inr (FileNode c t)" "node_len (FileNode c t) \<noteq> 0"
    using assms(5,7) by (auto simp: path_is_file_def file_len_def split: sum.splits node.splits)
  from assms(1) meta assms(3,4,6) obtain mt where mt: "file_mtime p (cx_disk cx) = Inr mt"
    by (auto simp: sync_file_def seq_act_Inr_iff read_act_def Let_def primary_pair_def)
  with assms(1,3,4,6) meta have stage: "stage_of cx p primary (path_string r) (node_len (FileNode c t)) mt w = (Inr (), w')"
    by (simp add: sync_file_def stage_of_def seq_act_def[of "read_act _"] read_act_def primary_pair_def Let_def)
  show ?thesis
    using stage assms(5)
  proof (cases rule: stage_of_db)
    case (hit e)
    with db_get_index[OF assms(2) hit(2)] file_mtime_of[OF mt assms(5)] assms(9) show ?thesis
      by (simp add: mirrored_def trusted_row_def)
  next
    case (written h)
    from upsert_index[OF assms(2) written(2)] written(1) file_mtime_of[OF mt assms(5)] show ?thesis
      by (simp add: mirrored_def)
  qed (use assms(8) in simp)
qed

lemma delete_file_index:
  assumes "delete_file cx ign (pair_base primary @ r) w = (Inr (), w')" "db_ok (w_db w)" "\<not> cx_dry_run cx"
    and "get_primary_pair (cx_cfg cx) = Some primary"
  shows "index_of w' = index_of w \<and> ign (pair_base primary @ r) (path_is_dir (pair_base primary @ r) (cx_disk cx)) \<or>
    index_of w' = (index_of w)(path_string r := None)"
proof (cases "ign (pair_base primary @ r) (path_is_dir (pair_base primary @ r) (cx_disk cx))")
  case True
  with assms(1) show ?thesis by (simp add: delete_file_def ret_act_def)
next
  case False
  with assms(1,4) obtain w1 w2 where
    d: "(case pc_lookup (w_cache w) (path_string r) of None \<Rightarrow> ret_act ()
       | Some e \<Rightarrow> seq_act (retry cx (drive_act (\<lambda>d. rp_delete (cx_provider cx) d (ce_drive_id e))))
           (\<lambda>_. cache_act (pc_remove_cascades (path_string r)))) w = (Inr (), w1)"
    "db_delete (path_string r) (w_db w1) = Inr (w_db w')"
    by (auto simp: delete_file_def seq_act_Inr_iff read_act_def primary_pair_def db_act_Inr_iff)
  from d(1) have "w_db w1 = w_db w"
    by (auto simp: ret_act_def seq_act_Inr_iff cache_act_def dest!: retry_records(1) split: option.splits)
  with delete_index[OF assms(2)] d(2) show ?thesis by simp
qed

section \<open>A list of tasks\<close>

text \<open>The tasks of a scan: uploads and deletions of paths under the root.\<close>

definition task_under :: "path \<Rightarrow> task \<Rightarrow> bool" where
  "task_under base t = (\<exists>r. rel_ok r \<and> (t = SyncFile (base @ r) \<or> t = Delete (base @ r)))"

lemma handle_row:
  assumes "handle cx ign t w = (Inr (), w')" "task_under (pair_base primary) t" "db_ok (w_db w)" "\<not> cx_dry_run cx"
    and "get_primary_pair (cx_cfg cx) = Some primary" "rel_ok r0"
  shows "index_of w' (path_string r0) = index_of w (path_string r0)
    \<or> t = SyncFile (pair_base primary @ r0) \<and> mirrored cx (pair_base primary @ r0) (index_of w' (path_string r0))
    \<or> t = Delete (pair_base primary @ r0) \<and> index_of w' (path_string r0) = None"
proof -
  from assms(2) obtain r where r: "rel_ok r" and t: "t = SyncFile (pair_base primary @ r) \<or> t = Delete (pair_base primary @ r)"
    by (auto simp: task_under_def)
  have key: "path_string r = path_string r0 \<Longrightarrow> r = r0" using rel_key_inj r assms(6) by blast
  from t show ?thesis
  proof
    assume sync: "t = SyncFile (pair_base primary @ r)"
    with assms(1,4) have "sync_file cx ign (pair_base primary @ r) w = (Inr (), w')" by (simp add: handle_def)
    from sync_file_index[OF this assms(3,5)] sync key show ?thesis
      by (cases "path_string r = path_string r0") auto
  next
    assume del: "t = Delete (pair_base primary @ r)"
    with assms(1,4) have "delete_file cx ign (pair_base primary @ r) w = (Inr (), w')" by (simp add: handle_def)
    from delete_file_index[OF this assms(3,4,5)] del key show ?thesis
      by (cases "path_string r = path_string r0") auto
  qed
qed

lemma handle_db_ok: "handle cx ign t w = (r, w') \<Longrightarrow> db_ok (w_db w) \<Longrightarrow> db_ok (w_db w')"
  using db_frame.keptD[OF db_task.kept_handle] by (fastforce simp: db_ok_kept_def)

lemma run_tasks_stopped:
  "run_tasks cx ign ts w = (r, w') \<Longrightarrow> w_cancel w = Some 0 \<Longrightarrow> w_cancel w' = Some 0"
proof -
  have "stop_frame.kept (run_tasks cx ign ts)"
    by (induction ts) (auto intro: stop_frame.kept_pure stop_frame.kept_seq_act stop_task.kept_handle)
  then show "run_tasks cx ign ts w = (r, w') \<Longrightarrow> w_cancel w = Some 0 \<Longrightarrow> w_cancel w' = Some 0"
    by (auto dest: stop_frame.keptD simp: stopped_kept_def)
qed

text \<open>
  What holds of the row of one path, and is kept or made true by each of the tasks, holds after all
  of them; it is enough that one task makes it true.
\<close>

lemma run_tasks_keep:
  assumes "run_tasks cx ign ts w = (Inr (), w')" "db_ok (w_db w)" "P w"
    and "\<And>t v v'. t \<in> set ts \<Longrightarrow> handle cx ign t v = (Inr (), v') \<Longrightarrow> db_ok (w_db v) \<Longrightarrow> P v \<Longrightarrow> P v'"
  shows "P w' \<and> db_ok (w_db w')"
  using assms
proof (induction ts arbitrary: w)
  case (Cons t ts)
  then obtain w1 where "handle cx ign t w = (Inr (), w1)" "run_tasks cx ign ts w1 = (Inr (), w')"
    by (auto simp: seq_act_Inr_iff)
  with Cons show ?case by (metis handle_db_ok list.set_intros)
qed (simp add: ret_act_def)

lemma run_tasks_split:
  "run_tasks cx ign (xs @ ys) w = (Inr (), w') \<Longrightarrow>
   \<exists>v. run_tasks cx ign xs w = (Inr (), v) \<and> run_tasks cx ign ys v = (Inr (), w')"
  by (induction xs arbitrary: w) (auto simp: seq_act_Inr_iff ret_act_def)

lemma run_tasks_reach:
  assumes "run_tasks cx ign ts w = (Inr (), w')" "db_ok (w_db w)" "T w" "t0 \<in> set ts"
    and keepT: "\<And>t v v'. t \<in> set ts \<Longrightarrow> handle cx ign t v = (Inr (), v') \<Longrightarrow> db_ok (w_db v) \<Longrightarrow> T v \<Longrightarrow> T v'"
    and make: "\<And>v v'. handle cx ign t0 v = (Inr (), v') \<Longrightarrow> db_ok (w_db v) \<Longrightarrow> T v \<Longrightarrow> w_cancel v' \<noteq> Some 0 \<Longrightarrow> P v'"
    and keepP: "\<And>t v v'. t \<in> set ts \<Longrightarrow> handle cx ign t v = (Inr (), v') \<Longrightarrow> db_ok (w_db v) \<Longrightarrow> P v \<Longrightarrow> P v'"
    and "w_cancel w' \<noteq> Some 0"
  shows "P w'"
proof -
  from assms(4) obtain xs ys where ts: "ts = xs @ t0 # ys" by (meson split_list)
  with assms(1) obtain a b where r: "run_tasks cx ign xs w = (Inr (), a)" "handle cx ign t0 a = (Inr (), b)"
    "run_tasks cx ign ys b = (Inr (), w')"
    by (auto simp: seq_act_Inr_iff dest!: run_tasks_split)
  have a: "T a \<and> db_ok (w_db a)"
    by (rule run_tasks_keep[where P = T, OF r(1) assms(2,3)]) (use keepT ts in auto)
  have "w_cancel b \<noteq> Some 0" using run_tasks_stopped[OF r(3)] assms(8) by blast
  with make[OF r(2)] a have "P b" by blast
  moreover have "db_ok (w_db b)" using handle_db_ok[OF r(2)] a by blast
  ultimately show ?thesis
    using run_tasks_keep[OF r(3), where P = P] keepP ts by auto
qed

section \<open>The comparison on the map of the index\<close>

lemma try_upsert_index:
  "db_ok (w_db w) \<Longrightarrow> index_of (snd (try_upsert e w)) = (index_of w)(fe_path e \<mapsto> (fe_hash e, fe_mtime e))"
  using index_upsert_map[of "w_db w" e] by (auto simp: try_upsert_def)

lemma compare_indexed_row:
  assumes "compare_indexed cx p rel w = (Inr b, w')" "db_ok (w_db w)"
  shows "index_of w' = index_of w \<or> (\<exists>v. mirrored cx p (Some v) \<and> index_of w' = (index_of w)(rel \<mapsto> v))"
    "\<not> b \<Longrightarrow> trusted_row cx p (index_of w rel) \<Longrightarrow> mirrored cx p (index_of w' rel)"
proof -
  consider (hit) e where "db_get (w_db w) rel = Inr (Some e)" "index_of w rel = Some (fe_hash e, fe_mtime e)"
    | (miss) "\<And>e. db_get (w_db w) rel \<noteq> Inr (Some e)"
    using db_get_index[OF assms(2)] by blast
  then have "(index_of w' = index_of w \<or> (\<exists>v. mirrored cx p (Some v) \<and> index_of w' = (index_of w)(rel \<mapsto> v))) \<and>
      (\<not> b \<longrightarrow> trusted_row cx p (index_of w rel) \<longrightarrow> mirrored cx p (index_of w' rel))"
  proof cases
    case hit
    with assms try_upsert_index[OF assms(2)] show ?thesis
      by (auto simp: compare_indexed_def Let_def mirrored_def trusted_row_def split: sum.splits if_splits)
  next
    case miss
    with assms(1) show ?thesis by (auto simp: compare_indexed_def split: sum.splits option.splits)
  qed
  then show "index_of w' = index_of w \<or> (\<exists>v. mirrored cx p (Some v) \<and> index_of w' = (index_of w)(rel \<mapsto> v))"
    "\<not> b \<Longrightarrow> trusted_row cx p (index_of w rel) \<Longrightarrow> mirrored cx p (index_of w' rel)" by blast+
qed

lemma adopt_remote_row:
  assumes "adopt_remote cx p rel w = (Inr b, w')" "db_ok (w_db w)"
  shows "index_of w' = index_of w \<or> (\<exists>v. mirrored cx p (Some v) \<and> index_of w' = (index_of w)(rel \<mapsto> v))"
    "hash_of cx p = Inr h \<Longrightarrow> mirrored cx p (index_of w' rel)"
proof -
  consider e where "hash_of cx p = Inl e" "w' = w"
    | h' where "hash_of cx p = Inr h'" "index_of w' = (index_of w)(rel \<mapsto> (h', mtime_of p (cx_disk cx)))"
  proof (cases "hash_of cx p")
    case (Inr h')
    let ?e = "\<lparr>fe_path = rel, fe_hash = h', fe_mtime = mtime_of p (cx_disk cx)\<rparr>"
    from assms(1) Inr have "w' = snd (try_upsert ?e w)"
      by (auto simp: adopt_remote_def seq_act_Inr_iff ret_act_def)
    with try_upsert_index[OF assms(2), of ?e] Inr that(2) show thesis by simp
  qed (use assms(1) that(1) in \<open>auto simp: adopt_remote_def seq_act_Inr_iff ret_act_def\<close>)
  then have "(index_of w' = index_of w \<or> (\<exists>v. mirrored cx p (Some v) \<and> index_of w' = (index_of w)(rel \<mapsto> v))) \<and>
    (hash_of cx p = Inr h \<longrightarrow> mirrored cx p (index_of w' rel))"
    by cases (auto simp: mirrored_def)
  then show "index_of w' = index_of w \<or> (\<exists>v. mirrored cx p (Some v) \<and> index_of w' = (index_of w)(rel \<mapsto> v))"
    "hash_of cx p = Inr h \<Longrightarrow> mirrored cx p (index_of w' rel)" by blast+
qed

lemma compare_file_body:
  assumes "compare_file cx primary idx tot i p w = (Inr b, w')" "strip_prefix (pair_base primary) p = Some r"
  obtains v where "w_cache v = w_cache w" "w_db v = w_db w"
    "(if path_string r \<in> set idx \<and> pc_lookup (w_cache w) (path_string r) \<noteq> None
      then compare_indexed cx p (path_string r)
      else if pc_lookup (w_cache w) (path_string r) \<noteq> None then adopt_remote cx p (path_string r)
      else ret_act True) v = (Inr b, w')"
proof -
  define v where "v = (if i mod 50 = 0 \<or> Suc i = tot
    then (snd (is_cancelled w))\<lparr>w_status := w_status (snd (is_cancelled w))
           @ [ScanProgress Comparing (Suc i) tot (name_of p)]\<rparr>
    else snd (is_cancelled w))"
  have same: "w_cache v = w_cache w" "w_db v = w_db w" by (simp_all add: v_def)
  show thesis
  proof (rule that[OF same])
    show "(if path_string r \<in> set idx \<and> pc_lookup (w_cache w) (path_string r) \<noteq> None
      then compare_indexed cx p (path_string r)
      else if pc_lookup (w_cache w) (path_string r) \<noteq> None then adopt_remote cx p (path_string r)
      else ret_act True) v = (Inr b, w')"
      using while_running_Inr[OF assms(1)[unfolded compare_file_def]] assms(2)
      by (simp only: Let_def option.case seq_status_if seq_read_Inr v_def[symmetric] same)
  qed
qed

lemma compare_file_row:
  assumes "compare_file cx primary idx tot i (pair_base primary @ r) w = (Inr b, w')" "db_ok (w_db w)"
  shows "index_of w' = index_of w \<or>
      (\<exists>v. mirrored cx (pair_base primary @ r) (Some v) \<and> index_of w' = (index_of w)(path_string r \<mapsto> v))"
    "\<not> b \<Longrightarrow> trusted_row cx (pair_base primary @ r) (index_of w (path_string r)) \<Longrightarrow>
      hash_of cx (pair_base primary @ r) = Inr h \<Longrightarrow> mirrored cx (pair_base primary @ r) (index_of w' (path_string r))"
proof -
  let ?p = "pair_base primary @ r"
  obtain v where v: "w_cache v = w_cache w" "w_db v = w_db w"
    "(if path_string r \<in> set idx \<and> pc_lookup (w_cache w) (path_string r) \<noteq> None
      then compare_indexed cx ?p (path_string r)
      else if pc_lookup (w_cache w) (path_string r) \<noteq> None then adopt_remote cx ?p (path_string r)
      else ret_act True) v = (Inr b, w')"
    by (rule compare_file_body[OF assms(1), of r]) simp_all
  then consider "compare_indexed cx ?p (path_string r) v = (Inr b, w')" | "adopt_remote cx ?p (path_string r) v = (Inr b, w')"
    | "b" "w' = v"
    by (auto simp: ret_act_def split: if_splits)
  then have "(index_of w' = index_of w \<or> (\<exists>v. mirrored cx ?p (Some v) \<and> index_of w' = (index_of w)(path_string r \<mapsto> v))) \<and>
    (\<not> b \<longrightarrow> trusted_row cx ?p (index_of w (path_string r)) \<longrightarrow> hash_of cx ?p = Inr h \<longrightarrow>
      mirrored cx ?p (index_of w' (path_string r)))"
    by cases (use assms(2) v(2) compare_indexed_row[of cx ?p "path_string r" v b w']
      adopt_remote_row(1)[of cx ?p "path_string r" v b w'] adopt_remote_row(2)[of cx ?p "path_string r" v b w' h] in \<open>simp_all\<close>)
  then show "index_of w' = index_of w \<or> (\<exists>v. mirrored cx ?p (Some v) \<and> index_of w' = (index_of w)(path_string r \<mapsto> v))"
    "\<not> b \<Longrightarrow> trusted_row cx ?p (index_of w (path_string r)) \<Longrightarrow>
      hash_of cx ?p = Inr h \<Longrightarrow> mirrored cx ?p (index_of w' (path_string r))" by blast+
qed

lemma compare_db_ok: "compare_file cx primary idx tot i p w = (r, w') \<Longrightarrow> db_ok (w_db w) \<Longrightarrow> db_ok (w_db w')"
  using db_frame.keptD[OF db_frame.kept_compare_file[OF db_kept_basic(1) db_kept_basic(5)]]
  by (fastforce simp: db_ok_kept_def)

text \<open>The row of one path through the comparison of all files.\<close>

lemma keep_each_row:
  assumes "keep_each (compare_file cx primary idx tot) i ps w = (Inr ys, w')" "db_ok (w_db w)"
    and "\<forall>p\<in>set ps. \<exists>r. rel_ok r \<and> p = pair_base primary @ r" "rel_ok r0"
  shows "(index_of w' (path_string r0) = index_of w (path_string r0)
      \<or> pair_base primary @ r0 \<in> set ps \<and> mirrored cx (pair_base primary @ r0) (index_of w' (path_string r0))) \<and>
    (pair_base primary @ r0 \<in> set ps \<longrightarrow> pair_base primary @ r0 \<notin> set ys \<longrightarrow>
      trusted_row cx (pair_base primary @ r0) (index_of w (path_string r0)) \<longrightarrow>
      hash_of cx (pair_base primary @ r0) = Inr h \<longrightarrow>
      mirrored cx (pair_base primary @ r0) (index_of w' (path_string r0)))"
  using assms(1-3)
proof (induction ps arbitrary: i w ys)
  case (Cons p ps)
  let ?b = "pair_base primary"
  from Cons.prems(1) obtain b w1 zs where
    f: "compare_file cx primary idx tot i p w = (Inr b, w1)"
    and g: "keep_each (compare_file cx primary idx tot) (Suc i) ps w1 = (Inr zs, w')"
    and ys: "ys = (if b then p # zs else zs)"
    by (auto simp: seq_act_Inr_iff ret_act_def)
  from Cons.prems(3) obtain r where r: "rel_ok r" "p = ?b @ r" by auto
  have key: "path_string r = path_string r0 \<longleftrightarrow> r = r0" using rel_key_inj r(1) assms(4) by blast
  note row = compare_file_row[OF f[unfolded r(2)] Cons.prems(2)]
  have ih: "(index_of w' (path_string r0) = index_of w1 (path_string r0)
      \<or> ?b @ r0 \<in> set ps \<and> mirrored cx (?b @ r0) (index_of w' (path_string r0))) \<and>
    (?b @ r0 \<in> set ps \<longrightarrow> ?b @ r0 \<notin> set zs \<longrightarrow> trusted_row cx (?b @ r0) (index_of w1 (path_string r0)) \<longrightarrow>
      hash_of cx (?b @ r0) = Inr h \<longrightarrow> mirrored cx (?b @ r0) (index_of w' (path_string r0)))"
    using Cons.IH[OF g compare_db_ok[OF f Cons.prems(2)]] Cons.prems(3) by simp
  show ?case
  proof (cases "r = r0")
    case True
    have one: "index_of w1 (path_string r0) = index_of w (path_string r0) \<or> mirrored cx (?b @ r0) (index_of w1 (path_string r0))"
      using row(1) True by auto
    show ?thesis
    proof (cases b)
      case True
      with ih one ys r \<open>r = r0\<close> show ?thesis by auto
    next
      case False
      with row(2) True have "trusted_row cx (?b @ r0) (index_of w (path_string r0)) \<longrightarrow> hash_of cx (?b @ r0) = Inr h \<longrightarrow>
          mirrored cx (?b @ r0) (index_of w1 (path_string r0))" by blast
      with ih one ys r True False show ?thesis by (auto dest: mirrored_trusted)
    qed
  next
    case False
    have "index_of w1 (path_string r0) = index_of w (path_string r0)" using row(1) False key by auto
    with ih ys r False show ?thesis by auto
  qed
qed (simp add: ret_act_def)

section \<open>A finished scan and its tasks\<close>

lemma keep_each_subset: "keep_each f i xs w = (Inr ys, w') \<Longrightarrow> set ys \<subseteq> set xs"
proof (induction xs arbitrary: i w ys)
  case (Cons x xs)
  then obtain b w1 zs where "keep_each f (Suc i) xs w1 = (Inr zs, w')" "ys = (if b then x # zs else zs)"
    by (auto simp: seq_act_Inr_iff ret_act_def)
  with Cons.IH[of "Suc i" w1 zs] show ?case by (auto split: if_splits)
qed (simp add: ret_act_def)

lemma scan_run_round:
  assumes run: "scan_run cx ign w = (Inr (), w')" and primary: "get_primary_pair (cx_cfg cx) = Some primary"
    and wet: "\<not> cx_dry_run cx"
  defines "base \<equiv> pair_base primary"
  defines "files \<equiv> walk_files (walked cx ign base)"
  obtains paths zs u v where "db_all_paths (w_db w) = Inr paths" "w_db u = w_db w" "w_db w' = w_db v"
    "keep_each (compare_file cx primary (cx_order cx paths) (length files)) 0 files u = (Inr zs, v)"
    "w_queue w' = w_queue w @ map SyncFile (filter (\<lambda>p. file_len p (cx_disk cx) > 0) zs)
      @ map (\<lambda>k. Delete (path_join base (components k)))
          (filter (\<lambda>k. k \<notin> set (local_rel_set base files)) (cx_order cx paths))
      @ map (\<lambda>rf. Delete (orphan_path base rf))
          (filter (is_orphan cx ign base (local_rel_set base files) (cx_order cx paths))
            (ri_files (remote_listing cx (sp_remote_folder_id primary) w)))"
proof -
  have "primary_pair cx w = (Inr primary, w)" by (simp add: primary_pair_def read_act_def primary)
  with run obtain idx w1 ds fs w2 w3 where
    r: "phase_remote cx primary w = (Inr idx, w1)"
    and l: "phase_local cx ign base w1 = (Inr (ds, fs), w2)"
    and d: "phase_dirs cx primary ds w2 = (Inr (), w3)"
    and s: "scan_compare cx ign primary idx fs w3 = (Inr (), w')"
    by (auto simp: scan_run_def seq_act_Inr_iff base_def)
  note inv = phase_remote_Inr[OF r] phase_local_Inr[OF l]
  note q = q_kept_phases(1)[THEN q_frame.keptD, OF r] q_kept_phases(2)[THEN q_frame.keptD, OF l]
    q_kept_phases(3)[THEN q_frame.keptD, OF d]
  note i = i_kept_phases(1)[THEN i_frame.keptD, OF r] i_kept_phases(2)[THEN i_frame.keptD, OF l]
    i_kept_phases(3)[THEN i_frame.keptD, OF d]
  have fs: "fs = files" using inv by (simp add: files_def)
  define u where "u = w3\<lparr>w_status := w_status w3
    @ [ScanProgress Comparing 0 (length fs) (''comparaison'' @ ellipsis)]\<rparr>"
  have u: "w_db u = w_db w3" "w_queue u = w_queue w3" by (simp_all add: u_def)
  from s[unfolded scan_compare_def seq_status u_def[symmetric]] obtain zs v paths where
    paths: "db_all_paths (w_db w3) = Inr paths"
    and cmp: "keep_each (compare_file cx primary (cx_order cx paths) (length fs)) 0 fs u = (Inr zs, v)"
    and tasks: "scan_tasks cx ign base idx (cx_order cx paths) fs (filter (\<lambda>p. file_len p (cx_disk cx) > 0) zs) v = (Inr (), w')"
    by (auto simp: seq_act_Inr_iff read_act_def ret_act_def phase_compare_def base_def u)
  have "i_frame.kept (scan_tasks cx ign base idx (cx_order cx paths) fs to_sync)" for to_sync
    unfolding scan_tasks_def Let_def
    by (intro i_frame.kept_seq_act i_frame.kept_phase_tasks i_frame.kept_cond i_kept_basic i_frame.kept_pure)
  from i_frame.keptD[OF this tasks] have "w_db w' = w_db v" by (simp add: index_kept_def)
  moreover have "q_frame.kept (keep_each (compare_file cx primary (cx_order cx paths) (length fs)) 0 fs)"
    by (intro q_frame.kept_keep_each q_frame.kept_compare_file q_kept_basic)
  from q_frame.keptD[OF this cmp] have "w_queue v = w_queue u" by (simp add: queue_kept_def)
  ultimately show thesis
    using that[of paths u v zs] scan_tasks_queue[OF wet tasks] cmp paths u q i inv fs
    by (simp add: queue_kept_def index_kept_def)
qed

text \<open>
  The names a round meets are well formed: those of the files found, those of the index and those of
  the remote listing. The files found are regular files that are not ignored.
\<close>

definition plain_names :: "'p engine_context \<Rightarrow> (path \<Rightarrow> bool \<Rightarrow> bool) \<Rightarrow> sync_pair \<Rightarrow> 'p world \<Rightarrow> bool" where
  "plain_names cx ign primary w =
     ((\<forall>p \<in> set (walk_files (walked cx ign (pair_base primary))).
         path_is_file p (cx_disk cx) \<and> \<not> ign p False \<and> (\<exists>r. rel_ok r \<and> p = pair_base primary @ r)) \<and>
      (\<forall>k \<in> dom (index_of w). \<exists>r. rel_ok r \<and> k = path_string r) \<and>
      (\<forall>rf \<in> set (ri_files (remote_listing cx (sp_remote_folder_id primary) w)).
         \<exists>r. rel_ok r \<and> rf_relative_path rf = path_string r))"

text \<open>The tasks of a scan on an empty queue, and the rows it leaves them.\<close>

lemma scan_run_rows:
  assumes scan: "scan_run cx ign w = (Inr (), w1)" and primary: "get_primary_pair (cx_cfg cx) = Some primary"
    and wet: "\<not> cx_dry_run cx" and ok: "db_ok (w_db w)" and order: "\<And>ps. set (cx_order cx ps) = set ps"
    and empty: "w_queue w = []" and plain: "plain_names cx ign primary w"
  defines "base \<equiv> pair_base primary"
  defines "files \<equiv> walk_files (walked cx ign base)"
  shows "\<forall>t \<in> set (w_queue w1). task_under base t" "db_ok (w_db w1)"
    and "SyncFile p \<in> set (w_queue w1) \<Longrightarrow> p \<in> set files"
    and "Delete p \<in> set (w_queue w1) \<Longrightarrow> p \<notin> set files"
    and "rel_ok r \<Longrightarrow> base @ r \<in> set files \<Longrightarrow> trusted_row cx (base @ r) (index_of w (path_string r)) \<Longrightarrow>
      hash_of cx (base @ r) = Inr h \<Longrightarrow> file_len (base @ r) (cx_disk cx) > 0 \<Longrightarrow>
      trusted_row cx (base @ r) (index_of w1 (path_string r)) \<and>
      (SyncFile (base @ r) \<in> set (w_queue w1) \<or> mirrored cx (base @ r) (index_of w1 (path_string r)))"
    and "rel_ok r \<Longrightarrow> base @ r \<notin> set files \<Longrightarrow>
      index_of w1 (path_string r) = None \<or> Delete (base @ r) \<in> set (w_queue w1)"
proof -
  obtain paths zs u v where paths: "db_all_paths (w_db w) = Inr paths"
    and u: "w_db u = w_db w" "w_db w1 = w_db v"
    and cmp: "keep_each (compare_file cx primary (cx_order cx paths) (length files)) 0 files u = (Inr zs, v)"
    and queue: "w_queue w1 = w_queue w @ map SyncFile (filter (\<lambda>p. file_len p (cx_disk cx) > 0) zs)
      @ map (\<lambda>k. Delete (path_join base (components k)))
          (filter (\<lambda>k. k \<notin> set (local_rel_set base files)) (cx_order cx paths))
      @ map (\<lambda>rf. Delete (orphan_path base rf))
          (filter (is_orphan cx ign base (local_rel_set base files) (cx_order cx paths))
            (ri_files (remote_listing cx (sp_remote_folder_id primary) w)))"
    using scan_run_round[OF scan primary wet] unfolding files_def base_def by metis
  have dom: "set (cx_order cx paths) = dom (index_of w)" using index_paths_map[OF ok] paths order by auto
  have under: "p \<in> set files \<Longrightarrow> \<exists>r. rel_ok r \<and> p = base @ r" for p
    using plain by (auto simp: plain_names_def files_def base_def)
  have zs: "set zs \<subseteq> set files" by (rule keep_each_subset[OF cmp])
  have known: "k \<in> dom (index_of w) \<Longrightarrow> \<exists>r. rel_ok r \<and> k = path_string r" for k
    using plain by (auto simp: plain_names_def)
  have listed: "rf \<in> set (ri_files (remote_listing cx (sp_remote_folder_id primary) w)) \<Longrightarrow>
      \<exists>r. rel_ok r \<and> rf_relative_path rf = path_string r" for rf
    using plain by (auto simp: plain_names_def)
  have deletes: "\<exists>r. rel_ok r \<and> t = Delete (base @ r) \<and> base @ r \<notin> set files"
    if "t \<in> set (w_queue w1)" "\<And>p. t \<noteq> SyncFile p" for t
  proof -
    from that queue empty consider
      (row) k where "k \<in> dom (index_of w)" "k \<notin> set (local_rel_set base files)" "t = Delete (path_join base (components k))"
      | (remote) rf where "rf \<in> set (ri_files (remote_listing cx (sp_remote_folder_id primary) w))"
          "rf_relative_path rf \<notin> set (local_rel_set base files)" "t = Delete (orphan_path base rf)"
      by (auto simp: dom is_orphan_def)
    then obtain r where "rel_ok r" "path_string r \<notin> set (local_rel_set base files)"
      "t = Delete (path_join base (components (path_string r)))"
      by cases (use known listed in \<open>force simp: orphan_path_def\<close>)+
    then show ?thesis by (auto simp: join_rel_key in_local_rel_set)
  qed
  show "\<forall>t \<in> set (w_queue w1). task_under base t"
  proof
    fix t assume t: "t \<in> set (w_queue w1)"
    show "task_under base t"
    proof (cases "\<exists>p. t = SyncFile p")
      case True
      with t deletes queue empty zs under show ?thesis by (fastforce simp: task_under_def)
    next
      case False
      with deletes[OF t] show ?thesis by (auto simp: task_under_def)
    qed
  qed
  show "SyncFile p \<in> set (w_queue w1) \<Longrightarrow> p \<in> set files" using queue empty zs by auto
  show "Delete p \<in> set (w_queue w1) \<Longrightarrow> p \<notin> set files" using deletes by fastforce
  show ok1: "db_ok (w_db w1)" using db_frame.keptD[OF scan_run_db_ok scan] ok by (simp add: db_ok_kept_def)
  have under': "\<forall>p \<in> set files. \<exists>r. rel_ok r \<and> p = pair_base primary @ r" using under by (simp add: base_def)
  show "trusted_row cx (base @ r) (index_of w1 (path_string r)) \<and>
      (SyncFile (base @ r) \<in> set (w_queue w1) \<or> mirrored cx (base @ r) (index_of w1 (path_string r)))"
    if "rel_ok r" "base @ r \<in> set files" "trusted_row cx (base @ r) (index_of w (path_string r))"
      "hash_of cx (base @ r) = Inr h" "file_len (base @ r) (cx_disk cx) > 0"
    using keep_each_row[OF cmp ok[folded u(1)] under' that(1), of h] that queue empty u
    by (auto simp: base_def dest: mirrored_trusted)
  show "index_of w1 (path_string r) = None \<or> Delete (base @ r) \<in> set (w_queue w1)"
    if "rel_ok r" "base @ r \<notin> set files"
  proof -
    have "index_of w1 (path_string r) = index_of w (path_string r)"
      using keep_each_row[OF cmp ok[folded u(1)] under' that(1)] that(2) u by (auto simp: base_def)
    moreover have "path_string r \<notin> set (local_rel_set base files)"
      using that under rel_key_inj by (fastforce simp: in_local_rel_set)
    moreover have "Delete (path_join base (components (path_string r))) \<in> set (w_queue w1)"
      if "path_string r \<in> set (cx_order cx paths)" "path_string r \<notin> set (local_rel_set base files)"
      using that by (simp add: queue)
    ultimately show ?thesis
      using that(1) by (auto simp: dom join_rel_key)
  qed
qed

text \<open>The row of a file that is there, and of one that is not, after the tasks.\<close>

lemma round_row:
  assumes tasks: "run_tasks cx ign ts w = (Inr (), w')" and primary: "get_primary_pair (cx_cfg cx) = Some primary"
    and wet: "\<not> cx_dry_run cx" and ok: "db_ok (w_db w)" and going: "w_cancel w' \<noteq> Some 0"
    and under: "\<forall>t \<in> set ts. task_under (pair_base primary) t" and r: "rel_ok r"
  defines "p \<equiv> pair_base primary @ r" and "k \<equiv> path_string r"
  shows "Delete p \<notin> set ts \<Longrightarrow> mirrored cx p (index_of w k) \<Longrightarrow> mirrored cx p (index_of w' k)"
    and "Delete p \<notin> set ts \<Longrightarrow> SyncFile p \<in> set ts \<Longrightarrow> trusted_row cx p (index_of w k) \<Longrightarrow>
      path_is_file p (cx_disk cx) \<Longrightarrow> \<not> ign p False \<Longrightarrow> file_len p (cx_disk cx) > 0 \<Longrightarrow>
      mirrored cx p (index_of w' k)"
    and "SyncFile p \<notin> set ts \<Longrightarrow> index_of w k = None \<Longrightarrow> index_of w' k = None"
    and "SyncFile p \<notin> set ts \<Longrightarrow> Delete p \<in> set ts \<Longrightarrow> \<not> ign p (path_is_dir p (cx_disk cx)) \<Longrightarrow>
      index_of w' k = None"
proof -
  have row: "index_of v' k = index_of v k \<or> t = SyncFile p \<and> mirrored cx p (index_of v' k)
      \<or> t = Delete p \<and> index_of v' k = None"
    if "t \<in> set ts" "handle cx ign t v = (Inr (), v')" "db_ok (w_db v)" for t v v'
    using handle_row[OF that(2) _ that(3) wet primary r] that(1) under unfolding p_def k_def by blast
  show "mirrored cx p (index_of w' k)" if "Delete p \<notin> set ts" "mirrored cx p (index_of w k)"
    using run_tasks_keep[OF tasks ok, of "\<lambda>v. mirrored cx p (index_of v k)"] row that by metis
  show "index_of w' k = None" if "SyncFile p \<notin> set ts" "index_of w k = None"
    using run_tasks_keep[OF tasks ok, of "\<lambda>v. index_of v k = None"] row that by metis
  show "mirrored cx p (index_of w' k)"
    if a: "Delete p \<notin> set ts" "SyncFile p \<in> set ts" "trusted_row cx p (index_of w k)"
      "path_is_file p (cx_disk cx)" "\<not> ign p False" "file_len p (cx_disk cx) > 0"
  proof (rule run_tasks_reach[OF tasks ok, where T = "\<lambda>v. trusted_row cx p (index_of v k)" and ?t0.0 = "SyncFile p"])
    fix v v' assume "handle cx ign (SyncFile p) v = (Inr (), v')" "db_ok (w_db v)"
      "trusted_row cx p (index_of v k)" "w_cancel v' \<noteq> Some 0"
    then show "mirrored cx p (index_of v' k)"
      using sync_file_mirrors[of cx ign p v v', OF _ _ primary p_def[THEN meta_eq_to_obj_eq] a(4-6)] wet by (simp add: handle_def k_def)
  qed (use a row going in \<open>(metis mirrored_trusted | simp)+\<close>)
  show "index_of w' k = None"
    if a: "SyncFile p \<notin> set ts" "Delete p \<in> set ts" "\<not> ign p (path_is_dir p (cx_disk cx))"
  proof (rule run_tasks_reach[OF tasks ok, where T = "\<lambda>v. True" and ?t0.0 = "Delete p"])
    fix v v' assume "handle cx ign (Delete p) v = (Inr (), v')" "db_ok (w_db v)"
    then show "index_of v' k = None"
      using delete_file_index[of cx ign primary r v v', OF _ _ wet primary] wet a(3)
      by (auto simp: handle_def k_def p_def)
  qed (use a row going in \<open>(metis | simp)+\<close>)
qed

end
