(* ===== verification/Path_Display.thy ===== *)
theory Path_Display
  imports Paths
begin

text \<open>
  \<open>utils/path_display.rs\<close>: paths shortened for tooltips: at most three parent directories are
  kept, the first one and the last two. \<open>open_uri\<close> starts a program and is not modelled.
\<close>

definition trim_end_slash :: "string \<Rightarrow> string" where
  "trim_end_slash s = rev (dropWhile (\<lambda>c. c = CHR ''/'') (rev s))"

definition folder_label :: "string list \<Rightarrow> string" where
  "folder_label folders =
     (if length folders > 3
      then hd folders @ ''/.../'' @ folders ! (length folders - 2) @ ''/''
             @ folders ! (length folders - 1) @ ''/''
      else join_with ''/'' folders @ ''/'')"

definition split_path_display :: "string \<Rightarrow> string \<times> string" where
  "split_path_display p =
     (if p = [] then ([], [])
      else let is_dir = ends_with p ''/'';
               parts = split_on CHR ''/'' (trim_end_slash p) in
        if parts = [] then ([], [])
        else if length parts = 1 then ([], if is_dir then hd parts @ ''/'' else hd parts)
        else let target_name = last parts; folders = butlast parts in
          (folder_label folders, if is_dir then target_name @ ''/'' else target_name))"

definition icon_folder :: string where "icon_folder = [CHR 0xF0, CHR 0x9F, CHR 0x93, CHR 0x81]"
definition icon_file :: string where "icon_file = [CHR 0xF0, CHR 0x9F, CHR 0x93, CHR 0x84]"
definition icon_open_folder :: string where "icon_open_folder = [CHR 0xF0, CHR 0x9F, CHR 0x93, CHR 0x82]"

definition format_path_tooltip :: "string \<Rightarrow> string" where
  "format_path_tooltip p =
     (if p = [] then []
      else let (folders, file) = split_path_display p;
               icon = (if ends_with file ''/'' then icon_folder else icon_file) in
        if folders = [] then icon @ '' '' @ file
        else icon_open_folder @ '' '' @ folders @ [CHR 0x0A] @ icon @ '' '' @ file)"

section \<open>What is kept of the path\<close>

lemma ends_with_slash: "ends_with s ''/'' \<longleftrightarrow> s \<noteq> [] \<and> last s = CHR ''/''"
  by (cases s rule: rev_cases) (auto simp: ends_with_def starts_with_def)

lemma trim_end_slash_id: "s = [] \<or> last s \<noteq> CHR ''/'' \<Longrightarrow> trim_end_slash s = s"
  by (cases s rule: rev_cases) (auto simp: trim_end_slash_def)

lemma trim_end_slash_one: "s = [] \<or> last s \<noteq> CHR ''/'' \<Longrightarrow> trim_end_slash (s @ ''/'') = s"
  by (cases s rule: rev_cases) (auto simp: trim_end_slash_def)

lemma folder_label_nonempty [simp]: "folder_label fs \<noteq> []"
  by (simp add: folder_label_def)

lemma join_butlast_last:
  "length ps \<ge> 2 \<Longrightarrow> join_with ''/'' (butlast ps) @ ''/'' @ last ps = join_with ''/'' ps"
proof -
  assume "length ps \<ge> 2"
  then have "ps = butlast ps @ [last ps]" "butlast ps \<noteq> []"
    by (cases ps rule: rev_cases; auto)+
  then show ?thesis by (metis join_with.simps(2) join_with_append list.discI)
qed

text \<open>
  The label read back: a path \<open>clean\<close> that does not end in a separator, with \<open>dir\<close> telling
  whether one follows.
\<close>

lemma split_path_display_parts:
  assumes "clean \<noteq> []" "last clean \<noteq> CHR ''/''" "sfx = ''/'' \<or> sfx = []"
  shows "split_path_display (clean @ sfx) =
    (let ps = split_on CHR ''/'' clean in
     (if length ps = 1 then [] else folder_label (butlast ps), last ps @ sfx))"
proof -
  have t: "trim_end_slash (clean @ sfx) = clean" "ends_with (clean @ sfx) ''/'' = (sfx = ''/'')"
    using assms by (auto simp: trim_end_slash_id trim_end_slash_one ends_with_slash)
  obtain q qs where "split_on CHR ''/'' clean = q # qs" by (meson neq_Nil_conv split_on_not_Nil)
  with assms t show ?thesis by (cases qs) (auto simp: split_path_display_def Let_def)
qed

lemma folder_label_parts:
  assumes "fs \<noteq> []" "\<forall>f \<in> set fs. CHR ''/'' \<notin> set f" "CHR ''/'' \<notin> set n"
  shows "split_on CHR ''/'' (folder_label fs @ n) =
    (if length fs > 3 then [hd fs, ''...'', fs ! (length fs - 2), fs ! (length fs - 1)] @ [n] else fs @ [n])"
proof (cases "length fs > 3")
  case True
  let ?qs = "[hd fs, ''...'', fs ! (length fs - 2), fs ! (length fs - 1), n]"
  have "folder_label fs @ n = join_with ''/'' ?qs" using True by (simp add: folder_label_def)
  moreover have "\<forall>q \<in> set ?qs. CHR ''/'' \<notin> set q"
    using assms True by (auto dest: nth_mem[of _ fs] simp: hd_in_set)
  ultimately have "split_on CHR ''/'' (folder_label fs @ n) = ?qs"
    using split_on_join_with[of ?qs "CHR ''/''"] by (metis list.discI)
  then show ?thesis using True by simp
next
  case False
  have "folder_label fs @ n = join_with ''/'' (fs @ [n])"
    using False assms(1) by (simp add: folder_label_def join_with_append)
  moreover have "split_on CHR ''/'' (join_with ''/'' (fs @ [n])) = fs @ [n]"
    using assms by (intro split_on_join_with) auto
  ultimately show ?thesis using False by simp
qed

text \<open>
  For a path made of names, with or without a final \<open>/\<close>: the second part is the last name with that mark;
  the first part is empty for a single name, all folders when they are at most three, and otherwise the
  first, an ellipsis and the last two.
\<close>

lemma displayed_path_keeps_its_ends:
  assumes "\<forall>c \<in> set (fs @ [n]). c \<noteq> [] \<and> CHR ''/'' \<notin> set c" "sfx = ''/'' \<or> sfx = []"
  shows "split_path_display (join_with ''/'' (fs @ [n]) @ sfx) =
    (if fs = [] then []
     else if length fs \<le> 3 then join_with ''/'' fs @ ''/''
     else hd fs @ ''/.../'' @ fs ! (length fs - 2) @ ''/'' @ last fs @ ''/'', n @ sfx)"
proof -
  let ?clean = "join_with ''/'' (fs @ [n])"
  have parts: "split_on CHR ''/'' ?clean = fs @ [n]"
    using assms(1) by (intro split_on_join_with) auto
  have "?clean \<noteq> []" "last ?clean \<noteq> CHR ''/''"
  proof -
    have "\<exists>pre. ?clean = pre @ n"
      using join_with_append[of fs "[n]" "''/''"] by (cases "fs = []") auto
    then obtain pre where "?clean = pre @ n" by blast
    moreover have "n \<noteq> []" "last n \<noteq> CHR ''/''" using assms(1) by (auto dest: last_in_set)
    ultimately show "?clean \<noteq> []" "last ?clean \<noteq> CHR ''/''" by auto
  qed
  from split_path_display_parts[OF this assms(2)] show ?thesis
    by (auto simp: parts Let_def folder_label_def last_conv_nth)
qed

end
