(* ===== verification/Rate_Limiter.thy ===== *)
theory Rate_Limiter
  imports Bandwidth
begin

text \<open>
  \<open>engine/rate_limiter.rs\<close>: at most \<open>max_rps\<close> requests a second, and a lock after an HTTP
  429. Clocks in nanoseconds, tokens as exact rationals, one mutex section per step.
\<close>

record api_rate_limiter =
  rl_max_rps :: "32 word"
  rl_tokens :: rat
  rl_last_refill :: nat
  rl_locked_until :: "nat option"

definition rl_max :: "api_rate_limiter \<Rightarrow> rat" where
  "rl_max l = of_nat (unat (rl_max_rps l))"

definition rl_new :: "32 word \<Rightarrow> nat \<Rightarrow> api_rate_limiter" where
  "rl_new max_rps now = \<lparr>rl_max_rps = max_rps, rl_tokens = of_nat (unat max_rps),
     rl_last_refill = now, rl_locked_until = None\<rparr>"

text \<open>
  One turn of the loop of \<open>acquire\<close>: \<open>None\<close> grants the request. A lock that has ended is
  lifted and the request granted without touching the bucket.
\<close>

definition rl_poll :: "nat \<Rightarrow> api_rate_limiter \<Rightarrow> rat option \<times> api_rate_limiter" where
  "rl_poll now l =
     (case rl_locked_until l of
        Some lock_end \<Rightarrow>
          if now < lock_end then (Some (secs_between now lock_end), l)
          else (None, l\<lparr>rl_locked_until := None\<rparr>)
      | None \<Rightarrow>
          let elapsed = secs_between (rl_last_refill l) now;
              raised = rl_tokens l + elapsed * rl_max l;
              tokens = (if raised > rl_max l then rl_max l else raised);
              l1 = l\<lparr>rl_tokens := tokens, rl_last_refill := now\<rparr> in
          if tokens \<ge> 1 then (None, l1\<lparr>rl_tokens := tokens - 1\<rparr>)
          else (Some ((1 - tokens) / rl_max l), l1))"

partial_function (option) rl_acquire_loop ::
  "(nat \<Rightarrow> rat \<Rightarrow> nat) \<Rightarrow> nat \<Rightarrow> api_rate_limiter \<Rightarrow> (nat \<times> api_rate_limiter) option" where
  "rl_acquire_loop wake now l =
     (case rl_poll now l of
        (None, l') \<Rightarrow> Some (now, l')
      | (Some d, l') \<Rightarrow> rl_acquire_loop wake (wake now d) l')"

definition rl_acquire ::
  "(nat \<Rightarrow> rat \<Rightarrow> nat) \<Rightarrow> nat \<Rightarrow> api_rate_limiter \<Rightarrow> (nat \<times> api_rate_limiter) option" where
  "rl_acquire wake now l = (if rl_max_rps l = 0 then Some (now, l) else rl_acquire_loop wake now l)"

text \<open>The lock of an HTTP 429 only ever moves forward.\<close>

definition handle_rate_limit :: "nat \<Rightarrow> u64 \<Rightarrow> api_rate_limiter \<Rightarrow> api_rate_limiter" where
  "handle_rate_limit now retry_after_secs l =
     (let lock_end = now + unat retry_after_secs * ns_per_sec in
      case rl_locked_until l of
        Some current_lock \<Rightarrow>
          if lock_end > current_lock then l\<lparr>rl_locked_until := Some lock_end\<rparr> else l
      | None \<Rightarrow> l\<lparr>rl_locked_until := Some lock_end\<rparr>)"

section \<open>The limiter is a token bucket with one free request per lock\<close>

datatype rl_request = Acquire | Handle429 u64

fun rl_react :: "nat \<Rightarrow> rl_request \<Rightarrow> api_rate_limiter \<Rightarrow> rat \<times> api_rate_limiter" where
  "rl_react now Acquire l =
     (case rl_poll now l of (None, l') \<Rightarrow> (1, l') | (Some _, l') \<Rightarrow> (0, l'))"
| "rl_react now (Handle429 secs) l = (0, handle_rate_limit now secs l)"

fun rl_bonus :: "nat \<Rightarrow> rl_request \<Rightarrow> api_rate_limiter \<Rightarrow> rat" where
  "rl_bonus now Acquire l =
     (case rl_locked_until l of None \<Rightarrow> 0 | Some e \<Rightarrow> if now < e then 0 else 1)"
| "rl_bonus now (Handle429 secs) l = 0"

definition rl_ok :: "api_rate_limiter \<Rightarrow> bool" where
  "rl_ok l = (0 \<le> rl_tokens l \<and> rl_tokens l \<le> rl_max l)"

definition rl_rate :: "api_rate_limiter \<Rightarrow> rat" where
  "rl_rate l = rl_max l / of_nat ns_per_sec"

definition rl_avail :: "api_rate_limiter \<Rightarrow> nat \<Rightarrow> rat" where
  "rl_avail l t = min (rl_max l) (rl_tokens l + rl_rate l * of_nat (t - rl_last_refill l))"

lemma rl_max_nonneg [simp]: "0 \<le> rl_max l"
  unfolding rl_max_def by (rule of_nat_0_le_iff)

lemma rl_rate_nonneg [simp]: "0 \<le> rl_rate l"
  by (simp add: rl_rate_def)

lemma rl_poll_unlocked:
  "rl_locked_until l = None \<Longrightarrow>
   rl_poll now l =
     (if rl_avail l now \<ge> 1
      then (None, l\<lparr>rl_tokens := rl_avail l now - 1, rl_last_refill := now\<rparr>)
      else (Some ((1 - rl_avail l now) / rl_max l),
            l\<lparr>rl_tokens := rl_avail l now, rl_last_refill := now\<rparr>))"
  by (simp add: rl_poll_def Let_def rl_avail_def rl_rate_def secs_between_def min_def mult.commute)

lemma rl_poll_locked:
  "rl_locked_until l = Some e \<Longrightarrow>
   rl_poll now l = (if now < e then (Some (secs_between now e), l) else (None, l\<lparr>rl_locked_until := None\<rparr>))"
  by (simp add: rl_poll_def)

lemma rl_max_update [simp]:
  "rl_max (l\<lparr>rl_tokens := a\<rparr>) = rl_max l" "rl_max (l\<lparr>rl_last_refill := b\<rparr>) = rl_max l"
  "rl_max (l\<lparr>rl_locked_until := c\<rparr>) = rl_max l"
  by (simp_all add: rl_max_def)

lemma rl_avail_lock [simp]: "rl_avail (l\<lparr>rl_locked_until := c\<rparr>) t = rl_avail l t"
  by (simp add: rl_avail_def rl_rate_def)

lemma rl_avail_nonneg: "rl_ok l \<Longrightarrow> 0 \<le> rl_avail l t"
  by (simp add: rl_avail_def rl_ok_def)

lemma rl_avail_le_max: "rl_avail l t \<le> rl_max l"
  by (simp add: rl_avail_def)

lemma rl_avail_after:
  "a \<le> rl_max l \<Longrightarrow> rl_avail (l\<lparr>rl_tokens := a, rl_last_refill := t\<rparr>) t = a"
  by (simp add: rl_avail_def rl_rate_def)

lemma rl_avail_grows:
  assumes "t \<le> t'"
  shows "rl_avail l t' \<le> rl_avail l t + rl_rate l * of_nat (t' - t)"
proof -
  have "of_nat (t' - rl_last_refill l) \<le> (of_nat (t - rl_last_refill l) + of_nat (t' - t) :: rat)"
    using assms by (simp flip: of_nat_add)
  then have "rl_rate l * of_nat (t' - rl_last_refill l)
      \<le> rl_rate l * of_nat (t - rl_last_refill l) + rl_rate l * of_nat (t' - t)"
    using mult_left_mono[OF _ rl_rate_nonneg] by (fastforce simp: distrib_left)
  then show ?thesis unfolding rl_avail_def by (intro min_add_le) auto
qed

lemma handle_rate_limit_frame [simp]:
  "rl_max (handle_rate_limit now secs l) = rl_max l"
  "rl_tokens (handle_rate_limit now secs l) = rl_tokens l"
  "rl_avail (handle_rate_limit now secs l) t = rl_avail l t"
  by (auto simp: handle_rate_limit_def Let_def split: option.splits)

interpretation rl: token_bucket rl_react rl_avail rl_bonus rl_max rl_rate rl_ok
proof
  fix s :: api_rate_limiter and t t' :: nat and r :: rl_request
  assume ok: "rl_ok s"
  have after: "a \<le> rl_max s \<Longrightarrow> rl_avail (s\<lparr>rl_tokens := a, rl_last_refill := t\<rparr>) t = a" for a
    by (rule rl_avail_after)
  show "fst (rl_react t r s) + rl_avail (snd (rl_react t r s)) t \<le> rl_avail s t + rl_bonus t r s"
  proof (cases r)
    case Acquire
    then show ?thesis
      using after[of "rl_avail s t - 1"] after[of "rl_avail s t"] rl_avail_le_max[of s t]
      by (cases "rl_locked_until s") (auto simp: rl_poll_unlocked rl_poll_locked)
  qed simp
  show "t \<le> t' \<Longrightarrow> rl_avail s t' \<le> rl_avail s t + rl_rate s * of_nat (t' - t)"
    by (rule rl_avail_grows)
  show "rl_avail s t \<le> rl_max s" by (rule rl_avail_le_max)
  show "0 \<le> rl_avail s t" using ok by (rule rl_avail_nonneg)
  show "rl_ok (snd (rl_react t r s))"
    using ok rl_avail_nonneg[OF ok, of t] rl_avail_le_max[of s t]
    by (cases r; cases "rl_locked_until s") (auto simp: rl_ok_def rl_poll_unlocked rl_poll_locked)
  show "rl_rate (snd (rl_react t r s)) = rl_rate s"
    by (cases r; cases "rl_locked_until s") (auto simp: rl_rate_def rl_poll_unlocked rl_poll_locked)
  show "rl_max (snd (rl_react t r s)) = rl_max s"
    by (cases r; cases "rl_locked_until s") (auto simp: rl_poll_unlocked rl_poll_locked)
qed

text \<open>A free request needs a lock: in a run there is at most one per 429, plus an initial lock.\<close>

fun count_429 :: "(nat \<times> rl_request) list \<Rightarrow> nat" where
  "count_429 [] = 0"
| "count_429 ((t, Handle429 s) # es) = Suc (count_429 es)"
| "count_429 ((t, Acquire) # es) = count_429 es"

definition locks :: "api_rate_limiter \<Rightarrow> nat" where
  "locks l = (if rl_locked_until l = None then 0 else 1)"

lemma rl_bonus_locks:
  "rl_bonus t r s + of_nat (locks (snd (rl_react t r s)))
     \<le> of_nat (locks s) + of_nat (count_429 [(t, r)])"
  by (cases r; cases "rl_locked_until s")
     (auto simp: locks_def rl_poll_unlocked rl_poll_locked handle_rate_limit_def Let_def)

lemma count_429_Cons: "count_429 (e # es) = count_429 [e] + count_429 es"
  by (cases e; cases "snd e") auto

lemma rl_run_bonus:
  "bucket_run rl_react rl_bonus es s = (g, b, s') \<Longrightarrow> b + of_nat (locks s') \<le> of_nat (locks s) + of_nat (count_429 es)"
proof (induction es arbitrary: s g b)
  case Nil
  then show ?case by simp
next
  case (Cons e es)
  obtain t r where e: "e = (t, r)" by (cases e)
  obtain g1 b1 where rest: "bucket_run rl_react rl_bonus es (snd (rl_react t r s)) = (g1, b1, s')" "b = rl_bonus t r s + b1"
    using Cons.prems e by (auto simp: Let_def split: prod.splits)
  show ?case
    using Cons.IH[OF rest(1)] rl_bonus_locks[of t r s] rest(2) e count_429_Cons[of e es]
    by simp
qed

section \<open>Locks are respected, and acquire returns\<close>

lemma rl_new_ok: "rl_ok (rl_new m now)"
proof -
  have "rl_max (rl_new m now) = rl_tokens (rl_new m now)"
    unfolding rl_max_def rl_new_def by (simp only: api_rate_limiter.simps)
  then show ?thesis using rl_max_nonneg[of "rl_new m now"] by (simp add: rl_ok_def)
qed

lemma rl_acquire_loop_locked:
  assumes "rl_acquire_loop wake now l = Some (t, l')" "rl_locked_until l = Some e"
  shows "e \<le> t"
proof -
  have "rl_locked_until l = Some e \<longrightarrow> e \<le> fst (t, l')"
  proof (rule rl_acquire_loop.raw_induct[where P = "\<lambda>wake now l r. rl_locked_until l = Some e \<longrightarrow> e \<le> fst r",
        OF _ assms(1)], intro impI)
    fix f wake now l r
    assume IH: "\<And>wake now l r. f wake now l = Some r \<Longrightarrow> rl_locked_until l = Some e \<longrightarrow> e \<le> fst r"
      and eq: "(case rl_poll now l of (None, l') \<Rightarrow> Some (now, l') | (Some d, l') \<Rightarrow> f wake (wake now d) l') = Some r"
      and lk: "rl_locked_until l = Some e"
    show "e \<le> fst r"
    proof (cases "now < e")
      case True
      with eq lk have "f wake (wake now (secs_between now e)) l = Some r" by (simp add: rl_poll_locked)
      from IH[OF this] lk show ?thesis by simp
    next
      case False
      with eq lk show ?thesis by (auto simp: rl_poll_locked)
    qed
  qed
  with assms(2) show ?thesis by simp
qed

lemma rl_acquire_loop_unfold:
  "rl_acquire_loop wake now l =
     (case rl_poll now l of (None, l') \<Rightarrow> Some (now, l') | (Some d, l') \<Rightarrow> rl_acquire_loop wake (wake now d) l')"
  by (rule rl_acquire_loop.simps)

lemma rl_acquire_loop_unlocked:
  assumes wake: "sleeps_long_enough wake" and pos: "1 \<le> rl_max l" and free: "rl_locked_until l = None"
  shows "\<exists>r. rl_acquire_loop wake now l = Some r"
proof (cases "rl_avail l now \<ge> 1")
  case True
  then show ?thesis using free by (subst rl_acquire_loop.simps) (simp add: rl_poll_unlocked)
next
  case False
  define d where "d = (1 - rl_avail l now) / rl_max l"
  define l' where "l' = l\<lparr>rl_tokens := rl_avail l now, rl_last_refill := now\<rparr>"
  have "d \<le> of_nat (wake now d - now) / of_nat ns_per_sec"
    using wake unfolding sleeps_long_enough_def secs_between_def by blast
  then have "d * rl_max l \<le> of_nat (wake now d - now) / of_nat ns_per_sec * rl_max l"
    by (rule mult_right_mono) simp
  moreover have "d * rl_max l = 1 - rl_avail l now" using pos by (simp add: d_def)
  ultimately have "rl_avail l now + rl_rate l * of_nat (wake now d - now) \<ge> 1"
    by (simp add: rl_rate_def mult.commute)
  then have "rl_avail l' (wake now d) \<ge> 1"
    using pos unfolding rl_avail_def[of l'] by (simp add: l'_def rl_rate_def)
  moreover have "rl_locked_until l' = None" using free by (simp add: l'_def)
  ultimately have "rl_acquire_loop wake (wake now d) l' \<noteq> None"
    by (subst rl_acquire_loop.simps) (simp add: rl_poll_unlocked)
  moreover have "rl_acquire_loop wake now l = rl_acquire_loop wake (wake now d) l'"
    using False free by (subst rl_acquire_loop.simps) (simp add: rl_poll_unlocked d_def l'_def)
  ultimately show ?thesis by auto
qed

lemma secs_between_le_iff: "secs_between a b \<le> secs_between a c \<longleftrightarrow> b - a \<le> c - a"
  by (simp add: secs_between_def divide_le_cancel)

lemma rl_acquire_loop_returns:
  assumes wake: "sleeps_long_enough wake" and pos: "1 \<le> rl_max l"
  shows "\<exists>r. rl_acquire_loop wake now l = Some r"
proof (cases "rl_locked_until l")
  case None
  then show ?thesis using rl_acquire_loop_unlocked[OF wake pos] by blast
next
  case (Some e)
  show ?thesis
  proof (cases "now < e")
    case False
    with Some show ?thesis by (subst rl_acquire_loop.simps) (simp add: rl_poll_locked)
  next
    case True
    let ?t = "wake now (secs_between now e)"
    have "secs_between now e \<le> secs_between now ?t" using wake by (simp add: sleeps_long_enough_def)
    then have "e - now \<le> ?t - now" by (simp add: secs_between_le_iff)
    then have "\<not> ?t < e" using True by simp
    then have "rl_acquire_loop wake ?t l \<noteq> None"
      using Some by (subst rl_acquire_loop.simps) (simp add: rl_poll_locked)
    moreover have "rl_acquire_loop wake now l = rl_acquire_loop wake ?t l"
      using Some True by (subst rl_acquire_loop.simps) (simp add: rl_poll_locked)
    ultimately show ?thesis by auto
  qed
qed

lemma rl_max_ge_one: "rl_max_rps l \<noteq> 0 \<Longrightarrow> 1 \<le> rl_max l"
proof -
  assume "rl_max_rps l \<noteq> 0"
  then have "0 < unat (rl_max_rps l)" by (simp add: unat_gt_0)
  then have "1 \<le> (of_nat (unat (rl_max_rps l)) :: rat)" by linarith
  then show ?thesis by (simp only: rl_max_def)
qed

lemma handle_rate_limit_lock:
  "rl_locked_until (handle_rate_limit now secs l) =
     Some (case rl_locked_until l of None \<Rightarrow> now + unat secs * ns_per_sec
           | Some e \<Rightarrow> max e (now + unat secs * ns_per_sec))"
  by (auto simp: handle_rate_limit_def Let_def split: option.splits)

end
