(* ===== verification/Demo.thy ===== *)
theory Demo
  imports Engine_Laws Mirror Path_Display Rate_Limiter
begin

text \<open>
  A small concrete world, on which the properties are applied: a root \<open>/s\<close> with two files and
  a directory, an index with one file that is gone, and a drive that records the calls it gets.
\<close>

definition demo_disk :: disk where
  "demo_disk = \<lparr>dk_nodes = map_of
     [([''/'', ''s''], DirNode), ([''/'', ''s'', ''d''], DirNode),
      ([''/'', ''s'', ''a''], FileNode ''A'' 5), ([''/'', ''s'', ''d'', ''b''], FileNode ''BB'' 7)],
     dk_fault = (\<lambda>_ _. None)\<rparr>"

definition demo_cfg :: app_config where
  "demo_cfg = app_default\<lparr>cf_sync_pairs := [\<lparr>sp_name = ''m'', sp_local_path = ''/s'',
     sp_remote_folder_id = ''R'', sp_provider = default_provider, sp_active = True,
     sp_ignore_patterns = []\<rparr>]\<rparr>"

definition demo_md5 :: "string \<Rightarrow> string" where
  "demo_md5 c = ''#'' @ c"

definition demo_listing :: remote_index where
  "demo_listing = \<lparr>ri_files = [\<lparr>rf_relative_path = ''z'', rf_drive_id = ''9'', rf_parent_id = ''R'',
     rf_md5 = ''x'', rf_size = 1, rf_modified_time = 0\<rparr>], ri_dirs = []\<rparr>"

definition demo_upload :: "string list \<Rightarrow> path \<Rightarrow> string \<Rightarrow> string \<Rightarrow> string option \<Rightarrow> progress_tracker
    \<Rightarrow> upload_result res \<times> string list \<times> progress_tracker" where
  "demo_upload calls p parent nm prev tk =
     (case fs_read p demo_disk of
        Inl e \<Rightarrow> (Inl e, calls, tk)
      | Inr c \<Rightarrow> (Inr \<lparr>ur_drive_id = ''u'' @ nm, ur_md5_checksum = demo_md5 c, ur_size_bytes = length c\<rparr>,
                  calls @ [''up '' @ nm], tk))"

definition demo_provider :: "string list remote_provider" where
  "demo_provider = \<lparr>rp_list_remote = (\<lambda>calls folder. (Inr demo_listing, calls)),
     rp_mkdir = (\<lambda>calls parent nm. (Inr (''i'' @ nm), calls @ [''mk '' @ nm])),
     rp_upload = demo_upload,
     rp_delete = (\<lambda>calls i. (Inr (), calls @ [''del '' @ i])),
     rp_rename = (\<lambda>calls i nm par. (Inr (), calls @ [''mv '' @ i])),
     rp_get_changes = (\<lambda>calls c. (Inr \<lparr>cp_changes = [], cp_new_cursor = [], cp_has_more = False\<rparr>, calls)),
     rp_check_health = (\<lambda>calls. (Inr (HealthOk ''e'' 0 1), calls)),
     rp_refresh_auth = (\<lambda>calls. (Inr (), calls))\<rparr>"

definition demo_walk :: "disk \<Rightarrow> path \<Rightarrow> (path \<Rightarrow> bool \<Rightarrow> bool) \<Rightarrow> (string + dir_entry) list" where
  "demo_walk dk base f = map Inr (filter (\<lambda>e. f (de_path e) (de_kind e = EntryDir))
     [\<lparr>de_path = base, de_kind = EntryDir\<rparr>, \<lparr>de_path = base @ [''a''], de_kind = EntryFile\<rparr>,
      \<lparr>de_path = base @ [''d''], de_kind = EntryDir\<rparr>, \<lparr>de_path = base @ [''d'', ''b''], de_kind = EntryFile\<rparr>])"

definition demo_cx :: "bool \<Rightarrow> string list engine_context" where
  "demo_cx dry = \<lparr>cx_cfg = demo_cfg, cx_provider = demo_provider, cx_dry_run = dry, cx_md5 = demo_md5,
     cx_disk = demo_disk, cx_walk = demo_walk demo_disk, cx_order = (\<lambda>xs. xs)\<rparr>"

definition demo_db :: database where
  "demo_db = \<lparr>t_file_index = Some [\<lparr>fe_path = ''gone'', fe_hash = ''h'', fe_mtime = 1\<rparr>],
     t_dir_index = Some [], t_dir_has_drive_id = True, t_schema_version = Some [2],
     t_path_cache = Some [], t_offline_queue = Some [], t_sequence = 0, mutex_poisoned = False\<rparr>"

definition demo_world :: "string list world" where
  "demo_world = \<lparr>w_drive = [], w_db = demo_db, w_cache = pc_new, w_tracker = tracker_new, w_cancel = None,
     w_queue = [], w_rx_life = None, w_status = []\<rparr>"

definition nothing_ignored :: "path \<Rightarrow> bool \<Rightarrow> bool" where
  "nothing_ignored p d = False"

lemma demo_scan: "fst (scan_run (demo_cx False) nothing_ignored demo_world) = Inr ()"
  by code_simp

lemma demo_scan_queue: "w_queue (snd (scan_run (demo_cx False) nothing_ignored demo_world)) =
   [SyncFile [''/'', ''s'', ''a''], SyncFile [''/'', ''s'', ''d'', ''b''], Delete [''/'', ''s'', ''gone''], Delete [''/'', ''s'', ''z'']]"
  by code_simp

lemma demo_db_ok: "db_ok demo_db"
  by (simp add: db_ok_def demo_db_def queue_rows_ok_def)

definition demo_pair :: sync_pair where
  "demo_pair = \<lparr>sp_name = ''m'', sp_local_path = ''/s'', sp_remote_folder_id = ''R'',
     sp_provider = default_provider, sp_active = True, sp_ignore_patterns = []\<rparr>"

lemma demo_primary: "get_primary_pair (cx_cfg (demo_cx dry)) = Some demo_pair"
  by (simp add: demo_cx_def demo_cfg_def get_primary_pair_def demo_pair_def app_default_def)

lemma demo_cx_simps [simp]:
  "cx_cfg (demo_cx dry) = demo_cfg" "cx_dry_run (demo_cx dry) = dry" "cx_provider (demo_cx dry) = demo_provider"
  "cx_disk (demo_cx dry) = demo_disk" "cx_md5 (demo_cx dry) = demo_md5" "cx_order (demo_cx dry) xs = xs"
  by (simp_all add: demo_cx_def)

lemma demo_pair_simps [simp]: "pair_base demo_pair = [''/'', ''s'']" "sp_remote_folder_id demo_pair = ''R''"
  by code_simp+

lemma demo_walked_distinct: "distinct (local_rel_set [''/'', ''s''] (walk_files (walked (demo_cx dry) nothing_ignored [''/'', ''s''])))"
proof -
  have "distinct (local_rel_set [''/'', ''s''] (walk_files (walked (demo_cx True) nothing_ignored [''/'', ''s''])))"
    "distinct (local_rel_set [''/'', ''s''] (walk_files (walked (demo_cx False) nothing_ignored [''/'', ''s''])))"
    by code_simp+
  then show ?thesis by (cases dry) simp_all
qed

lemma demo_world_simps [simp]:
  "w_db demo_world = demo_db" "w_queue demo_world = []" "w_drive demo_world = []" "w_rx_life demo_world = None"
  "w_cancel demo_world = None" "w_cache demo_world = pc_new" "w_tracker demo_world = tracker_new"
  by (simp_all add: demo_world_def)

lemma run_pair: "fst x = a \<Longrightarrow> x = (a, snd x)"
  by (cases x) simp

text \<open>A world where the indexed file is also cached, and an engine on the demonstration drive.\<close>

definition demo_known :: "string list world" where
  "demo_known = demo_world\<lparr>w_cache := [''gone'' \<mapsto> \<lparr>ce_drive_id = ''g'', ce_parent_id = ''R''\<rparr>]\<rparr>"

definition demo_globs :: "(string, string list) globset_crate" where
  "demo_globs = \<lparr>gs_glob = Inr, gs_build = Inr, gs_is_match = (\<lambda>gs p. p \<in> set gs)\<rparr>"

definition demo_env :: "(string, string list, string list) engine_env" where
  "demo_env = \<lparr>ev_provider = demo_provider, ev_md5 = demo_md5, ev_walk = demo_walk, ev_order = (\<lambda>xs. xs),
     ev_globs = demo_globs, ev_watch = (\<lambda>_. None), ev_pending_order = (\<lambda>xs. xs)\<rparr>"

definition demo_start :: "string list engine" where
  "demo_start = the (run_with_provider demo_env demo_disk [] 0 (engine_new demo_cfg False [] demo_db))"

definition demo_run :: "engine_event list \<Rightarrow> string list engine" where
  "demo_run evs = fold (\<lambda>ev e. the (engine_step demo_env ev e)) evs demo_start"

lemma demo_started: "run_with_provider demo_env demo_disk [] 0 (engine_new demo_cfg False [] demo_db) = Some demo_start"
proof -
  have "\<not> Option.is_none (run_with_provider demo_env demo_disk [] 0 (engine_new demo_cfg False [] demo_db))"
    by code_simp
  then show ?thesis by (auto simp: demo_start_def Option.is_none_def)
qed

lemma demo_reach_step:
  "engine_reach demo_env demo_start (demo_run evs) \<Longrightarrow>
   \<not> Option.is_none (engine_step demo_env ev (demo_run evs)) \<Longrightarrow>
   engine_reach demo_env demo_start (demo_run (evs @ [ev]))"
  by (auto simp: demo_run_def Option.is_none_def intro: engine_reach.step)

text \<open>It takes a task, runs it, and gets a new configuration.\<close>

lemma demo_reached: "engine_reach demo_env demo_start (demo_run [MainTask, BgJob 0 demo_disk,
    MainCommand (Some (ApplyConfig (demo_cfg\<lparr>cf_max_workers := 9\<rparr>))) [] 0 demo_disk])"
proof -
  have "engine_reach demo_env demo_start (demo_run ([] @ [MainTask]))"
    by (rule demo_reach_step) (simp add: demo_run_def engine_reach.start, code_simp)
  then have "engine_reach demo_env demo_start (demo_run ([MainTask] @ [BgJob 0 demo_disk]))"
    by (intro demo_reach_step) (simp, code_simp)
  then have "engine_reach demo_env demo_start (demo_run ([MainTask, BgJob 0 demo_disk] @
      [MainCommand (Some (ApplyConfig (demo_cfg\<lparr>cf_max_workers := 9\<rparr>))) [] 0 demo_disk]))"
    by (intro demo_reach_step) (simp, code_simp)
  then show ?thesis by simp
qed

text \<open>A TOML crate that knows three documents, a glob crate, and a clock.\<close>

definition demo_doc :: toml where
  "demo_doc = the (toml_of_app_config demo_cfg)"

definition demo_v1_doc :: toml where
  "demo_v1_doc = TTable [(''local_root'', TString ''/s''), (''remote_root'', TString ''R'')]"

definition demo_v1_cfg :: app_config where
  "demo_v1_cfg = (the (app_config_of_toml demo_v1_doc))\<lparr>cf_sync_pairs := [v1_pair ''/s'' demo_v1_doc]\<rparr>"

definition demo_v2_doc :: toml where
  "demo_v2_doc = the (toml_of_app_config demo_v1_cfg)"

definition demo_toml :: toml_crate where
  "demo_toml = \<lparr>tc_parse = (\<lambda>s. if s = ''A'' then Inr demo_doc else if s = ''B'' then Inr demo_v2_doc
       else if s = ''old'' then Inr demo_v1_doc else Inl ''bad''),
     tc_print = (\<lambda>v. if v = demo_doc then Inr ''A'' else if v = demo_v2_doc then Inr ''B'' else Inl ''no''),
     tc_shape_error = (\<lambda>_. ''shape''), tc_range_error = ''range''\<rparr>"

lemma demo_toml_faithful: "toml_faithful demo_toml"
  by (auto simp: toml_faithful_def demo_toml_def split: if_splits)

definition demo_env_vars :: environment where
  "demo_env_vars = \<lparr>env_xdg_config_home = Some ''/c'', env_home = Some ''/h''\<rparr>"

definition demo_config_file :: path where
  "demo_config_file = [''/'', ''c'', ''config.toml'']"

definition demo_wake :: "nat \<Rightarrow> rat \<Rightarrow> nat" where
  "demo_wake t w = t + nat \<lceil>w * of_nat ns_per_sec\<rceil>"

lemma demo_wake_ok: "sleeps_long_enough demo_wake"
proof -
  have "w \<le> of_nat (nat \<lceil>w * of_nat ns_per_sec\<rceil>) / of_nat ns_per_sec" for w :: rat
    by (simp add: pos_le_divide_eq of_nat_ceiling)
  then show ?thesis by (simp add: sleeps_long_enough_def secs_between_def demo_wake_def)
qed

end
