(* ===== verification/Http.thy ===== *)
theory Http
  imports Prelude "HOL-Library.Word"
begin

text \<open>
  What \<open>remote/gdrive.rs\<close> and \<open>auth/\<close> say to a server and hear from it: JSON values as the
  crate serde_json has them, requests as the crate reqwest is asked to send them, and answers. The
  network is a parameter of the theories that use this one. The only code here is the standard
  library's and the accessors of \<open>serde_json::Value\<close> the source calls.
\<close>

section \<open>JSON values\<close>

text \<open>A number without fraction is a \<open>JInt\<close>; any other keeps its text.\<close>

datatype json =
    JNull
  | JBool bool
  | JInt int
  | JFloat string
  | JStr string
  | JArr "json list"
  | JObj "(string \<times> json) list"

text \<open>\<open>Value::get\<close> with a string key, and \<open>value[key]\<close>, which is \<open>null\<close> for a missing key.\<close>

definition json_get :: "json \<Rightarrow> string \<Rightarrow> json option" where
  "json_get v k = (case v of JObj kvs \<Rightarrow> map_of kvs k | _ \<Rightarrow> None)"

definition json_at :: "json \<Rightarrow> string \<Rightarrow> json" where
  "json_at v k = (case json_get v k of Some x \<Rightarrow> x | None \<Rightarrow> JNull)"

definition as_str :: "json \<Rightarrow> string option" where
  "as_str v = (case v of JStr s \<Rightarrow> Some s | _ \<Rightarrow> None)"

definition as_array :: "json \<Rightarrow> json list option" where
  "as_array v = (case v of JArr vs \<Rightarrow> Some vs | _ \<Rightarrow> None)"

definition as_bool :: "json \<Rightarrow> bool option" where
  "as_bool v = (case v of JBool b \<Rightarrow> Some b | _ \<Rightarrow> None)"

text \<open>\<open>v[key].as_str().unwrap_or(default)\<close>.\<close>

definition str_or :: "string \<Rightarrow> json \<Rightarrow> string \<Rightarrow> string" where
  "str_or d v k = (case as_str (json_at v k) of Some s \<Rightarrow> s | None \<Rightarrow> d)"

lemma json_at_Nil [simp]: "json_at (JObj []) k = JNull"
  by (simp add: json_at_def json_get_def)

lemma json_at_Cons [simp]: "json_at (JObj ((k', v) # kvs)) k = (if k = k' then v else json_at (JObj kvs) k)"
  by (simp add: json_at_def json_get_def)

lemma as_simps [simp]: "as_str (JStr s) = Some s" "as_array (JArr vs) = Some vs" "as_bool (JBool b) = Some b"
  "as_str JNull = None" "as_array JNull = None" "as_bool JNull = None"
  by (simp_all add: as_str_def as_array_def as_bool_def)

lemma str_or_None: "as_str (json_at v k) = None \<Longrightarrow> str_or d v k = d"
  and str_or_Some: "as_str (json_at v k) = Some s \<Longrightarrow> str_or d v k = s"
  by (simp_all add: str_or_def)

section \<open>Strings of the standard library\<close>

text \<open>\<open>str::parse::<u64>\<close>: an optional plus sign, then decimal digits, without overflow.\<close>

definition digit_of :: "char \<Rightarrow> nat option" where
  "digit_of c = (let n = of_char c in if 48 \<le> n \<and> n \<le> (57 :: nat) then Some (n - 48) else None)"

fun parse_digits :: "nat \<Rightarrow> string \<Rightarrow> nat option" where
  "parse_digits acc [] = Some acc"
| "parse_digits acc (c # cs) =
     (case digit_of c of
        None \<Rightarrow> None
      | Some d \<Rightarrow> if acc * 10 + d < 2 ^ 64 then parse_digits (acc * 10 + d) cs else None)"

definition parse_u64 :: "string \<Rightarrow> nat option" where
  "parse_u64 s =
     (let ds = (case s of [] \<Rightarrow> [] | c # cs \<Rightarrow> if c = CHR ''+'' then cs else s) in
      if ds = [] then None else parse_digits 0 ds)"

text \<open>\<open>str::replace\<close> of one character.\<close>

definition replace_char :: "char \<Rightarrow> string \<Rightarrow> string \<Rightarrow> string" where
  "replace_char c r s = concat (map (\<lambda>x. if x = c then r else [x]) s)"

text \<open>\<open>str::split_whitespace\<close>.\<close>

fun split_words :: "string \<Rightarrow> string \<Rightarrow> string list" where
  "split_words w [] = (if w = [] then [] else [rev w])"
| "split_words w (c # cs) =
     (if is_space c then (if w = [] then split_words [] cs else rev w # split_words [] cs)
      else split_words (c # w) cs)"

definition split_whitespace :: "string \<Rightarrow> string list" where
  "split_whitespace s = split_words [] s"

text \<open>\<open>String::from_utf8\<close> accepts the well-formed sequences of bytes.\<close>

definition utf8_tail :: "nat \<Rightarrow> (nat \<times> nat) list option" where
  "utf8_tail b =
     (if b < 0x80 then Some []
      else if b < 0xC2 then None
      else if b < 0xE0 then Some [(0x80, 0xBF)]
      else if b = 0xE0 then Some [(0xA0, 0xBF), (0x80, 0xBF)]
      else if b = 0xED then Some [(0x80, 0x9F), (0x80, 0xBF)]
      else if b < 0xF0 then Some [(0x80, 0xBF), (0x80, 0xBF)]
      else if b = 0xF0 then Some [(0x90, 0xBF), (0x80, 0xBF), (0x80, 0xBF)]
      else if b < 0xF4 then Some [(0x80, 0xBF), (0x80, 0xBF), (0x80, 0xBF)]
      else if b = 0xF4 then Some [(0x80, 0x8F), (0x80, 0xBF), (0x80, 0xBF)]
      else None)"

fun take_tail :: "(nat \<times> nat) list \<Rightarrow> string \<Rightarrow> string option" where
  "take_tail [] s = Some s"
| "take_tail (r # rs) [] = None"
| "take_tail ((lo, hi) # rs) (c # s) = (if lo \<le> of_char c \<and> of_char c \<le> hi then take_tail rs s else None)"

lemma take_tail_shorter: "take_tail rs s = Some s' \<Longrightarrow> length s' \<le> length s"
  by (induction rs s rule: take_tail.induct) (auto split: if_splits)

function utf8_ok :: "string \<Rightarrow> bool" where
  "utf8_ok [] = True"
| "utf8_ok (c # s) =
     (case utf8_tail (of_char c) of
        None \<Rightarrow> False
      | Some rs \<Rightarrow> (case take_tail rs s of None \<Rightarrow> False | Some s' \<Rightarrow> utf8_ok s'))"
  by pat_completeness auto

termination
  by (relation "measure length") (auto dest: take_tail_shorter)

text \<open>ASCII text is well formed.\<close>

lemma utf8_ok_ascii: "\<forall>c \<in> set s. of_char c < (0x80 :: nat) \<Longrightarrow> utf8_ok s"
  by (induction s) (auto simp: utf8_tail_def)

section \<open>Requests and answers\<close>

datatype http_method = GET | POST | PATCH | PUT | DELETE

text \<open>
  \<open>Multipart\<close> carries the metadata part and the file part; \<open>Streamed\<close> the bytes the body stream
  has produced.
\<close>

datatype http_body =
    NoBody
  | JsonBody json
  | FormBody string
  | Multipart json string string
  | Streamed string

record http_request =
  rq_method :: http_method
  rq_url :: string
  rq_query :: "(string \<times> string) list"
  rq_headers :: "(string \<times> string) list"
  rq_bearer :: "string option"
  rq_body :: http_body

text \<open>
  \<open>rs_headers\<close>: the headers by lower-case name, each as \<open>HeaderValue::to_str\<close> gives it, which
  is an error when the value is not text.
  \<open>rs_json\<close>: what \<open>json()\<close> makes of the body, which may fail.
\<close>

record http_response =
  rs_status :: nat
  rs_headers :: "string \<Rightarrow> (string + string) option"
  rs_json :: "json res"

definition is_success :: "nat \<Rightarrow> bool" where
  "is_success status = (200 \<le> status \<and> status < 300)"

definition is_client_error :: "nat \<Rightarrow> bool" where
  "is_client_error status = (400 \<le> status \<and> status < 500)"

text \<open>
  The network: what a request sent at a clock gives, when, and how it leaves the outside world.
\<close>

type_synonym 's network = "http_request \<Rightarrow> nat \<Rightarrow> 's \<Rightarrow> (string + http_response) \<times> nat \<times> 's"

end
