(* ===== verification/Auth.thy ===== *)
theory Auth
  imports Config Http
begin

text \<open>
  \<open>auth/storage.rs\<close>, \<open>auth/google_auth.rs\<close> and \<open>auth/oauth2.rs\<close>: the encrypted token file,
  the life cycle of the tokens, and the browser login. AES-256-GCM, SHA-256, serde_json, the random
  generator, the crates oauth2, url and chrono, the browser and the network are parameters
  (\<open>auth_crates\<close>); the disk is that of the theory Disk, without the permission bits. Clocks are
  nanoseconds, \<open>ac_unix\<close> reads the wall clock in seconds. A result is \<open>None\<close> when the browser
  never calls back: the code waits without limit. The text a crate adds below a context message
  when decoding fails is left out.
\<close>

section \<open>Tokens\<close>

record google_tokens =
  gt_access_token :: string
  gt_refresh_token :: string
  gt_expires_at :: int
  gt_scope :: string

text \<open>\<open>i64\<close> arithmetic wraps in the release profile.\<close>

definition wrap_i64 :: "int \<Rightarrow> int" where
  "wrap_i64 n = sint (word_of_int n :: 64 word)"

definition json_of_tokens :: "google_tokens \<Rightarrow> json" where
  "json_of_tokens t = JObj [(''access_token'', JStr (gt_access_token t)),
     (''refresh_token'', JStr (gt_refresh_token t)), (''expires_at'', JInt (gt_expires_at t)),
     (''scope'', JStr (gt_scope t))]"

text \<open>
  The derived \<open>Deserialize\<close>: unknown fields are skipped, a missing, repeated or ill-typed field
  is an error.
\<close>

definition field_once :: "json \<Rightarrow> string \<Rightarrow> json option" where
  "field_once v k =
     (case v of
        JObj kvs \<Rightarrow> (case filter (\<lambda>kv. fst kv = k) kvs of [(_, x)] \<Rightarrow> Some x | _ \<Rightarrow> None)
      | _ \<Rightarrow> None)"

definition json_i64 :: "json \<Rightarrow> int option" where
  "json_i64 v = (case v of JInt n \<Rightarrow> if - (2 ^ 63) \<le> n \<and> n < 2 ^ 63 then Some n else None | _ \<Rightarrow> None)"

definition tokens_of_json :: "json \<Rightarrow> google_tokens option" where
  "tokens_of_json v =
     Option.bind (Option.bind (field_once v ''access_token'') as_str) (\<lambda>a.
     Option.bind (Option.bind (field_once v ''refresh_token'') as_str) (\<lambda>r.
     Option.bind (Option.bind (field_once v ''expires_at'') json_i64) (\<lambda>e.
     Option.bind (Option.bind (field_once v ''scope'') as_str) (\<lambda>s.
     Some \<lparr>gt_access_token = a, gt_refresh_token = r, gt_expires_at = e, gt_scope = s\<rparr>))))"

record oauth_credentials =
  oc_client_id :: string
  oc_client_secret :: string
  oc_redirect_uri :: string

definition placeholder :: string where
  "placeholder = [CHR 0xC3, CHR 0x80] @ ''_REMPLIR_PLUS_TARD''"

definition credentials_default :: "string option \<Rightarrow> string option \<Rightarrow> oauth_credentials" where
  "credentials_default client_id client_secret =
     \<lparr>oc_client_id = (case client_id of Some s \<Rightarrow> s | None \<Rightarrow> placeholder),
      oc_client_secret = (case client_secret of Some s \<Rightarrow> s | None \<Rightarrow> placeholder),
      oc_redirect_uri = ''http://127.0.0.1''\<rparr>"

section \<open>The outside\<close>

text \<open>What the token endpoint is asked, through the crate oauth2, and what it answers.\<close>

datatype token_grant =
    RefreshGrant string
  | CodeGrant string string nat

record token_response =
  tr_access_token :: string
  tr_refresh_token :: "string option"
  tr_expires_in :: "64 word option"

record ('k, 's) auth_crates =
  ac_cipher :: "string \<Rightarrow> 'k"
  ac_nonce :: "'s \<Rightarrow> string \<times> 's"
  ac_encrypt :: "'k \<Rightarrow> string \<Rightarrow> string \<Rightarrow> string option"
  ac_decrypt :: "'k \<Rightarrow> string \<Rightarrow> string \<Rightarrow> string option"
  ac_print_json :: "json \<Rightarrow> string"
  ac_parse_json :: "string \<Rightarrow> json option"
  ac_unix :: "nat \<Rightarrow> int"
  ac_token :: "oauth_credentials \<Rightarrow> token_grant \<Rightarrow> nat \<Rightarrow> 's \<Rightarrow> (string + token_response) \<times> nat \<times> 's"
  ac_listen :: "'s \<Rightarrow> (string + nat) \<times> 's"
  ac_secrets :: "'s \<Rightarrow> (string \<times> string \<times> string) \<times> 's"
  ac_browser :: "nat \<Rightarrow> string \<Rightarrow> string \<Rightarrow> nat \<Rightarrow> 's \<Rightarrow> ((string + string) \<times> nat \<times> 's) option"
  ac_reply :: "'s \<Rightarrow> string option \<times> 's"
  ac_query_pairs :: "string \<Rightarrow> string + (string \<times> string) list"
  ac_http :: "'s network"
  ac_status_error :: "nat \<Rightarrow> string"
  ac_format_date :: "int \<Rightarrow> string option"

record 's auth_world =
  aw_disk :: disk
  aw_now :: nat
  aw_net :: 's

text \<open>The storage and the manager: path and cipher of the token file, and the credentials.\<close>

record 'k google_auth =
  ga_path :: path
  ga_cipher :: 'k
  ga_creds :: oauth_credentials

definition tokens_path :: "environment \<Rightarrow> path" where
  "tokens_path env = components (push_str (config_dir env) ''tokens.enc'')"

text \<open>\<open>GoogleAuth::new\<close> panics (\<open>None\<close>) without the client secret.\<close>

definition auth_new ::
  "('k, 's) auth_crates \<Rightarrow> environment \<Rightarrow> string option \<Rightarrow> string option \<Rightarrow> 'k google_auth option" where
  "auth_new ac env client_id client_secret =
     (case client_secret of
        None \<Rightarrow> None
      | Some secret \<Rightarrow> Some \<lparr>ga_path = tokens_path env, ga_cipher = ac_cipher ac secret,
          ga_creds = credentials_default client_id client_secret\<rparr>)"

section \<open>The encrypted file\<close>

definition encrypt_msg :: string where
  "encrypt_msg = E_acute @ ''chec du chiffrement AES-256-GCM : Error''"

definition decrypt_msg :: string where
  "decrypt_msg = E_acute @ ''chec du d'' @ e_acute @ ''chiffrement. Le CLIENT_SECRET a-t-il '' @ e_acute
     @ ''t'' @ e_acute @ '' modifi'' @ e_acute @ '' depuis la derni'' @ e_grave @ ''re connexion ?''"

definition too_short_msg :: string where
  "too_short_msg = ''Fichier de tokens corrompu (taille insuffisante pour contenir un Nonce et un MAC)''"

definition utf8_msg :: string where
  "utf8_msg = ''Les donn'' @ e_acute @ ''es d'' @ e_acute @ ''chiffr'' @ e_acute
     @ ''es ne forment pas une cha'' @ [CHR 0xC3, CHR 0xAE] @ ''ne de caract'' @ e_grave @ ''res UTF-8 valide''"

definition json_msg :: string where
  "json_msg = ''Structure JSON des tokens illisible ou corrompue''"

definition config_tree_msg :: string where
  "config_tree_msg = ''Impossible de cr'' @ e_acute @ ''er l'' @ [CHR 0x27]
     @ ''arborescence du dossier de configuration''"

definition write_msg :: string where
  "write_msg = ''Impossible d'' @ [CHR 0x27] @ e_acute @ ''crire le fichier chiffr'' @ e_acute @ '' sur le disque''"

definition read_msg :: string where
  "read_msg = ''Impossible de lire le fichier chiffr'' @ e_acute @ '' depuis le disque''"

definition storage_store ::
  "('k, 's) auth_crates \<Rightarrow> 'k google_auth \<Rightarrow> google_tokens \<Rightarrow> ('s, 'z) auth_world_scheme
   \<Rightarrow> unit res \<times> ('s, 'z) auth_world_scheme" where
  "storage_store ac ga tokens w =
     (case ac_nonce ac (aw_net w) of
        (nonce, s) \<Rightarrow>
          (let w1 = w\<lparr>aw_net := s\<rparr> in
           case ac_encrypt ac (ga_cipher ga) nonce (ac_print_json ac (json_of_tokens tokens)) of
             None \<Rightarrow> (bail encrypt_msg, w1)
           | Some ciphertext \<Rightarrow>
               (case ensure_parent (ga_path ga) (aw_disk w) of
                  (Inl e, dk) \<Rightarrow> (Inl (config_tree_msg # e), w1\<lparr>aw_disk := dk\<rparr>)
                | (Inr _, dk) \<Rightarrow>
                    (case fs_write (ac_unix ac (aw_now w)) (ga_path ga) (nonce @ ciphertext) dk of
                       Inl e \<Rightarrow> (Inl (write_msg # e), w1\<lparr>aw_disk := dk\<rparr>)
                     | Inr dk' \<Rightarrow> (Inr (), w1\<lparr>aw_disk := dk'\<rparr>)))))"

definition open_vault :: "('k, 's) auth_crates \<Rightarrow> 'k \<Rightarrow> string \<Rightarrow> google_tokens res" where
  "open_vault ac key content =
     (if length content < 28 then bail too_short_msg
      else case ac_decrypt ac key (take 12 content) (drop 12 content) of
        None \<Rightarrow> bail decrypt_msg
      | Some plaintext \<Rightarrow>
          if \<not> utf8_ok plaintext then bail utf8_msg
          else context_opt json_msg (Option.bind (ac_parse_json ac plaintext) tokens_of_json))"

definition storage_load ::
  "('k, 's) auth_crates \<Rightarrow> 'k google_auth \<Rightarrow> disk \<Rightarrow> google_tokens option res" where
  "storage_load ac ga dk =
     (if \<not> path_exists (ga_path ga) dk then Inr None
      else bind_res (with_context read_msg (fs_read (ga_path ga) dk)) (\<lambda>content.
        bind_res (open_vault ac (ga_cipher ga) content) (\<lambda>t. Inr (Some t))))"

definition storage_clear :: "'k google_auth \<Rightarrow> disk \<Rightarrow> unit res \<times> disk" where
  "storage_clear ga dk =
     (if path_exists (ga_path ga) dk
      then (case remove_file (ga_path ga) dk of
              (r, dk') \<Rightarrow> (with_context ''Impossible de supprimer le fichier de tokens'' r, dk'))
      else (Inr (), dk))"

section \<open>The browser login\<close>

definition drive_scope :: string where
  "drive_scope = ''https://www.googleapis.com/auth/drive.file''"

text \<open>
  \<open>ac_secrets\<close>: PKCE challenge, PKCE verifier and CSRF token, freshly drawn. \<open>ac_browser\<close> opens the
  authorisation page and waits for the first connection to the local port; it gives the first
  line of its request. The page that closes the login is sent before the line is looked at.
\<close>

definition csrf_msg :: string where
  "csrf_msg = ''Attaque CSRF d'' @ e_acute @ ''tect'' @ e_acute @ ''e (le param'' @ e_grave
     @ ''tre state ne correspond pas)''"

definition first_value :: "string \<Rightarrow> (string \<times> string) list \<Rightarrow> string option" where
  "first_value k kvs = map_of kvs k"

definition callback_code :: "('k, 's) auth_crates \<Rightarrow> string \<Rightarrow> string \<Rightarrow> string res" where
  "callback_code ac csrf request_line =
     (case split_whitespace request_line of
        _ # target # _ \<Rightarrow>
          (case ac_query_pairs ac (''http://localhost'' @ target) of
             Inl e \<Rightarrow> Inl [e]
           | Inr kvs \<Rightarrow>
               bind_res (context_opt (''Code d'' @ [CHR 0x27] @ ''autorisation non trouv'' @ e_acute
                   @ '' dans la requ'' @ e_circ @ ''te'') (first_value ''code'' kvs)) (\<lambda>code.
               bind_res (context_opt (''State CSRF non trouv'' @ e_acute) (first_value ''state'' kvs)) (\<lambda>state.
               if state \<noteq> csrf then bail csrf_msg else Inr code)))
      | _ \<Rightarrow> bail (''Requ'' @ e_circ @ ''te HTTP invalide''))"

definition tokens_of_exchange :: "int \<Rightarrow> token_response \<Rightarrow> google_tokens" where
  "tokens_of_exchange now tr =
     \<lparr>gt_access_token = tr_access_token tr,
      gt_refresh_token = (case tr_refresh_token tr of Some r \<Rightarrow> r | None \<Rightarrow> []),
      gt_expires_at = wrap_i64 (now + sint (case tr_expires_in tr of Some d \<Rightarrow> d | None \<Rightarrow> 3599)),
      gt_scope = drive_scope\<rparr>"

definition authenticate ::
  "('k, 's) auth_crates \<Rightarrow> oauth_credentials \<Rightarrow> ('s, 'z) auth_world_scheme
   \<Rightarrow> (google_tokens res \<times> ('s, 'z) auth_world_scheme) option" where
  "authenticate ac creds w =
     (case ac_listen ac (aw_net w) of
        (Inl e, s) \<Rightarrow> Some (Inl [''Impossible de lier un port local'', e], w\<lparr>aw_net := s\<rparr>)
      | (Inr port, s) \<Rightarrow>
          (case ac_secrets ac s of
             ((challenge, verifier, csrf), s1) \<Rightarrow>
               (case ac_browser ac port challenge csrf (aw_now w) s1 of
                  None \<Rightarrow> None
                | Some (Inl e, t, s2) \<Rightarrow> Some (Inl [e], w\<lparr>aw_now := t, aw_net := s2\<rparr>)
                | Some (Inr request_line, t, s2) \<Rightarrow>
                    (case ac_reply ac s2 of
                       (Some e, s3) \<Rightarrow> Some (Inl [e], w\<lparr>aw_now := t, aw_net := s3\<rparr>)
                     | (None, s3) \<Rightarrow>
                         (case callback_code ac csrf request_line of
                            Inl e \<Rightarrow> Some (Inl e, w\<lparr>aw_now := t, aw_net := s3\<rparr>)
                          | Inr code \<Rightarrow>
                              (case ac_token ac creds (CodeGrant code verifier port) t s3 of
                                 (r, t', s4) \<Rightarrow>
                                   Some (case r of
                                       Inl e \<Rightarrow> Inl [E_acute @ ''chec lors de l'' @ [CHR 0x27] @ e_acute
                                         @ ''change du code OAuth2'', e]
                                     | Inr tr \<Rightarrow> Inr (tokens_of_exchange (ac_unix ac t') tr),
                                     w\<lparr>aw_now := t', aw_net := s4\<rparr>)))))))"

section \<open>GoogleAuth\<close>

definition save_tokens ::
  "('k, 's) auth_crates \<Rightarrow> 'k google_auth \<Rightarrow> google_tokens \<Rightarrow> ('s, 'z) auth_world_scheme
   \<Rightarrow> unit res \<times> ('s, 'z) auth_world_scheme" where
  "save_tokens ac ga tokens w = storage_store ac ga tokens w"

definition no_token_msg :: string where
  "no_token_msg = ''Aucun jeton trouv'' @ e_acute @ ''. Veuillez vous connecter dans les param'' @ e_grave @ ''tres.''"

definition refreshed_tokens :: "int \<Rightarrow> google_tokens \<Rightarrow> token_response \<Rightarrow> google_tokens" where
  "refreshed_tokens now old tr =
     \<lparr>gt_access_token = tr_access_token tr,
      gt_refresh_token = (case tr_refresh_token tr of Some r \<Rightarrow> r | None \<Rightarrow> gt_refresh_token old),
      gt_expires_at = wrap_i64 (now + sint (case tr_expires_in tr of Some d \<Rightarrow> d | None \<Rightarrow> 3599)),
      gt_scope = gt_scope old\<rparr>"

text \<open>The new tokens are stored before the access token is handed out.\<close>

definition save_and_return ::
  "('k, 's) auth_crates \<Rightarrow> 'k google_auth \<Rightarrow> google_tokens \<Rightarrow> ('s, 'z) auth_world_scheme
   \<Rightarrow> string res \<times> ('s, 'z) auth_world_scheme" where
  "save_and_return ac ga tokens w =
     (case save_tokens ac ga tokens w of
        (Inl e, w') \<Rightarrow> (Inl e, w') | (Inr _, w') \<Rightarrow> (Inr (gt_access_token tokens), w'))"

text \<open>
  Any error of the refresh, a broken connection included, is taken as a rejection: the file is
  removed (its error ignored) and the user is sent to the browser.
\<close>

definition reconnect ::
  "('k, 's) auth_crates \<Rightarrow> 'k google_auth \<Rightarrow> ('s, 'z) auth_world_scheme
   \<Rightarrow> (string res \<times> ('s, 'z) auth_world_scheme) option" where
  "reconnect ac ga w =
     (case authenticate ac (ga_creds ga) (w\<lparr>aw_disk := snd (storage_clear ga (aw_disk w))\<rparr>) of
        None \<Rightarrow> None
      | Some (Inl e, w') \<Rightarrow> Some (Inl ((E_acute @ ''chec de la nouvelle authentification via le navigateur'') # e), w')
      | Some (Inr tokens, w') \<Rightarrow> Some (save_and_return ac ga tokens w'))"

definition refresh_token ::
  "('k, 's) auth_crates \<Rightarrow> 'k google_auth \<Rightarrow> google_tokens \<Rightarrow> ('s, 'z) auth_world_scheme
   \<Rightarrow> (string res \<times> ('s, 'z) auth_world_scheme) option" where
  "refresh_token ac ga tokens w =
     (case ac_token ac (ga_creds ga) (RefreshGrant (gt_refresh_token tokens)) (aw_now w) (aw_net w) of
        (r, t, s) \<Rightarrow>
          (let w1 = w\<lparr>aw_now := t, aw_net := s\<rparr> in
           case r of
             Inl _ \<Rightarrow> reconnect ac ga w1
           | Inr tr \<Rightarrow> Some (save_and_return ac ga (refreshed_tokens (ac_unix ac t) tokens tr) w1)))"

definition get_valid_token ::
  "('k, 's) auth_crates \<Rightarrow> 'k google_auth \<Rightarrow> ('s, 'z) auth_world_scheme
   \<Rightarrow> (string res \<times> ('s, 'z) auth_world_scheme) option" where
  "get_valid_token ac ga w =
     (case bind_res (storage_load ac ga (aw_disk w)) (context_opt no_token_msg) of
        Inl e \<Rightarrow> Some (Inl e, w)
      | Inr tokens \<Rightarrow>
          (let now = ac_unix ac (aw_now w) in
           if gt_expires_at tokens > wrap_i64 (now + 300) then Some (Inr (gt_access_token tokens), w)
           else refresh_token ac ga tokens w))"

definition revoke_request :: "google_tokens \<Rightarrow> http_request" where
  "revoke_request tokens = \<lparr>rq_method = POST, rq_url = ''https://oauth2.googleapis.com/revoke'', rq_query = [],
     rq_headers = [(''Content-Type'', ''application/x-www-form-urlencoded'')], rq_bearer = None,
     rq_body = FormBody (''token='' @ gt_refresh_token tokens)\<rparr>"

text \<open>The answer to the revocation is not looked at.\<close>

definition revoke_token ::
  "('k, 's) auth_crates \<Rightarrow> 'k google_auth \<Rightarrow> ('s, 'z) auth_world_scheme \<Rightarrow> unit res \<times> ('s, 'z) auth_world_scheme" where
  "revoke_token ac ga w =
     (let w1 = (case storage_load ac ga (aw_disk w) of
            Inr (Some tokens) \<Rightarrow>
              (case ac_http ac (revoke_request tokens) (aw_now w) (aw_net w) of
                 (_, t, s) \<Rightarrow> w\<lparr>aw_now := t, aw_net := s\<rparr>)
          | _ \<Rightarrow> w) in
      case storage_clear ga (aw_disk w1) of
        (r, dk) \<Rightarrow> (with_context ''Erreur lors de la suppression du fichier de tokens'' r, w1\<lparr>aw_disk := dk\<rparr>))"

definition is_locally_connected :: "('k, 's) auth_crates \<Rightarrow> 'k google_auth \<Rightarrow> disk \<Rightarrow> bool" where
  "is_locally_connected ac ga dk = (case storage_load ac ga dk of Inr (Some _) \<Rightarrow> True | _ \<Rightarrow> False)"

definition email_request :: "string \<Rightarrow> http_request" where
  "email_request token = \<lparr>rq_method = GET, rq_url = ''https://www.googleapis.com/drive/v3/about?fields=user'',
     rq_query = [], rq_headers = [], rq_bearer = Some token, rq_body = NoBody\<rparr>"

definition profile_msg :: string where
  "profile_msg = ''Erreur lors de la lecture du profil utilisateur''"

text \<open>\<open>error_for_status\<close> is an error for the statuses 400 to 599.\<close>

definition email_of_response :: "('k, 's) auth_crates \<Rightarrow> http_response \<Rightarrow> string res" where
  "email_of_response ac rs =
     (if 400 \<le> rs_status rs \<and> rs_status rs < 600
      then bail (ac_status_error ac (rs_status rs))
      else bind_res (with_context profile_msg (rs_json rs)) (\<lambda>v.
        context_opt profile_msg (Option.bind (Option.bind (field_once v ''user'') (\<lambda>u. field_once u ''emailAddress'')) as_str)))"

definition get_user_email ::
  "('k, 's) auth_crates \<Rightarrow> 'k google_auth \<Rightarrow> ('s, 'z) auth_world_scheme
   \<Rightarrow> (string res \<times> ('s, 'z) auth_world_scheme) option" where
  "get_user_email ac ga w =
     (case get_valid_token ac ga w of
        None \<Rightarrow> None
      | Some (Inl e, w1) \<Rightarrow> Some (Inl e, w1)
      | Some (Inr token, w1) \<Rightarrow>
          (case ac_http ac (email_request token) (aw_now w1) (aw_net w1) of
             (r, t, s) \<Rightarrow>
               Some (case r of Inl e \<Rightarrow> Inl [e] | Inr rs \<Rightarrow> email_of_response ac rs,
                     w1\<lparr>aw_now := t, aw_net := s\<rparr>)))"

definition get_token_expiration_date :: "('k, 's) auth_crates \<Rightarrow> 'k google_auth \<Rightarrow> disk \<Rightarrow> string" where
  "get_token_expiration_date ac ga dk =
     (case storage_load ac ga dk of
        Inr (Some tokens) \<Rightarrow>
          (case ac_format_date ac (gt_expires_at tokens) of Some s \<Rightarrow> s | None \<Rightarrow> ''Inconnue'')
      | _ \<Rightarrow> ''Inconnue'')"

end
