(* ===== verification/Gdrive.thy ===== *)
theory Gdrive
  imports Remote Rate_Limiter Auth
begin

text \<open>
  \<open>remote/gdrive.rs\<close>: the provider over the Drive API. \<open>gdrive\<close> extends the authentication's
  world with the two limiters and the progress tracker. The network, the time a sleep or a
  transmission takes, the moment of the shutdown and chrono's parser are the environment
  \<open>gdrive_env\<close>. A call is one function of the state: \<open>None\<close> when it never returns. Calls do not
  interleave within one run of these functions.
\<close>

record ('k, 's) gdrive_env =
  gv_auth :: "('k, 's) auth_crates"
  gv_ga :: "'k google_auth"
  gv_config :: advanced_config
  gv_http :: "'s network"
  gv_wake :: "nat \<Rightarrow> rat \<Rightarrow> nat"
  gv_cancel_at :: "nat option"
  gv_ready_wins :: "nat \<Rightarrow> bool"
  gv_send_chunk :: "string \<Rightarrow> nat \<Rightarrow> 's \<Rightarrow> (string option \<times> nat) \<times> 's"
  gv_timeout :: string
  gv_show_status :: "nat \<Rightarrow> string"
  gv_rfc3339 :: "string \<Rightarrow> int option"

record 's gdrive = "'s auth_world" +
  gd_api :: api_rate_limiter
  gd_bw :: bandwidth_limiter
  gd_tracker :: progress_tracker

type_synonym ('s, 'a) gact = "'s gdrive \<Rightarrow> ('a res \<times> 's gdrive) option"

definition gret :: "'a \<Rightarrow> ('s, 'a) gact" where
  "gret a g = Some (Inr a, g)"

definition gfail :: "anyhow \<Rightarrow> ('s, 'a) gact" where
  "gfail e g = Some (Inl e, g)"

definition gres :: "'a res \<Rightarrow> ('s, 'a) gact" where
  "gres r g = Some (r, g)"

definition gseq :: "('s, 'a) gact \<Rightarrow> ('a \<Rightarrow> ('s, 'b) gact) \<Rightarrow> ('s, 'b) gact" where
  "gseq m f g =
     (case m g of None \<Rightarrow> None | Some (Inl e, g') \<Rightarrow> Some (Inl e, g') | Some (Inr a, g') \<Rightarrow> f a g')"

text \<open>\<open>GDriveProvider::new\<close> starts both limiters at the clock of the call.\<close>

definition gdrive_limiters :: "advanced_config \<Rightarrow> nat \<Rightarrow> bandwidth_limiter \<times> api_rate_limiter" where
  "gdrive_limiters cfg now = (bl_new (av_upload_limit_kbps cfg) now, rl_new (av_api_rate_limit_rps cfg) now)"

section \<open>Helpers\<close>

definition parse_retry_after :: "http_response \<Rightarrow> nat" where
  "parse_retry_after rs =
     (case rs_headers rs ''retry-after'' of
        Some (Inr s) \<Rightarrow> (case parse_u64 s of Some n \<Rightarrow> n | None \<Rightarrow> 60)
      | _ \<Rightarrow> 60)"

definition handle_429 :: "http_response \<Rightarrow> ('s, nat) gact" where
  "handle_429 rs g =
     (let wait = parse_retry_after rs in
      Some (Inr wait, g\<lparr>gd_api := handle_rate_limit (aw_now g) (of_nat wait) (gd_api g)\<rparr>))"

definition rate_limit_msg :: "string \<Rightarrow> nat \<Rightarrow> string" where
  "rate_limit_msg what wait = ''Erreur API 429 ('' @ what @ '') : Pause exig'' @ e_acute @ ''e de '' @ show_nat wait @ ''s''"

definition check_rate_limit :: "http_response \<Rightarrow> string \<Rightarrow> ('s, unit) gact" where
  "check_rate_limit rs what =
     (if rs_status rs = 429 then gseq (handle_429 rs) (\<lambda>wait. gfail [rate_limit_msg what wait]) else gret ())"

text \<open>\<open>api_limiter.acquire().await\<close>, \<open>get_token\<close>, one request.\<close>

definition api_acquire :: "('k, 's) gdrive_env \<Rightarrow> ('s, unit) gact" where
  "api_acquire gv g =
     (case rl_acquire (gv_wake gv) (aw_now g) (gd_api g) of
        None \<Rightarrow> None
      | Some (t, l) \<Rightarrow> Some (Inr (), g\<lparr>aw_now := t, gd_api := l\<rparr>))"

definition get_token :: "('k, 's) gdrive_env \<Rightarrow> ('s, string) gact" where
  "get_token gv = get_valid_token (gv_auth gv) (gv_ga gv)"

definition send :: "('k, 's) gdrive_env \<Rightarrow> http_request \<Rightarrow> ('s, http_response) gact" where
  "send gv rq g =
     (case gv_http gv rq (aw_now g) (aw_net g) of
        (r, t, s) \<Rightarrow> Some (case r of Inl e \<Rightarrow> Inl [e] | Inr rs \<Rightarrow> Inr rs, g\<lparr>aw_now := t, aw_net := s\<rparr>))"

definition gcontext :: "string \<Rightarrow> ('s, 'a) gact \<Rightarrow> ('s, 'a) gact" where
  "gcontext msg m g = (case m g of None \<Rightarrow> None | Some (r, g') \<Rightarrow> Some (with_context msg r, g'))"

text \<open>
  \<open>tokio::select!\<close> of an operation that started at \<open>start\<close> and is ready at \<open>t\<close> with the shutdown
  token. When both are ready at the same poll the choice is tokio's.
\<close>

definition cancelled_first :: "('k, 's) gdrive_env \<Rightarrow> nat \<Rightarrow> nat \<Rightarrow> bool" where
  "cancelled_first gv start t =
     (case gv_cancel_at gv of
        None \<Rightarrow> False
      | Some c \<Rightarrow> if t < c then False
                  else if c < t \<and> start < t then True
                  else \<not> gv_ready_wins gv t)"

definition is_cancelled_at :: "('k, 's) gdrive_env \<Rightarrow> nat \<Rightarrow> bool" where
  "is_cancelled_at gv t = (case gv_cancel_at gv of None \<Rightarrow> False | Some c \<Rightarrow> c \<le> t)"

text \<open>The request is dropped at the moment of the shutdown.\<close>

definition send_or_cancel ::
  "('k, 's) gdrive_env \<Rightarrow> http_request \<Rightarrow> string \<Rightarrow> string \<Rightarrow> ('s, http_response) gact" where
  "send_or_cancel gv rq what msg g =
     (case gv_http gv rq (aw_now g) (aw_net g) of
        (r, t, s) \<Rightarrow>
          if cancelled_first gv (aw_now g) t
          then Some (bail msg, g\<lparr>aw_now := max (aw_now g) (the (gv_cancel_at gv)), aw_net := s\<rparr>)
          else Some (case r of Inl e \<Rightarrow> Inl [what, e] | Inr rs \<Rightarrow> Inr rs, g\<lparr>aw_now := t, aw_net := s\<rparr>))"

definition ok_or_bail :: "('k, 's) gdrive_env \<Rightarrow> string \<Rightarrow> http_response \<Rightarrow> ('s, unit) gact" where
  "ok_or_bail gv msg rs =
     (if is_success (rs_status rs) then gret () else gfail [msg @ gv_show_status gv (rs_status rs)])"

definition parse_upload_result :: "json \<Rightarrow> upload_result" where
  "parse_upload_result data =
     \<lparr>ur_drive_id = str_or [] data ''id'', ur_md5_checksum = str_or [] data ''md5Checksum'',
      ur_size_bytes = (case parse_u64 (str_or ''0'' data ''size'') of Some n \<Rightarrow> n | None \<Rightarrow> 0)\<rparr>"

definition upload_meta :: "string \<Rightarrow> string \<Rightarrow> string option \<Rightarrow> json" where
  "upload_meta parent_id file_name existing_id =
     JObj ([(''name'', JStr file_name)] @
       (if existing_id = None then [(''parents'', JArr [JStr parent_id])] else []))"

text \<open>\<open>POST\<close> a new file, or \<open>PATCH\<close> the one that exists.\<close>

definition upload_url :: "('k, 's) gdrive_env \<Rightarrow> string option \<Rightarrow> string \<Rightarrow> string" where
  "upload_url gv existing_id rest_url =
     (case existing_id of
        Some i \<Rightarrow> av_upload_base (gv_config gv) @ ''/files/'' @ i @ rest_url
      | None \<Rightarrow> av_upload_base (gv_config gv) @ ''/files'' @ rest_url)"

definition upload_method :: "string option \<Rightarrow> http_method" where
  "upload_method existing_id = (if existing_id = None then POST else PATCH)"

definition api_url :: "('k, 's) gdrive_env \<Rightarrow> string \<Rightarrow> string" where
  "api_url gv rest_url = av_api_base (gv_config gv) @ rest_url"

section \<open>Waiting for bandwidth\<close>

text \<open>
  The wait of \<open>BandwidthLimiter::acquire\<close>, dropped at the clock \<open>stop\<close> if it has not been granted
  by then: the clock of the grant, or \<open>None\<close> when dropped. A drop in the middle of a sleep leaves
  the bucket as its last look left it.
\<close>

partial_function (option) bl_acquire_until ::
  "(nat \<Rightarrow> rat \<Rightarrow> nat) \<Rightarrow> nat option \<Rightarrow> u64 \<Rightarrow> nat \<Rightarrow> bandwidth_limiter
   \<Rightarrow> (nat option \<times> bandwidth_limiter) option" where
  "bl_acquire_until wake stop n now l =
     (case bl_poll now n l of
        (None, l') \<Rightarrow> Some (Some now, l')
      | (Some d, l') \<Rightarrow>
          if (case stop of None \<Rightarrow> False | Some c \<Rightarrow> c < wake now d) then Some (None, l')
          else bl_acquire_until wake stop n (wake now d) l')"

definition bw_acquire_until ::
  "('k, 's) gdrive_env \<Rightarrow> nat option \<Rightarrow> u64 \<Rightarrow> 's gdrive \<Rightarrow> (nat option \<times> bandwidth_limiter) option" where
  "bw_acquire_until gv stop n g =
     (if bl_limit_bps (gd_bw g) = 0 then Some (Some (aw_now g), gd_bw g)
      else bl_acquire_until (gv_wake gv) stop n (aw_now g) (gd_bw g))"

definition bw_acquire_or_cancel :: "('k, 's) gdrive_env \<Rightarrow> u64 \<Rightarrow> string \<Rightarrow> ('s, unit) gact" where
  "bw_acquire_or_cancel gv n msg g =
     (let at_cancel = g\<lparr>aw_now := max (aw_now g) (the (gv_cancel_at gv))\<rparr> in
      case bw_acquire_until gv (gv_cancel_at gv) n g of
        None \<Rightarrow> None
      | Some (None, l) \<Rightarrow> Some (bail msg, at_cancel\<lparr>gd_bw := l\<rparr>)
      | Some (Some t, l) \<Rightarrow>
          if cancelled_first gv (aw_now g) t then Some (bail msg, at_cancel)
          else Some (Inr (), g\<lparr>aw_now := t, gd_bw := l\<rparr>))"

section \<open>upload_simple\<close>

definition stopped_msg :: string where
  "stopped_msg = ''Upload annul'' @ e_acute @ '' proprement.''"

definition simple_request ::
  "('k, 's) gdrive_env \<Rightarrow> string \<Rightarrow> string \<Rightarrow> string \<Rightarrow> string option \<Rightarrow> string \<Rightarrow> http_request" where
  "simple_request gv token parent_id file_name existing_id content =
     \<lparr>rq_method = upload_method existing_id,
      rq_url = upload_url gv existing_id ''?uploadType=multipart&fields=id,md5Checksum,size'',
      rq_query = [], rq_headers = [], rq_bearer = Some token,
      rq_body = Multipart (upload_meta parent_id file_name existing_id) file_name content\<rparr>"

definition wait_to_send :: "('k, 's) gdrive_env \<Rightarrow> u64 \<Rightarrow> ('s, unit) gact" where
  "wait_to_send gv n g =
     (if av_upload_limit_kbps (gv_config gv) > 0 then bw_acquire_or_cancel gv n stopped_msg g
      else if is_cancelled_at gv (aw_now g) then gfail [''Upload annul'' @ e_acute @ ''.''] g
      else gret () g)"

definition count_bytes :: "u64 \<Rightarrow> ('s, unit) gact" where
  "count_bytes n g = Some (Inr (), g\<lparr>gd_tracker := record_bytes (aw_now g) n (gd_tracker g)\<rparr>)"

definition upload_answer :: "http_response \<Rightarrow> ('s, upload_result) gact" where
  "upload_answer rs = gseq (gres (rs_json rs)) (\<lambda>data. gret (parse_upload_result data))"

definition upload_simple ::
  "('k, 's) gdrive_env \<Rightarrow> path \<Rightarrow> string \<Rightarrow> string \<Rightarrow> string option \<Rightarrow> ('s, upload_result) gact" where
  "upload_simple gv p parent_id file_name existing_id =
     gseq (api_acquire gv) (\<lambda>_.
     gseq (get_token gv) (\<lambda>token.
     gseq (\<lambda>g. gres (with_context ''Erreur de lecture du fichier local'' (fs_read p (aw_disk g))) g) (\<lambda>content.
     gseq (wait_to_send gv (of_nat (length content))) (\<lambda>_.
     gseq (send_or_cancel gv (simple_request gv token parent_id file_name existing_id content)
             (''Erreur r'' @ e_acute @ ''seau (upload simple)'') stopped_msg) (\<lambda>rs.
     gseq (check_rate_limit rs ''upload simple'') (\<lambda>_.
     gseq (ok_or_bail gv ''Erreur API (upload simple) : '' rs) (\<lambda>_.
     gseq (count_bytes (of_nat (length content))) (\<lambda>_.
     upload_answer rs))))))))"

section \<open>upload_resumable\<close>

definition chunk_size :: nat where
  "chunk_size = 64 * 1024"

text \<open>The client gives up a request thirty seconds after it started, its body included.\<close>

definition client_timeout :: nat where
  "client_timeout = 30 * ns_per_sec"

text \<open>
  The body stream, pulled chunk by chunk until its end, an error of the connection, or the clock
  \<open>stop\<close> at which the request is dropped. \<open>gv_send_chunk\<close> says when the client asks for more.
\<close>

datatype stream_end =
    StreamDone string
  | StreamBroken string
  | StreamDropped

definition send_chunk :: "('k, 's) gdrive_env \<Rightarrow> string \<Rightarrow> nat \<Rightarrow> bandwidth_limiter \<Rightarrow> 's gdrive
   \<Rightarrow> string option \<times> 's gdrive" where
  "send_chunk gv chunk t l g =
     (let tk = record_bytes t (of_nat (length chunk)) (gd_tracker g) in
      case gv_send_chunk gv chunk t (aw_net g) of
        ((e, t'), s) \<Rightarrow> (e, g\<lparr>aw_now := t', aw_net := s, gd_bw := l, gd_tracker := tk\<rparr>))"

definition chunk_grant ::
  "('k, 's) gdrive_env \<Rightarrow> nat \<Rightarrow> u64 \<Rightarrow> 's gdrive \<Rightarrow> (nat option \<times> bandwidth_limiter) option" where
  "chunk_grant gv stop n g =
     (if av_upload_limit_kbps (gv_config gv) > 0 then bw_acquire_until gv (Some stop) n g
      else Some (Some (aw_now g), gd_bw g))"

partial_function (option) stream_body ::
  "('k, 's) gdrive_env \<Rightarrow> nat \<Rightarrow> string \<Rightarrow> string \<Rightarrow> 's gdrive \<Rightarrow> (stream_end \<times> 's gdrive) option" where
  "stream_body gv stop sent rest g =
     (if stop \<le> aw_now g then Some (StreamDropped, g\<lparr>aw_now := stop\<rparr>)
      else if rest = [] then Some (StreamDone sent, g)
      else
        (let chunk = take chunk_size rest in
         case chunk_grant gv stop (of_nat (length chunk)) g of
           None \<Rightarrow> None
         | Some (None, l) \<Rightarrow> Some (StreamDropped, g\<lparr>aw_now := stop, gd_bw := l\<rparr>)
         | Some (Some t, l) \<Rightarrow>
             (case send_chunk gv chunk t l g of
                (Some e, g') \<Rightarrow> Some (StreamBroken e, g')
              | (None, g') \<Rightarrow> stream_body gv stop (sent @ chunk) (drop chunk_size rest) g')))"

definition put_request :: "string \<Rightarrow> nat \<Rightarrow> string \<Rightarrow> http_request" where
  "put_request session_uri file_size content =
     \<lparr>rq_method = PUT, rq_url = session_uri, rq_query = [],
      rq_headers = [(''content-length'', show_nat file_size)], rq_bearer = None, rq_body = Streamed content\<rparr>"

definition stream_msg :: string where
  "stream_msg = ''Erreur r'' @ e_acute @ ''seau (streaming)''"

definition heavy_stopped_msg :: string where
  "heavy_stopped_msg = ''Upload lourd annul'' @ e_acute @ '' proprement.''"

text \<open>
  The \<open>PUT\<close> with its stream against the shutdown token: the request is dropped at the earlier of
  the two, the timeout or the shutdown.
\<close>

definition put_stream ::
  "('k, 's) gdrive_env \<Rightarrow> string \<Rightarrow> nat \<Rightarrow> string \<Rightarrow> ('s, http_response) gact" where
  "put_stream gv session_uri file_size content g =
     (let deadline = aw_now g + client_timeout;
          cancels = (case gv_cancel_at gv of None \<Rightarrow> False | Some c \<Rightarrow> c < deadline);
          stop = (if cancels then max (aw_now g) (the (gv_cancel_at gv)) else deadline) in
      case stream_body gv stop [] content g of
        None \<Rightarrow> None
      | Some (StreamDropped, g') \<Rightarrow>
          Some (if cancels then bail heavy_stopped_msg else Inl [stream_msg, gv_timeout gv], g')
      | Some (StreamBroken e, g') \<Rightarrow> Some (Inl [stream_msg, e], g')
      | Some (StreamDone sent, g') \<Rightarrow>
          send_or_cancel gv (put_request session_uri file_size sent) stream_msg heavy_stopped_msg g')"

definition init_request ::
  "('k, 's) gdrive_env \<Rightarrow> string \<Rightarrow> string \<Rightarrow> string \<Rightarrow> string option \<Rightarrow> http_request" where
  "init_request gv token parent_id file_name existing_id =
     \<lparr>rq_method = upload_method existing_id, rq_url = upload_url gv existing_id ''?uploadType=resumable'',
      rq_query = [(''fields'', ''id,md5Checksum,size'')], rq_headers = [(''content-type'', ''application/json'')],
      rq_bearer = Some token, rq_body = JsonBody (upload_meta parent_id file_name existing_id)\<rparr>"

definition session_uri_of :: "http_response \<Rightarrow> string res" where
  "session_uri_of rs =
     (case rs_headers rs ''location'' of
        None \<Rightarrow> bail (''L'' @ [CHR 0x27] @ ''API Google n'' @ [CHR 0x27] @ ''a pas renvoy'' @ e_acute @ '' l''
          @ [CHR 0x27] @ ''en-t'' @ e_circ @ ''te Location'')
      | Some (Inl e) \<Rightarrow> Inl [e]
      | Some (Inr uri) \<Rightarrow> Inr uri)"

text \<open>Opening the file reads it whole here: reads of an open file do not fail.\<close>

definition upload_resumable ::
  "('k, 's) gdrive_env \<Rightarrow> path \<Rightarrow> string \<Rightarrow> string \<Rightarrow> string option \<Rightarrow> nat \<Rightarrow> ('s, upload_result) gact" where
  "upload_resumable gv p parent_id file_name existing_id file_size =
     gseq (api_acquire gv) (\<lambda>_.
     gseq (get_token gv) (\<lambda>token.
     gseq (gcontext (''Erreur r'' @ e_acute @ ''seau (init resumable)'')
             (send gv (init_request gv token parent_id file_name existing_id))) (\<lambda>init_res.
     gseq (check_rate_limit init_res ''init resumable'') (\<lambda>_.
     gseq (ok_or_bail gv ''Erreur API (init resumable) : '' init_res) (\<lambda>_.
     gseq (gres (session_uri_of init_res)) (\<lambda>session_uri.
     gseq (\<lambda>g. gres (fs_read p (aw_disk g)) g) (\<lambda>content.
     gseq (api_acquire gv) (\<lambda>_.
     gseq (put_stream gv session_uri file_size content) (\<lambda>rs.
     gseq (check_rate_limit rs ''streaming resumable'') (\<lambda>_.
     gseq (ok_or_bail gv ''Erreur API (envoi du fichier) : '' rs) (\<lambda>_.
     upload_answer rs)))))))))))"

definition node_size :: "node \<Rightarrow> nat" where
  "node_size n = (case n of FileNode c _ \<Rightarrow> length c | DirNode \<Rightarrow> 0)"

definition upload ::
  "('k, 's) gdrive_env \<Rightarrow> path \<Rightarrow> string \<Rightarrow> string \<Rightarrow> string option \<Rightarrow> ('s, upload_result) gact" where
  "upload gv p parent_id file_name existing_id =
     gseq (\<lambda>g. gres (with_context ''Metadata inaccessibles'' (fs_metadata p (aw_disk g))) g) (\<lambda>metadata.
       if node_size metadata \<le> unat (av_chunk_threshold (gv_config gv))
       then upload_simple gv p parent_id file_name existing_id
       else upload_resumable gv p parent_id file_name existing_id (node_size metadata))"

section \<open>list_remote\<close>

definition folder_mime :: string where
  "folder_mime = ''application/vnd.google-apps.folder''"

definition quote_escape :: "string \<Rightarrow> string" where
  "quote_escape s = replace_char (CHR 0x27) [CHR 0x5C, CHR 0x27] s"

definition page_request :: "('k, 's) gdrive_env \<Rightarrow> string \<Rightarrow> string \<Rightarrow> string option \<Rightarrow> http_request" where
  "page_request gv token folder page_token =
     \<lparr>rq_method = GET, rq_url = api_url gv ''/files'',
      rq_query = [(''q'', [CHR 0x27] @ quote_escape folder @ [CHR 0x27] @ '' in parents and trashed = false''),
        (''fields'', ''nextPageToken, files(id, name, mimeType, parents, md5Checksum, size, modifiedTime)''),
        (''pageSize'', ''1000'')] @ (case page_token of None \<Rightarrow> [] | Some pt \<Rightarrow> [(''pageToken'', pt)]),
      rq_headers = [], rq_bearer = Some token, rq_body = NoBody\<rparr>"

text \<open>
  One turn of the inner loop. \<open>None\<close> in the result: an HTTP 429, slept over, the page is asked
  again.
\<close>

definition page_answer ::
  "('k, 's) gdrive_env \<Rightarrow> string \<Rightarrow> http_response \<Rightarrow> ('s, json option) gact" where
  "page_answer gv cur_path rs =
     (if rs_status rs = 429
      then gseq (handle_429 rs) (\<lambda>wait g. Some (Inr None, g\<lparr>aw_now := gv_wake gv (aw_now g) (of_nat wait)\<rparr>))
      else gseq (ok_or_bail gv (''Erreur API (listing dossier '' @ cur_path @ '') : '') rs) (\<lambda>_.
        gseq (gres (rs_json rs)) (\<lambda>data. gret (Some data))))"

definition list_page ::
  "('k, 's) gdrive_env \<Rightarrow> string \<Rightarrow> string \<Rightarrow> string option \<Rightarrow> ('s, json option) gact" where
  "list_page gv folder cur_path page_token =
     gseq (api_acquire gv) (\<lambda>_.
     gseq (get_token gv) (\<lambda>token.
     gseq (gcontext (''Erreur r'' @ e_acute @ ''seau (listing BFS)'')
             (send gv (page_request gv token folder page_token))) (\<lambda>rs.
     page_answer gv cur_path rs)))"

definition child_path :: "string \<Rightarrow> string \<Rightarrow> string" where
  "child_path cur_path nm = (if cur_path = [] then nm else cur_path @ ''/'' @ nm)"

definition is_folder_item :: "json \<Rightarrow> bool" where
  "is_folder_item item = (str_or [] item ''mimeType'' = folder_mime)"

definition item_dir :: "string \<Rightarrow> string \<Rightarrow> json \<Rightarrow> remote_dir" where
  "item_dir folder cur_path item =
     \<lparr>rd_relative_path = child_path cur_path (str_or [] item ''name''),
      rd_drive_id = str_or [] item ''id'', rd_parent_id = folder\<rparr>"

definition item_file :: "('k, 's) gdrive_env \<Rightarrow> string \<Rightarrow> string \<Rightarrow> json \<Rightarrow> remote_file" where
  "item_file gv folder cur_path item =
     \<lparr>rf_relative_path = child_path cur_path (str_or [] item ''name''), rf_drive_id = str_or [] item ''id'',
      rf_parent_id = folder, rf_md5 = str_or [] item ''md5Checksum'',
      rf_size = (case parse_u64 (str_or ''0'' item ''size'') of Some n \<Rightarrow> n | None \<Rightarrow> 0),
      rf_modified_time = (case gv_rfc3339 gv (str_or [] item ''modifiedTime'') of Some t \<Rightarrow> t | None \<Rightarrow> 0)\<rparr>"

definition page_items :: "json \<Rightarrow> json list" where
  "page_items data = (case as_array (json_at data ''files'') of Some items \<Rightarrow> items | None \<Rightarrow> [])"

text \<open>The items of a page go to the index in order; its folders also to the back of the queue.\<close>

definition add_page ::
  "('k, 's) gdrive_env \<Rightarrow> string \<Rightarrow> string \<Rightarrow> json \<Rightarrow> remote_index \<Rightarrow> remote_index" where
  "add_page gv folder cur_path data ix =
     \<lparr>ri_files = ri_files ix @ map (item_file gv folder cur_path) (filter (\<lambda>i. \<not> is_folder_item i) (page_items data)),
      ri_dirs = ri_dirs ix @ map (item_dir folder cur_path) (filter is_folder_item (page_items data))\<rparr>"

definition page_folders :: "string \<Rightarrow> string \<Rightarrow> json \<Rightarrow> (string \<times> string) list" where
  "page_folders folder cur_path data =
     map (\<lambda>i. (rd_drive_id (item_dir folder cur_path i), rd_relative_path (item_dir folder cur_path i)))
       (filter is_folder_item (page_items data))"

definition next_token :: "json \<Rightarrow> string option" where
  "next_token data = as_str (json_at data ''nextPageToken'')"

text \<open>Both loops: the pages of the current folder, then the next folder of the queue.\<close>

partial_function (option) list_loop ::
  "('k, 's) gdrive_env \<Rightarrow> string \<Rightarrow> string \<Rightarrow> string option \<Rightarrow> (string \<times> string) list \<Rightarrow> remote_index
   \<Rightarrow> ('s, remote_index) gact" where
  "list_loop gv folder cur_path page_token queue ix g =
     (case list_page gv folder cur_path page_token g of
        None \<Rightarrow> None
      | Some (Inl e, g') \<Rightarrow> Some (Inl e, g')
      | Some (Inr None, g') \<Rightarrow> list_loop gv folder cur_path page_token queue ix g'
      | Some (Inr (Some data), g') \<Rightarrow>
          (let ix' = add_page gv folder cur_path data ix;
               queue' = queue @ page_folders folder cur_path data in
           case next_token data of
             Some pt \<Rightarrow> list_loop gv folder cur_path (Some pt) queue' ix' g'
           | None \<Rightarrow>
               (case queue' of
                  [] \<Rightarrow> Some (Inr ix', g')
                | (f, q) # rest \<Rightarrow> list_loop gv f q None rest ix' g')))"

definition list_remote :: "('k, 's) gdrive_env \<Rightarrow> string \<Rightarrow> ('s, remote_index) gact" where
  "list_remote gv root_id = list_loop gv root_id [] None [] \<lparr>ri_files = [], ri_dirs = []\<rparr>"

section \<open>mkdir\<close>

definition search_request :: "('k, 's) gdrive_env \<Rightarrow> string \<Rightarrow> string \<Rightarrow> string \<Rightarrow> http_request" where
  "search_request gv token parent_id nm =
     \<lparr>rq_method = GET, rq_url = api_url gv ''/files'',
      rq_query = [(''q'', ''name = '' @ [CHR 0x27] @ quote_escape nm @ [CHR 0x27] @ '' and '' @ [CHR 0x27]
          @ parent_id @ [CHR 0x27] @ '' in parents and mimeType = '' @ [CHR 0x27] @ folder_mime @ [CHR 0x27]
          @ '' and trashed = false''), (''fields'', ''files(id)'')],
      rq_headers = [], rq_bearer = Some token, rq_body = NoBody\<rparr>"

definition create_request :: "('k, 's) gdrive_env \<Rightarrow> string \<Rightarrow> string \<Rightarrow> string \<Rightarrow> http_request" where
  "create_request gv token parent_id nm =
     \<lparr>rq_method = POST, rq_url = api_url gv ''/files'', rq_query = [], rq_headers = [], rq_bearer = Some token,
      rq_body = JsonBody (JObj [(''name'', JStr nm), (''mimeType'', JStr folder_mime),
        (''parents'', JArr [JStr parent_id])])\<rparr>"

definition found_folder :: "json \<Rightarrow> string option" where
  "found_folder data =
     (case as_array (json_at data ''files'') of
        Some (f # _) \<Rightarrow> as_str (json_at f ''id'')
      | _ \<Rightarrow> None)"

definition create_folder :: "('k, 's) gdrive_env \<Rightarrow> string \<Rightarrow> string \<Rightarrow> string \<Rightarrow> ('s, string) gact" where
  "create_folder gv token parent_id nm =
     gseq (api_acquire gv) (\<lambda>_.
     gseq (send gv (create_request gv token parent_id nm)) (\<lambda>create_res.
     gseq (check_rate_limit create_res ''mkdir create'') (\<lambda>_.
     gseq (ok_or_bail gv (''Erreur API (cr'' @ e_acute @ ''ation dossier) : '') create_res) (\<lambda>_.
     gseq (gres (rs_json create_res)) (\<lambda>create_data.
     gres (context_opt (''L'' @ [CHR 0x27] @ ''API Google n'' @ [CHR 0x27] @ ''a pas retourn'' @ e_acute
       @ '' d'' @ [CHR 0x27] @ ''ID'') (as_str (json_at create_data ''id''))))))))"

definition mkdir :: "('k, 's) gdrive_env \<Rightarrow> string \<Rightarrow> string \<Rightarrow> ('s, string) gact" where
  "mkdir gv parent_id nm =
     gseq (api_acquire gv) (\<lambda>_.
     gseq (get_token gv) (\<lambda>token.
     gseq (send gv (search_request gv token parent_id nm)) (\<lambda>search_res.
     gseq (check_rate_limit search_res ''mkdir search'') (\<lambda>_.
     gseq (ok_or_bail gv (''Erreur API (v'' @ e_acute @ ''rification dossier) : '') search_res) (\<lambda>_.
     gseq (gres (rs_json search_res)) (\<lambda>search_data.
       case found_folder search_data of
         Some i \<Rightarrow> gret i
       | None \<Rightarrow> create_folder gv token parent_id nm))))))"

section \<open>delete and rename\<close>

definition delete_request :: "('k, 's) gdrive_env \<Rightarrow> string \<Rightarrow> string \<Rightarrow> http_request" where
  "delete_request gv token file_id =
     (let url = api_url gv (''/files/'' @ file_id) in
      if av_delete_mode (gv_config gv) = ''permanent''
      then \<lparr>rq_method = DELETE, rq_url = url, rq_query = [], rq_headers = [], rq_bearer = Some token,
        rq_body = NoBody\<rparr>
      else \<lparr>rq_method = PATCH, rq_url = url, rq_query = [], rq_headers = [], rq_bearer = Some token,
        rq_body = JsonBody (JObj [(''trashed'', JBool True)])\<rparr>)"

definition delete :: "('k, 's) gdrive_env \<Rightarrow> string \<Rightarrow> ('s, unit) gact" where
  "delete gv file_id =
     gseq (api_acquire gv) (\<lambda>_.
     gseq (get_token gv) (\<lambda>token.
     gseq (send gv (delete_request gv token file_id)) (\<lambda>rs.
     gseq (check_rate_limit rs ''delete'') (\<lambda>_.
     ok_or_bail gv ''Erreur API (suppression) : '' rs))))"

definition parents_request :: "('k, 's) gdrive_env \<Rightarrow> string \<Rightarrow> string \<Rightarrow> http_request" where
  "parents_request gv token file_id =
     \<lparr>rq_method = GET, rq_url = api_url gv (''/files/'' @ file_id @ ''?fields=parents''), rq_query = [],
      rq_headers = [], rq_bearer = Some token, rq_body = NoBody\<rparr>"

text \<open>What the answer adds to the query of the \<open>PATCH\<close>: nothing unless it lists the parents.\<close>

definition move_query :: "string \<Rightarrow> http_response \<Rightarrow> (string \<times> string) list res" where
  "move_query new_parent rs =
     (if is_success (rs_status rs)
      then bind_res (rs_json rs) (\<lambda>get_data.
        Inr (case as_array (json_at get_data ''parents'') of
          None \<Rightarrow> []
        | Some ps \<Rightarrow> [(''addParents'', new_parent),
            (''removeParents'', join_with '','' (List.map_filter as_str ps))]))
      else Inr [])"

definition parents_query :: "('k, 's) gdrive_env \<Rightarrow> string \<Rightarrow> string \<Rightarrow> string option
   \<Rightarrow> ('s, (string \<times> string) list) gact" where
  "parents_query gv token file_id new_parent_id =
     (case new_parent_id of
        None \<Rightarrow> gret []
      | Some new_parent \<Rightarrow>
          gseq (api_acquire gv) (\<lambda>_.
          gseq (send gv (parents_request gv token file_id)) (\<lambda>get_res.
          gseq (check_rate_limit get_res ''rename get_parents'') (\<lambda>_.
          gres (move_query new_parent get_res)))))"

definition patch_request ::
  "('k, 's) gdrive_env \<Rightarrow> string \<Rightarrow> string \<Rightarrow> string option \<Rightarrow> (string \<times> string) list \<Rightarrow> http_request" where
  "patch_request gv token file_id new_name query =
     \<lparr>rq_method = PATCH, rq_url = api_url gv (''/files/'' @ file_id), rq_query = query, rq_headers = [],
      rq_bearer = Some token,
      rq_body = JsonBody (JObj (case new_name of None \<Rightarrow> [] | Some n \<Rightarrow> [(''name'', JStr n)]))\<rparr>"

definition rename ::
  "('k, 's) gdrive_env \<Rightarrow> string \<Rightarrow> string option \<Rightarrow> string option \<Rightarrow> ('s, unit) gact" where
  "rename gv file_id new_name new_parent_id =
     gseq (get_token gv) (\<lambda>token.
     gseq (parents_query gv token file_id new_parent_id) (\<lambda>query.
     gseq (api_acquire gv) (\<lambda>_.
     gseq (send gv (patch_request gv token file_id new_name query)) (\<lambda>rs.
     gseq (check_rate_limit rs ''rename patch'') (\<lambda>_.
     ok_or_bail gv ''Erreur API (renommage) : '' rs)))))"

section \<open>get_changes\<close>

definition start_request :: "('k, 's) gdrive_env \<Rightarrow> string \<Rightarrow> http_request" where
  "start_request gv token = \<lparr>rq_method = GET, rq_url = api_url gv ''/changes/startPageToken'', rq_query = [],
     rq_headers = [], rq_bearer = Some token, rq_body = NoBody\<rparr>"

definition changes_request :: "('k, 's) gdrive_env \<Rightarrow> string \<Rightarrow> string \<Rightarrow> http_request" where
  "changes_request gv token cursor = \<lparr>rq_method = GET, rq_url = api_url gv ''/changes'',
     rq_query = [(''pageToken'', cursor), (''fields'',
       ''nextPageToken, newStartPageToken, changes(fileId, file(name, parents), removed)'')],
     rq_headers = [], rq_bearer = Some token, rq_body = NoBody\<rparr>"

text \<open>The status of the answer to the first request is looked at for 429 only.\<close>

definition start_cursor :: "('k, 's) gdrive_env \<Rightarrow> string \<Rightarrow> string option \<Rightarrow> ('s, string) gact" where
  "start_cursor gv token cursor =
     (case cursor of
        Some c \<Rightarrow> gret c
      | None \<Rightarrow>
          gseq (send gv (start_request gv token)) (\<lambda>rs.
          gseq (check_rate_limit rs ''get_changes startToken'') (\<lambda>_.
          gseq (gres (rs_json rs)) (\<lambda>data. gret (str_or [] data ''startPageToken'')))))"

definition first_parent :: "json \<Rightarrow> string" where
  "first_parent f =
     (case as_array (json_at f ''parents'') of
        Some (p # _) \<Rightarrow> (case as_str p of Some s \<Rightarrow> s | None \<Rightarrow> [])
      | _ \<Rightarrow> [])"

definition change_of_item :: "json \<Rightarrow> change option" where
  "change_of_item item =
     (let file_id = str_or [] item ''fileId'' in
      if as_bool (json_at item ''removed'') = Some True then Some (ChDeleted file_id)
      else map_option (\<lambda>f. ChModified file_id (str_or [] f ''name'') (first_parent f)) (json_get item ''file''))"

definition changes_of :: "string \<Rightarrow> json \<Rightarrow> changes_page" where
  "changes_of cursor data =
     \<lparr>cp_changes = List.map_filter change_of_item
        (case as_array (json_at data ''changes'') of Some items \<Rightarrow> items | None \<Rightarrow> []),
      cp_new_cursor = (case as_str (json_at data ''nextPageToken'') of
          Some t \<Rightarrow> t
        | None \<Rightarrow> (case as_str (json_at data ''newStartPageToken'') of Some t \<Rightarrow> t | None \<Rightarrow> cursor)),
      cp_has_more = (as_str (json_at data ''nextPageToken'') \<noteq> None)\<rparr>"

definition get_changes :: "('k, 's) gdrive_env \<Rightarrow> string option \<Rightarrow> ('s, changes_page) gact" where
  "get_changes gv cursor =
     gseq (api_acquire gv) (\<lambda>_.
     gseq (get_token gv) (\<lambda>token.
     gseq (start_cursor gv token cursor) (\<lambda>current_cursor.
     gseq (api_acquire gv) (\<lambda>_.
     gseq (send gv (changes_request gv token current_cursor)) (\<lambda>rs.
     gseq (check_rate_limit rs ''get_changes fetch'') (\<lambda>_.
     gseq (ok_or_bail gv ''Erreur API (get_changes) : '' rs) (\<lambda>_.
     gseq (gres (rs_json rs)) (\<lambda>data. gret (changes_of current_cursor data)))))))))"

section \<open>check_health and refresh_auth\<close>

definition about_request :: "('k, 's) gdrive_env \<Rightarrow> string \<Rightarrow> http_request" where
  "about_request gv token = \<lparr>rq_method = GET, rq_url = api_url gv ''/about'',
     rq_query = [(''fields'', ''user,storageQuota'')], rq_headers = [], rq_bearer = Some token, rq_body = NoBody\<rparr>"

definition parse_or_zero :: "string \<Rightarrow> nat" where
  "parse_or_zero s = (case parse_u64 s of Some n \<Rightarrow> n | None \<Rightarrow> 0)"

definition health_of :: "json \<Rightarrow> health_status" where
  "health_of data =
     HealthOk (str_or ''Inconnu'' (json_at data ''user'') ''emailAddress'')
       (parse_or_zero (str_or ''0'' (json_at data ''storageQuota'') ''usage''))
       (parse_or_zero (str_or ''0'' (json_at data ''storageQuota'') ''limit''))"

definition health_answer :: "http_response \<Rightarrow> ('s, health_status) gact" where
  "health_answer rs =
     (if rs_status rs = 429 then gseq (handle_429 rs) (\<lambda>_. gret Unreachable)
      else if is_client_error (rs_status rs)
      then gret (if rs_status rs = 401 then AuthExpired else Unreachable)
      else gseq (gres (rs_json rs)) (\<lambda>data. gret (health_of data)))"

definition check_health :: "('k, 's) gdrive_env \<Rightarrow> ('s, health_status) gact" where
  "check_health gv =
     gseq (api_acquire gv) (\<lambda>_.
     gseq (get_token gv) (\<lambda>token.
     gseq (send gv (about_request gv token)) health_answer))"

definition refresh_auth :: "('k, 's) gdrive_env \<Rightarrow> ('s, unit) gact" where
  "refresh_auth gv = gseq (get_token gv) (\<lambda>_. gret ())"

section \<open>The provider the engine gets\<close>

text \<open>
  The trait's functions over \<open>'s gdrive option\<close>: the state \<open>None\<close> stands for a call that never
  returned, after which no call returns anything. The tracker is the one the engine passes.
\<close>

definition never_returned :: anyhow where
  "never_returned = []"

definition gdrive_call :: "('s, 'a) gact \<Rightarrow> 's gdrive option \<Rightarrow> 'a res \<times> 's gdrive option" where
  "gdrive_call m st =
     (case st of
        None \<Rightarrow> (Inl never_returned, None)
      | Some g \<Rightarrow> (case m g of None \<Rightarrow> (Inl never_returned, None) | Some (r, g') \<Rightarrow> (r, Some g')))"

definition gdrive_upload ::
  "('k, 's) gdrive_env \<Rightarrow> 's gdrive option \<Rightarrow> path \<Rightarrow> string \<Rightarrow> string \<Rightarrow> string option \<Rightarrow> progress_tracker
   \<Rightarrow> upload_result res \<times> 's gdrive option \<times> progress_tracker" where
  "gdrive_upload gv st p parent_id nm prev tk =
     (case gdrive_call (\<lambda>g. upload gv p parent_id nm prev (g\<lparr>gd_tracker := tk\<rparr>)) st of
        (r, st') \<Rightarrow> (r, st', case st' of None \<Rightarrow> tk | Some g \<Rightarrow> gd_tracker g))"

definition gdrive_provider :: "('k, 's) gdrive_env \<Rightarrow> 's gdrive option remote_provider" where
  "gdrive_provider gv =
     \<lparr>rp_list_remote = (\<lambda>st root_id. gdrive_call (list_remote gv root_id) st),
      rp_mkdir = (\<lambda>st parent_id nm. gdrive_call (mkdir gv parent_id nm) st),
      rp_upload = gdrive_upload gv,
      rp_delete = (\<lambda>st file_id. gdrive_call (delete gv file_id) st),
      rp_rename = (\<lambda>st file_id nm par. gdrive_call (rename gv file_id nm par) st),
      rp_get_changes = (\<lambda>st cursor. gdrive_call (get_changes gv cursor) st),
      rp_check_health = (\<lambda>st. gdrive_call (check_health gv) st),
      rp_refresh_auth = (\<lambda>st. gdrive_call (refresh_auth gv) st)\<rparr>"

end
