(* ===== verification/Auth_Laws.thy ===== *)
theory Auth_Laws
  imports Auth
begin

text \<open>
  Facts on the token file and the life cycle of the tokens. \<open>crates_faithful\<close> states what the
  source relies on in aes-gcm (a nonce of 12 bytes, a tag of 16, decryption undoes encryption),
  serde_json (parsing undoes printing of tokens; Rust strings are UTF-8) and oauth2 (its strings
  are Rust strings).
\<close>

definition tokens_ok :: "google_tokens \<Rightarrow> bool" where
  "tokens_ok t =
     (utf8_ok (gt_access_token t) \<and> utf8_ok (gt_refresh_token t) \<and> utf8_ok (gt_scope t) \<and>
      - (2 ^ 63) \<le> gt_expires_at t \<and> gt_expires_at t < 2 ^ 63)"

definition crates_faithful :: "('k, 's) auth_crates \<Rightarrow> bool" where
  "crates_faithful ac =
     ((\<forall>s. length (fst (ac_nonce ac s)) = 12) \<and>
      (\<forall>k n p c. ac_encrypt ac k n p = Some c \<longrightarrow> 16 \<le> length c \<and> ac_decrypt ac k n c = Some p) \<and>
      (\<forall>t. tokens_ok t \<longrightarrow> utf8_ok (ac_print_json ac (json_of_tokens t)) \<and>
         ac_parse_json ac (ac_print_json ac (json_of_tokens t)) = Some (json_of_tokens t)) \<and>
      (\<forall>s t. Option.bind (ac_parse_json ac s) tokens_of_json = Some t \<longrightarrow> tokens_ok t) \<and>
      (\<forall>creds grant now s tr now' s'. ac_token ac creds grant now s = (Inr tr, now', s') \<longrightarrow>
         utf8_ok (tr_access_token tr) \<and> (\<forall>r. tr_refresh_token tr = Some r \<longrightarrow> utf8_ok r)))"

definition token_file_readable :: "'k google_auth \<Rightarrow> disk \<Rightarrow> bool" where
  "token_file_readable ga dk = (dk_fault dk OpStat (ga_path ga) = None \<and> dk_fault dk OpRead (ga_path ga) = None)"

section \<open>JSON of the tokens\<close>

lemma tokens_round_trip: "tokens_ok t \<Longrightarrow> tokens_of_json (json_of_tokens t) = Some t"
  by (simp add: tokens_ok_def tokens_of_json_def json_of_tokens_def field_once_def json_i64_def)

lemma wrap_i64_range: "- (2 ^ 63) \<le> wrap_i64 n \<and> wrap_i64 n < 2 ^ 63"
  unfolding wrap_i64_def using sint_range_size[of "word_of_int n :: 64 word"] by (simp add: word_size)

lemma wrap_i64_id: "- (2 ^ 63) \<le> n \<Longrightarrow> n < 2 ^ 63 \<Longrightarrow> wrap_i64 n = n"
  unfolding wrap_i64_def by (simp add: signed_of_int signed_take_bit_int_eq_self)

lemma refreshed_tokens_ok:
  "utf8_ok (tr_access_token tr) \<Longrightarrow> (\<And>r. tr_refresh_token tr = Some r \<Longrightarrow> utf8_ok r) \<Longrightarrow> tokens_ok old \<Longrightarrow>
   tokens_ok (refreshed_tokens now old tr)"
  using wrap_i64_range by (auto simp: tokens_ok_def refreshed_tokens_def split: option.splits)

lemma utf8_drive_scope: "utf8_ok drive_scope"
  by code_simp

lemma exchanged_tokens_ok:
  "utf8_ok (tr_access_token tr) \<Longrightarrow> (\<And>r. tr_refresh_token tr = Some r \<Longrightarrow> utf8_ok r) \<Longrightarrow>
   tokens_ok (tokens_of_exchange now tr)"
  using wrap_i64_range utf8_drive_scope by (auto simp: tokens_ok_def tokens_of_exchange_def split: option.splits)

section \<open>The file\<close>

lemma open_vault_sealed:
  assumes "crates_faithful ac" "tokens_ok t" "length nonce = 12"
    and "ac_encrypt ac k nonce (ac_print_json ac (json_of_tokens t)) = Some c"
  shows "open_vault ac k (nonce @ c) = Inr t"
proof -
  have "16 \<le> length c" "ac_decrypt ac k nonce c = Some (ac_print_json ac (json_of_tokens t))"
    and "utf8_ok (ac_print_json ac (json_of_tokens t))"
    and "ac_parse_json ac (ac_print_json ac (json_of_tokens t)) = Some (json_of_tokens t)"
    using assms unfolding crates_faithful_def by blast+
  with assms(2,3) show ?thesis by (simp add: open_vault_def tokens_round_trip)
qed

lemma open_vault_tokens_ok: "crates_faithful ac \<Longrightarrow> open_vault ac k content = Inr t \<Longrightarrow> tokens_ok t"
  unfolding crates_faithful_def open_vault_def bail_def
  by (auto split: if_splits option.splits)

lemma storage_load_Some_iff:
  "storage_load ac ga dk = Inr (Some t) \<longleftrightarrow>
   path_exists (ga_path ga) dk \<and> (\<exists>c. fs_read (ga_path ga) dk = Inr c \<and> open_vault ac (ga_cipher ga) c = Inr t)"
  by (auto simp: storage_load_def bind_res_Inr_iff)

lemma storage_load_tokens_ok: "crates_faithful ac \<Longrightarrow> storage_load ac ga dk = Inr (Some t) \<Longrightarrow> tokens_ok t"
  using open_vault_tokens_ok by (auto simp: storage_load_Some_iff)

lemma storage_store_cases:
  assumes "storage_store ac ga t w = (r, w')"
  obtains "r \<noteq> Inr ()" "only_new_dirs (aw_disk w) (aw_disk w')"
  | dk c where "r = Inr ()" "only_new_dirs (aw_disk w) dk"
      "ac_encrypt ac (ga_cipher ga) (fst (ac_nonce ac (aw_net w))) (ac_print_json ac (json_of_tokens t)) = Some c"
      "aw_disk w' = dk\<lparr>dk_nodes := (dk_nodes dk)
        (ga_path ga \<mapsto> FileNode (fst (ac_nonce ac (aw_net w)) @ c) (ac_unix ac (aw_now w)))\<rparr>"
proof -
  obtain nonce s where n: "ac_nonce ac (aw_net w) = (nonce, s)" by (cases "ac_nonce ac (aw_net w)")
  obtain r1 dk where mk: "ensure_parent (ga_path ga) (aw_disk w) = (r1, dk)"
    by (cases "ensure_parent (ga_path ga) (aw_disk w)")
  have dirs: "only_new_dirs (aw_disk w) dk"
    using mk create_dir_all_only_new_dirs[of "aw_disk w"] by (auto simp: ensure_parent_def split: option.splits) (metis snd_conv)
  show thesis
  proof (cases "ac_encrypt ac (ga_cipher ga) nonce (ac_print_json ac (json_of_tokens t))")
    case None
    then show thesis using assms n by (intro that(1)) (auto simp: storage_store_def bail_def)
  next
    case (Some c)
    show thesis
    proof (cases r1)
      case (Inl e)
      then show thesis using assms n Some mk dirs by (intro that(1)) (auto simp: storage_store_def)
    next
      case (Inr u)
      show thesis
      proof (cases "fs_write (ac_unix ac (aw_now w)) (ga_path ga) (nonce @ c) dk")
        case (Inl e)
        then show thesis using assms n Some mk dirs Inr by (intro that(1)) (auto simp: storage_store_def)
      next
        case w: (Inr dk')
        then show thesis using assms n Some mk dirs Inr fs_write_Inr[OF w]
          by (intro that(2)[of dk c]) (auto simp: storage_store_def)
      qed
    qed
  qed
qed

lemma store_then_load:
  assumes "crates_faithful ac" "tokens_ok t" "token_file_readable ga (aw_disk w)"
    and "storage_store ac ga t w = (Inr (), w')"
  shows "storage_load ac ga (aw_disk w') = Inr (Some t) \<and> token_file_readable ga (aw_disk w')"
  using assms(4)
proof (cases rule: storage_store_cases)
  case (2 dk c)
  have n: "length (fst (ac_nonce ac (aw_net w))) = 12" using assms(1) by (simp add: crates_faithful_def)
  have f: "dk_fault (aw_disk w') = dk_fault (aw_disk w)" using 2 only_new_dirs_fault[of "aw_disk w" dk] by simp
  from open_vault_sealed[OF assms(1,2) n 2(3)] assms(3) 2(4) f show ?thesis
    by (auto simp: storage_load_Some_iff token_file_readable_def path_exists_def is_ok_iff fs_metadata_Inr_iff
          fs_read_Inr_iff)
qed simp

text \<open>Where there is no file, or a directory, no token is loaded.\<close>

lemma not_connected:
  "dk_nodes dk (ga_path ga) = None \<or> dk_nodes dk (ga_path ga) = Some DirNode \<Longrightarrow> \<not> is_locally_connected ac ga dk"
  by (auto simp: is_locally_connected_def storage_load_Some_iff fs_read_Inr_iff split: sum.splits option.splits)

lemma is_locally_connected_iff: "is_locally_connected ac ga dk \<longleftrightarrow> (\<exists>t. storage_load ac ga dk = Inr (Some t))"
  by (auto simp: is_locally_connected_def split: sum.splits option.splits)

lemma failed_store_not_connected:
  assumes "storage_store ac ga t w = (Inl e, w')" "dk_nodes (aw_disk w) (ga_path ga) = None"
  shows "\<not> is_locally_connected ac ga (aw_disk w')"
  using assms(1)
proof (cases rule: storage_store_cases)
  case 1
  then show ?thesis using assms(2) not_connected unfolding only_new_dirs_def by metis
qed simp

lemma storage_clear_ok:
  assumes "storage_clear ga dk = (Inr u, dk')"
  shows "\<not> is_locally_connected ac ga dk'"
proof (cases "path_exists (ga_path ga) dk")
  case True
  then have "dk_nodes dk' (ga_path ga) = None"
    using assms by (auto simp: storage_clear_def remove_file_def split: sum.splits)
  then show ?thesis by (simp add: not_connected)
next
  case False
  with assms show ?thesis by (auto simp: storage_clear_def is_locally_connected_iff storage_load_Some_iff)
qed

lemma storage_clear_file:
  assumes "path_is_file (ga_path ga) dk" "dk_fault dk OpUnlink (ga_path ga) = None"
  shows "dk_nodes (snd (storage_clear ga dk)) (ga_path ga) = None"
proof -
  obtain c t where "dk_nodes dk (ga_path ga) = Some (FileNode c t)" "path_exists (ga_path ga) dk"
    using assms(1) by (auto simp: path_is_file_iff fs_metadata_Inr_iff path_exists_def is_ok_iff)
  with assms(2) show ?thesis by (simp add: storage_clear_def remove_file_def io_def)
qed

section \<open>get_valid_token\<close>

lemma authenticate_frame:
  "authenticate ac creds w = Some (r, w') \<Longrightarrow> aw_disk w' = aw_disk w"
  by (auto simp: authenticate_def split: prod.splits sum.splits option.splits)

lemma authenticate_tokens_ok:
  assumes "crates_faithful ac" "authenticate ac creds w = Some (Inr t, w')"
  shows "tokens_ok t"
proof -
  obtain code ver port now s tr now' s' where
    tr: "ac_token ac creds (CodeGrant code ver port) now s = (Inr tr, now', s')"
    and t: "t = tokens_of_exchange (ac_unix ac now') tr"
    using assms(2) by (auto simp: authenticate_def split: prod.splits sum.splits option.splits)
  from assms(1) tr have "utf8_ok (tr_access_token tr) \<and> (\<forall>r. tr_refresh_token tr = Some r \<longrightarrow> utf8_ok r)"
    unfolding crates_faithful_def by blast
  with t show ?thesis by (simp add: exchanged_tokens_ok)
qed

lemma save_and_return_ok:
  assumes "crates_faithful ac" "tokens_ok t" "token_file_readable ga (aw_disk w)"
    and "save_and_return ac ga t w = (Inr tok, w')"
  shows "storage_load ac ga (aw_disk w') = Inr (Some t) \<and> tok = gt_access_token t"
proof -
  have "storage_store ac ga t w = (Inr (), w')" "tok = gt_access_token t"
    using assms(4) by (auto simp: save_and_return_def save_tokens_def split: prod.splits sum.splits)
  with store_then_load[OF assms(1-3)] show ?thesis by simp
qed

lemma token_file_readable_clear:
  "token_file_readable ga dk \<Longrightarrow> token_file_readable ga (snd (storage_clear ga dk))"
  by (auto simp: token_file_readable_def storage_clear_def remove_file_def split: prod.splits sum.splits)

lemma reconnect_ok:
  assumes "crates_faithful ac" "token_file_readable ga (aw_disk w)" "reconnect ac ga w = Some (Inr tok, w')"
  shows "\<exists>t. storage_load ac ga (aw_disk w') = Inr (Some t) \<and> tok = gt_access_token t"
proof -
  let ?w = "w\<lparr>aw_disk := snd (storage_clear ga (aw_disk w))\<rparr>"
  obtain t w1 where a: "authenticate ac (ga_creds ga) ?w = Some (Inr t, w1)"
    and s: "save_and_return ac ga t w1 = (Inr tok, w')"
    using assms(3) by (auto simp: reconnect_def split: option.splits sum.splits)
  have "token_file_readable ga (aw_disk w1)"
    using authenticate_frame[OF a] token_file_readable_clear[OF assms(2)] by simp
  from save_and_return_ok[OF assms(1) authenticate_tokens_ok[OF assms(1) a] this s] show ?thesis by blast
qed

lemma refresh_token_ok:
  assumes "crates_faithful ac" "token_file_readable ga (aw_disk w)" "tokens_ok old"
    and "refresh_token ac ga old w = Some (Inr tok, w')"
  shows "\<exists>t. storage_load ac ga (aw_disk w') = Inr (Some t) \<and> tok = gt_access_token t"
proof -
  obtain r now s where k: "ac_token ac (ga_creds ga) (RefreshGrant (gt_refresh_token old)) (aw_now w) (aw_net w) = (r, now, s)"
    by (cases "ac_token ac (ga_creds ga) (RefreshGrant (gt_refresh_token old)) (aw_now w) (aw_net w)")
  let ?w = "w\<lparr>aw_now := now, aw_net := s\<rparr>"
  show ?thesis
  proof (cases r)
    case (Inl e)
    with assms(4) k have "reconnect ac ga ?w = Some (Inr tok, w')" by (simp add: refresh_token_def)
    from reconnect_ok[OF assms(1) _ this] assms(2) show ?thesis by simp
  next
    case (Inr tr)
    have "utf8_ok (tr_access_token tr) \<and> (\<forall>r. tr_refresh_token tr = Some r \<longrightarrow> utf8_ok r)"
      using assms(1) k Inr unfolding crates_faithful_def by blast
    then have "tokens_ok (refreshed_tokens (ac_unix ac now) old tr)" using assms(3) by (simp add: refreshed_tokens_ok)
    moreover have "save_and_return ac ga (refreshed_tokens (ac_unix ac now) old tr) ?w = (Inr tok, w')"
      using assms(4) k Inr by (simp add: refresh_token_def)
    ultimately show ?thesis
      using save_and_return_ok[OF assms(1), of "refreshed_tokens (ac_unix ac now) old tr" ga ?w tok w'] assms(2) by auto
  qed
qed

lemma get_valid_token_load:
  assumes "storage_load ac ga (aw_disk w) = Inr (Some old)"
  shows "get_valid_token ac ga w =
    (if gt_expires_at old > wrap_i64 (ac_unix ac (aw_now w) + 300) then Some (Inr (gt_access_token old), w)
     else refresh_token ac ga old w)"
  using assms by (simp add: get_valid_token_def Let_def)

lemma get_valid_token_Inr_load:
  assumes "get_valid_token ac ga w = Some (Inr tok, w')"
  obtains old where "storage_load ac ga (aw_disk w) = Inr (Some old)"
  using assms by (auto simp: get_valid_token_def split: sum.splits) (auto simp: bind_res_Inr_iff)

lemma get_valid_token_ok:
  assumes "crates_faithful ac" "token_file_readable ga (aw_disk w)" "get_valid_token ac ga w = Some (Inr tok, w')"
  shows "\<exists>t. storage_load ac ga (aw_disk w') = Inr (Some t) \<and> tok = gt_access_token t"
proof -
  obtain old where l: "storage_load ac ga (aw_disk w) = Inr (Some old)"
    using assms(3) by (rule get_valid_token_Inr_load)
  show ?thesis
  proof (cases "gt_expires_at old > wrap_i64 (ac_unix ac (aw_now w) + 300)")
    case True
    with assms(3) l show ?thesis by (auto simp: get_valid_token_load)
  next
    case False
    then have "refresh_token ac ga old w = Some (Inr tok, w')" using assms(3) l by (simp add: get_valid_token_load)
    from refresh_token_ok[OF assms(1,2) storage_load_tokens_ok[OF assms(1) l] this] show ?thesis .
  qed
qed

text \<open>An error of the refresh that the browser does not repair leaves no session.\<close>

lemma reconnect_Inl:
  assumes "dk_nodes (snd (storage_clear ga (aw_disk w))) (ga_path ga) = None"
    and "reconnect ac ga w = Some (Inl e, w')"
  shows "\<not> is_locally_connected ac ga (aw_disk w')"
proof -
  let ?w = "w\<lparr>aw_disk := snd (storage_clear ga (aw_disk w))\<rparr>"
  obtain r w1 where a: "authenticate ac (ga_creds ga) ?w = Some (r, w1)"
    using assms(2) by (auto simp: reconnect_def split: option.splits)
  have none: "dk_nodes (aw_disk w1) (ga_path ga) = None" using authenticate_frame[OF a] assms(1) by simp
  show ?thesis
  proof (cases r)
    case (Inl e1)
    with a assms(2) have "w' = w1" by (simp add: reconnect_def)
    with none show ?thesis by (simp add: not_connected)
  next
    case (Inr t)
    with a assms(2) have "storage_store ac ga t w1 = (Inl e, w')"
      by (auto simp: reconnect_def save_and_return_def save_tokens_def split: prod.splits sum.splits)
    from failed_store_not_connected[OF this none] show ?thesis .
  qed
qed

lemma refresh_error_forgets:
  assumes "storage_load ac ga (aw_disk w) = Inr (Some old)"
    and "\<not> gt_expires_at old > wrap_i64 (ac_unix ac (aw_now w) + 300)"
    and "fst (ac_token ac (ga_creds ga) (RefreshGrant (gt_refresh_token old)) (aw_now w) (aw_net w)) = Inl err"
    and "dk_fault (aw_disk w) OpUnlink (ga_path ga) = None"
    and "get_valid_token ac ga w = Some (Inl e, w')"
  shows "\<not> is_locally_connected ac ga (aw_disk w')"
proof -
  obtain now s where k: "ac_token ac (ga_creds ga) (RefreshGrant (gt_refresh_token old)) (aw_now w) (aw_net w) = (Inl err, now, s)"
    using assms(3) by (metis prod.collapse)
  have "path_is_file (ga_path ga) (aw_disk w)"
    using assms(1) unfolding storage_load_Some_iff path_is_file_iff
    by (auto simp: fs_metadata_Inr_iff fs_read_Inr_iff path_exists_def is_ok_iff)
  then have "dk_nodes (snd (storage_clear ga (aw_disk w))) (ga_path ga) = None"
    using assms(4) by (rule storage_clear_file)
  moreover have "reconnect ac ga (w\<lparr>aw_now := now, aw_net := s\<rparr>) = Some (Inl e, w')"
    using assms(1,2,5) k by (simp add: get_valid_token_load refresh_token_def)
  ultimately show ?thesis using reconnect_Inl[of ga "w\<lparr>aw_now := now, aw_net := s\<rparr>"] by simp
qed

text \<open>A revocation that returns \<open>Ok\<close> has removed the session, whatever the server said.\<close>

lemma revoke_token_ok:
  "revoke_token ac ga w = (Inr u, w') \<Longrightarrow> \<not> is_locally_connected ac ga (aw_disk w')"
  using storage_clear_ok by (fastforce simp: revoke_token_def Let_def split: prod.splits)

text \<open>What extends the authentication's world is left alone.\<close>

lemma authenticate_more: "authenticate ac creds w = Some (r, w') \<Longrightarrow> auth_world.more w' = auth_world.more w"
  by (auto simp: authenticate_def split: prod.splits sum.splits option.splits)

lemma storage_store_more: "storage_store ac ga t w = (r, w') \<Longrightarrow> auth_world.more w' = auth_world.more w"
  by (auto simp: storage_store_def Let_def split: prod.splits sum.splits option.splits)

lemma save_and_return_more: "save_and_return ac ga t w = (r, w') \<Longrightarrow> auth_world.more w' = auth_world.more w"
  using storage_store_more by (fastforce simp: save_and_return_def save_tokens_def split: prod.splits sum.splits)

lemma reconnect_more:
  assumes "reconnect ac ga w = Some (r, w')"
  shows "auth_world.more w' = auth_world.more w"
proof -
  let ?w = "w\<lparr>aw_disk := snd (storage_clear ga (aw_disk w))\<rparr>"
  obtain x w1 where a: "authenticate ac (ga_creds ga) ?w = Some (x, w1)"
    using assms by (auto simp: reconnect_def split: option.splits)
  then have "auth_world.more w1 = auth_world.more w" using authenticate_more[OF a] by simp
  with assms a save_and_return_more show ?thesis by (cases x) (fastforce simp: reconnect_def)+
qed

lemma get_valid_token_more:
  assumes "get_valid_token ac ga w = Some (r, w')"
  shows "auth_world.more w' = auth_world.more w"
proof (cases "w' = w")
  case False
  then obtain old where r: "refresh_token ac ga old w = Some (r, w')"
    using assms by (auto simp: get_valid_token_def Let_def split: sum.splits if_splits)
  obtain x t s where k: "ac_token ac (ga_creds ga) (RefreshGrant (gt_refresh_token old)) (aw_now w) (aw_net w) = (x, t, s)"
    by (cases "ac_token ac (ga_creds ga) (RefreshGrant (gt_refresh_token old)) (aw_now w) (aw_net w)")
  show ?thesis
  proof (cases x)
    case (Inl e)
    with r k have "reconnect ac ga (w\<lparr>aw_now := t, aw_net := s\<rparr>) = Some (r, w')" by (simp add: refresh_token_def)
    from reconnect_more[OF this] show ?thesis by simp
  next
    case (Inr tr)
    with r k have "save_and_return ac ga (refreshed_tokens (ac_unix ac t) old tr) (w\<lparr>aw_now := t, aw_net := s\<rparr>) = (r, w')"
      by (simp add: refresh_token_def)
    from save_and_return_more[OF this] show ?thesis by simp
  qed
qed simp

text \<open>Of the disk only the token file changes, and directories may be added.\<close>

definition keeps_other_nodes :: "path \<Rightarrow> disk \<Rightarrow> disk \<Rightarrow> bool" where
  "keeps_other_nodes p dk dk' =
     (dk_fault dk' = dk_fault dk \<and> (\<forall>q n. q \<noteq> p \<longrightarrow> dk_nodes dk q = Some n \<longrightarrow> dk_nodes dk' q = Some n))"

lemma keeps_other_nodes_refl [simp]: "keeps_other_nodes p dk dk"
  by (simp add: keeps_other_nodes_def)

lemma keeps_other_nodes_trans:
  "keeps_other_nodes p a b \<Longrightarrow> keeps_other_nodes p b c \<Longrightarrow> keeps_other_nodes p a c"
  by (auto simp: keeps_other_nodes_def)

lemma keeps_other_nodes_dirs: "only_new_dirs a b \<Longrightarrow> keeps_other_nodes p a b"
  using only_new_dirs_node[of a b] only_new_dirs_fault[of a b] by (auto simp: keeps_other_nodes_def)

lemma storage_store_keeps:
  assumes "storage_store ac ga t w = (r, w')"
  shows "keeps_other_nodes (ga_path ga) (aw_disk w) (aw_disk w')"
  using assms
proof (cases rule: storage_store_cases)
  case 1
  then show ?thesis by (simp add: keeps_other_nodes_dirs)
next
  case (2 dk c)
  then show ?thesis using keeps_other_nodes_dirs[OF 2(2)] by (simp add: keeps_other_nodes_def)
qed

lemma save_and_return_keeps:
  "save_and_return ac ga t w = (r, w') \<Longrightarrow> keeps_other_nodes (ga_path ga) (aw_disk w) (aw_disk w')"
  using storage_store_keeps by (fastforce simp: save_and_return_def save_tokens_def split: prod.splits sum.splits)

lemma storage_clear_keeps: "keeps_other_nodes (ga_path ga) dk (snd (storage_clear ga dk))"
  by (auto simp: keeps_other_nodes_def storage_clear_def remove_file_def split: prod.splits sum.splits)

lemma reconnect_keeps:
  assumes "reconnect ac ga w = Some (r, w')"
  shows "keeps_other_nodes (ga_path ga) (aw_disk w) (aw_disk w')"
proof -
  let ?w = "w\<lparr>aw_disk := snd (storage_clear ga (aw_disk w))\<rparr>"
  obtain x w1 where a: "authenticate ac (ga_creds ga) ?w = Some (x, w1)"
    using assms by (auto simp: reconnect_def split: option.splits)
  then have "keeps_other_nodes (ga_path ga) (aw_disk w) (aw_disk w1)"
    using authenticate_frame[OF a] storage_clear_keeps by simp
  with assms a save_and_return_keeps keeps_other_nodes_trans show ?thesis
    by (cases x) (fastforce simp: reconnect_def)+
qed

lemma get_valid_token_keeps:
  assumes "get_valid_token ac ga w = Some (r, w')"
  shows "keeps_other_nodes (ga_path ga) (aw_disk w) (aw_disk w')"
proof (cases "w' = w")
  case False
  then obtain old where r: "refresh_token ac ga old w = Some (r, w')"
    using assms by (auto simp: get_valid_token_def Let_def split: sum.splits if_splits)
  obtain x t s where k: "ac_token ac (ga_creds ga) (RefreshGrant (gt_refresh_token old)) (aw_now w) (aw_net w) = (x, t, s)"
    by (cases "ac_token ac (ga_creds ga) (RefreshGrant (gt_refresh_token old)) (aw_now w) (aw_net w)")
  show ?thesis
    using r k reconnect_keeps[of ac ga "w\<lparr>aw_now := t, aw_net := s\<rparr>" r w']
      save_and_return_keeps[of ac ga _ "w\<lparr>aw_now := t, aw_net := s\<rparr>" r w']
    by (cases x) (simp_all add: refresh_token_def)
qed simp

end
