(* ===== verification/Gdrive_Laws.thy ===== *)
theory Gdrive_Laws
  imports Gdrive Auth_Laws Worker_Laws
begin

text \<open>
  Facts on the Drive provider: the breadth-first listing against the tree it walks, when it
  returns, what the bandwidth limit means for the two kinds of upload, and the answers that count
  as success.
\<close>

section \<open>Calls in sequence\<close>

lemma gseq_Some_iff:
  "gseq m f g = Some (Inr b, g') \<longleftrightarrow> (\<exists>a g1. m g = Some (Inr a, g1) \<and> f a g1 = Some (Inr b, g'))"
  by (auto simp: gseq_def split: option.splits sum.splits)

lemma gseq_step: "m g = Some (Inr a, g1) \<Longrightarrow> gseq m f g = f a g1"
  by (simp add: gseq_def)

lemma gseq_stop: "m g = Some (Inl e, g1) \<Longrightarrow> gseq m f g = Some (Inl e, g1)"
  by (simp add: gseq_def)

lemma gact_simps [simp]:
  "gret a g = Some (Inr a, g)" "gfail e g = Some (Inl e, g)" "gres r g = Some (r, g)"
  by (simp_all add: gret_def gfail_def gres_def)

lemma gcontext_Inr_iff: "gcontext msg m g = Some (Inr a, g') \<longleftrightarrow> m g = Some (Inr a, g')"
  by (auto simp: gcontext_def split: option.splits)

lemma check_rate_limit_Inr_iff:
  "check_rate_limit rs what g = Some (Inr u, g') \<longleftrightarrow> rs_status rs \<noteq> 429 \<and> g' = g"
  by (auto simp: check_rate_limit_def gseq_def handle_429_def Let_def)

lemma ok_or_bail_Inr_iff: "ok_or_bail gv msg rs g = Some (Inr u, g') \<longleftrightarrow> is_success (rs_status rs) \<and> g' = g"
  by (auto simp: ok_or_bail_def)

lemma not_429: "is_success (rs_status rs) \<Longrightarrow> rs_status rs \<noteq> 429"
  by (simp add: is_success_def)

text \<open>What the calls leave alone.\<close>

lemma api_acquire_frame:
  "api_acquire gv g = Some (r, g') \<Longrightarrow> gd_bw g' = gd_bw g \<and> aw_disk g' = aw_disk g \<and> aw_net g' = aw_net g"
  by (auto simp: api_acquire_def split: option.splits)

lemma send_Inr_iff:
  "send gv rq g = Some (Inr rs, g') \<longleftrightarrow>
   (\<exists>t s. gv_http gv rq (aw_now g) (aw_net g) = (Inr rs, t, s) \<and> g' = g\<lparr>aw_now := t, aw_net := s\<rparr>)"
  by (auto simp: send_def split: prod.splits sum.splits)

lemma api_acquire_returns:
  assumes "sleeps_long_enough (gv_wake gv)"
  shows "\<exists>g'. api_acquire gv g = Some (Inr (), g')"
proof (cases "rl_max_rps (gd_api g) = 0")
  case True
  then show ?thesis by (simp add: api_acquire_def rl_acquire_def)
next
  case False
  from rl_acquire_loop_returns[OF assms rl_max_ge_one[OF False], of "aw_now g"] False show ?thesis
    by (auto simp: api_acquire_def rl_acquire_def)
qed

section \<open>The listing and the tree\<close>

text \<open>
  A drive that does not change while it is listed: \<open>pages f pt\<close> is the page of folder \<open>f\<close> for the
  page token \<open>pt\<close>, and every successful answer to the request of a page is that page.
\<close>

definition serves :: "('k, 's) gdrive_env \<Rightarrow> (string \<Rightarrow> string option \<Rightarrow> json) \<Rightarrow> bool" where
  "serves gv pages =
     (\<forall>token f pt now s rs now' s' data.
        gv_http gv (page_request gv token f pt) now s = (Inr rs, now', s') \<and> is_success (rs_status rs) \<and>
        rs_json rs = Inr data \<longrightarrow> data = pages f pt)"

text \<open>The items of a folder from a page on: those of the chain of pages.\<close>

inductive contents :: "(string \<Rightarrow> string option \<Rightarrow> json) \<Rightarrow> string \<Rightarrow> string option \<Rightarrow> json list \<Rightarrow> bool"
  for pages f where
  last_page: "next_token (pages f pt) = None \<Longrightarrow> contents pages f pt (page_items (pages f pt))"
| more_pages: "next_token (pages f pt) = Some pt' \<Longrightarrow> contents pages f (Some pt') items \<Longrightarrow>
    contents pages f pt (page_items (pages f pt) @ items)"

inductive_cases contentsE: "contents pages f pt items"

lemma contents_unique: "contents pages f pt items \<Longrightarrow> contents pages f pt items' \<Longrightarrow> items' = items"
proof (induction arbitrary: items' rule: contents.induct)
  case (last_page pt)
  then show ?case by (auto elim: contentsE)
next
  case (more_pages pt pt' items)
  from more_pages.prems more_pages.hyps(1) obtain its where
    "contents pages f (Some pt') its" "items' = page_items (pages f pt) @ its"
    by (auto elim: contentsE)
  with more_pages.IH show ?case by simp
qed

definition folders_of :: "string \<Rightarrow> json list \<Rightarrow> (string \<times> string) set" where
  "folders_of cur_path items =
     (\<lambda>i. (str_or [] i ''id'', child_path cur_path (str_or [] i ''name''))) ` {i \<in> set items. is_folder_item i}"

text \<open>The folders below the given ones, each with its path; and their items.\<close>

inductive_set tree :: "(string \<Rightarrow> string option \<Rightarrow> json) \<Rightarrow> (string \<times> string) set \<Rightarrow> (string \<times> string) set"
  for pages roots where
  root: "r \<in> roots \<Longrightarrow> r \<in> tree pages roots"
| child: "(f, p) \<in> tree pages roots \<Longrightarrow> contents pages f None items \<Longrightarrow> r \<in> folders_of p items \<Longrightarrow>
    r \<in> tree pages roots"

definition entries :: "(string \<Rightarrow> string option \<Rightarrow> json) \<Rightarrow> (string \<times> string) set \<Rightarrow> (string \<times> string \<times> json) set" where
  "entries pages fs = {(f, p, i). (f, p) \<in> fs \<and> (\<exists>items. contents pages f None items \<and> i \<in> set items)}"

definition tree_dirs :: "(string \<times> string \<times> json) set \<Rightarrow> remote_dir set" where
  "tree_dirs es = (\<lambda>(f, p, i). item_dir f p i) ` {e \<in> es. is_folder_item (snd (snd e))}"

definition tree_files :: "('k, 's) gdrive_env \<Rightarrow> (string \<times> string \<times> json) set \<Rightarrow> remote_file set" where
  "tree_files gv es = (\<lambda>(f, p, i). item_file gv f p i) ` {e \<in> es. \<not> is_folder_item (snd (snd e))}"

lemma tree_dirs_Un: "tree_dirs (A \<union> B) = tree_dirs A \<union> tree_dirs B"
  and tree_files_Un: "tree_files gv (A \<union> B) = tree_files gv A \<union> tree_files gv B"
proof -
  have "{e \<in> A \<union> B. P e} = {e \<in> A. P e} \<union> {e \<in> B. P e}" for P :: "string \<times> string \<times> json \<Rightarrow> bool" by auto
  then show "tree_dirs (A \<union> B) = tree_dirs A \<union> tree_dirs B" "tree_files gv (A \<union> B) = tree_files gv A \<union> tree_files gv B"
    by (simp_all add: tree_dirs_def tree_files_def image_Un)
qed

lemma folders_of_append: "folders_of p (xs @ ys) = folders_of p xs \<union> folders_of p ys"
  by (auto simp: folders_of_def)

lemma set_page_folders: "set (page_folders f p data) = folders_of p (page_items data)"
  by (auto simp: page_folders_def folders_of_def item_dir_def)

lemma set_add_page_dirs:
  "set (ri_dirs (add_page gv f p data ix)) = set (ri_dirs ix) \<union> tree_dirs {(f, p, i) | i. i \<in> set (page_items data)}"
  by (force simp: add_page_def tree_dirs_def)

lemma set_add_page_files:
  "set (ri_files (add_page gv f p data ix)) = set (ri_files ix) \<union> tree_files gv {(f, p, i) | i. i \<in> set (page_items data)}"
  by (force simp: add_page_def tree_files_def)

text \<open>One folder off the queue: it, and what its folders add to the rest.\<close>

lemma tree_mono: "R \<subseteq> tree pages S \<Longrightarrow> x \<in> tree pages R \<Longrightarrow> x \<in> tree pages S"
  by (rotate_tac 1, induction x rule: tree.induct) (auto intro: tree.child)

lemma tree_step:
  assumes "contents pages f None items"
  shows "tree pages (insert (f, p) R) = insert (f, p) (tree pages (R \<union> folders_of p items))"
proof (intro equalityI subsetI)
  fix x assume "x \<in> tree pages (insert (f, p) R)"
  then show "x \<in> insert (f, p) (tree pages (R \<union> folders_of p items))"
  proof (induction rule: tree.induct)
    case (child f' p' items' r)
    show ?case
    proof (cases "(f', p') \<in> tree pages (R \<union> folders_of p items)")
      case True
      with child show ?thesis by (auto intro: tree.child)
    next
      case False
      with child have "f' = f" "p' = p" by auto
      with child assms contents_unique have "r \<in> folders_of p items" by fastforce
      then show ?thesis by (auto intro: tree.root)
    qed
  qed (auto intro: tree.root)
next
  have "R \<union> folders_of p items \<subseteq> tree pages (insert (f, p) R)"
    using assms by (auto intro: tree.root tree.child[OF tree.root])
  then show "x \<in> tree pages (insert (f, p) R)" if "x \<in> insert (f, p) (tree pages (R \<union> folders_of p items))" for x
    using that tree_mono[of "R \<union> folders_of p items" pages "insert (f, p) R" x] by (auto intro: tree.root)
qed

lemma entries_step:
  assumes "contents pages f None items"
  shows "entries pages (tree pages (insert (f, p) R)) =
    {(f, p, i) | i. i \<in> set items} \<union> entries pages (tree pages (R \<union> folders_of p items))"
proof -
  have here: "(\<exists>items'. contents pages f None items' \<and> i \<in> set items') \<longleftrightarrow> i \<in> set items" for i
    using assms contents_unique[OF assms] by blast
  show ?thesis unfolding tree_step[OF assms] entries_def using here by blast
qed

lemma entries_none: "entries pages (tree pages {}) = {}"
proof -
  have "x \<notin> tree pages {}" for x
  proof
    assume "x \<in> tree pages {}"
    then show False by induction auto
  qed
  then show ?thesis by (auto simp: entries_def)
qed

section \<open>The loop walks it\<close>

inductive lists ::
  "('k, 's) gdrive_env \<Rightarrow> (string \<Rightarrow> string option \<Rightarrow> json) \<Rightarrow> string \<Rightarrow> string \<Rightarrow> string option
   \<Rightarrow> (string \<times> string) list \<Rightarrow> remote_index \<Rightarrow> remote_index \<Rightarrow> bool" for gv pages where
  turn_page: "next_token (pages f pt) = Some pt' \<Longrightarrow>
    lists gv pages f p (Some pt') (queue @ page_folders f p (pages f pt)) (add_page gv f p (pages f pt) ix) ix' \<Longrightarrow>
    lists gv pages f p pt queue ix ix'"
| finished: "next_token (pages f pt) = None \<Longrightarrow> queue @ page_folders f p (pages f pt) = [] \<Longrightarrow>
    lists gv pages f p pt queue ix (add_page gv f p (pages f pt) ix)"
| next_folder: "next_token (pages f pt) = None \<Longrightarrow> queue @ page_folders f p (pages f pt) = (f', p') # rest \<Longrightarrow>
    lists gv pages f' p' None rest (add_page gv f p (pages f pt) ix) ix' \<Longrightarrow>
    lists gv pages f p pt queue ix ix'"

lemma list_page_data:
  assumes "serves gv pages" "list_page gv f p pt g = Some (Inr (Some data), g')"
  shows "data = pages f pt"
proof -
  obtain token rs g1 g2 where rs: "send gv (page_request gv token f pt) g1 = Some (Inr rs, g2)"
    and a: "page_answer gv p rs g2 = Some (Inr (Some data), g')"
    using assms(2) by (auto simp: list_page_def gseq_Some_iff gcontext_Inr_iff)
  from a have "is_success (rs_status rs)" "rs_json rs = Inr data"
    by (auto simp: page_answer_def gseq_Some_iff ok_or_bail_Inr_iff split: if_splits)
  with rs assms(1) show ?thesis by (fastforce simp: serves_def send_Inr_iff)
qed

lemma list_loop_lists:
  assumes "serves gv pages" "list_loop gv f p pt queue ix g = Some (Inr ix', g')"
  shows "lists gv pages f p pt queue ix ix'"
proof -
  from assms(2) have "fst (Inr ix' :: remote_index res, g') = Inr ix' \<longrightarrow> serves gv pages \<longrightarrow> lists gv pages f p pt queue ix ix'"
  proof (rule list_loop.raw_induct[where P = "\<lambda>gv f p pt queue ix g r. fst r = Inr ix' \<longrightarrow> serves gv pages \<longrightarrow>
        lists gv pages f p pt queue ix ix'", rotated], intro impI)
    fix F and gv :: "('a, 'b) gdrive_env" and f p pt queue ix g r
    assume IH: "\<And>gv f p pt queue ix g r. F gv f p pt queue ix g = Some r \<Longrightarrow>
        fst r = Inr ix' \<longrightarrow> serves gv pages \<longrightarrow> lists gv pages f p pt queue ix ix'"
      and eq: "(case list_page gv f p pt g of None \<Rightarrow> None | Some (Inl e, g') \<Rightarrow> Some (Inl e, g')
         | Some (Inr None, g') \<Rightarrow> F gv f p pt queue ix g'
         | Some (Inr (Some data), g') \<Rightarrow>
             let ix' = add_page gv f p data ix; queue' = queue @ page_folders f p data
             in case next_token data of
                  None \<Rightarrow> (case queue' of [] \<Rightarrow> Some (Inr ix', g') | (f, q) # rest \<Rightarrow> F gv f q None rest ix' g')
                | Some pt \<Rightarrow> F gv f p (Some pt) queue' ix' g') = Some r"
      and r: "fst r = Inr ix'" and srv: "serves gv pages"
    obtain x g1 where pg: "list_page gv f p pt g = Some (x, g1)" using eq by (auto split: option.splits)
    show "lists gv pages f p pt queue ix ix'"
    proof (cases x)
      case (Inl e)
      with eq pg r show ?thesis by auto
    next
      case x: (Inr y)
      show ?thesis
      proof (cases y)
        case None
        with eq pg x have "F gv f p pt queue ix g1 = Some r" by simp
        from IH[OF this] r srv show ?thesis by simp
      next
        case (Some data)
        with list_page_data[OF srv] pg x have data: "data = pages f pt" by simp
        show ?thesis
        proof (cases "next_token data")
          case (Some pt')
          with eq pg x \<open>y = Some data\<close> have "F gv f p (Some pt') (queue @ page_folders f p data) (add_page gv f p data ix) g1 = Some r"
            by (simp add: Let_def)
          from IH[OF this] r srv Some data show ?thesis by (auto intro: lists.turn_page)
        next
          case None
          show ?thesis
          proof (cases "queue @ page_folders f p data")
            case Nil
            with eq pg x \<open>y = Some data\<close> None have "r = (Inr (add_page gv f p data ix), g1)" by (auto simp: Let_def)
            with r None Nil data show ?thesis by (auto intro: lists.finished)
          next
            case (Cons a rest)
            obtain f1 p1 where a: "a = (f1, p1)" by (cases a)
            with Cons eq pg x \<open>y = Some data\<close> None have "F gv f1 p1 None rest (add_page gv f p data ix) g1 = Some r"
              by (simp add: Let_def)
            from IH[OF this] r srv None Cons a data show ?thesis by (auto intro: lists.next_folder)
          qed
        qed
      qed
    qed
  qed
  with assms(1) show ?thesis by simp
qed

text \<open>The items seen from a point of the walk on.\<close>

definition ahead :: "(string \<Rightarrow> string option \<Rightarrow> json) \<Rightarrow> string \<Rightarrow> string \<Rightarrow> json list \<Rightarrow> (string \<times> string) set
   \<Rightarrow> (string \<times> string \<times> json) set" where
  "ahead pages f p items R =
     {(f, p, i) | i. i \<in> set items} \<union> entries pages (tree pages (R \<union> folders_of p items))"

lemma lists_ahead:
  assumes "lists gv pages f p pt queue ix ix'"
  shows "\<exists>items. contents pages f pt items \<and>
    set (ri_dirs ix') = set (ri_dirs ix) \<union> tree_dirs (ahead pages f p items (set queue)) \<and>
    set (ri_files ix') = set (ri_files ix) \<union> tree_files gv (ahead pages f p items (set queue))"
  using assms
proof (induction rule: lists.induct)
  case (turn_page f pt pt' p queue ix ix')
  let ?pg = "page_items (pages f pt)"
  from turn_page.IH obtain items where c: "contents pages f (Some pt') items"
    and ds: "set (ri_dirs ix') = set (ri_dirs (add_page gv f p (pages f pt) ix)) \<union>
        tree_dirs (ahead pages f p items (set (queue @ page_folders f p (pages f pt))))"
    and fs: "set (ri_files ix') = set (ri_files (add_page gv f p (pages f pt) ix)) \<union>
        tree_files gv (ahead pages f p items (set (queue @ page_folders f p (pages f pt))))" by blast
  have "ahead pages f p (?pg @ items) (set queue) =
      {(f, p, i) | i. i \<in> set ?pg} \<union> ahead pages f p items (set (queue @ page_folders f p (pages f pt)))"
    by (auto simp: ahead_def folders_of_append set_page_folders Un_assoc)
  with ds fs contents.more_pages[of pages f pt, OF turn_page.hyps(1) c] show ?case
    by (intro exI[of _ "?pg @ items"]) (simp add: set_add_page_dirs set_add_page_files tree_dirs_Un tree_files_Un Un_assoc)
next
  case (finished f pt queue p ix)
  have "set (queue @ page_folders f p (pages f pt)) = {}" using finished.hyps(2) by simp
  then have "ahead pages f p (page_items (pages f pt)) (set queue) = {(f, p, i) | i. i \<in> set (page_items (pages f pt))}"
    unfolding ahead_def by (simp add: set_page_folders entries_none)
  with contents.last_page[of pages f pt, OF finished.hyps(1)] show ?case
    by (intro exI[of _ "page_items (pages f pt)"]) (simp add: set_add_page_dirs set_add_page_files)
next
  case (next_folder f pt queue p f' p' rest ix ix')
  let ?pg = "page_items (pages f pt)"
  from next_folder.IH obtain items where c: "contents pages f' None items"
    and ds: "set (ri_dirs ix') = set (ri_dirs (add_page gv f p (pages f pt) ix)) \<union> tree_dirs (ahead pages f' p' items (set rest))"
    and fs: "set (ri_files ix') = set (ri_files (add_page gv f p (pages f pt) ix)) \<union> tree_files gv (ahead pages f' p' items (set rest))"
    by blast
  have "set queue \<union> folders_of p ?pg = insert (f', p') (set rest)"
    using arg_cong[OF next_folder.hyps(2), of set] by (simp add: set_page_folders)
  then have "ahead pages f p ?pg (set queue) = {(f, p, i) | i. i \<in> set ?pg} \<union> ahead pages f' p' items (set rest)"
    unfolding ahead_def using entries_step[OF c] by simp
  with ds fs contents.last_page[of pages f pt, OF next_folder.hyps(1)] show ?case
    by (intro exI[of _ ?pg]) (simp add: set_add_page_dirs set_add_page_files tree_dirs_Un tree_files_Un Un_assoc)
qed

lemma list_remote_tree:
  assumes "serves gv pages" "list_remote gv root_id g = Some (Inr ix, g')"
  shows "set (ri_dirs ix) = tree_dirs (entries pages (tree pages {(root_id, [])})) \<and>
    set (ri_files ix) = tree_files gv (entries pages (tree pages {(root_id, [])}))"
proof -
  from list_loop_lists[OF assms(1) assms(2)[unfolded list_remote_def]]
  obtain items where c: "contents pages root_id None items"
    and "set (ri_dirs ix) = tree_dirs (ahead pages root_id [] items {})"
    and "set (ri_files ix) = tree_files gv (ahead pages root_id [] items {})"
    by (auto dest: lists_ahead)
  moreover have "ahead pages root_id [] items {} = entries pages (tree pages {(root_id, [])})"
    using entries_step[OF c, of "[]" "{}"] by (simp add: ahead_def)
  ultimately show ?thesis by simp
qed

section \<open>The listing returns\<close>

text \<open>
  \<open>rank\<close> bounds what is left to read from a page on: its next page and the folders it names count
  for less than the page itself. A finite tree of folders has such a rank.
\<close>

definition folder_rank :: "(string \<Rightarrow> string option \<Rightarrow> nat) \<Rightarrow> (string \<times> string) list \<Rightarrow> nat" where
  "folder_rank rank fs = sum_list (map (\<lambda>(f, p). rank f None) fs)"

definition finite_tree ::
  "(string \<Rightarrow> string option \<Rightarrow> json) \<Rightarrow> (string \<Rightarrow> string option \<Rightarrow> nat) \<Rightarrow> bool" where
  "finite_tree pages rank =
     (\<forall>f pt. (case next_token (pages f pt) of None \<Rightarrow> 0 | Some pt' \<Rightarrow> rank f (Some pt')) +
       sum_list (map (\<lambda>i. rank (str_or [] i ''id'') None) (filter is_folder_item (page_items (pages f pt)))) < rank f pt)"

text \<open>A drive that answers every page, and a session that gives a token.\<close>

definition answers_pages :: "('k, 's) gdrive_env \<Rightarrow> (string \<Rightarrow> string option \<Rightarrow> json) \<Rightarrow> bool" where
  "answers_pages gv pages =
     (\<forall>token f pt now s. \<exists>rs now' s'. gv_http gv (page_request gv token f pt) now s = (Inr rs, now', s') \<and>
        is_success (rs_status rs) \<and> rs_json rs = Inr (pages f pt))"

definition token_at_hand :: "('k, 's) gdrive_env \<Rightarrow> disk \<Rightarrow> bool" where
  "token_at_hand gv dk = (\<forall>g. aw_disk g = dk \<longrightarrow> (\<exists>token. get_token gv g = Some (Inr token, g)))"

lemma list_page_returns:
  assumes "answers_pages gv pages" "token_at_hand gv (aw_disk g)" "sleeps_long_enough (gv_wake gv)"
  shows "\<exists>g'. list_page gv f p pt g = Some (Inr (Some (pages f pt)), g') \<and> aw_disk g' = aw_disk g"
proof -
  obtain g1 where a: "api_acquire gv g = Some (Inr (), g1)" using api_acquire_returns[OF assms(3)] by blast
  then have d: "aw_disk g1 = aw_disk g" by (auto dest: api_acquire_frame)
  obtain token where t: "get_token gv g1 = Some (Inr token, g1)"
    using assms(2) d by (auto simp: token_at_hand_def)
  obtain rs now' s' where h: "gv_http gv (page_request gv token f pt) (aw_now g1) (aw_net g1) = (Inr rs, now', s')"
    and rs: "is_success (rs_status rs)" "rs_json rs = Inr (pages f pt)"
    using assms(1) unfolding answers_pages_def by blast
  let ?g2 = "g1\<lparr>aw_now := now', aw_net := s'\<rparr>"
  have "send gv (page_request gv token f pt) g1 = Some (Inr rs, ?g2)" using h by (simp add: send_Inr_iff)
  moreover have "page_answer gv p rs ?g2 = Some (Inr (Some (pages f pt)), ?g2)"
    using rs not_429[OF rs(1)] by (simp add: page_answer_def gseq_def ok_or_bail_def)
  ultimately have "list_page gv f p pt g = Some (Inr (Some (pages f pt)), ?g2)"
    using a t by (simp add: list_page_def gseq_def gcontext_def)
  with d show ?thesis by auto
qed

lemma folder_rank_append: "folder_rank rank (xs @ ys) = folder_rank rank xs + folder_rank rank ys"
  by (simp add: folder_rank_def)

lemma folder_rank_page: "folder_rank rank (page_folders f p data) =
    sum_list (map (\<lambda>i. rank (str_or [] i ''id'') None) (filter is_folder_item (page_items data)))"
  by (simp add: folder_rank_def page_folders_def item_dir_def comp_def)

lemma list_loop_returns:
  assumes "answers_pages gv pages" "token_at_hand gv (aw_disk g)" "sleeps_long_enough (gv_wake gv)"
    and rank: "finite_tree pages rank"
  shows "\<exists>ix' g'. list_loop gv f p pt queue ix g = Some (Inr ix', g')"
  using assms(2)
proof (induction "rank f pt + folder_rank rank queue" arbitrary: f p pt queue ix g rule: less_induct)
  case less
  obtain g1 where pg: "list_page gv f p pt g = Some (Inr (Some (pages f pt)), g1)" "aw_disk g1 = aw_disk g"
    using list_page_returns[OF assms(1) less.prems assms(3)] by blast
  let ?queue = "queue @ page_folders f p (pages f pt)" and ?ix = "add_page gv f p (pages f pt) ix"
  have r: "(case next_token (pages f pt) of None \<Rightarrow> 0 | Some pt' \<Rightarrow> rank f (Some pt')) +
      folder_rank rank (page_folders f p (pages f pt)) < rank f pt"
    using rank unfolding finite_tree_def folder_rank_page by blast
  have tok: "token_at_hand gv (aw_disk g1)" using less.prems pg(2) by simp
  show ?case
  proof (cases "next_token (pages f pt)")
    case (Some pt')
    then have "rank f (Some pt') + folder_rank rank ?queue < rank f pt + folder_rank rank queue"
      using r by (simp add: folder_rank_append)
    from less.hyps[OF this tok] pg Some show ?thesis by (subst list_loop.simps) (simp add: Let_def)
  next
    case None
    show ?thesis
    proof (cases ?queue)
      case Nil
      then show ?thesis using pg None by (subst list_loop.simps) (simp add: Let_def)
    next
      case (Cons a rest)
      obtain f1 p1 where a: "a = (f1, p1)" by (cases a)
      have "folder_rank rank ?queue = rank f1 None + folder_rank rank rest" using Cons a by (simp add: folder_rank_def)
      then have "rank f1 None + folder_rank rank rest < rank f pt + folder_rank rank queue"
        using r None by (simp add: folder_rank_append)
      from less.hyps[OF this tok] pg None Cons a show ?thesis by (subst list_loop.simps) (simp add: Let_def)
    qed
  qed
qed

section \<open>Uploads under a bandwidth limit\<close>

lemma bl_avail_spend:
  assumes "bl_ok l" "bl_avail l now \<ge> as_f64 n"
  shows "as_f64 n + bl_avail (l\<lparr>bl_tokens := bl_avail l now - as_f64 n, bl_last_refill := now\<rparr>) now \<le> bl_avail l now"
  using bw.spend[OF assms(1), of now n] assms(2) by (simp add: bl_react_def bl_poll_eq)

lemma bl_poll_kept:
  assumes "bl_poll now n l = (r, l')" "bl_ok l"
  shows "bl_ok l' \<and> bl_rate l' = bl_rate l \<and> bl_limit_bps l' = bl_limit_bps l"
  using assms bw.ok_react[OF assms(2), of now n] bw.rate_react[OF assms(2), of now n]
  by (auto simp: bl_react_def bl_poll_eq split: if_splits)

lemma bl_poll_avail:
  assumes "bl_poll now n l = (r, l')" "bl_ok l"
  shows "(if r = None then as_f64 n else 0) + bl_avail l' now \<le> bl_avail l now"
  using assms bw.spend[OF assms(2), of now n] by (auto simp: bl_react_def bl_poll_eq split: if_splits)

lemma bl_acquire_until_spend:
  assumes "bl_acquire_until wake stop n now l = Some (r, l')" "bl_ok l" "sleeps_long_enough wake"
  shows "bl_ok l' \<and> bl_rate l' = bl_rate l \<and> bl_limit_bps l' = bl_limit_bps l \<and>
    (\<forall>t. r = Some t \<longrightarrow> now \<le> t \<and> (\<forall>c. stop = Some c \<longrightarrow> now \<le> c \<longrightarrow> t \<le> c) \<and>
       as_f64 n + bl_avail l' t \<le> bl_avail l now + bl_rate l * of_nat (t - now))"
proof -
  let ?P = "\<lambda>wake stop n now l r. bl_ok l \<longrightarrow> sleeps_long_enough wake \<longrightarrow>
    bl_ok (snd r) \<and> bl_rate (snd r) = bl_rate l \<and> bl_limit_bps (snd r) = bl_limit_bps l \<and>
    (\<forall>t. fst r = Some t \<longrightarrow> now \<le> t \<and> (\<forall>c. stop = Some c \<longrightarrow> now \<le> c \<longrightarrow> t \<le> c) \<and>
       as_f64 n + bl_avail (snd r) t \<le> bl_avail l now + bl_rate l * of_nat (t - now))"
  from assms(1) have "?P wake stop n now l (r, l')"
  proof (rule bl_acquire_until.raw_induct[where P = ?P, rotated], intro impI)
    fix F wake stop n now l r
    assume IH: "\<And>wake stop n now l r. F wake stop n now l = Some r \<Longrightarrow> ?P wake stop n now l r"
      and eq: "(case bl_poll now n l of (None, l') \<Rightarrow> Some (Some now, l')
        | (Some d, l') \<Rightarrow> if case stop of None \<Rightarrow> False | Some c \<Rightarrow> c < wake now d then Some (None, l')
            else F wake stop n (wake now d) l') = Some r"
      and ok: "bl_ok l" and wk: "sleeps_long_enough wake"
    obtain x l1 where p: "bl_poll now n l = (x, l1)" by (cases "bl_poll now n l")
    note kept = bl_poll_kept[OF p ok] and avail = bl_poll_avail[OF p ok]
    show "bl_ok (snd r) \<and> bl_rate (snd r) = bl_rate l \<and> bl_limit_bps (snd r) = bl_limit_bps l \<and>
      (\<forall>t. fst r = Some t \<longrightarrow> now \<le> t \<and> (\<forall>c. stop = Some c \<longrightarrow> now \<le> c \<longrightarrow> t \<le> c) \<and>
         as_f64 n + bl_avail (snd r) t \<le> bl_avail l now + bl_rate l * of_nat (t - now))"
    proof (cases x)
      case None
      with eq p have "r = (Some now, l1)" by auto
      with kept avail None show ?thesis by simp
    next
      case (Some d)
      let ?t1 = "wake now d"
      have le: "now \<le> ?t1" using wk by (simp add: sleeps_long_enough_def)
      show ?thesis
      proof (cases "case stop of None \<Rightarrow> False | Some c \<Rightarrow> c < ?t1")
        case True
        with eq p Some have "r = (None, l1)" by auto
        with kept show ?thesis by simp
      next
        case False
        with eq p Some have rec: "F wake stop n ?t1 l1 = Some r" by simp
        from IH[OF rec] kept wk have ih: "bl_ok (snd r)" "bl_rate (snd r) = bl_rate l" "bl_limit_bps (snd r) = bl_limit_bps l"
          "\<And>t. fst r = Some t \<Longrightarrow> ?t1 \<le> t \<and> (\<forall>c. stop = Some c \<longrightarrow> ?t1 \<le> c \<longrightarrow> t \<le> c) \<and>
             as_f64 n + bl_avail (snd r) t \<le> bl_avail l1 ?t1 + bl_rate l * of_nat (t - ?t1)" by auto
        have step: "bl_avail l1 ?t1 \<le> bl_avail l now + bl_rate l * of_nat (?t1 - now)"
          using bw.grows[of l1 now ?t1] kept le avail Some by auto
        have "now \<le> t \<and> (\<forall>c. stop = Some c \<longrightarrow> now \<le> c \<longrightarrow> t \<le> c) \<and>
            as_f64 n + bl_avail (snd r) t \<le> bl_avail l now + bl_rate l * of_nat (t - now)" if t: "fst r = Some t" for t
        proof -
          note i = ih(4)[OF t]
          then have "of_nat (t - now) = (of_nat (t - ?t1) + of_nat (?t1 - now) :: rat)"
            using le by (simp add: of_nat_diff)
          then have "bl_rate l * of_nat (t - now) = bl_rate l * of_nat (t - ?t1) + bl_rate l * of_nat (?t1 - now)"
            by (simp only: distrib_left)
          with i step le False show ?thesis by (auto split: option.splits)
        qed
        with ih show ?thesis by blast
      qed
    qed
  qed
  with assms(2,3) show ?thesis by auto
qed

text \<open>A request above the limit is never granted, and without a stop the wait never ends.\<close>

lemma bl_acquire_until_stuck:
  assumes "bl_limit l < as_f64 n"
  shows "bl_acquire_until wake None n now l = None"
proof (rule ccontr)
  assume "bl_acquire_until wake None n now l \<noteq> None"
  then obtain r where "bl_acquire_until wake None n now l = Some r" by auto
  then have "(None :: nat option) = None \<longrightarrow> \<not> bl_limit l < as_f64 n"
  proof (rule bl_acquire_until.raw_induct[where P = "\<lambda>wake stop n now l r. stop = None \<longrightarrow> \<not> bl_limit l < as_f64 n",
        rotated], intro impI)
    fix F wake and stop :: "nat option" and n now l r
    assume IH: "\<And>wake stop n now l r. F wake stop n now l = Some r \<Longrightarrow> stop = None \<longrightarrow> \<not> bl_limit l < as_f64 n"
      and eq: "(case bl_poll now n l of (None, l') \<Rightarrow> Some (Some now, l')
        | (Some d, l') \<Rightarrow> if case stop of None \<Rightarrow> False | Some c \<Rightarrow> c < wake now d then Some (None, l')
            else F wake stop n (wake now d) l') = Some r" and s: "stop = None"
    show "\<not> bl_limit l < as_f64 n"
    proof (cases "bl_avail l now \<ge> as_f64 n")
      case True
      then show ?thesis using bl_avail_le_limit[of l now] by simp
    next
      case False
      then show ?thesis using eq IH s by (fastforce simp: bl_poll_eq)
    qed
  qed
  with assms show False by simp
qed

text \<open>Sending a chunk takes time, never a negative one.\<close>

definition sending_takes_time :: "('k, 's) gdrive_env \<Rightarrow> bool" where
  "sending_takes_time gv = (\<forall>chunk t s. t \<le> snd (fst (gv_send_chunk gv chunk t s)))"

lemma as_f64_of_nat: "n < 2 ^ 64 \<Longrightarrow> as_f64 (of_nat n) = of_nat n"
proof -
  assume "n < 2 ^ 64"
  then have "unat (of_nat n :: 64 word) = n" by (simp add: unat_of_nat take_bit_nat_eq_self_iff)
  then show ?thesis unfolding as_f64_def by (simp only:)
qed

lemma chunk_f64: "as_f64 (of_nat (length (take chunk_size rest))) = of_nat (length (take chunk_size rest))"
  by (rule as_f64_of_nat) (simp add: chunk_size_def min_def)

lemma limited_chunk_grant:
  assumes "chunk_grant gv stop n g = Some (Some t, l)" "0 < av_upload_limit_kbps (gv_config gv)"
    and "bl_limit_bps (gd_bw g) \<noteq> 0" "bl_ok (gd_bw g)" "sleeps_long_enough (gv_wake gv)" "aw_now g \<le> stop"
  shows "aw_now g \<le> t \<and> t \<le> stop \<and> bl_ok l \<and> bl_rate l = bl_rate (gd_bw g) \<and> bl_limit_bps l = bl_limit_bps (gd_bw g) \<and>
    as_f64 n + bl_avail l t \<le> bl_avail (gd_bw g) (aw_now g) + bl_rate (gd_bw g) * of_nat (t - aw_now g)"
proof -
  have "bl_acquire_until (gv_wake gv) (Some stop) n (aw_now g) (gd_bw g) = Some (Some t, l)"
    using assms(1-3) by (simp add: chunk_grant_def bw_acquire_until_def)
  from bl_acquire_until_spend[OF this assms(4,5)] assms(6) show ?thesis by blast
qed

text \<open>A stream that ends before \<open>stop\<close> has sent at most what the bucket held and earned.\<close>

definition limited :: "('k, 's) gdrive_env \<Rightarrow> 's gdrive \<Rightarrow> bool" where
  "limited gv g = (0 < av_upload_limit_kbps (gv_config gv) \<and> bl_limit_bps (gd_bw g) \<noteq> 0 \<and> bl_ok (gd_bw g) \<and>
     sleeps_long_enough (gv_wake gv) \<and> sending_takes_time gv)"

lemma stream_bound:
  assumes "stream_body gv stop sent rest g = Some (StreamDone out, g')" "limited gv g"
  shows "out = sent @ rest \<and> aw_now g < stop \<and>
    of_nat (length rest) \<le> bl_avail (gd_bw g) (aw_now g) + bl_rate (gd_bw g) * of_nat (stop - aw_now g)"
proof -
  let ?P = "\<lambda>gv stop sent rest (g :: 'a gdrive) r. fst r = StreamDone out \<longrightarrow> limited gv g \<longrightarrow>
    out = sent @ rest \<and> aw_now g < stop \<and>
    of_nat (length rest) \<le> bl_avail (gd_bw g) (aw_now g) + bl_rate (gd_bw g) * of_nat (stop - aw_now g)"
  from assms(1) have "?P gv stop sent rest g (StreamDone out, g')"
  proof (rule stream_body.raw_induct[where P = ?P, rotated], intro impI)
    fix F gv and stop :: nat and sent rest and g :: "'a gdrive" and r
    assume IH: "\<And>gv stop sent rest (g :: 'a gdrive) r. F gv stop sent rest g = Some r \<Longrightarrow> ?P gv stop sent rest g r"
      and eq: "(if stop \<le> aw_now g then Some (StreamDropped, g\<lparr>aw_now := stop\<rparr>)
        else if rest = [] then Some (StreamDone sent, g)
        else let chunk = take chunk_size rest
             in case chunk_grant gv stop (of_nat (length chunk)) g of None \<Rightarrow> None
                | Some (None, l) \<Rightarrow> Some (StreamDropped, g\<lparr>aw_now := stop, gd_bw := l\<rparr>)
                | Some (Some t, l) \<Rightarrow> (case send_chunk gv chunk t l g of
                    (None, g') \<Rightarrow> F gv stop (sent @ chunk) (drop chunk_size rest) g'
                  | (Some e, g') \<Rightarrow> Some (StreamBroken e, g'))) = Some r"
      and r: "fst r = StreamDone out" and lim: "limited gv g"
    have now: "aw_now g < stop" using eq r by (auto split: if_splits)
    show "out = sent @ rest \<and> aw_now g < stop \<and>
      of_nat (length rest) \<le> bl_avail (gd_bw g) (aw_now g) + bl_rate (gd_bw g) * of_nat (stop - aw_now g)"
    proof (cases "rest = []")
      case True
      with eq r now have "out = sent" by auto
      moreover have "0 \<le> bl_avail (gd_bw g) (aw_now g)" using lim bl_avail_nonneg by (auto simp: limited_def)
      ultimately show ?thesis using now True by simp
    next
      case False
      let ?chunk = "take chunk_size rest"
      from eq r now False obtain t l where grant: "chunk_grant gv stop (of_nat (length ?chunk)) g = Some (Some t, l)"
        and sent: "fst (send_chunk gv ?chunk t l g) = None"
        and rec: "F gv stop (sent @ ?chunk) (drop chunk_size rest) (snd (send_chunk gv ?chunk t l g)) = Some r"
        by (auto simp: Let_def split: option.splits prod.splits)
      let ?g1 = "snd (send_chunk gv ?chunk t l g)"
      have b: "aw_now g \<le> t" "t \<le> stop" "bl_ok l" "bl_rate l = bl_rate (gd_bw g)" "bl_limit_bps l = bl_limit_bps (gd_bw g)"
        "of_nat (length ?chunk) + bl_avail l t \<le> bl_avail (gd_bw g) (aw_now g) + bl_rate (gd_bw g) * of_nat (t - aw_now g)"
        using limited_chunk_grant[OF grant, unfolded chunk_f64] lim now unfolding limited_def by (blast intro: less_imp_le)+
      have g1: "gd_bw ?g1 = l" "t \<le> aw_now ?g1"
        using lim by (auto simp: send_chunk_def Let_def limited_def sending_takes_time_def split: prod.splits)
          (metis fst_conv snd_conv)
      then have "limited gv ?g1" using lim b(3,5) by (simp add: limited_def)
      with IH[OF rec] r have ih: "out = (sent @ ?chunk) @ drop chunk_size rest" "aw_now ?g1 < stop"
        "of_nat (length (drop chunk_size rest)) \<le> bl_avail l (aw_now ?g1) + bl_rate l * of_nat (stop - aw_now ?g1)"
        using g1(1) by auto
      have "bl_avail l (aw_now ?g1) \<le> bl_avail l t + bl_rate l * of_nat (aw_now ?g1 - t)"
        using bw.grows[OF b(3) g1(2)] .
      moreover have "of_nat (stop - aw_now g) = (of_nat (stop - aw_now ?g1) + of_nat (aw_now ?g1 - t) + of_nat (t - aw_now g) :: rat)"
        using b(1) g1(2) ih(2) by (simp add: of_nat_diff)
      then have "bl_rate l * of_nat (stop - aw_now g) = bl_rate l * of_nat (stop - aw_now ?g1)
          + bl_rate l * of_nat (aw_now ?g1 - t) + bl_rate l * of_nat (t - aw_now g)"
        by (simp only: distrib_left)
      moreover have "of_nat (length rest) = (of_nat (length ?chunk) + of_nat (length (drop chunk_size rest)) :: rat)"
        by (simp flip: of_nat_add)
      ultimately show ?thesis using ih b(4,6) now by simp
    qed
  qed
  with assms(2) show ?thesis by auto
qed

lemma bl_limit_of: "bl_limit_bps l = kbps * 1024 \<Longrightarrow> unat kbps * 1024 < 2 ^ 64 \<Longrightarrow> bl_limit l = of_nat (unat kbps * 1024)"
proof -
  assume l: "bl_limit_bps l = kbps * 1024" and k: "unat kbps * 1024 < 2 ^ 64"
  have "unat (kbps * 1024) = unat kbps * 1024" using k by (simp add: unat_mult_lem[THEN iffD1])
  then show ?thesis unfolding bl_limit_def as_f64_def l by (simp only:)
qed

lemma put_stream_bound:
  assumes "put_stream gv uri n content g = Some (Inr rs, g')" "limited gv g"
    and "bl_limit_bps (gd_bw g) = kbps * 1024" "unat kbps * 1024 < 2 ^ 64"
  shows "length content \<le> 31 * (unat kbps * 1024)"
proof -
  obtain stop out g1 where s: "stream_body gv stop [] content g = Some (StreamDone out, g1)"
    and stop: "stop \<le> aw_now g + client_timeout"
    using assms(1) unfolding put_stream_def Let_def
    by (auto simp: bail_def split: option.splits if_splits prod.splits stream_end.splits)
  note b = stream_bound[OF s assms(2)]
  let ?L = "of_nat (unat kbps * 1024) :: rat"
  have L: "bl_limit (gd_bw g) = ?L" using bl_limit_of[OF assms(3,4)] .
  have "of_nat (stop - aw_now g) \<le> (of_nat client_timeout :: rat)" using stop by simp
  then have "bl_rate (gd_bw g) * of_nat (stop - aw_now g) \<le> bl_rate (gd_bw g) * of_nat client_timeout"
    by (rule mult_left_mono) simp
  also have "\<dots> = 30 * ?L" unfolding bl_rate_def L client_timeout_def by (simp add: ns_per_sec_def)
  finally have "bl_rate (gd_bw g) * of_nat (stop - aw_now g) \<le> 30 * bl_limit (gd_bw g)" unfolding L .
  then have "of_nat (length content) \<le> 31 * bl_limit (gd_bw g)"
    using b bl_avail_le_limit[of "gd_bw g" "aw_now g"] by linarith
  then have "of_nat (length content) \<le> 31 * ?L" unfolding L .
  also have "\<dots> = of_nat (31 * (unat kbps * 1024))" by simp
  finally show ?thesis by (simp only: of_nat_le_iff)
qed

section \<open>What an upload means under a limit\<close>

lemma get_token_frame: "get_token gv g = Some (r, g') \<Longrightarrow> gd_bw g' = gd_bw g \<and> gd_api g' = gd_api g \<and> gd_tracker g' = gd_tracker g"
  using get_valid_token_more[of "gv_auth gv" "gv_ga gv" g r g']
  by (cases g; cases g') (simp add: get_token_def)

lemma send_frame: "send gv rq g = Some (r, g') \<Longrightarrow> gd_bw g' = gd_bw g \<and> aw_disk g' = aw_disk g"
  by (auto simp: send_def split: prod.splits)

text \<open>The file to send, on a disk where a refresh of the session changes nothing else.\<close>

definition has_content :: "('k, 's) gdrive_env \<Rightarrow> path \<Rightarrow> string \<Rightarrow> 's gdrive \<Rightarrow> bool" where
  "has_content gv p content g =
     (p \<noteq> ga_path (gv_ga gv) \<and> fs_read p (aw_disk g) = Inr content \<and> dk_fault (aw_disk g) OpStat p = None)"

lemma has_content_token:
  assumes "get_token gv g = Some (r, g')" "has_content gv p content g"
  shows "has_content gv p content g'"
proof -
  have "keeps_other_nodes (ga_path (gv_ga gv)) (aw_disk g) (aw_disk g')"
    using get_valid_token_keeps[of "gv_auth gv" "gv_ga gv" g r g'] assms(1) by (simp add: get_token_def)
  with assms(2) show ?thesis by (auto simp: has_content_def keeps_other_nodes_def fs_read_Inr_iff)
qed

lemma has_content_disk: "has_content gv p content g \<Longrightarrow> aw_disk g' = aw_disk g \<Longrightarrow> has_content gv p content g'"
  by (simp add: has_content_def)

lemma upload_resumable_bound:
  assumes "upload_resumable gv p parent_id nm prev n g = Some (Inr up, g')" "limited gv g"
    and "bl_limit_bps (gd_bw g) = kbps * 1024" "unat kbps * 1024 < 2 ^ 64" "has_content gv p content g"
  shows "length content \<le> 31 * (unat kbps * 1024)"
proof -
  obtain g1 where a: "api_acquire gv g = Some (Inr (), g1)"
    and r1: "gseq (get_token gv) (\<lambda>token.
     gseq (gcontext (''Erreur r'' @ e_acute @ ''seau (init resumable)'')
             (send gv (init_request gv token parent_id nm prev))) (\<lambda>init_res.
     gseq (check_rate_limit init_res ''init resumable'') (\<lambda>_.
     gseq (ok_or_bail gv ''Erreur API (init resumable) : '' init_res) (\<lambda>_.
     gseq (gres (session_uri_of init_res)) (\<lambda>session_uri.
     gseq (\<lambda>g. gres (fs_read p (aw_disk g)) g) (\<lambda>content.
     gseq (api_acquire gv) (\<lambda>_.
     gseq (put_stream gv session_uri n content) (\<lambda>rs.
     gseq (check_rate_limit rs ''streaming resumable'') (\<lambda>_.
     gseq (ok_or_bail gv ''Erreur API (envoi du fichier) : '' rs) (\<lambda>_.
     upload_answer rs)))))))))) g1 = Some (Inr up, g')"
    using assms(1) by (auto simp: upload_resumable_def gseq_Some_iff[of "api_acquire gv"])
  obtain token g2 rs0 g3 uri c g4 rs g5 where t: "get_token gv g1 = Some (Inr token, g2)"
    and s: "send gv (init_request gv token parent_id nm prev) g2 = Some (Inr rs0, g3)"
    and c: "fs_read p (aw_disk g3) = Inr c"
    and a2: "api_acquire gv g3 = Some (Inr (), g4)"
    and put: "put_stream gv uri n c g4 = Some (Inr rs, g5)"
    using r1 by (auto simp: gseq_Some_iff gcontext_Inr_iff check_rate_limit_Inr_iff ok_or_bail_Inr_iff)
  note fr = api_acquire_frame[OF a] get_token_frame[OF t] send_frame[OF s] api_acquire_frame[OF a2]
  have bw: "gd_bw g4 = gd_bw g" using fr by simp
  have "has_content gv p content g3"
    using has_content_token[OF t has_content_disk[OF assms(5)]] has_content_disk fr by metis
  then have "c = content" using c by (simp add: has_content_def)
  moreover have "limited gv g4" "bl_limit_bps (gd_bw g4) = kbps * 1024" using assms(2,3) bw by (simp_all add: limited_def)
  ultimately show ?thesis using put_stream_bound[OF put _ _ assms(4)] by simp
qed

lemma upload_is_resumable:
  assumes "has_content gv p content g" "unat (av_chunk_threshold (gv_config gv)) < length content"
  shows "upload gv p parent_id nm prev g = upload_resumable gv p parent_id nm prev (length content) g"
proof -
  obtain t where "fs_metadata p (aw_disk g) = Inr (FileNode content t)"
    using assms(1) by (auto simp: has_content_def fs_read_Inr_iff fs_metadata_Inr_iff)
  with assms(2) show ?thesis by (simp add: upload_def gseq_def node_size_def)
qed

lemma upload_is_simple:
  assumes "has_content gv p content g" "length content \<le> unat (av_chunk_threshold (gv_config gv))"
  shows "upload gv p parent_id nm prev g = upload_simple gv p parent_id nm prev g"
proof -
  obtain t where "fs_metadata p (aw_disk g) = Inr (FileNode content t)"
    using assms(1) by (auto simp: has_content_def fs_read_Inr_iff fs_metadata_Inr_iff)
  with assms(2) show ?thesis by (simp add: upload_def gseq_def node_size_def)
qed

text \<open>A small file above the limit: no answer, ever, unless the program is stopped.\<close>

lemma upload_simple_stuck:
  assumes "has_content gv p content g" "gv_cancel_at gv = None" "0 < av_upload_limit_kbps (gv_config gv)"
    and "bl_limit_bps (gd_bw g) \<noteq> 0" "unat (bl_limit_bps (gd_bw g)) < length content" "length content < 2 ^ 64"
    and "api_acquire gv g = Some (Inr (), g1)" "get_token gv g1 = Some (Inr token, g2)"
  shows "upload_simple gv p parent_id nm prev g = None"
proof -
  note fr = api_acquire_frame[OF assms(7)] get_token_frame[OF assms(8)]
  have c: "has_content gv p content g2"
    using has_content_token[OF assms(8) has_content_disk[OF assms(1)]] fr by metis
  have "bl_limit (gd_bw g2) = of_nat (unat (bl_limit_bps (gd_bw g2)))" unfolding bl_limit_def as_f64_def ..
  also have "\<dots> < of_nat (length content)" using assms(5) fr by (simp only: of_nat_less_iff)
  also have "\<dots> = as_f64 (of_nat (length content))" using as_f64_of_nat[OF assms(6)] by simp
  finally have "bl_acquire_until (gv_wake gv) None (of_nat (length content)) (aw_now g2) (gd_bw g2) = None"
    by (rule bl_acquire_until_stuck)
  then have "wait_to_send gv (of_nat (length content)) g2 = None"
    using assms(2-4) fr by (simp add: wait_to_send_def bw_acquire_or_cancel_def bw_acquire_until_def Let_def)
  moreover have "fs_read p (aw_disk g2) = Inr content" using c by (simp add: has_content_def)
  ultimately show ?thesis
    using assms(7,8) by (simp add: upload_simple_def gseq_def)
qed

section \<open>Answers taken for success\<close>

text \<open>When the parents cannot be read the file is renamed where it is.\<close>

lemma rename_without_parents:
  assumes "get_token gv g = Some (Inr token, g1)" "api_acquire gv g1 = Some (Inr (), g2)"
    and "send gv (parents_request gv token file_id) g2 = Some (Inr rs, g3)"
    and "rs_status rs \<noteq> 429" "\<not> is_success (rs_status rs)"
  shows "rename gv file_id nm (Some new_parent) g =
    gseq (api_acquire gv) (\<lambda>_.
      gseq (send gv (patch_request gv token file_id nm [])) (\<lambda>rs.
      gseq (check_rate_limit rs ''rename patch'') (\<lambda>_. ok_or_bail gv ''Erreur API (renommage) : '' rs))) g3"
  using assms by (simp add: rename_def parents_query_def gseq_def check_rate_limit_def move_query_def)

lemma check_health_answer:
  assumes "api_acquire gv g = Some (Inr (), g1)" "get_token gv g1 = Some (Inr token, g2)"
    and "send gv (about_request gv token) g2 = Some (Inr rs, g3)"
  shows "check_health gv g = health_answer rs g3"
  using assms by (simp add: check_health_def gseq_def)

lemma health_answer_server_error:
  "500 \<le> rs_status rs \<Longrightarrow> rs_json rs = Inr data \<Longrightarrow> health_answer rs g = Some (Inr (health_of data), g)"
  by (simp add: health_answer_def is_client_error_def gseq_def)

section \<open>Uploads through the worker\<close>

text \<open>What the server was sent and answered when an upload is reported done.\<close>

definition acknowledged :: "('k, 's) gdrive_env \<Rightarrow> string \<Rightarrow> json \<Rightarrow> bool" where
  "acknowledged gv content data =
     (\<exists>rq now s rs now' s'. gv_http gv rq now s = (Inr rs, now', s') \<and> is_success (rs_status rs) \<and>
        rs_json rs = Inr data \<and> (rq_body rq = Streamed content \<or> (\<exists>meta nm. rq_body rq = Multipart meta nm content)))"

lemma send_or_cancel_Inr:
  assumes "send_or_cancel gv rq what msg g = Some (Inr rs, g')"
  obtains t s where "gv_http gv rq (aw_now g) (aw_net g) = (Inr rs, t, s)"
proof -
  obtain r t s where h: "gv_http gv rq (aw_now g) (aw_net g) = (r, t, s)" by (cases "gv_http gv rq (aw_now g) (aw_net g)")
  with assms have "r = Inr rs" by (auto simp: send_or_cancel_def bail_def split: if_splits sum.splits)
  with h that show thesis by blast
qed

lemma upload_answer_Inr_iff:
  "upload_answer rs g = Some (Inr up, g') \<longleftrightarrow> g' = g \<and> (\<exists>data. rs_json rs = Inr data \<and> up = parse_upload_result data)"
  by (auto simp: upload_answer_def gseq_Some_iff)

lemma upload_simple_acknowledged:
  assumes "upload_simple gv p parent_id nm prev g = Some (Inr up, g')"
  shows "\<exists>content data. acknowledged gv content data \<and> up = parse_upload_result data"
proof -
  obtain token content g1 rs g2 where s: "send_or_cancel gv (simple_request gv token parent_id nm prev content)
      (''Erreur r'' @ e_acute @ ''seau (upload simple)'') stopped_msg g1 = Some (Inr rs, g2)"
    and ok: "is_success (rs_status rs)" and data: "\<exists>data. rs_json rs = Inr data \<and> up = parse_upload_result data"
    using assms by (auto simp: upload_simple_def gseq_Some_iff check_rate_limit_Inr_iff ok_or_bail_Inr_iff
        upload_answer_Inr_iff)
  from s obtain t s' where "gv_http gv (simple_request gv token parent_id nm prev content) (aw_now g1) (aw_net g1) = (Inr rs, t, s')"
    by (rule send_or_cancel_Inr)
  moreover have "rq_body (simple_request gv token parent_id nm prev content) = Multipart (upload_meta parent_id nm prev) nm content"
    by (simp add: simple_request_def)
  ultimately show ?thesis using ok data unfolding acknowledged_def by blast
qed

lemma put_stream_Inr:
  assumes "put_stream gv uri n content g = Some (Inr rs, g')"
  shows "\<exists>rq sent now s now' s'. gv_http gv rq now s = (Inr rs, now', s') \<and> rq_body rq = Streamed sent"
proof -
  obtain sent g1 where "send_or_cancel gv (put_request uri n sent) stream_msg heavy_stopped_msg g1 = Some (Inr rs, g')"
    using assms unfolding put_stream_def Let_def
    by (auto simp: bail_def split: option.splits if_splits prod.splits stream_end.splits)
  then obtain t s where "gv_http gv (put_request uri n sent) (aw_now g1) (aw_net g1) = (Inr rs, t, s)"
    by (rule send_or_cancel_Inr)
  moreover have "rq_body (put_request uri n sent) = Streamed sent" by (simp add: put_request_def)
  ultimately show ?thesis by blast
qed

lemma upload_resumable_acknowledged:
  assumes "upload_resumable gv p parent_id nm prev n g = Some (Inr up, g')"
  shows "\<exists>content data. acknowledged gv content data \<and> up = parse_upload_result data"
proof -
  obtain uri content g1 rs g2 where s: "put_stream gv uri n content g1 = Some (Inr rs, g2)"
    and ok: "is_success (rs_status rs)" and data: "\<exists>data. rs_json rs = Inr data \<and> up = parse_upload_result data"
    using assms by (auto simp: upload_resumable_def gseq_Some_iff gcontext_Inr_iff check_rate_limit_Inr_iff
        ok_or_bail_Inr_iff upload_answer_Inr_iff)
  from put_stream_Inr[OF s] ok data show ?thesis unfolding acknowledged_def by blast
qed

lemma upload_acknowledged:
  assumes "upload gv p parent_id nm prev g = Some (Inr up, g')"
  shows "\<exists>content data. acknowledged gv content data \<and> up = parse_upload_result data"
  using assms upload_simple_acknowledged upload_resumable_acknowledged
  by (fastforce simp: upload_def gseq_Some_iff split: if_splits)

lemma gdrive_upload_acknowledged:
  assumes "fst (rp_upload (gdrive_provider gv) st p parent_id nm prev tk) = Inr up"
  shows "\<exists>content data. acknowledged gv content data \<and> up = parse_upload_result data"
  using assms upload_acknowledged
  by (fastforce simp: gdrive_provider_def gdrive_upload_def gdrive_call_def split: option.splits prod.splits)

lemma upload_from_answered:
  "upload_from cx attempt p pid nm prev w = (Inr up, w') \<Longrightarrow>
   \<exists>d prev tk. fst (rp_upload (cx_provider cx) d p pid nm prev tk) = Inr up"
proof (induction "max_attempts cx - attempt" arbitrary: attempt prev w rule: less_induct)
  case less
  show ?case
  proof (cases rule: upload_from_cases[of w cx attempt p pid nm prev])
    case (verified w1 up' w2)
    then have "fst (rp_upload (cx_provider cx) (w_drive w1) p pid nm prev (w_tracker w1)) = Inr up"
      using less.prems by (auto simp: upload_once_def split: prod.splits)
    then show ?thesis by blast
  next
    case (again w1 q w2 w3 prev')
    then show ?thesis using less.prems less.hyps[of "Suc attempt" prev' w3] by simp
  qed (use less.prems in \<open>simp_all add: bail_def\<close>)
qed

text \<open>The checksum the server gave for what it received is that of the local file.\<close>

lemma drive_upload_verified:
  assumes "cx_provider cx = gdrive_provider gv" "upload_from cx attempt p pid nm prev w = (Inr up, w')"
  shows "\<exists>content sent data. fs_read p (cx_disk cx) = Inr content \<and> acknowledged gv sent data \<and>
    up = parse_upload_result data \<and> str_or [] data ''md5Checksum'' = cx_md5 cx content"
proof -
  obtain content where c: "fs_read p (cx_disk cx) = Inr content" "ur_md5_checksum up = cx_md5 cx content"
    using upload_from_verified[OF assms(2)] verify_upload_ok_iff by blast
  from upload_from_answered[OF assms(2)] assms(1) obtain d prev tk where
    "fst (rp_upload (gdrive_provider gv) d p pid nm prev tk) = Inr up" by auto
  from gdrive_upload_acknowledged[OF this] obtain sent data where
    "acknowledged gv sent data" "up = parse_upload_result data" by blast
  moreover from this have "str_or [] data ''md5Checksum'' = cx_md5 cx content"
    using c(2) by (simp add: parse_upload_result_def)
  ultimately show ?thesis using c(1) by blast
qed

text \<open>
  When the request for the parents fails with any status but 429, a rename with a new folder
  goes on as a rename in place: the \<open>PATCH\<close> has no \<open>addParents\<close>, and its success is the result.
\<close>

lemma rename_without_parents_stays_in_place:
  assumes "get_token gv g = Some (Inr token, g1)" "api_acquire gv g1 = Some (Inr (), g2)"
    and "send gv (parents_request gv token file_id) g2 = Some (Inr rs, g3)"
    and "rs_status rs \<noteq> 429" "\<not> is_success (rs_status rs)"
    and "api_acquire gv g3 = Some (Inr (), g4)"
    and "send gv (patch_request gv token file_id new_name []) g4 = Some (Inr rs', g5)" "is_success (rs_status rs')"
  shows "rename gv file_id new_name (Some new_parent) g = Some (Inr (), g5)"
  unfolding rename_without_parents[OF assms(1-5)]
  using assms(6-8) not_429[OF assms(8)] by (simp add: gseq_def check_rate_limit_def ok_or_bail_def)

text \<open>
  A server error (status 500 or more) whose body is JSON without an account makes the health
  check return \<open>Ok\<close>, with the account \<open>Inconnu\<close> and no quota; the engine takes it for being online.
\<close>

lemma server_error_counts_as_healthy:
  assumes "api_acquire gv g = Some (Inr (), g1)" "get_token gv g1 = Some (Inr token, g2)"
    and "send gv (about_request gv token) g2 = Some (Inr rs, g3)" "500 \<le> rs_status rs"
    and "rs_json rs = Inr (JObj kvs)" "map_of kvs ''user'' = None" "map_of kvs ''storageQuota'' = None"
  shows "check_health gv g = Some (Inr (HealthOk ''Inconnu'' 0 0), g3)"
proof -
  have "health_of (JObj kvs) = HealthOk ''Inconnu'' 0 0"
  proof -
    have "parse_or_zero ''0'' = 0" by (simp add: parse_or_zero_def parse_u64_def digit_of_def)
    then show ?thesis using assms(6,7) by (simp add: health_of_def json_at_def json_get_def str_or_def as_str_def)
  qed
  with check_health_answer[OF assms(1-3)] health_answer_server_error[OF assms(4,5)] show ?thesis by simp
qed

end
