(* ===== verification/Startup.thy ===== *)
theory Startup
  imports Config Database_Laws
begin

text \<open>
  \<open>migration.rs\<close>, \<open>Database::open\<close> and the decisions of \<open>main.rs\<close>: the directories, the order in
  which the configuration and the database are brought up to date, what makes the engine start
  unconfigured, and the removal of old log files. \<open>so\<close> is \<open>Connection::open\<close> with the two
  \<open>PRAGMA\<close>s of the crate rusqlite: the database it finds at a path. Program puts them together.
\<close>

type_synonym sqlite_open = "path \<Rightarrow> disk \<Rightarrow> anyhow + database"

section \<open>Directories and variables\<close>

definition xdg_dir :: "environment \<Rightarrow> string option \<Rightarrow> string \<Rightarrow> string" where
  "xdg_dir env value fallback =
     (case value of Some d \<Rightarrow> d | None \<Rightarrow> push_str (home_dir env) fallback)"

text \<open>\<open>create_dir_all(..).ok()\<close>: a failure is ignored.\<close>

definition db_path :: "environment \<Rightarrow> string option \<Rightarrow> disk \<Rightarrow> string \<times> disk" where
  "db_path env data_home dk =
     (let dir = push_str (xdg_dir env data_home ''.local/share'') ''syncgdrive'' in
      (push_str dir ''index.db'', snd (create_dir_all (components dir) dk)))"

definition log_dir :: "environment \<Rightarrow> string option \<Rightarrow> disk \<Rightarrow> string \<times> disk" where
  "log_dir env state_home dk =
     (let dir = push_str (push_str (xdg_dir env state_home ''.local/state'') ''syncgdrive'') ''logs'' in
      (dir, snd (create_dir_all (components dir) dk)))"

definition to_ascii_lower :: "char \<Rightarrow> char" where
  "to_ascii_lower c = (let n = of_char c in if 65 \<le> n \<and> n \<le> (90 :: nat) then char_of (n + 32) else c)"

text \<open>No letter outside ASCII becomes one of \<open>true\<close> in lower case.\<close>

definition dry_run_flag :: "string option \<Rightarrow> bool" where
  "dry_run_flag value =
     (case value of None \<Rightarrow> False | Some v \<Rightarrow> v = ''1'' \<or> map to_ascii_lower v = ''true'')"

section \<open>Migrations\<close>

definition open_parent_msg :: "path \<Rightarrow> string" where
  "open_parent_msg parent = ''Impossible de cr'' @ e_acute @ ''er le dossier parent pour la base de donn'' @ e_acute
     @ ''es : '' @ path_string parent"

definition database_open :: "sqlite_open \<Rightarrow> path \<Rightarrow> disk \<Rightarrow> database res \<times> disk" where
  "database_open so p dk =
     (case ensure_parent p dk of
        (Inl e, dk1) \<Rightarrow> (Inl (open_parent_msg (butlast p) # e), dk1)
      | (Inr _, dk1) \<Rightarrow> (so p dk1, dk1))"

definition parent_msg :: string where
  "parent_msg = ''Impossible de cr'' @ e_acute @ ''er le dossier parent pour la base SQLite''"

definition schema_msg :: string where
  "schema_msg = E_acute @ ''chec lors de la migration du sch'' @ e_acute @ ''ma SQLite''"

definition migrate_database :: "sqlite_open \<Rightarrow> path \<Rightarrow> disk \<Rightarrow> database res \<times> disk" where
  "migrate_database so p dk =
     (case (case path_parent p of
              None \<Rightarrow> (Inr (), dk)
            | Some parent \<Rightarrow> if path_exists parent dk then (Inr (), dk) else create_dir_all parent dk) of
        (Inl e, dk1) \<Rightarrow> (Inl (parent_msg # e), dk1)
      | (Inr _, dk1) \<Rightarrow>
          (case database_open so p dk1 of
             (Inl e, dk2) \<Rightarrow> (Inl e, dk2)
           | (Inr db, dk2) \<Rightarrow> (with_context schema_msg (db_init_and_migrate db), dk2)))"

definition config_msg :: string where
  "config_msg = E_acute @ ''chec de l'' @ [CHR 0x27] @ ''initialisation ou de la migration de la configuration''"

text \<open>The outer \<open>None\<close> is the panic of \<open>expand_tilde\<close>. The migrated database is returned beside the configuration.\<close>

definition run_all_migrations ::
  "toml_crate \<Rightarrow> environment \<Rightarrow> int \<Rightarrow> sqlite_open \<Rightarrow> path \<Rightarrow> disk \<Rightarrow> ((app_config \<times> database) res \<times> disk) option" where
  "run_all_migrations tc env now so p dk =
     (case load_or_create tc env now dk of
        None \<Rightarrow> None
      | Some (Inl e, dk1) \<Rightarrow> Some (Inl (config_msg # e), dk1)
      | Some (Inr (cfg, _), dk1) \<Rightarrow>
          Some (case migrate_database so p dk1 of
            (Inl e, dk2) \<Rightarrow> (Inl e, dk2) | (Inr db, dk2) \<Rightarrow> (Inr (cfg, db), dk2)))"

section \<open>What main decides\<close>

datatype launch = LaunchEngine app_config | LaunchUnconfigured string

record startup =
  su_launch :: launch
  su_first_run :: bool
  su_open_settings :: bool

definition no_primary_msg :: string where
  "no_primary_msg = ''Pas de dossier configur'' @ e_acute"

text \<open>A valid configuration without an active pair makes \<open>main\<close> return an error.\<close>

definition plan_startup :: "environment \<Rightarrow> app_config \<Rightarrow> disk \<Rightarrow> startup res" where
  "plan_startup env cfg dk =
     (let first_run = \<not> path_exists (components (config_path env)) dk in
      case app_validate dk cfg of
        Inl reason \<Rightarrow>
          Inr \<lparr>su_launch = LaunchUnconfigured (show_config_error reason), su_first_run = first_run,
               su_open_settings = True\<rparr>
      | Inr _ \<Rightarrow>
          (case get_primary_pair cfg of
             None \<Rightarrow> Inl [no_primary_msg]
           | Some _ \<Rightarrow>
               Inr \<lparr>su_launch = LaunchEngine cfg, su_first_run = first_run, su_open_settings = first_run\<rparr>))"

section \<open>Old logs\<close>

text \<open>
  \<open>entries\<close> is what \<open>read_dir\<close> yields; a file whose time cannot be read is skipped, a failing
  removal ignored. A directory is never removed, as \<open>remove_file\<close> fails on it. A \<open>SystemTime\<close> counts
  seconds in an \<open>i64\<close>: a limit that reaches further back is a panic, \<open>None\<close>.
\<close>

definition clean_entry :: "int \<Rightarrow> path \<Rightarrow> disk \<Rightarrow> disk" where
  "clean_entry cutoff p dk =
     (case fs_metadata p dk of
        Inr (FileNode _ modified) \<Rightarrow> if modified < cutoff then snd (remove_file p dk) else dk
      | _ \<Rightarrow> dk)"

definition cleanup_old_logs :: "int \<Rightarrow> 64 word \<Rightarrow> path list \<Rightarrow> disk \<Rightarrow> disk option" where
  "cleanup_old_logs now max_days entries dk =
     (let cutoff = now - int (unat (max_days * 24 * 3600)) in
      if cutoff < - (2 ^ 63) then None else Some (fold (clean_entry cutoff) entries dk))"

section \<open>Facts\<close>

lemma clean_entry_nodes:
  "dk_nodes (clean_entry cutoff p dk) q =
     (if q = p \<and> (\<exists>c t. dk_nodes dk p = Some (FileNode c t) \<and> t < cutoff) \<and> dk_fault dk OpStat p = None \<and>
         dk_fault dk OpUnlink p = None then None else dk_nodes dk q)"
  by (auto simp: clean_entry_def fs_metadata_def remove_file_def io_def split: option.splits node.splits sum.splits)

lemma clean_entry_fault: "dk_fault (clean_entry cutoff p dk) = dk_fault dk"
  by (auto simp: clean_entry_def remove_file_def split: sum.splits node.splits prod.splits)

text \<open>Exactly the listed files older than the limit are removed, unless a fault forbids it.\<close>

lemma cleanup_old_logs_nodes:
  assumes "cleanup_old_logs now max_days entries dk = Some dk'"
  shows "dk_nodes dk' q =
     (if q \<in> set entries \<and> (\<exists>c t. dk_nodes dk q = Some (FileNode c t) \<and> t < now - int (unat (max_days * 24 * 3600))) \<and>
         dk_fault dk OpStat q = None \<and> dk_fault dk OpUnlink q = None then None else dk_nodes dk q)"
proof -
  have "dk_nodes (fold (clean_entry cutoff) entries dk) q =
     (if q \<in> set entries \<and> (\<exists>c t. dk_nodes dk q = Some (FileNode c t) \<and> t < cutoff) \<and>
         dk_fault dk OpStat q = None \<and> dk_fault dk OpUnlink q = None then None else dk_nodes dk q)" for cutoff
    by (induction entries arbitrary: dk) (auto simp: clean_entry_nodes clean_entry_fault)
  with assms show ?thesis by (auto simp: cleanup_old_logs_def Let_def split: if_splits)
qed

text \<open>After loading, the configuration file exists, so no start is ever seen as the first.\<close>

definition seen :: "path \<Rightarrow> disk \<Rightarrow> bool" where
  "seen p dk = (dk_nodes dk p \<noteq> None \<and> dk_fault dk OpStat p = None)"

lemma seen_path_exists: "seen p dk \<Longrightarrow> path_exists p dk"
  by (auto simp: seen_def path_exists_def is_ok_iff fs_metadata_Inr_iff)

lemma seen_new_dirs: "only_new_dirs dk dk' \<Longrightarrow> seen p dk \<Longrightarrow> seen p dk'"
  using only_new_dirs_node[of dk dk'] only_new_dirs_fault[of dk dk'] by (auto simp: seen_def)

lemma ensure_parent_new_dirs: "ensure_parent p dk = (r, dk') \<Longrightarrow> only_new_dirs dk dk'"
  using create_dir_all_only_new_dirs by (auto simp: ensure_parent_def split: option.splits) (metis snd_conv)

lemma seen_save_to_path:
  assumes "save_to_path tc now c p dk = (Inr u, dk')" "dk_fault dk OpStat p = None"
  shows "seen p dk'"
  using assms(1)
proof (rule save_to_path_Inr)
  fix s dk1 assume "only_new_dirs dk dk1" "dk' = dk1\<lparr>dk_nodes := (dk_nodes dk1)(p \<mapsto> FileNode s now)\<rparr>"
  with assms(2) only_new_dirs_fault[of dk dk1] show ?thesis by (simp add: seen_def)
qed

lemma load_from_path_seen:
  assumes run: "load_from_path tc env now p dk = Some (Inr r, dk')" and fault: "dk_fault dk OpStat p = None"
  shows "seen p dk'"
proof (cases "path_exists p dk")
  case False
  then obtain u dk1 u' where "ensure_parent p dk = (Inr u, dk1)" "save_to_path tc now app_default p dk1 = (Inr u', dk')"
    using run by (auto simp: load_from_path_def split: prod.splits sum.splits)
  then show ?thesis using seen_save_to_path[of tc now app_default p dk1 u' dk'] fault
      only_new_dirs_fault[OF ensure_parent_new_dirs] by metis
next
  case True
  then obtain raw c migrated where raw: "fs_read p dk = Inr raw" "parse_and_migrate tc raw = Inr (c, migrated)"
    using run by (auto simp: load_from_path_def split: sum.splits)
  show ?thesis
  proof (cases migrated)
    case False
    with run True raw have "dk' = dk" by (auto simp: load_from_path_def)
    then show ?thesis using raw(1) fault by (auto simp: seen_def fs_read_Inr_iff)
  next
    case mig: True
    then obtain dk1 u where w: "fs_write now (with_extension p ''v1.bak'') raw dk = Inr dk1"
      and s: "save_to_path tc now c p dk1 = (Inr u, dk')"
      using run True raw by (auto simp: load_from_path_def Let_def split: sum.splits prod.splits)
    from fs_write_Inr[OF w] fault have "dk_fault dk1 OpStat p = None" by simp
    from seen_save_to_path[OF s this] show ?thesis .
  qed
qed

lemma database_open_new_dirs: "database_open so p dk = (r, dk') \<Longrightarrow> only_new_dirs dk dk'"
  using ensure_parent_new_dirs[of p dk] by (auto simp: database_open_def split: prod.splits sum.splits)

lemma migrate_database_Inr:
  assumes "migrate_database so p dk = (Inr db, dk')"
  shows "only_new_dirs dk dk' \<and> (\<exists>db0. so p dk' = Inr db0 \<and> db_init_and_migrate db0 = Inr db)"
proof -
  let ?mk = "case path_parent p of None \<Rightarrow> (Inr (), dk)
    | Some parent \<Rightarrow> if path_exists parent dk then (Inr (), dk) else create_dir_all parent dk"
  obtain u dk1 where mk: "?mk = (Inr u, dk1)"
    using assms by (cases ?mk; cases "fst ?mk") (auto simp: migrate_database_def)
  have d1: "only_new_dirs dk dk1"
    using mk create_dir_all_only_new_dirs[of dk] by (auto split: option.splits if_splits) (metis snd_conv)
  obtain db0 where o: "database_open so p dk1 = (Inr db0, dk')" and m: "db_init_and_migrate db0 = Inr db"
    using assms mk by (auto simp: migrate_database_def split: prod.splits sum.splits)
  have "so p dk' = Inr db0" using o by (auto simp: database_open_def split: prod.splits sum.splits)
  with m d1 only_new_dirs_trans database_open_new_dirs[OF o] show ?thesis by blast
qed

lemma migrated_ok:
  assumes "db_init_and_migrate db0 = Inr db" "db_empty db0 \<or> db_v1 db0 \<or> db_ok db0"
  shows "db_ok db"
  using assms migrate_empty[of db0] migrate_v1[of db0] db_migrate_ok_id[of db0] by auto

lemma run_all_migrations_Inr:
  assumes run: "run_all_migrations tc env now so p dk = Some (Inr (cfg, db), dk')"
    and fault: "dk_fault dk OpStat (components (config_path env)) = None"
  shows "seen (components (config_path env)) dk' \<and>
    (\<exists>db0. so p dk' = Inr db0 \<and> db_init_and_migrate db0 = Inr db)"
proof -
  obtain first dk1 where l: "load_or_create tc env now dk = Some (Inr (cfg, first), dk1)"
    and m: "migrate_database so p dk1 = (Inr db, dk')"
    using run by (auto simp: run_all_migrations_def split: option.splits sum.splits prod.splits)
  have "seen (components (config_path env)) dk1"
    using load_from_path_seen[OF l[unfolded load_or_create_def] fault] .
  with migrate_database_Inr[OF m] seen_new_dirs show ?thesis by blast
qed

end
