(* ===== verification/Token_Storage.thy ===== *)
theory Token_Storage
  imports Auth_Laws
begin

text \<open>
  The trait \<open>TokenStorage\<close> of \<open>auth/storage.rs\<close> as a locale: what a client may rely on when its calls
  succeed. \<open>EncryptedFileStorage\<close> is its interpretation. Successful calls make the storage a cell
  that holds the last value put into it.
\<close>

datatype 't cell_call = Put 't | Erase

fun run_cell :: "('t \<Rightarrow> 'w \<Rightarrow> unit res \<times> 'w) \<Rightarrow> ('w \<Rightarrow> unit res \<times> 'w) \<Rightarrow> 't cell_call list \<Rightarrow> 'w \<Rightarrow> unit res \<times> 'w" where
  "run_cell put erase [] w = (Inr (), w)"
| "run_cell put erase (c # cs) w =
     (case (case c of Put t \<Rightarrow> put t w | Erase \<Rightarrow> erase w) of
        (Inl e, w') \<Rightarrow> (Inl e, w')
      | (Inr _, w') \<Rightarrow> run_cell put erase cs w')"

text \<open>The abstract cell.\<close>

fun cell_call_abs :: "'t cell_call \<Rightarrow> 't option \<Rightarrow> 't option" where
  "cell_call_abs (Put t) _ = Some t"
| "cell_call_abs Erase _ = None"

locale token_storage =
  fixes put :: "'t \<Rightarrow> 'w \<Rightarrow> unit res \<times> 'w"
    and load :: "'w \<Rightarrow> 't option res"
    and erase :: "'w \<Rightarrow> unit res \<times> 'w"
    and usable :: "'w \<Rightarrow> bool"
    and printable :: "'t \<Rightarrow> bool"
  assumes load_put: "usable w \<Longrightarrow> printable t \<Longrightarrow> put t w = (Inr u, w') \<Longrightarrow> usable w' \<and> load w' = Inr (Some t)"
    and load_erase: "usable w \<Longrightarrow> erase w = (Inr u, w') \<Longrightarrow> usable w' \<and> load w' = Inr None"
begin

lemma one_call:
  assumes "usable w" "\<And>t. c = Put t \<Longrightarrow> printable t" "(case c of Put t \<Rightarrow> put t w | Erase \<Rightarrow> erase w) = (Inr u, w')"
  shows "usable w' \<and> load w' = Inr (cell_call_abs c x)"
proof (cases c)
  case (Put t)
  with assms load_put[of w t u w'] show ?thesis by simp
next
  case Erase
  with assms load_erase[of w u w'] show ?thesis by simp
qed

lemma refines_a_cell:
  assumes "usable w" "load w = Inr x" "\<And>t. Put t \<in> set cs \<Longrightarrow> printable t" "run_cell put erase cs w = (Inr u, w')"
  shows "usable w' \<and> load w' = Inr (fold cell_call_abs cs x)"
  using assms
proof (induction cs arbitrary: w x)
  case (Cons c cs)
  then obtain v w1 where c: "(case c of Put t \<Rightarrow> put t w | Erase \<Rightarrow> erase w) = (Inr v, w1)"
    and rest: "run_cell put erase cs w1 = (Inr u, w')"
    by (auto split: prod.splits sum.splits)
  from one_call[OF Cons.prems(1) _ c] Cons.prems(3)
  have "usable w1" "load w1 = Inr (cell_call_abs c x)" by simp_all
  from Cons.IH[OF this _ rest] Cons.prems(3) show ?case by simp
qed simp

end

section \<open>The encrypted file\<close>

definition storage_erase ::
  "'k google_auth \<Rightarrow> ('s, 'z) auth_world_scheme \<Rightarrow> unit res \<times> ('s, 'z) auth_world_scheme" where
  "storage_erase ga w = (case storage_clear ga (aw_disk w) of (r, dk) \<Rightarrow> (r, w\<lparr>aw_disk := dk\<rparr>))"

definition storage_usable :: "('k, 's) auth_crates \<Rightarrow> 'k google_auth \<Rightarrow> ('s, 'z) auth_world_scheme \<Rightarrow> bool" where
  "storage_usable ac ga w = (crates_faithful ac \<and> token_file_readable ga (aw_disk w))"

lemma cleared_load:
  assumes "storage_clear ga dk = (Inr u, dk')"
  shows "dk_fault dk' = dk_fault dk \<and> storage_load ac ga dk' = Inr None"
proof (cases "path_exists (ga_path ga) dk")
  case True
  then have "dk_nodes dk' (ga_path ga) = None" "dk_fault dk' = dk_fault dk"
    using assms by (auto simp: storage_clear_def remove_file_def split: sum.splits)
  then show ?thesis by (simp add: storage_load_def path_exists_def is_ok_iff fs_metadata_Inr_iff)
next
  case False
  with assms show ?thesis by (auto simp: storage_clear_def storage_load_def)
qed

interpretation vault: token_storage "storage_store ac ga" "\<lambda>w. storage_load ac ga (aw_disk w)" "storage_erase ga"
    "storage_usable ac ga" tokens_ok for ac ga
proof unfold_locales
  fix w t u w' assume "storage_usable ac ga w" "tokens_ok t" "storage_store ac ga t w = (Inr u, w')"
  then show "storage_usable ac ga w' \<and> storage_load ac ga (aw_disk w') = Inr (Some t)"
    using store_then_load[of ac t ga w w'] by (simp add: storage_usable_def)
next
  fix w u w' assume "storage_usable ac ga w" "storage_erase ga w = (Inr u, w')"
  then show "storage_usable ac ga w' \<and> storage_load ac ga (aw_disk w') = Inr None"
    using cleared_load[of ga "aw_disk w" u "aw_disk w'" ac]
    by (auto simp: storage_usable_def storage_erase_def token_file_readable_def split: prod.splits)
qed

text \<open>Whatever tokens are stored and erased, as long as the calls succeed: the last call decides what is loaded.\<close>

lemma last_call_decides:
  assumes "crates_faithful ac" "token_file_readable ga (aw_disk w)" "\<And>t. Put t \<in> set cs \<Longrightarrow> tokens_ok t"
    and "storage_load ac ga (aw_disk w) = Inr x" "run_cell (storage_store ac ga) (storage_erase ga) cs w = (Inr u, w')"
  shows "storage_load ac ga (aw_disk w') = Inr (fold cell_call_abs cs x)"
  using vault.refines_a_cell[OF _ assms(4,3,5)] assms(1,2) by (simp add: storage_usable_def)

end
