(* ===== verification/Demo_Drive.thy ===== *)
theory Demo_Drive
  imports Demo Gdrive_Laws Startup Token_Storage
begin

text \<open>
  A concrete session and a concrete Drive, on which the properties of the provider and of the
  authentication are applied. The crates are small but keep their contracts: a cipher that adds
  sixteen bytes, a printer of tokens that writes characters in unary.
\<close>

definition unary :: "nat \<Rightarrow> string" where
  "unary n = replicate n (CHR ''x'')"

definition enc_str :: "string \<Rightarrow> string" where
  "enc_str s = join_with '','' ([] # map (\<lambda>c. unary (of_char c)) s)"

definition dec_str :: "string \<Rightarrow> string" where
  "dec_str u = map (\<lambda>x. char_of (length x)) (tl (split_on CHR '','' u))"

definition enc_int :: "int \<Rightarrow> string" where
  "enc_int n = (if n < 0 then CHR ''-'' else CHR ''+'') # unary (nat \<bar>n\<bar>)"

definition dec_int :: "string \<Rightarrow> int" where
  "dec_int u = (if hd u = CHR ''-'' then - int (length (tl u)) else int (length (tl u)))"

definition demo_print :: "json \<Rightarrow> string" where
  "demo_print v =
     (case tokens_of_json v of
        None \<Rightarrow> []
      | Some t \<Rightarrow> join_with '';'' [enc_str (gt_access_token t), enc_str (gt_refresh_token t),
          enc_int (gt_expires_at t), enc_str (gt_scope t)])"

definition demo_parse :: "string \<Rightarrow> json option" where
  "demo_parse s =
     (case split_on CHR '';'' s of
        [a, r, e, sc] \<Rightarrow>
          (let t = \<lparr>gt_access_token = dec_str a, gt_refresh_token = dec_str r, gt_expires_at = dec_int e,
                    gt_scope = dec_str sc\<rparr> in
           if tokens_ok t then Some (json_of_tokens t) else None)
      | _ \<Rightarrow> None)"

definition demo_tag :: string where
  "demo_tag = ''0123456789abcdef''"

lemma set_unary: "c \<in> set (unary n) \<Longrightarrow> c = CHR ''x''"
  by (simp add: unary_def)

lemma set_join_with: "set (join_with sep ps) \<subseteq> set sep \<union> \<Union>(set ` set ps)"
  by (induction sep ps rule: join_with.induct) auto

lemma set_enc_str: "c \<in> set (enc_str s) \<Longrightarrow> c = CHR ''x'' \<or> c = CHR '',''"
  unfolding enc_str_def using set_join_with[of "'',''" "[] # map (\<lambda>c. unary (of_char c)) s"] set_unary by fastforce

lemma set_enc_int: "c \<in> set (enc_int n) \<Longrightarrow> c = CHR ''x'' \<or> c = CHR ''-'' \<or> c = CHR ''+''"
  unfolding enc_int_def using set_unary by (auto split: if_splits)

lemma dec_enc_str: "dec_str (enc_str s) = s"
proof -
  have "split_on CHR '','' (enc_str s) = [] # map (\<lambda>c. unary (of_char c)) s"
    unfolding enc_str_def by (rule split_on_join_with) (auto dest: set_unary)
  then show ?thesis by (simp add: dec_str_def comp_def unary_def)
qed

lemma dec_enc_int: "dec_int (enc_int n) = n"
  by (auto simp: dec_int_def enc_int_def unary_def)

lemma demo_print_tokens:
  assumes "tokens_ok t"
  shows "utf8_ok (demo_print (json_of_tokens t)) \<and> demo_parse (demo_print (json_of_tokens t)) = Some (json_of_tokens t)"
proof
  let ?ps = "[enc_str (gt_access_token t), enc_str (gt_refresh_token t), enc_int (gt_expires_at t), enc_str (gt_scope t)]"
  have p: "demo_print (json_of_tokens t) = join_with '';'' ?ps"
    by (simp add: demo_print_def tokens_round_trip[OF assms])
  have chars: "\<Union>(set ` set ?ps) \<subseteq> {CHR ''x'', CHR '','', CHR ''-'', CHR ''+''}"
    using set_enc_str set_enc_int by auto
  then have sep: "\<forall>p \<in> set ?ps. CHR '';'' \<notin> set p" by auto
  have "set (join_with '';'' ?ps) \<subseteq> {CHR '';'', CHR ''x'', CHR '','', CHR ''-'', CHR ''+''}"
    using set_join_with[of "'';''" ?ps] chars by auto
  then have "\<forall>c \<in> set (join_with '';'' ?ps). of_char c < (0x80 :: nat)" by auto
  then show "utf8_ok (demo_print (json_of_tokens t))" unfolding p by (rule utf8_ok_ascii)
  have "split_on CHR '';'' (join_with '';'' ?ps) = ?ps"
    using sep by (intro split_on_join_with) auto
  then show "demo_parse (demo_print (json_of_tokens t)) = Some (json_of_tokens t)"
    using assms unfolding p by (cases t) (simp add: demo_parse_def Let_def dec_enc_str dec_enc_int)
qed

lemma demo_parse_Some: "demo_parse s = Some v \<Longrightarrow> \<exists>t. tokens_ok t \<and> v = json_of_tokens t"
  unfolding demo_parse_def Let_def by (auto split: list.splits if_splits)

text \<open>The token endpoint refuses the refresh token \<open>old\<close> and the login is abandoned.\<close>

definition demo_token :: "oauth_credentials \<Rightarrow> token_grant \<Rightarrow> nat \<Rightarrow> string list \<Rightarrow> (string + token_response) \<times> nat \<times> string list" where
  "demo_token creds grant now s =
     (case grant of
        RefreshGrant r \<Rightarrow>
          if r = ''old'' then (Inl ''offline'', now, s @ [''refused''])
          else (Inr \<lparr>tr_access_token = ''B'', tr_refresh_token = None, tr_expires_in = Some 600\<rparr>, now, s @ [''refreshed''])
      | CodeGrant _ _ _ \<Rightarrow> (Inl ''no'', now, s))"

definition demo_ac :: "(string, string list) auth_crates" where
  "demo_ac = \<lparr>ac_cipher = (\<lambda>k. k), ac_nonce = (\<lambda>s. (''nnnnnnnnnnnn'', s)),
     ac_encrypt = (\<lambda>k n p. Some (demo_tag @ p)),
     ac_decrypt = (\<lambda>k n c. if take 16 c = demo_tag then Some (drop 16 c) else None),
     ac_print_json = demo_print, ac_parse_json = demo_parse, ac_unix = (\<lambda>_. 100), ac_token = demo_token,
     ac_listen = (\<lambda>s. (Inr 8080, s)), ac_secrets = (\<lambda>s. ((''c'', ''v'', ''t''), s)),
     ac_browser = (\<lambda>_ _ _ now s. Some (Inl ''closed'', now, s)), ac_reply = (\<lambda>s. (None, s)),
     ac_query_pairs = (\<lambda>_. Inr []), ac_http = (\<lambda>_ now s. (Inl ''none'', now, s)),
     ac_status_error = (\<lambda>_. ''status''), ac_format_date = (\<lambda>_. None)\<rparr>"

lemma demo_ac_simps [simp]:
  "ac_token demo_ac = demo_token" "ac_unix demo_ac n = 100" "ac_listen demo_ac s = (Inr 8080, s)"
  "ac_secrets demo_ac s = ((''c'', ''v'', ''t''), s)" "ac_browser demo_ac p c x n s = Some (Inl ''closed'', n, s)"
  by (simp_all add: demo_ac_def)

lemma demo_crates_faithful: "crates_faithful demo_ac"
proof -
  have parse: "tokens_ok t" if "Option.bind (demo_parse s) tokens_of_json = Some t" for s t
    using that demo_parse_Some[of s] by (auto simp: bind_eq_Some_conv tokens_round_trip)
  have token: "utf8_ok (tr_access_token tr) \<and> (\<forall>r. tr_refresh_token tr = Some r \<longrightarrow> utf8_ok r)"
    if "demo_token creds grant now s = (Inr tr, now', s')" for creds grant now s tr now' s'
  proof -
    have "utf8_ok ''B''" by code_simp
    with that show ?thesis by (auto simp: demo_token_def split: token_grant.splits if_splits)
  qed
  show ?thesis
    unfolding crates_faithful_def using demo_print_tokens parse token
    by (auto simp: demo_ac_def demo_tag_def)
qed

definition demo_ga :: "string google_auth" where
  "demo_ga = the (auth_new demo_ac demo_env_vars None (Some ''k''))"

definition demo_tokens :: "string \<Rightarrow> int \<Rightarrow> google_tokens" where
  "demo_tokens r e = \<lparr>gt_access_token = ''A'', gt_refresh_token = r, gt_expires_at = e, gt_scope = ''s''\<rparr>"

definition demo_auth_world :: "string list auth_world" where
  "demo_auth_world = \<lparr>aw_disk = demo_disk, aw_now = 0, aw_net = []\<rparr>"

text \<open>The session with these tokens on its disk.\<close>

definition demo_session :: "string \<Rightarrow> int \<Rightarrow> string list auth_world" where
  "demo_session r e = snd (storage_store demo_ac demo_ga (demo_tokens r e) demo_auth_world)"

lemma demo_readable: "token_file_readable demo_ga demo_disk"
  by (simp add: token_file_readable_def demo_disk_def)

lemma demo_session_load:
  assumes "fst (storage_store demo_ac demo_ga (demo_tokens r e) demo_auth_world) = Inr ()" "tokens_ok (demo_tokens r e)"
  shows "storage_load demo_ac demo_ga (aw_disk (demo_session r e)) = Inr (Some (demo_tokens r e)) \<and>
    dk_fault (aw_disk (demo_session r e)) = (\<lambda>_ _. None)"
proof -
  note run = run_pair[OF assms(1)]
  from store_then_load[OF demo_crates_faithful assms(2) _ run] storage_store_keeps[OF run] demo_readable show ?thesis
    by (simp add: demo_session_def demo_auth_world_def keeps_other_nodes_def) (simp add: demo_disk_def)
qed

lemma demo_stores:
  "fst (storage_store demo_ac demo_ga (demo_tokens ''new'' 1000) demo_auth_world) = Inr ()"
  "fst (storage_store demo_ac demo_ga (demo_tokens ''old'' 50) demo_auth_world) = Inr ()"
  "fst (storage_store demo_ac demo_ga (demo_tokens ''r'' 50) demo_auth_world) = Inr ()"
  "tokens_ok (demo_tokens ''new'' 1000)" "tokens_ok (demo_tokens ''old'' 50)" "tokens_ok (demo_tokens ''r'' 50)"
  by code_simp+

lemma demo_restore: "fst (storage_store demo_ac demo_ga (demo_tokens ''r'' 700\<lparr>gt_access_token := ''B''\<rparr>)
    ((demo_session ''r'' 50)\<lparr>aw_now := n, aw_net := s\<rparr>)) = Inr ()"
proof -
  have "fst (storage_store demo_ac demo_ga (demo_tokens ''r'' 700\<lparr>gt_access_token := ''B''\<rparr>)
    ((demo_session ''r'' 50)\<lparr>aw_now := 0, aw_net := []\<rparr>)) = Inr ()"
    by code_simp
  then show ?thesis by (auto simp: storage_store_def Let_def demo_ac_def split: prod.splits sum.splits)
qed

lemma demo_ga_path: "ga_path demo_ga = [''/'', ''c'', ''syncgdrive'', ''tokens.enc'']"
  by code_simp

section \<open>A Drive with two folders\<close>

text \<open>
  Folder \<open>R\<close> has two pages, a folder \<open>D\<close> on the first; the other folders are empty. The
  pages are told apart by the query.
\<close>

definition demo_item :: "string \<Rightarrow> string \<Rightarrow> bool \<Rightarrow> json" where
  "demo_item i nm folder = JObj ([(''id'', JStr i), (''name'', JStr nm)] @
     (if folder then [(''mimeType'', JStr folder_mime)] else [(''md5Checksum'', JStr ''#A'')]))"

definition demo_answer :: "(string \<times> string) list \<Rightarrow> json" where
  "demo_answer q =
     (if snd (hd q) = [CHR 0x27] @ ''R'' @ [CHR 0x27] @ '' in parents and trashed = false''
      then if length q = 3
        then JObj [(''files'', JArr [demo_item ''D'' ''d'' True]), (''nextPageToken'', JStr ''2'')]
        else JObj [(''files'', JArr [demo_item ''1'' ''a'' False])]
      else JObj [])"

definition demo_uploaded :: json where
  "demo_uploaded = JObj [(''id'', JStr ''u''), (''md5Checksum'', JStr ''#A''), (''size'', JStr ''1'')]"

definition demo_http :: "string list network" where
  "demo_http rq now s =
     (if rq_method rq = POST then (Inr \<lparr>rs_status = 200, rs_headers = (\<lambda>_. None), rs_json = Inr demo_uploaded\<rparr>, now, s @ [''post''])
      else if rq_url rq = ''/about''
      then (Inr \<lparr>rs_status = 503, rs_headers = (\<lambda>_. None), rs_json = Inr (JObj [(''error'', JNull)])\<rparr>, now, s)
      else if rq_query rq = [] then
        (if rq_method rq = GET then (Inr \<lparr>rs_status = 404, rs_headers = (\<lambda>_. None), rs_json = Inr JNull\<rparr>, now, s)
         else (Inr \<lparr>rs_status = 200, rs_headers = (\<lambda>_. None), rs_json = Inr JNull\<rparr>, now, s @ [''patch'']))
      else (Inr \<lparr>rs_status = 200, rs_headers = (\<lambda>_. None), rs_json = Inr (demo_answer (rq_query rq))\<rparr>, now, s))"

definition demo_advanced :: "64 word \<Rightarrow> 64 word \<Rightarrow> advanced_config" where
  "demo_advanced threshold kbps = advanced_default\<lparr>av_chunk_threshold := threshold, av_upload_limit_kbps := kbps,
     av_api_base := [], av_upload_base := []\<rparr>"

definition demo_gv :: "64 word \<Rightarrow> 64 word \<Rightarrow> (string, string list) gdrive_env" where
  "demo_gv threshold kbps = \<lparr>gv_auth = demo_ac, gv_ga = demo_ga, gv_config = demo_advanced threshold kbps,
     gv_http = demo_http, gv_wake = demo_wake, gv_cancel_at = None, gv_ready_wins = (\<lambda>_. True),
     gv_send_chunk = (\<lambda>_ t s. ((None, t), s)), gv_timeout = ''timeout'', gv_show_status = show_nat,
     gv_rfc3339 = (\<lambda>_. None)\<rparr>"

definition demo_pages :: "string \<Rightarrow> string option \<Rightarrow> json" where
  "demo_pages f pt = demo_answer (rq_query (page_request (demo_gv 0 0) [] f pt))"

lemma demo_gv_simps [simp]:
  "gv_auth (demo_gv th k) = demo_ac" "gv_ga (demo_gv th k) = demo_ga" "gv_http (demo_gv th k) = demo_http"
  "gv_wake (demo_gv th k) = demo_wake" "gv_cancel_at (demo_gv th k) = None"
  "av_upload_limit_kbps (gv_config (demo_gv th k)) = k" "av_chunk_threshold (gv_config (demo_gv th k)) = th"
  "av_api_base (gv_config (demo_gv th k)) = []"
  by (simp_all add: demo_gv_def demo_advanced_def)

lemma demo_http_page:
  "demo_http (page_request (demo_gv th k) token f pt) now s =
     (Inr \<lparr>rs_status = 200, rs_headers = (\<lambda>_. None), rs_json = Inr (demo_pages f pt)\<rparr>, now, s)"
  by (simp add: demo_http_def page_request_def demo_pages_def api_url_def)

lemma demo_serves: "serves (demo_gv th k) demo_pages"
  by (auto simp: serves_def demo_http_page)

lemma demo_answers: "answers_pages (demo_gv th k) demo_pages"
  by (auto simp: answers_pages_def demo_http_page is_success_def)

definition demo_rank :: "string \<Rightarrow> string option \<Rightarrow> nat" where
  "demo_rank f pt = (if quote_escape f = ''R'' then if pt = None then 5 else 3 else 1)"

lemma demo_finite_tree: "finite_tree demo_pages demo_rank"
proof -
  have d: "quote_escape ''D'' \<noteq> ''R''" by code_simp
  have q: "demo_pages f pt =
      (if quote_escape f = ''R'' then if pt = None
         then JObj [(''files'', JArr [demo_item ''D'' ''d'' True]), (''nextPageToken'', JStr ''2'')]
         else JObj [(''files'', JArr [demo_item ''1'' ''a'' False])] else JObj [])" for f pt
    by (cases pt) (auto simp: demo_pages_def demo_answer_def page_request_def)
  have items: "is_folder_item (demo_item i nm b) = b" "str_or [] (demo_item i nm b) ''id'' = i" for i nm b
    by (auto simp: is_folder_item_def demo_item_def str_or_def folder_mime_def)
  show ?thesis
    unfolding finite_tree_def q using d
    by (auto simp: next_token_def page_items_def items demo_rank_def)
qed

text \<open>The state: a session that lasts, free limiters.\<close>

definition demo_drive_on :: "disk \<Rightarrow> 64 word \<Rightarrow> string list gdrive" where
  "demo_drive_on dk k = \<lparr>aw_disk = dk, aw_now = 0, aw_net = [], gd_api = rl_new 0 0, gd_bw = bl_new k 0,
     gd_tracker = tracker_new\<rparr>"

definition demo_session_disk :: disk where
  "demo_session_disk = aw_disk (demo_session ''new'' 1000)"

lemma demo_storage_load: "storage_load demo_ac demo_ga demo_session_disk = Inr (Some (demo_tokens ''new'' 1000))"
  and demo_session_fault: "dk_fault demo_session_disk op q = None"
  using demo_session_load[OF demo_stores(1,4)] by (simp_all add: demo_session_disk_def)

lemma demo_token_load:
  assumes "storage_load demo_ac demo_ga (aw_disk g) = Inr (Some (demo_tokens ''new'' 1000))"
  shows "get_token (demo_gv th k) g = Some (Inr ''A'', g)"
proof -
  have "wrap_i64 (ac_unix demo_ac n + 300) < 1000" for n
    by (simp add: demo_ac_def wrap_i64_id)
  then show ?thesis using assms by (simp add: get_token_def get_valid_token_load demo_tokens_def)
qed

lemma demo_token_get: "aw_disk g = demo_session_disk \<Longrightarrow> get_token (demo_gv th k) g = Some (Inr ''A'', g)"
  using demo_storage_load by (intro demo_token_load) simp

lemma demo_token_at_hand: "token_at_hand (demo_gv th k) demo_session_disk"
  using demo_token_get by (fastforce simp: token_at_hand_def)

lemma demo_session_nodes: "dk_nodes demo_session_disk [''/'', ''s'', ''a''] = Some (FileNode ''A'' 5)"
  using storage_store_keeps[OF run_pair[OF demo_stores(1)]]
  by (simp add: demo_session_disk_def demo_session_def keeps_other_nodes_def demo_auth_world_def demo_disk_def demo_ga_path)

text \<open>The worker over this Drive sends the file \<open>a\<close>.\<close>

definition demo_drive_cx :: "string list gdrive option engine_context" where
  "demo_drive_cx = \<lparr>cx_cfg = demo_cfg, cx_provider = gdrive_provider (demo_gv 5000 0), cx_dry_run = False,
     cx_md5 = demo_md5, cx_disk = demo_disk, cx_walk = demo_walk demo_disk, cx_order = (\<lambda>xs. xs)\<rparr>"

definition demo_drive_world :: "string list gdrive option world" where
  "demo_drive_world = \<lparr>w_drive = Some (demo_drive_on demo_session_disk 0), w_db = demo_db, w_cache = pc_new,
     w_tracker = tracker_new, w_cancel = None, w_queue = [], w_rx_life = None, w_status = []\<rparr>"

lemma demo_drive_upload:
  "\<exists>g'. upload (demo_gv 5000 0) [''/'', ''s'', ''a''] ''R'' ''a'' None (demo_drive_on demo_session_disk 0) =
     Some (Inr (parse_upload_result demo_uploaded), g')"
proof -
  let ?g = "demo_drive_on demo_session_disk 0"
  have tok: "get_token (demo_gv 5000 0) ?g = Some (Inr ''A'', ?g)"
    by (rule demo_token_get) (simp add: demo_drive_on_def)
  have api: "api_acquire (demo_gv 5000 0) ?g = Some (Inr (), ?g)"
    by (simp add: api_acquire_def demo_drive_on_def rl_acquire_def rl_new_def)
  have c: "has_content (demo_gv 5000 0) [''/'', ''s'', ''a''] ''A'' ?g"
    using demo_session_nodes by (simp add: has_content_def demo_ga_path fs_read_Inr_iff demo_drive_on_def demo_session_fault)
  then have "upload (demo_gv 5000 0) [''/'', ''s'', ''a''] ''R'' ''a'' None ?g =
      upload_simple (demo_gv 5000 0) [''/'', ''s'', ''a''] ''R'' ''a'' None ?g"
    by (rule upload_is_simple) simp
  then show ?thesis
    using api tok c
    by (simp add: upload_simple_def gseq_def has_content_def wait_to_send_def is_cancelled_at_def send_or_cancel_def
        cancelled_first_def simple_request_def upload_method_def demo_http_def check_rate_limit_def ok_or_bail_def
        is_success_def count_bytes_def upload_answer_def demo_drive_on_def)
qed

lemma demo_drive_uploads:
  "\<exists>up w'. upload_from demo_drive_cx 1 [''/'', ''s'', ''a''] ''R'' ''a'' None demo_drive_world = (Inr up, w')"
proof -
  let ?up = "parse_upload_result demo_uploaded"
  have same: "demo_drive_on demo_session_disk 0\<lparr>gd_tracker := tracker_new\<rparr> = demo_drive_on demo_session_disk 0"
    by (simp add: demo_drive_on_def)
  obtain g' where u: "upload (demo_gv 5000 0) [''/'', ''s'', ''a''] ''R'' ''a'' None (demo_drive_on demo_session_disk 0) = Some (Inr ?up, g')"
    using demo_drive_upload by blast
  have "is_cancelled demo_drive_world = (Inr False, demo_drive_world)"
    by (simp add: is_cancelled_def demo_drive_world_def)
  moreover have "\<exists>w2. upload_once demo_drive_cx [''/'', ''s'', ''a''] ''R'' ''a'' None demo_drive_world = (Inr ?up, w2)"
    using u by (simp add: upload_once_def demo_drive_cx_def gdrive_provider_def gdrive_upload_def gdrive_call_def
        demo_drive_world_def same)
  moreover have "verify_upload demo_drive_cx [''/'', ''s'', ''a''] ?up = Inr IntegrityOk"
    unfolding verify_upload_ok_iff
    by (simp add: demo_drive_cx_def fs_read_Inr_iff demo_disk_def parse_upload_result_def demo_uploaded_def str_or_def
        as_str_def demo_md5_def)
  ultimately show ?thesis by (subst upload_from.simps) auto
qed

section \<open>A start-up\<close>

definition demo_start_disk :: disk where
  "demo_start_disk = \<lparr>dk_nodes = map_of
     [([''/'', ''s''], DirNode), ([''/''], DirNode),
      ([''/'', ''c'', ''syncgdrive'', ''config.toml''], FileNode ''A'' 5)], dk_fault = (\<lambda>_ _. None)\<rparr>"

end
