(* ===== verification/Ui_Base.thy ===== *)
theory Ui_Base
  imports Path_Display Bandwidth
begin

text \<open>
  What the parts of \<open>ui/\<close> share: the symbols of their texts, the two number formats of
  \<open>ui/tray.rs\<close>, the bounded channel towards the engine, and runs of events. As in
  Bandwidth, an \<open>f64\<close> is an exact rational.
\<close>

section \<open>Symbols\<close>

definition apostrophe :: string where "apostrophe = [CHR 0x27]"
definition newline :: string where "newline = [CHR 0x0A]"
definition A_grave :: string where "A_grave = [CHR 0xC3, CHR 0x80]"
definition em_dash :: string where "em_dash = [CHR 0xE2, CHR 0x80, CHR 0x94]"
definition sym_ellipsis :: string where "sym_ellipsis = [CHR 0xE2, CHR 0x80, CHR 0xA6]"
definition guillemet_l :: string where "guillemet_l = [CHR 0xC2, CHR 0xAB]"
definition guillemet_r :: string where "guillemet_r = [CHR 0xC2, CHR 0xBB]"
definition sym_dot :: string where "sym_dot = [CHR 0xC2, CHR 0xB7]"
definition sym_pause :: string where "sym_pause = [CHR 0xE2, CHR 0x8F, CHR 0xB8]"
definition sym_up :: string where "sym_up = [CHR 0xE2, CHR 0x86, CHR 0x91]"
definition sym_arrow :: string where "sym_arrow = [CHR 0xE2, CHR 0x86, CHR 0x92]"
definition sym_tick :: string where "sym_tick = [CHR 0xE2, CHR 0x9C, CHR 0x93]"
definition sym_tick_box :: string where "sym_tick_box = [CHR 0xE2, CHR 0x9C, CHR 0x85]"
definition sym_cross :: string where "sym_cross = [CHR 0xE2, CHR 0x9D, CHR 0x8C]"
definition sym_warning :: string where "sym_warning = [CHR 0xE2, CHR 0x9A, CHR 0xA0]"
definition sym_alert :: string where "sym_alert = sym_warning @ [CHR 0xEF, CHR 0xB8, CHR 0x8F]"
definition sym_globe :: string where "sym_globe = [CHR 0xF0, CHR 0x9F, CHR 0x8C, CHR 0x90]"
definition sym_shield :: string where
  "sym_shield = [CHR 0xF0, CHR 0x9F, CHR 0x9B, CHR 0xA1, CHR 0xEF, CHR 0xB8, CHR 0x8F]"
definition full_block :: string where "full_block = [CHR 0xE2, CHR 0x96, CHR 0x88]"
definition light_shade :: string where "light_shade = [CHR 0xE2, CHR 0x96, CHR 0x91]"

section \<open>Numbers\<close>

text \<open>\<open>f64::round\<close> on a number that is not negative: halves go up.\<close>

definition round_half_up :: "rat \<Rightarrow> nat" where
  "round_half_up x = nat \<lfloor>x + 1 / 2\<rfloor>"

text \<open>\<open>{:.0}\<close> and \<open>{:.1}\<close>: the nearest decimal, a half going to the even neighbour.\<close>

definition round_half_even :: "rat \<Rightarrow> nat" where
  "round_half_even x =
     (let n = \<lfloor>x\<rfloor>; r = x - of_int n in nat (if r < 1 / 2 \<or> (r = 1 / 2 \<and> even n) then n else n + 1))"

definition fixed_0 :: "rat \<Rightarrow> string" where
  "fixed_0 x = show_nat (round_half_even x)"

definition fixed_1 :: "rat \<Rightarrow> string" where
  "fixed_1 x = (let n = round_half_even (x * 10) in show_nat (n div 10) @ ''.'' @ show_nat (n mod 10))"

definition clamp_percent :: "rat \<Rightarrow> rat" where
  "clamp_percent p = (if p < 0 then 0 else if p > 100 then 100 else p)"

definition progress_filled :: "rat \<Rightarrow> nat \<Rightarrow> nat" where
  "progress_filled percent len = round_half_up (clamp_percent percent / 100 * of_nat len)"

definition progress_bar :: "rat \<Rightarrow> nat \<Rightarrow> string" where
  "progress_bar percent len =
     (let filled = progress_filled percent len; empty = len - filled in
      ''['' @ concat (replicate filled full_block) @ concat (replicate empty light_shade) @ '']'')"

definition kib :: nat where "kib = 1024"
definition mib :: nat where "mib = 1024 * kib"
definition gib :: nat where "gib = 1024 * mib"

definition human_size :: "64 word \<Rightarrow> string" where
  "human_size bytes =
     (let n = unat bytes in
      if n \<ge> gib then fixed_1 (of_nat n / of_nat gib) @ '' Go''
      else if n \<ge> mib then fixed_1 (of_nat n / of_nat mib) @ '' Mo''
      else if n \<ge> kib then fixed_0 (of_nat n / of_nat kib) @ '' Ko''
      else show_nat n @ '' o'')"

section \<open>Channels and runs\<close>

text \<open>
  \<open>mpsc::channel(n)\<close>: the messages sent and not yet received. \<open>channel_send\<close> drops the message when
  the channel is full or its receiver gone; every caller in \<open>ui/\<close> ignores that error.
\<close>

record 'm channel =
  ch_queue :: "'m list"
  ch_capacity :: nat
  ch_open :: bool

definition channel_send :: "'m \<Rightarrow> 'm channel \<Rightarrow> 'm channel" where
  "channel_send m ch =
     (if ch_open ch \<and> length (ch_queue ch) < ch_capacity ch
      then ch\<lparr>ch_queue := ch_queue ch @ [m]\<rparr> else ch)"

definition room :: "'m channel \<Rightarrow> nat" where
  "room ch = (if ch_open ch then ch_capacity ch - length (ch_queue ch) else 0)"

fun run_events :: "('e \<Rightarrow> 's \<Rightarrow> 's option) \<Rightarrow> 'e list \<Rightarrow> 's \<Rightarrow> 's option" where
  "run_events step [] s = Some s"
| "run_events step (e # es) s = (case step e s of None \<Rightarrow> None | Some s' \<Rightarrow> run_events step es s')"

section \<open>Facts\<close>

lemma channel_send_frame [simp]: "ch_capacity (channel_send m ch) = ch_capacity ch" "ch_open (channel_send m ch) = ch_open ch"
  by (simp_all add: channel_send_def)

lemma channel_send_queue: "ch_queue (channel_send m ch) = ch_queue ch @ (if room ch > 0 then [m] else [])"
  by (auto simp: channel_send_def room_def)

lemma room_channel_send [simp]: "room (channel_send m ch) = room ch - 1"
  by (auto simp: room_def channel_send_def)

lemma queue_after_sends: "ch_queue (fold channel_send ms ch) = ch_queue ch @ take (room ch) ms"
proof (induction ms arbitrary: ch)
  case Nil
  then show ?case by simp
next
  case (Cons m ms)
  then show ?case by (cases "room ch") (simp_all add: channel_send_queue)
qed

lemma run_events_append:
  "run_events step (es @ fs) s = Option.bind (run_events step es s) (run_events step fs)"
  by (induction es arbitrary: s) (auto split: option.splits)

text \<open>
  A component that reacts to events, with a predicate of its states and a relation between a
  state and a later one: what one reaction keeps, every run keeps.
\<close>

locale reactive =
  fixes step :: "'e \<Rightarrow> 's \<Rightarrow> 's option"
    and ok_r :: "'s \<Rightarrow> bool"
    and leads :: "'s \<Rightarrow> 's \<Rightarrow> bool"
  assumes ok_step: "ok_r s \<Longrightarrow> step e s = Some s' \<Longrightarrow> ok_r s'"
    and leads_refl: "leads s s"
    and leads_step: "ok_r s \<Longrightarrow> step e s = Some s' \<Longrightarrow> leads s s'"
    and leads_trans: "leads s s' \<Longrightarrow> leads s' s'' \<Longrightarrow> leads s s''"
begin

lemma run_keeps: "ok_r s \<Longrightarrow> run_events step es s = Some s' \<Longrightarrow> ok_r s' \<and> leads s s'"
proof (induction es arbitrary: s)
  case Nil
  then show ?case by (simp add: leads_refl)
next
  case (Cons e es)
  then obtain t where "step e s = Some t" "run_events step es t = Some s'"
    by (auto split: option.splits)
  with Cons ok_step leads_step leads_trans show ?case by blast
qed

end

lemma round_half_up_mono: "x \<le> y \<Longrightarrow> round_half_up x \<le> round_half_up y"
  unfolding round_half_up_def by (intro nat_mono floor_mono) simp

lemma round_half_up_of_nat [simp]: "round_half_up (of_nat n) = n"
proof -
  have "\<lfloor>of_int (int n) + 1 / 2 :: rat\<rfloor> = int n"
    by (rule floor_unique) simp_all
  then show ?thesis by (simp add: round_half_up_def)
qed

text \<open>The bar: never more cells than asked, all of them at 100 percent and above, none at zero.\<close>

lemma clamp_percent_range: "0 \<le> clamp_percent p" "clamp_percent p \<le> 100"
  by (auto simp: clamp_percent_def)

lemma clamp_percent_mono: "p \<le> q \<Longrightarrow> clamp_percent p \<le> clamp_percent q"
  by (auto simp: clamp_percent_def)

lemma progress_filled_mono: "p \<le> q \<Longrightarrow> progress_filled p n \<le> progress_filled q n"
  unfolding progress_filled_def
  by (intro round_half_up_mono mult_right_mono divide_right_mono clamp_percent_mono) auto

lemma progress_filled_full: "100 \<le> p \<Longrightarrow> progress_filled p n = n"
  by (cases "p = 100") (auto simp: progress_filled_def clamp_percent_def)

lemma progress_filled_none: "p \<le> 0 \<Longrightarrow> progress_filled p n = 0"
  by (cases "p = 0") (auto simp: progress_filled_def clamp_percent_def round_half_up_def)

lemma progress_filled_le: "progress_filled p n \<le> n"
proof -
  have "progress_filled p n \<le> progress_filled (max p 100) n"
    by (rule progress_filled_mono) simp
  then show ?thesis by (simp add: progress_filled_full)
qed

end
