(* ===== verification/Notif.thy ===== *)
theory Notif
  imports Ui_Base Config
begin

text \<open>
  \<open>notif.rs\<close>: the desktop notifications. A function gives the notifications handed to the
  desktop service (at most one); that the service fails is only logged. The functions for
  current events are kept in the interface and do nothing.
\<close>

datatype urgency = UrgencyNormal | UrgencyCritical

record notification =
  nt_summary :: string
  nt_body :: string
  nt_icon :: string
  nt_urgency :: urgency
  nt_timeout :: "32 word"

definition notif_send ::
  "app_config \<Rightarrow> string \<Rightarrow> string \<Rightarrow> string \<Rightarrow> urgency \<Rightarrow> 32 word \<Rightarrow> notification list" where
  "notif_send cfg summary body icon urgency timeout_ms =
     (if \<not> cf_notifications cfg then []
      else [\<lparr>nt_summary = summary, nt_body = body, nt_icon = icon, nt_urgency = urgency, nt_timeout = timeout_ms\<rparr>])"

section \<open>Silent events\<close>

definition scan_started :: "app_config \<Rightarrow> notification list" where "scan_started cfg = []"

definition scan_dirs_progress :: "app_config \<Rightarrow> nat \<Rightarrow> nat \<Rightarrow> notification list" where
  "scan_dirs_progress cfg dn tot = []"

definition scan_complete :: "app_config \<Rightarrow> nat \<Rightarrow> nat \<Rightarrow> nat \<Rightarrow> notification list" where
  "scan_complete cfg dirs to_sync skipped = []"

definition sync_progress :: "app_config \<Rightarrow> nat \<Rightarrow> nat \<Rightarrow> string \<Rightarrow> 64 word \<Rightarrow> notification list" where
  "sync_progress cfg dn tot nm sz = []"

definition sync_complete :: "app_config \<Rightarrow> nat \<Rightarrow> notification list" where "sync_complete cfg tot = []"
definition file_synced :: "app_config \<Rightarrow> string \<Rightarrow> notification list" where "file_synced cfg nm = []"
definition notif_paused :: "app_config \<Rightarrow> notification list" where "notif_paused cfg = []"
definition notif_resumed :: "app_config \<Rightarrow> notification list" where "notif_resumed cfg = []"

section \<open>Pop-ups\<close>

definition initial_sync_complete :: "app_config \<Rightarrow> notification list" where
  "initial_sync_complete cfg = notif_send cfg (''SyncGDrive '' @ em_dash @ '' Synchronisation termin'' @ e_acute @ ''e '' @ sym_tick)
     (''Le dossier est '' @ a_grave @ '' jour.'' @ newline @ ''Surveillance active, vous pouvez travailler en toute s'' @ e_acute @ ''curit'' @ e_acute @ ''.'')
     ''emblem-ok-symbolic'' UrgencyNormal (av_notification_timeout_ms (cf_advanced cfg))"

definition notif_error :: "app_config \<Rightarrow> string \<Rightarrow> notification list" where
  "notif_error cfg message = notif_send cfg (''SyncGDrive '' @ em_dash @ '' Action requise '' @ sym_warning) message ''dialog-error'' UrgencyCritical 0"

definition folder_missing :: "app_config \<Rightarrow> string \<Rightarrow> notification list" where
  "folder_missing cfg p = notif_send cfg (''SyncGDrive '' @ em_dash @ '' Dossier introuvable'')
     ((''Le dossier surveill'' @ e_acute @ '' '' @ guillemet_l @ '' '') @ p @ ('' '' @ guillemet_r @ '' a '' @ e_acute @ ''t'' @ e_acute @ '' renomm'' @ e_acute @ '' ou supprim'' @ e_acute @ ''.'' @ newline @ ''Moteur en pause.''))
     ''folder-open'' UrgencyCritical 0"

definition quota_exceeded :: "app_config \<Rightarrow> notification list" where
  "quota_exceeded cfg = notif_send cfg (''SyncGDrive '' @ em_dash @ '' Espace insuffisant'')
     (''Quota Google Drive ou disque local plein.'' @ newline @ ''Transferts suspendus.'') ''drive-harddisk'' UrgencyCritical 0"

definition connection_restored :: "app_config \<Rightarrow> notification list" where
  "connection_restored cfg = notif_send cfg (''SyncGDrive '' @ em_dash @ '' Connexion r'' @ e_acute @ ''tablie '' @ sym_globe)
     (''Le r'' @ e_acute @ ''seau est de nouveau disponible.'' @ newline @ ''Synchronisation des modifications en attente...'')
     ''network-transmit-receive-symbolic'' UrgencyNormal (av_notification_timeout_ms (cf_advanced cfg))"

definition connection_lost :: "app_config \<Rightarrow> notification list" where
  "connection_lost cfg = notif_send cfg (''SyncGDrive '' @ em_dash @ '' Connexion perdue '' @ sym_alert)
     (''Le r'' @ e_acute @ ''seau est indisponible. Passage en mode SURVIE.'' @ newline @ ''Vos modifications sont sauvegard'' @ e_acute @ ''es en attente du retour en ligne.'')
     ''network-offline-symbolic'' UrgencyCritical 0"

section \<open>Facts\<close>

text \<open>Switched off, nothing pops up; switched on, a critical one stays until it is clicked.\<close>

lemma notif_send_off [simp]: "\<not> cf_notifications cfg \<Longrightarrow> notif_send cfg s b i u t = []"
  by (simp add: notif_send_def)

lemma length_notif_send: "length (notif_send cfg s b i u t) \<le> 1"
  by (simp add: notif_send_def)

end
