(* ===== verification/Icons.thy ===== *)
theory Icons
  imports Prelude "HOL-Library.Word"
begin

text \<open>
  \<open>ui/icons.rs\<close>: the choice of the embedded SVG file for a tray icon, and its rendering to
  ARGB32. The contents of \<open>assets/icons/\<close> and the crates usvg, tiny_skia and resvg are
  parameters. An index out of range is a panic, \<open>None\<close>.
\<close>

datatype tray_icon =
    IconIdle
  | IconStarting nat
  | IconScanning nat
  | IconOffline
  | IconError
  | IconPaused
  | IconSync nat
  | IconSettings
  | IconHelp

definition frame_files :: "string \<Rightarrow> string list" where
  "frame_files kind = map (\<lambda>i. kind @ ''_'' @ show_nat i @ ''.svg'') [1..<9]"

definition icon_scan_frames :: "string list" where "icon_scan_frames = frame_files ''scan''"
definition icon_starting_frames :: "string list" where "icon_starting_frames = frame_files ''starting''"
definition icon_sync_frames :: "string list" where "icon_sync_frames = frame_files ''sync''"

text \<open>The files named in \<open>include_bytes!\<close>.\<close>

definition embedded_icons :: "string list" where
  "embedded_icons = [''idle.svg'', ''offline.svg'', ''error.svg'', ''paused.svg'', ''settings.svg'', ''help.svg'']
     @ icon_scan_frames @ icon_starting_frames @ icon_sync_frames"

definition starting_frame :: "nat \<Rightarrow> nat" where
  "starting_frame percent =
     (if percent \<le> 14 then 0 else if percent \<le> 29 then 1 else if percent \<le> 44 then 2
      else if percent \<le> 59 then 3 else if percent \<le> 74 then 4 else if percent \<le> 89 then 5
      else if percent \<le> 99 then 6 else 7)"

definition index_opt :: "'a list \<Rightarrow> nat \<Rightarrow> 'a option" where
  "index_opt xs i = (if i < length xs then Some (xs ! i) else None)"

definition icon_file_of :: "tray_icon \<Rightarrow> string option" where
  "icon_file_of icon =
     (case icon of
        IconIdle \<Rightarrow> Some ''idle.svg''
      | IconStarting percent \<Rightarrow> index_opt icon_starting_frames (starting_frame percent)
      | IconScanning frame \<Rightarrow> index_opt icon_scan_frames (frame mod length icon_scan_frames)
      | IconOffline \<Rightarrow> Some ''offline.svg''
      | IconError \<Rightarrow> Some ''error.svg''
      | IconPaused \<Rightarrow> Some ''paused.svg''
      | IconSync frame \<Rightarrow> index_opt icon_sync_frames (frame mod length icon_sync_frames)
      | IconSettings \<Rightarrow> Some ''settings.svg''
      | IconHelp \<Rightarrow> Some ''help.svg'')"

record pixel =
  px_red :: "8 word"
  px_green :: "8 word"
  px_blue :: "8 word"
  px_alpha :: "8 word"

text \<open>\<open>sv_render\<close>: the pixels of the tree drawn with the two scales on a pixmap of the given size.\<close>

record 't svg_crate =
  sv_from_data :: "string \<Rightarrow> 't option"
  sv_size :: "'t \<Rightarrow> rat \<times> rat"
  sv_render :: "'t \<Rightarrow> rat \<Rightarrow> rat \<Rightarrow> nat \<Rightarrow> nat \<Rightarrow> pixel list"

definition fallback_svg :: string where
  "fallback_svg = ''<svg viewBox=\"0 0 24 24\"></svg>''"

definition render_svg_to_argb32 :: "'t svg_crate \<Rightarrow> string \<Rightarrow> nat \<Rightarrow> nat \<Rightarrow> 8 word list option" where
  "render_svg_to_argb32 sv data w h =
     map_option (\<lambda>tree.
       let scale_x = of_nat w / fst (sv_size sv tree); scale_y = of_nat h / snd (sv_size sv tree) in
       concat (map (\<lambda>p. [px_alpha p, px_red p, px_green p, px_blue p]) (sv_render sv tree scale_x scale_y w h)))
     (case sv_from_data sv data of Some tree \<Rightarrow> Some tree | None \<Rightarrow> sv_from_data sv fallback_svg)"

definition get_icon_pixmap :: "'t svg_crate \<Rightarrow> (string \<Rightarrow> string) \<Rightarrow> tray_icon \<Rightarrow> 8 word list option" where
  "get_icon_pixmap sv assets icon =
     Option.bind (icon_file_of icon) (\<lambda>f. render_svg_to_argb32 sv (assets f) 24 24)"

section \<open>Facts\<close>

lemma length_frame_files [simp]: "length (frame_files kind) = 8"
  by (simp add: frame_files_def)

lemma length_frames [simp]:
  "length icon_scan_frames = 8" "length icon_starting_frames = 8" "length icon_sync_frames = 8"
  by (simp_all add: icon_scan_frames_def icon_starting_frames_def icon_sync_frames_def)

lemma starting_frame_lt: "starting_frame percent < 8"
  by (simp add: starting_frame_def)

lemma starting_frame_mono: "p \<le> q \<Longrightarrow> starting_frame p \<le> starting_frame q"
  by (simp add: starting_frame_def)

text \<open>No index is out of range, whatever the percentage and the frame counter.\<close>

lemma icon_file_embedded: "\<exists>f. icon_file_of icon = Some f \<and> f \<in> set embedded_icons"
  using starting_frame_lt by (cases icon) (auto simp: icon_file_of_def index_opt_def embedded_icons_def)

lemma length_concat_4: "length (concat (map (\<lambda>p. [f p, g p, h p, k p]) xs)) = 4 * length xs"
  by (induction xs) simp_all

text \<open>
  What the crates promise: the fallback is an SVG document, and a pixmap of \<open>w\<close> times \<open>h\<close> has
  that many pixels.
\<close>

definition svg_sound :: "'t svg_crate \<Rightarrow> bool" where
  "svg_sound sv = (sv_from_data sv fallback_svg \<noteq> None \<and>
     (\<forall>t x y w h. length (sv_render sv t x y w h) = w * h))"

lemma icon_pixmap_size:
  assumes "svg_sound sv"
  shows "\<exists>px. get_icon_pixmap sv assets icon = Some px \<and> length px = 2304"
proof -
  obtain f where "icon_file_of icon = Some f" using icon_file_embedded by blast
  with assms show ?thesis
    by (cases "sv_from_data sv (assets f)")
      (auto simp: get_icon_pixmap_def render_svg_to_argb32_def svg_sound_def length_concat_4 Let_def)
qed

end
