(* ===== verification/Tray.thy ===== *)
theory Tray
  imports Engine Notif Icons
begin

text \<open>
  \<open>ui/tray.rs\<close>: the icon of the notification area. Its loop is a step function over events: a
  tick of the animation, a message of the engine, a click on an entry of the menu. What leaves
  the program (notifications, started programs, \<open>systemctl\<close>) is logged in \<open>sy_outside\<close>.
\<close>

section \<open>State\<close>

datatype ui_command = ShowHelp | ShowSettings | ShowAbout | ShowScanWindow

datatype outside = Notified notification | Started string string | Systemctl string

record sync_tray =
  sy_status :: engine_status
  sy_commands :: "engine_command channel"
  sy_config :: app_config
  sy_cancelled :: bool
  sy_log_dir :: string
  sy_last_synced :: string
  sy_autostart :: bool
  sy_notified :: bool
  sy_frame :: nat
  sy_animating :: bool
  sy_ui :: "ui_command list"
  sy_dry_run :: bool
  sy_running :: bool
  sy_outside :: "outside list"

text \<open>\<open>open_external\<close> of \<open>utils/path_display.rs\<close>, as built for Linux: a failure to start is ignored.\<close>

definition open_external :: "string \<Rightarrow> outside" where
  "open_external target = Started ''xdg-open'' target"

text \<open>\<open>spawn_tray\<close>; \<open>autostart\<close> is the answer of \<open>systemctl --user is-enabled\<close>.\<close>

definition spawn_tray ::
  "engine_command channel \<Rightarrow> app_config \<Rightarrow> bool \<Rightarrow> string \<Rightarrow> bool \<Rightarrow> bool \<Rightarrow> sync_tray" where
  "spawn_tray commands cfg autostart log_dir open_settings dry_run =
     \<lparr>sy_status = Starting 0, sy_commands = commands, sy_config = cfg, sy_cancelled = False,
      sy_log_dir = log_dir, sy_last_synced = [], sy_autostart = autostart, sy_notified = False,
      sy_frame = 0, sy_animating = False, sy_ui = (if open_settings then [ShowSettings] else []),
      sy_dry_run = dry_run, sy_running = True, sy_outside = []\<rparr>"

definition is_active :: "engine_status \<Rightarrow> bool" where
  "is_active s = (case s of ScanProgress _ _ _ _ \<Rightarrow> True | SyncProgress _ \<Rightarrow> True | Syncing _ \<Rightarrow> True | _ \<Rightarrow> False)"

definition tray_tick :: "sync_tray \<Rightarrow> sync_tray" where
  "tray_tick t =
     (if is_active (sy_status t)
      then t\<lparr>sy_frame := (sy_frame t + 1) mod 8, sy_animating := True\<rparr> else t)"

definition tray_update :: "engine_status \<Rightarrow> sync_tray \<Rightarrow> sync_tray" where
  "tray_update s t =
     (let t1 = (case s of SyncProgress snap \<Rightarrow> t\<lparr>sy_last_synced := ps_current_name snap\<rparr> | _ \<Rightarrow> t);
          t2 = (if s = Idle \<and> \<not> sy_notified t1 \<and> sy_last_synced t1 \<noteq> []
                then t1\<lparr>sy_notified := True,
                       sy_outside := sy_outside t1 @ map Notified (initial_sync_complete (sy_config t1))\<rparr>
                else t1) in
      t2\<lparr>sy_animating := is_active s, sy_status := s\<rparr>)"

text \<open>\<open>None\<close>: the engine has dropped its end of the channel.\<close>

definition tray_receive :: "engine_status option \<Rightarrow> sync_tray \<Rightarrow> sync_tray" where
  "tray_receive m t =
     (case m of
        None \<Rightarrow> t\<lparr>sy_running := False\<rparr>
      | Some s \<Rightarrow>
          (let t1 = tray_update s t in
           if s = Stopped then t1\<lparr>sy_cancelled := True, sy_running := False\<rparr> else t1))"

section \<open>What is shown\<close>

definition tray_icon_of :: "sync_tray \<Rightarrow> tray_icon" where
  "tray_icon_of t =
     (case sy_status t of
        Starting p \<Rightarrow> IconStarting p
      | Unconfigured _ \<Rightarrow> IconError
      | Idle \<Rightarrow> IconIdle
      | ScanProgress _ _ _ _ \<Rightarrow> IconScanning (if sy_animating t then sy_frame t else 0)
      | SyncProgress _ \<Rightarrow> IconSync (if sy_animating t then sy_frame t else 0)
      | Syncing _ \<Rightarrow> IconSync (if sy_animating t then sy_frame t else 0)
      | StatusPaused \<Rightarrow> IconPaused
      | StatusError _ \<Rightarrow> IconError
      | Stopped \<Rightarrow> IconOffline
      | StatusSettings \<Rightarrow> IconSettings
      | StatusHelp \<Rightarrow> IconHelp)"

definition tray_pixmap :: "'t svg_crate \<Rightarrow> (string \<Rightarrow> string) \<Rightarrow> sync_tray \<Rightarrow> 8 word list option" where
  "tray_pixmap sv assets t = get_icon_pixmap sv assets (tray_icon_of t)"

definition phase_label :: "scan_phase \<Rightarrow> string" where
  "phase_label ph =
     (case ph of
        RemoteListing \<Rightarrow> ''Analyse Drive''
      | LocalListing \<Rightarrow> ''Analyse locale''
      | Directories \<Rightarrow> (''Cr'' @ e_acute @ ''ation dossiers'')
      | Comparing \<Rightarrow> ''Comparaison'')"

definition scan_title :: "scan_phase \<Rightarrow> nat \<Rightarrow> nat \<Rightarrow> string" where
  "scan_title ph dn tot =
     (if tot > 0 then (''SyncGDrive '' @ em_dash @ '' '') @ phase_label ph @ '' '' @ show_nat dn @ ''/'' @ show_nat tot
      else if dn > 0 then (''SyncGDrive '' @ em_dash @ '' '') @ phase_label ph @ '' ('' @ show_nat dn @ '')''
      else (''SyncGDrive '' @ em_dash @ '' '') @ phase_label ph @ sym_ellipsis)"

definition base_title :: "engine_status \<Rightarrow> string" where
  "base_title s =
     (case s of
        Starting p \<Rightarrow> (''SyncGDrive '' @ em_dash @ '' D'' @ e_acute @ ''marrage ('') @ show_nat p @ (''%)'' @ sym_ellipsis)
      | Unconfigured _ \<Rightarrow> (''SyncGDrive '' @ em_dash @ '' Configuration requise'')
      | Idle \<Rightarrow> (''SyncGDrive '' @ em_dash @ '' Surveillance active'')
      | ScanProgress ph dn tot _ \<Rightarrow> scan_title ph dn tot
      | SyncProgress snap \<Rightarrow>
          (''SyncGDrive '' @ em_dash @ '' '' @ sym_up @ '' '') @ show_nat (unat (min (ps_done_files snap + 1) (ps_total_files snap)))
            @ ''/'' @ show_nat (unat (ps_total_files snap))
      | Syncing active \<Rightarrow> (''SyncGDrive '' @ em_dash @ '' '') @ show_nat active @ '' transfert(s)''
      | StatusPaused \<Rightarrow> (''SyncGDrive '' @ em_dash @ '' '' @ sym_pause @ '' En pause'')
      | StatusError _ \<Rightarrow> (''SyncGDrive '' @ em_dash @ '' Erreur'')
      | Stopped \<Rightarrow> (''SyncGDrive '' @ em_dash @ '' Arr'' @ e_circ @ ''t'' @ e_acute)
      | StatusSettings \<Rightarrow> (''SyncGDrive '' @ em_dash @ '' Param'' @ e_grave @ ''tres'')
      | StatusHelp \<Rightarrow> (''SyncGDrive '' @ em_dash @ '' Aide & Configuration''))"

definition tray_title :: "sync_tray \<Rightarrow> string" where
  "tray_title t =
     (if sy_dry_run t then base_title (sy_status t) @ ('' '' @ sym_shield @ '' (SIMULATION)'') else base_title (sy_status t))"

definition idle_tip :: "sync_tray \<Rightarrow> string" where
  "idle_tip t =
     (let lst = (if sy_last_synced t = [] then [] else (newline @ sym_tick_box @ '' Dernier transfert : '') @ sy_last_synced t);
          local_disp = (case cf_sync_pairs (sy_config t) of p # _ \<Rightarrow> sp_local_path p | [] \<Rightarrow> (''Non configur'' @ e_acute));
          remote_disp = (case cf_sync_pairs (sy_config t) of p # _ \<Rightarrow> sp_remote_folder_id p | [] \<Rightarrow> ''Aucun'') in
      (''Surveillance active '' @ em_dash @ '' Dossier '' @ a_grave @ '' jour.'' @ newline) @ local_disp @ ('' '' @ sym_arrow @ '' '') @ remote_disp @ lst)"

definition ratio_percent :: "nat \<Rightarrow> nat \<Rightarrow> rat" where
  "ratio_percent dn tot = (if tot > 0 then of_nat dn / of_nat tot * 100 else 0)"

definition scan_tip :: "scan_phase \<Rightarrow> nat \<Rightarrow> nat \<Rightarrow> string \<Rightarrow> string" where
  "scan_tip ph dn tot current =
     (let clean_name = snd (split_path_display current); pct = ratio_percent dn tot in
      case ph of
        RemoteListing \<Rightarrow> (''Analyse Google Drive en cours'' @ sym_ellipsis @ newline @ ''(Lecture de : '') @ clean_name @ '')''
      | LocalListing \<Rightarrow> (''Analyse du disque local'' @ sym_ellipsis @ newline)
          @ (if dn > 0 then ''('' @ show_nat dn @ ('' '' @ e_acute @ ''l'' @ e_acute @ ''ments index'' @ e_acute @ ''s)'') else ''('' @ clean_name @ '')'')
      | Directories \<Rightarrow> (''Cr'' @ e_acute @ ''ation de l'' @ apostrophe @ ''arborescence : '') @ fixed_0 pct @ ''% '' @ progress_bar pct 10
          @ (newline @ ''Dossier : '') @ clean_name @ (newline @ ''('') @ show_nat dn @ '' sur '' @ show_nat tot @ ('' cr'' @ e_acute @ e_acute @ ''s)'')
      | Comparing \<Rightarrow> (''Comparaison avec la base de donn'' @ e_acute @ ''es'' @ sym_ellipsis @ '' '') @ fixed_0 pct @ ''% '' @ progress_bar pct 10
          @ (newline @ ''('') @ show_nat dn @ ''/'' @ show_nat tot @ ('' fichiers analys'' @ e_acute @ ''s)''))"

definition global_percent :: "progress_snapshot \<Rightarrow> rat" where
  "global_percent snap =
     (if ps_total_bytes snap > 0
      then clamp_percent (as_f64 (ps_sent_bytes snap) / as_f64 (ps_total_bytes snap) * 100) else 0)"

definition sync_tip :: "progress_snapshot \<Rightarrow> string" where
  "sync_tip snap =
     (let full_rel_path = (if ps_current_dir snap = [] \<or> ps_current_dir snap = ''/'' then ps_current_name snap
                           else ps_current_dir snap @ ''/'' @ ps_current_name snap) in
      format_path_tooltip full_rel_path @ newline @ progress_bar (global_percent snap) 15 @ '' ''
        @ fixed_0 (global_percent snap) @ (''% '' @ sym_dot @ '' '') @ human_size (ps_speed_bps snap) @ (''/s '' @ sym_dot @ '' '')
        @ ps_eta_string snap @ (newline @ ''Total : '') @ human_size (ps_sent_bytes snap) @ '' / ''
        @ human_size (ps_total_bytes snap))"

definition tray_description :: "sync_tray \<Rightarrow> string" where
  "tray_description t =
     (case sy_status t of
        Starting p \<Rightarrow> ''Initialisation en cours ('' @ show_nat p @ (''%)'' @ sym_ellipsis)
      | Unconfigured reason \<Rightarrow> (''Ouvrez les R'' @ e_acute @ ''glages pour configurer.'' @ newline) @ reason
      | Idle \<Rightarrow> idle_tip t
      | ScanProgress ph dn tot current \<Rightarrow> scan_tip ph dn tot current
      | SyncProgress snap \<Rightarrow> sync_tip snap
      | Syncing _ \<Rightarrow> (''Transferts vers Google Drive'' @ sym_ellipsis)
      | StatusPaused \<Rightarrow> (''Moteur suspendu.'' @ newline @ ''(Ouvrez le menu contextuel pour reprendre)'')
      | StatusError e \<Rightarrow> e @ (newline @ ''V'' @ e_acute @ ''rifiez les logs ou les tokens KIO.'')
      | Stopped \<Rightarrow> (''Le moteur est arr'' @ e_circ @ ''t'' @ e_acute @ ''.'')
      | StatusSettings \<Rightarrow> ''Synchronisation en pause pendant la configuration.''
      | StatusHelp \<Rightarrow> (''Synchronisation en pause pendant l'' @ apostrophe @ ''affichage de la fen'' @ e_circ @ ''tre.''))"

definition tool_tip :: "sync_tray \<Rightarrow> string \<times> string" where
  "tool_tip t = (tray_title t, tray_description t)"

section \<open>The menu\<close>

text \<open>The closures \<open>activate\<close> as data.\<close>

datatype menu_action =
    NoAction
  | SendCommand engine_command
  | OpenWith string
  | ToggleAutostart
  | ShowUi ui_command
  | QuitApp

datatype menu_item =
    MenuSeparator
  | StandardItem (item_label: string) (item_enabled: bool) (item_icon: string) (item_action: menu_action)

definition offers_resume :: "engine_status \<Rightarrow> bool" where
  "offers_resume s = (s = StatusPaused \<or> s = StatusSettings)"

definition main_entry :: "engine_status \<Rightarrow> menu_item" where
  "main_entry s =
     (if offers_resume s
      then StandardItem ''Reprendre la synchronisation'' True ''media-playback-start'' (SendCommand Resume)
      else if is_active s
      then StandardItem ''Mettre en pause'' True ''media-playback-pause'' (SendCommand Pause)
      else StandardItem ''Synchroniser maintenant'' True ''emblem-synchronizing'' (SendCommand ForceScan))"

definition drive_url :: "string \<Rightarrow> string" where
  "drive_url folder = ''https://drive.google.com/drive/folders/'' @ folder"

definition tray_menu :: "sync_tray \<Rightarrow> menu_item list" where
  "tray_menu t =
     (let local = (case cf_sync_pairs (sy_config t) of p # _ \<Rightarrow> sp_local_path p | [] \<Rightarrow> []);
          remote = (case cf_sync_pairs (sy_config t) of p # _ \<Rightarrow> sp_remote_folder_id p | [] \<Rightarrow> []);
          label = (if sy_autostart t then (''Lancer au d'' @ e_acute @ ''marrage '' @ sym_tick) else (''Lancer au d'' @ e_acute @ ''marrage'')) in
      [StandardItem (tray_title t) False [] NoAction,
       MenuSeparator,
       main_entry (sy_status t),
       MenuSeparator,
       StandardItem ''Ouvrir le dossier local'' True ''folder-open'' (OpenWith local),
       StandardItem ''Ouvrir Google Drive'' True ''folder-remote'' (OpenWith (drive_url remote)),
       MenuSeparator,
       StandardItem label True ''system-run'' ToggleAutostart,
       StandardItem (''R'' @ e_acute @ ''glages'' @ sym_ellipsis) True ''preferences-system'' (ShowUi ShowSettings),
       StandardItem ''Voir les logs'' True ''text-x-log'' (OpenWith (sy_log_dir t)),
       StandardItem ''Aide & Configuration'' True ''help-contents'' (ShowUi ShowHelp),
       StandardItem (A_grave @ '' propos'') True ''help-about'' (ShowUi ShowAbout),
       MenuSeparator,
       StandardItem ''Quitter SyncGDrive'' True ''application-exit'' QuitApp])"

definition toggle_autostart :: "bool \<Rightarrow> outside" where
  "toggle_autostart enable = Systemctl (if enable then ''enable'' else ''disable'')"

definition activate :: "menu_action \<Rightarrow> sync_tray \<Rightarrow> sync_tray" where
  "activate a t =
     (case a of
        NoAction \<Rightarrow> t
      | SendCommand c \<Rightarrow> t\<lparr>sy_commands := channel_send c (sy_commands t)\<rparr>
      | OpenWith target \<Rightarrow> t\<lparr>sy_outside := sy_outside t @ [Started ''xdg-open'' target]\<rparr>
      | ToggleAutostart \<Rightarrow>
          t\<lparr>sy_autostart := \<not> sy_autostart t,
            sy_outside := sy_outside t @ [toggle_autostart (\<not> sy_autostart t)]\<rparr>
      | ShowUi u \<Rightarrow> t\<lparr>sy_ui := sy_ui t @ [u]\<rparr>
      | QuitApp \<Rightarrow> t\<lparr>sy_cancelled := True, sy_commands := channel_send Shutdown (sy_commands t)\<rparr>)"

definition click :: "nat \<Rightarrow> sync_tray \<Rightarrow> sync_tray option" where
  "click i t =
     (if i \<ge> length (tray_menu t) then None
      else case tray_menu t ! i of
        MenuSeparator \<Rightarrow> None
      | StandardItem _ enabled _ a \<Rightarrow> if enabled then Some (activate a t) else None)"

section \<open>The loop\<close>

text \<open>The \<open>select!\<close> is \<open>biased\<close>: the token is looked at before each event.\<close>

datatype tray_event = Tick | Received "engine_status option" | Clicked nat

definition tray_step :: "tray_event \<Rightarrow> sync_tray \<Rightarrow> sync_tray option" where
  "tray_step ev t =
     (if \<not> sy_running t then None
      else if sy_cancelled t then Some (t\<lparr>sy_running := False\<rparr>)
      else case ev of
        Tick \<Rightarrow> Some (tray_tick t)
      | Received m \<Rightarrow> Some (tray_receive m t)
      | Clicked i \<Rightarrow> click i t)"

end
