(* ===== verification/Settings.thy ===== *)
theory Settings
  imports Tray Auth
begin

text \<open>
  \<open>ui/settings.rs\<close>: the window of the settings. The widgets are a record of what they hold;
  an event is what the user does to one of them, and a background thread that reports to the
  window is one event. Panics end the process (\<open>panic = "abort"\<close>): a result \<open>None\<close>. GTK clamps
  the value of a spin row to its bounds and does not deliver clicks on an insensitive button.
\<close>

section \<open>Checks while typing\<close>

text \<open>\<open>&text[2..]\<close> panics on the one-byte text \<open>"~"\<close>.\<close>

definition settings_expand_tilde :: "environment \<Rightarrow> string \<Rightarrow> string option" where
  "settings_expand_tilde env text =
     (if starts_with text ''~/'' \<or> text = ''~''
      then map_option (push_str (home_dir env)) (slice_from 2 text)
      else Some text)"

definition is_local_valid :: "environment \<Rightarrow> disk \<Rightarrow> string \<Rightarrow> bool option" where
  "is_local_valid env dk text =
     (if trim text = [] then Some False
      else map_option (\<lambda>p. path_is_dir (components p) dk) (settings_expand_tilde env (trim text)))"

definition supported_prefixes :: "string list" where
  "supported_prefixes = [''gdrive://'', ''gdrive:/'', ''smb://'', ''sftp://'', ''webdav://'', ''ftp://'']"

definition is_remote_valid :: "string \<Rightarrow> bool" where
  "is_remote_valid raw =
     (let text = trim raw in
      if text = [] then False
      else if text = ''root'' then True
      else if CHR '' '' \<notin> set text \<and> length text > 15 then True
      else list_ex (starts_with text) supported_prefixes)"

text \<open>The icon at the end of a row: its name and its tooltip.\<close>

type_synonym row_icon = "string option \<times> string option"

definition update_local_status :: "environment \<Rightarrow> disk \<Rightarrow> string \<Rightarrow> row_icon \<Rightarrow> row_icon option" where
  "update_local_status env dk text icon =
     (if trim text = [] then Some (None, snd icon)
      else map_option (\<lambda>ok. if ok then (Some ''emblem-ok-symbolic'', Some ''Dossier valide'')
             else (Some ''dialog-error-symbolic'', Some (''Ce dossier n'' @ apostrophe @ ''existe pas'')))
        (is_local_valid env dk text))"

definition update_remote_status :: "string \<Rightarrow> row_icon" where
  "update_remote_status text =
     (if trim text = [] then (None, None)
      else if is_remote_valid text then (Some ''emblem-ok-symbolic'', Some ''Identifiant ou chemin valide'')
      else (Some ''dialog-error-symbolic'', Some (''Veuillez entrer '' @ apostrophe @ ''root'' @ apostrophe @ '' ou un ID Google Drive valide'')))"

text \<open>\<open>&&\<close> looks at the remote text only after the local one was found valid.\<close>

definition update_save_sensitivity :: "environment \<Rightarrow> disk \<Rightarrow> string \<Rightarrow> string \<Rightarrow> bool option" where
  "update_save_sensitivity env dk local remote =
     map_option (\<lambda>ok. ok \<and> is_remote_valid remote) (is_local_valid env dk local)"

section \<open>Exclusions\<close>

definition collect_patterns :: "string list \<Rightarrow> string list" where
  "collect_patterns titles = filter (\<lambda>t. t \<noteq> []) titles"

definition path_to_glob :: "disk \<Rightarrow> string \<Rightarrow> string \<Rightarrow> string" where
  "path_to_glob dk local_root_text selected =
     (let sel = components selected;
          nm = (case path_file_name sel of None \<Rightarrow> [] | Some n \<Rightarrow> n) in
      if nm = [] then []
      else case strip_prefix (components local_root_text) sel of
        Some rel \<Rightarrow>
          (if path_is_dir sel dk then ''**/'' @ path_string rel @ ''/**'' else ''**/'' @ path_string rel)
      | None \<Rightarrow>
          (if path_is_dir sel dk then ''**/'' @ nm @ ''/**'' else ''**/'' @ nm))"

section \<open>The account row\<close>

record account_row =
  ar_label :: string
  ar_classes :: "string list"
  ar_subtitle :: string
  ar_sensitive :: bool

definition add_class :: "string \<Rightarrow> account_row \<Rightarrow> account_row" where
  "add_class c r = r\<lparr>ar_classes := (if c \<in> set (ar_classes r) then ar_classes r else ar_classes r @ [c])\<rparr>"

definition remove_class :: "string \<Rightarrow> account_row \<Rightarrow> account_row" where
  "remove_class c r = r\<lparr>ar_classes := filter (\<lambda>x. x \<noteq> c) (ar_classes r)\<rparr>"

definition account_row_new :: "bool \<Rightarrow> account_row" where
  "account_row_new is_connected =
     (if is_connected
      then \<lparr>ar_label = (''R'' @ e_acute @ ''voquer l'' @ apostrophe @ ''acc'' @ e_grave @ ''s''), ar_classes = [''destructive-action''],
            ar_subtitle = ''Chargement des informations du compte...'', ar_sensitive = True\<rparr>
      else \<lparr>ar_label = ''Lier'', ar_classes = [''suggested-action''],
            ar_subtitle = ''Lier un compte Google Drive'', ar_sensitive = True\<rparr>)"

definition linked_subtitle :: "string \<times> string \<Rightarrow> string" where
  "linked_subtitle info = (sym_tick_box @ '' Compte li'' @ e_acute @ '' : '') @ fst info @ (newline @ ''Token valide jusqu'' @ apostrophe @ ''au '') @ snd info"

section \<open>State\<close>

text \<open>What the settings use of the outside: the crates, the variables of the environment.\<close>

record ('k, 's) ui_env =
  ue_auth :: "('k, 's) auth_crates"
  ue_toml :: toml_crate
  ue_vars :: environment
  ue_client_id :: "string option"
  ue_client_secret :: "string option"

text \<open>The world of the session, with the channel towards the engine.\<close>

record 's ui_world = "'s auth_world" +
  uw_commands :: "engine_command channel"

record settings_form =
  sf_config :: app_config
  sf_primary :: sync_pair
  sf_local :: string
  sf_local_icon :: row_icon
  sf_remote :: string
  sf_remote_icon :: row_icon
  sf_can_save :: bool
  sf_patterns :: "string list"
  sf_workers :: nat
  sf_notifications :: bool
  sf_account :: account_row
  sf_loading :: bool
  sf_toasts :: "(string \<times> nat) list"
  sf_saved :: bool
  sf_open :: bool

definition google_auth_of :: "('k, 's) ui_env \<Rightarrow> 'k google_auth option" where
  "google_auth_of ue = auth_new (ue_auth ue) (ue_vars ue) (ue_client_id ue) (ue_client_secret ue)"

text \<open>
  \<open>fetch_auth_info_async\<close>: the outer \<open>None\<close> is a panic, the inner one a browser login that
  never comes back.
\<close>

definition fetch_auth_info ::
  "('k, 's) ui_env \<Rightarrow> ('s, 'z) auth_world_scheme \<Rightarrow> ((string \<times> string) \<times> ('s, 'z) auth_world_scheme) option option" where
  "fetch_auth_info ue w =
     map_option (\<lambda>ga. map_option (\<lambda>(r, w').
         ((case r of Inl _ \<Rightarrow> ''Inconnu'' | Inr email \<Rightarrow> email,
           get_token_expiration_date (ue_auth ue) ga (aw_disk w')), w'))
       (get_user_email (ue_auth ue) ga w))
     (google_auth_of ue)"

definition toast :: "string \<Rightarrow> nat \<Rightarrow> settings_form \<Rightarrow> settings_form" where
  "toast title timeout f = f\<lparr>sf_toasts := sf_toasts f @ [(title, timeout)]\<rparr>"

section \<open>Opening\<close>

text \<open>The rows of the window, from the first pair; the exclusions, from the first active one.\<close>

definition local_row_text :: "app_config \<Rightarrow> string" where
  "local_row_text cfg = (case cf_sync_pairs cfg of p # _ \<Rightarrow> sp_local_path p | [] \<Rightarrow> [])"

definition remote_row_text :: "app_config \<Rightarrow> string" where
  "remote_row_text cfg = (case cf_sync_pairs cfg of p # _ \<Rightarrow> sp_remote_folder_id p | [] \<Rightarrow> [])"

definition spin_workers :: "nat \<Rightarrow> nat" where
  "spin_workers n = max 1 (min 16 n)"

definition initial_form :: "app_config \<Rightarrow> sync_pair \<Rightarrow> bool \<Rightarrow> settings_form" where
  "initial_form cfg primary is_connected =
     \<lparr>sf_config = cfg, sf_primary = primary,
      sf_local = local_row_text cfg, sf_local_icon = (None, None),
      sf_remote = remote_row_text cfg, sf_remote_icon = (None, None),
      sf_can_save = True, sf_patterns = sp_ignore_patterns primary,
      sf_workers = spin_workers (unat (cf_max_workers cfg)), sf_notifications = cf_notifications cfg,
      sf_account = account_row_new is_connected, sf_loading = is_connected,
      sf_toasts = [], sf_saved = False, sf_open = True\<rparr>"

text \<open>The three updates of the status icons and of the button.\<close>

definition check_local :: "environment \<Rightarrow> disk \<Rightarrow> settings_form \<Rightarrow> settings_form option" where
  "check_local env dk f =
     map_option (\<lambda>icon. f\<lparr>sf_local_icon := icon\<rparr>) (update_local_status env dk (sf_local f) (sf_local_icon f))"

definition check_save :: "environment \<Rightarrow> disk \<Rightarrow> settings_form \<Rightarrow> settings_form option" where
  "check_save env dk f =
     map_option (\<lambda>ok. f\<lparr>sf_can_save := ok\<rparr>) (update_save_sensitivity env dk (sf_local f) (sf_remote f))"

definition check_remote :: "settings_form \<Rightarrow> settings_form" where
  "check_remote f = f\<lparr>sf_remote_icon := update_remote_status (sf_remote f)\<rparr>"

definition no_pair_msg :: string where
  "no_pair_msg = (''Pas de dossier configur'' @ e_acute)"

text \<open>\<open>open\<close>: the error comes first, then the panics of \<open>GoogleAuth::new\<close> and of the tilde.\<close>

definition settings_open ::
  "('k, 's) ui_env \<Rightarrow> app_config \<Rightarrow> disk \<Rightarrow> settings_form res option" where
  "settings_open ue cfg dk =
     (case get_primary_pair cfg of
        None \<Rightarrow> Some (Inl [no_pair_msg])
      | Some primary \<Rightarrow>
          (case google_auth_of ue of
             None \<Rightarrow> None
           | Some ga \<Rightarrow>
               map_option Inr
                 (Option.bind (check_local (ue_vars ue) dk
                     (initial_form cfg primary (is_locally_connected (ue_auth ue) ga dk)))
                   (\<lambda>f. check_save (ue_vars ue) dk (check_remote f)))))"

definition send_command :: "engine_command \<Rightarrow> 's ui_world \<Rightarrow> 's ui_world" where
  "send_command c w = w\<lparr>uw_commands := channel_send c (uw_commands w)\<rparr>"

definition wall_clock :: "('k, 's) ui_env \<Rightarrow> ('s, 'z) auth_world_scheme \<Rightarrow> int" where
  "wall_clock ue w = ac_unix (ue_auth ue) (aw_now w)"

text \<open>\<open>show_settings_in_app\<close>: an error of \<open>open\<close> is a panic here (\<open>expect\<close>).\<close>

definition show_settings_in_app ::
  "('k, 's) ui_env \<Rightarrow> 's ui_world \<Rightarrow> (settings_form \<times> 's ui_world) option" where
  "show_settings_in_app ue w =
     (let w1 = send_command OpenSettings w in
      case load_or_create (ue_toml ue) (ue_vars ue) (wall_clock ue w1) (aw_disk w1) of
        None \<Rightarrow> None
      | Some (r, dk) \<Rightarrow>
          (let cfg = (case r of Inl _ \<Rightarrow> app_default | Inr (c, _) \<Rightarrow> c);
               w2 = w1\<lparr>aw_disk := dk\<rparr> in
           case settings_open ue cfg dk of
             Some (Inr f) \<Rightarrow> Some (f, w2)
           | _ \<Rightarrow> None))"

section \<open>Saving and closing\<close>

definition settings_pair :: "settings_form \<Rightarrow> sync_pair" where
  "settings_pair f = \<lparr>sp_name = ''Sync principal'', sp_local_path = sf_local f, sp_remote_folder_id = sf_remote f,
     sp_provider = ''GoogleDrive'', sp_active = True, sp_ignore_patterns = []\<rparr>"

text \<open>
  The new configuration, and the edited copy of the primary pair (\<open>mut_primary\<close>), which the code
  fills in and then drops.
\<close>

definition edited_config :: "settings_form \<Rightarrow> app_config \<times> sync_pair" where
  "edited_config f =
     (let patterns = collect_patterns (sf_patterns f);
          mut_primary = sf_primary f;
          new_cfg = sf_config f;
          (new_cfg1, mut_primary1) =
            (if cf_sync_pairs new_cfg = []
             then (new_cfg\<lparr>cf_sync_pairs := cf_sync_pairs new_cfg @ [settings_pair f]\<rparr>, mut_primary)
             else (new_cfg, mut_primary\<lparr>sp_local_path := sf_local f, sp_remote_folder_id := sf_remote f\<rparr>)) in
      (new_cfg1\<lparr>cf_max_workers := of_nat (sf_workers f), cf_notifications := sf_notifications f\<rparr>,
       mut_primary1\<lparr>sp_ignore_patterns := patterns\<rparr>))"

definition close_request :: "settings_form \<times> 's ui_world \<Rightarrow> settings_form \<times> 's ui_world" where
  "close_request fw =
     (case fw of (f, w) \<Rightarrow>
        (f\<lparr>sf_open := False\<rparr>, if \<not> sf_saved f then send_command Resume w else w))"

text \<open>The closure \<open>on_save\<close> of \<open>show_settings_in_app\<close>.\<close>

definition on_save :: "app_config \<Rightarrow> settings_form \<times> 's ui_world \<Rightarrow> settings_form \<times> 's ui_world" where
  "on_save new_cfg fw =
     (case fw of (f, w) \<Rightarrow> (f\<lparr>sf_saved := True\<rparr>, send_command Resume (send_command (ApplyConfig new_cfg) w)))"

definition save_clicked ::
  "('k, 's) ui_env \<Rightarrow> settings_form \<times> 's ui_world \<Rightarrow> settings_form \<times> 's ui_world" where
  "save_clicked ue fw =
     (case fw of (f, w) \<Rightarrow>
        (let new_cfg = fst (edited_config f) in
         case app_validate (aw_disk w) new_cfg of
           Inl e \<Rightarrow> (toast (show_config_error e) 4 f, w)
         | Inr _ \<Rightarrow>
             (case config_save (ue_toml ue) (ue_vars ue) (wall_clock ue w) new_cfg (aw_disk w) of
                (Inl e, dk) \<Rightarrow> (toast (''Erreur sauvegarde : '' @ show_err e) 4 f, w\<lparr>aw_disk := dk\<rparr>)
              | (Inr _, dk) \<Rightarrow>
                  close_request (on_save new_cfg (f\<lparr>sf_config := new_cfg\<rparr>, w\<lparr>aw_disk := dk\<rparr>)))))"

section \<open>The account button\<close>

definition on_row :: "(account_row \<Rightarrow> account_row) \<Rightarrow> settings_form \<Rightarrow> settings_form" where
  "on_row g f = f\<lparr>sf_account := g (sf_account f)\<rparr>"

definition revoke_clicked ::
  "('k, 's) ui_env \<Rightarrow> 'k google_auth \<Rightarrow> settings_form \<times> 's ui_world \<Rightarrow> settings_form \<times> 's ui_world" where
  "revoke_clicked ue ga fw =
     (case fw of (f, w) \<Rightarrow>
        (case revoke_token (ue_auth ue) ga w of
           (Inl _, w1) \<Rightarrow> (f, w1)
         | (Inr _, w1) \<Rightarrow>
             (on_row (\<lambda>r. add_class ''suggested-action'' (remove_class ''destructive-action''
                 (r\<lparr>ar_subtitle := ''Lier un compte Google Drive'', ar_label := ''Lier''\<rparr>))) f, w1)))"

text \<open>After a login that worked and was stored: the account is read, then shown.\<close>

definition show_linked ::
  "('k, 's) ui_env \<Rightarrow> settings_form \<times> 's ui_world \<Rightarrow> (settings_form \<times> 's ui_world) option" where
  "show_linked ue fw =
     (case fw of (f, w) \<Rightarrow>
        map_option (\<lambda>r. case r of
            None \<Rightarrow> (f, w)
          | Some (info, w1) \<Rightarrow>
              (toast (sym_tick_box @ '' Compte Google li'' @ e_acute @ '' avec succ'' @ e_grave @ ''s !'') 5
                (on_row (\<lambda>r. add_class ''destructive-action'' (remove_class ''suggested-action''
                  (r\<lparr>ar_subtitle := linked_subtitle info, ar_label := (''R'' @ e_acute @ ''voquer'')\<rparr>))) f), w1))
          (fetch_auth_info ue w))"

definition link_clicked ::
  "('k, 's) ui_env \<Rightarrow> 'k google_auth \<Rightarrow> settings_form \<times> 's ui_world \<Rightarrow> (settings_form \<times> 's ui_world) option" where
  "link_clicked ue ga fw =
     (case fw of (f, w) \<Rightarrow>
        (let f1 = on_row (\<lambda>r. r\<lparr>ar_sensitive := False, ar_label := ''En attente du navigateur...''\<rparr>) f in
         case authenticate (ue_auth ue) (credentials_default (ue_client_id ue) (ue_client_secret ue)) w of
           None \<Rightarrow> Some (f1, w)
         | Some (r, w1) \<Rightarrow>
             (let f2 = on_row (\<lambda>r. r\<lparr>ar_sensitive := True\<rparr>) f1 in
              case r of
                Inl e \<Rightarrow>
                  Some (toast ((sym_cross @ '' Erreur : '') @ show_err e) 7
                    (on_row (\<lambda>r. r\<lparr>ar_subtitle := ''Lier un compte Google Drive'', ar_label := ''Lier''\<rparr>) f2), w1)
              | Inr tokens \<Rightarrow>
                  (case save_tokens (ue_auth ue) ga tokens w1 of
                     (Inl _, w2) \<Rightarrow> Some (f2, w2)
                   | (Inr _, w2) \<Rightarrow> show_linked ue (f2, w2)))))"

definition account_clicked ::
  "('k, 's) ui_env \<Rightarrow> settings_form \<times> 's ui_world \<Rightarrow> (settings_form \<times> 's ui_world) option" where
  "account_clicked ue fw =
     (case google_auth_of ue of
        None \<Rightarrow> None
      | Some ga \<Rightarrow>
          if is_locally_connected (ue_auth ue) ga (aw_disk (snd fw))
          then Some (revoke_clicked ue ga fw) else link_clicked ue ga fw)"

text \<open>The background query started when the window opened with an account.\<close>

definition account_loaded ::
  "('k, 's) ui_env \<Rightarrow> settings_form \<times> 's ui_world \<Rightarrow> (settings_form \<times> 's ui_world) option" where
  "account_loaded ue fw =
     (case fw of (f, w) \<Rightarrow>
        map_option (\<lambda>r. case r of
            None \<Rightarrow> (f\<lparr>sf_loading := False\<rparr>, w)
          | Some (info, w1) \<Rightarrow>
              (on_row (\<lambda>r. r\<lparr>ar_subtitle := linked_subtitle info\<rparr>) (f\<lparr>sf_loading := False\<rparr>), w1))
          (fetch_auth_info ue w))"

section \<open>Events\<close>

datatype settings_event =
    EditLocal string
  | EditRemote string
  | AddGlob string
  | BrowseExclude "string list"
  | RemovePattern nat
  | SetWorkers nat
  | SetNotifications bool
  | AccountClicked
  | AccountLoaded
  | SaveClicked
  | CloseClicked

text \<open>The edits of the list of exclusions.\<close>

definition add_glob :: "string \<Rightarrow> settings_form \<Rightarrow> settings_form" where
  "add_glob raw f =
     (let text = trim raw in
      if text = [] then toast ''Pattern vide'' 2 f else f\<lparr>sf_patterns := sf_patterns f @ [text]\<rparr>)"

definition browse_exclude :: "disk \<Rightarrow> string list \<Rightarrow> settings_form \<Rightarrow> settings_form" where
  "browse_exclude dk paths f =
     f\<lparr>sf_patterns := sf_patterns f @ filter (\<lambda>g. g \<noteq> []) (map (path_to_glob dk (sf_local f)) paths)\<rparr>"

definition remove_pattern :: "nat \<Rightarrow> settings_form \<Rightarrow> settings_form" where
  "remove_pattern i f = f\<lparr>sf_patterns := take i (sf_patterns f) @ drop (Suc i) (sf_patterns f)\<rparr>"

text \<open>
  An outer \<open>None\<close> is a panic. An event that cannot happen in the state changes nothing, and what a
  background thread reports to a window that is closed already is left out.
\<close>

definition settings_step ::
  "('k, 's) ui_env \<Rightarrow> settings_event \<Rightarrow> settings_form \<times> 's ui_world \<Rightarrow> (settings_form \<times> 's ui_world) option" where
  "settings_step ue ev fw =
     (case fw of (f, w) \<Rightarrow>
      (if \<not> sf_open f then Some (f, w)
       else case ev of
         EditLocal text \<Rightarrow>
           map_option (\<lambda>f'. (f', w))
             (Option.bind (check_local (ue_vars ue) (aw_disk w) (f\<lparr>sf_local := text\<rparr>))
               (check_save (ue_vars ue) (aw_disk w)))
       | EditRemote text \<Rightarrow>
           map_option (\<lambda>f'. (f', w)) (check_save (ue_vars ue) (aw_disk w) (check_remote (f\<lparr>sf_remote := text\<rparr>)))
       | AddGlob raw \<Rightarrow> Some (add_glob raw f, w)
       | BrowseExclude paths \<Rightarrow> Some (browse_exclude (aw_disk w) paths f, w)
       | RemovePattern i \<Rightarrow> Some (remove_pattern i f, w)
       | SetWorkers n \<Rightarrow> Some (f\<lparr>sf_workers := spin_workers n\<rparr>, w)
       | SetNotifications b \<Rightarrow> Some (f\<lparr>sf_notifications := b\<rparr>, w)
       | AccountClicked \<Rightarrow> if ar_sensitive (sf_account f) then account_clicked ue (f, w) else Some (f, w)
       | AccountLoaded \<Rightarrow> if sf_loading f then account_loaded ue (f, w) else Some (f, w)
       | SaveClicked \<Rightarrow> Some (if sf_can_save f then save_clicked ue (f, w) else (f, w))
       | CloseClicked \<Rightarrow> Some (close_request (f, w))))"

end
