(* ===== verification/Ui.thy ===== *)
theory Ui
  imports Settings
begin

text \<open>
  \<open>ui/mod.rs\<close>, \<open>ui/help_window.rs\<close> and \<open>ui/scan_window.rs\<close>: the thread that shows the windows
  on request of the tray, as a step function over the windows that are open.
\<close>

section \<open>The scan window\<close>

record scan_window =
  sw_phase :: string
  sw_path :: string
  sw_fraction :: rat
  sw_pulses :: nat
  sw_text :: "string option"
  sw_open :: bool

definition scan_window_new :: scan_window where
  "scan_window_new = \<lparr>sw_phase = ''Initialisation du moteur...'', sw_path = [], sw_fraction = 0,
     sw_pulses = 0, sw_text = None, sw_open = True\<rparr>"

definition scan_window_update :: "string \<Rightarrow> nat \<Rightarrow> nat \<Rightarrow> string \<Rightarrow> scan_window \<Rightarrow> scan_window" where
  "scan_window_update phase_name dn tot current sw =
     (let display_path = (if current = [] then (''Pr'' @ e_acute @ ''paration...'') else current);
          sw1 = sw\<lparr>sw_phase := phase_name, sw_path := display_path\<rparr> in
      if tot > 0
      then sw1\<lparr>sw_fraction := of_nat dn / of_nat tot, sw_text := Some (show_nat dn @ '' / '' @ show_nat tot)\<rparr>
      else sw1\<lparr>sw_pulses := sw_pulses sw1 + 1, sw_text := Some (show_nat dn @ ('' '' @ e_acute @ ''l'' @ e_acute @ ''ments analys'' @ e_acute @ ''s...''))\<rparr>)"

definition phase_name_of :: "scan_phase \<Rightarrow> string" where
  "phase_name_of ph =
     (case ph of
        RemoteListing \<Rightarrow> ''Analyse de Google Drive''
      | LocalListing \<Rightarrow> ''Inventaire du disque local''
      | Directories \<Rightarrow> (''V'' @ e_acute @ ''rification des dossiers'')
      | Comparing \<Rightarrow> (''Comparaison des donn'' @ e_acute @ ''es''))"

text \<open>
  The listener of \<open>show_scan_window_in_app\<close>. A \<open>watch\<close> channel keeps the latest value only, so
  the window sees some of the statuses, in order; it stops listening when it closes.
\<close>

definition scan_window_status :: "engine_status \<Rightarrow> scan_window \<Rightarrow> scan_window" where
  "scan_window_status s sw =
     (if \<not> sw_open sw then sw
      else case s of
        ScanProgress ph dn tot current \<Rightarrow> scan_window_update (phase_name_of ph) dn tot current sw
      | SyncProgress _ \<Rightarrow> sw\<lparr>sw_open := False\<rparr>
      | Syncing _ \<Rightarrow> sw\<lparr>sw_open := False\<rparr>
      | Idle \<Rightarrow> sw\<lparr>sw_open := False\<rparr>
      | _ \<Rightarrow> sw)"

section \<open>The windows\<close>

text \<open>The window ``About''; the version is that of \<open>Cargo.toml\<close>.\<close>

record about_window =
  ab_application_name :: string
  ab_version :: string
  ab_developer_name :: string
  ab_comments :: string
  ab_website :: string


record 's ui_app =
  ua_world :: "'s ui_world"
  ua_settings :: "settings_form list"
  ua_helps :: nat
  ua_abouts :: "about_window list"
  ua_scans :: "scan_window list"
  ua_outside :: "outside list"

definition ui_start :: "'s ui_world \<Rightarrow> 's ui_app" where
  "ui_start w = \<lparr>ua_world = w, ua_settings = [], ua_helps = 0, ua_abouts = [], ua_scans = [], ua_outside = []\<rparr>"

definition show_help_in_app :: "'s ui_app \<Rightarrow> 's ui_app" where
  "show_help_in_app a = a\<lparr>ua_world := send_command OpenHelp (ua_world a), ua_helps := ua_helps a + 1\<rparr>"

definition close_help :: "'s ui_app \<Rightarrow> 's ui_app" where
  "close_help a =
     (if ua_helps a = 0 then a
      else a\<lparr>ua_world := send_command Resume (ua_world a), ua_helps := ua_helps a - 1\<rparr>)"

definition show_scan_window_in_app :: "'s ui_app \<Rightarrow> 's ui_app" where
  "show_scan_window_in_app a = a\<lparr>ua_scans := ua_scans a @ [scan_window_new]\<rparr>"

definition show_about_in_app :: "'s ui_app \<Rightarrow> 's ui_app" where
  "show_about_in_app a =
     a\<lparr>ua_abouts := ua_abouts a @ [
       \<lparr>ab_application_name = ''SyncGDrive'', ab_version = ''2.0.0'',
        ab_developer_name = ''clyds (Nicolas Filippozzi)'',
        ab_comments = (''Synchronisation unidirectionnelle d'' @ apostrophe @ ''un dossier local vers Google Drive.''),
        ab_website = ''https://github.com/nfili/syncgdrive''\<rparr>]\<rparr>"

text \<open>The loop of \<open>start_ui_server\<close> on one command.\<close>

definition ui_command_step :: "('k, 's) ui_env \<Rightarrow> ui_command \<Rightarrow> 's ui_app \<Rightarrow> 's ui_app option" where
  "ui_command_step ue c a =
     (case c of
        ShowHelp \<Rightarrow> Some (show_help_in_app a)
      | ShowSettings \<Rightarrow>
          map_option (\<lambda>(f, w). a\<lparr>ua_world := w, ua_settings := ua_settings a @ [f]\<rparr>)
            (show_settings_in_app ue (ua_world a))
      | ShowAbout \<Rightarrow> Some (show_about_in_app a)
      | ShowScanWindow \<Rightarrow> Some (show_scan_window_in_app a))"

datatype ui_event =
    UiCommand ui_command
  | InSettings nat settings_event
  | HelpClosed
  | HelpLink string
  | ScanStatus nat engine_status

definition ui_step :: "('k, 's) ui_env \<Rightarrow> ui_event \<Rightarrow> 's ui_app \<Rightarrow> 's ui_app option" where
  "ui_step ue ev a =
     (case ev of
        UiCommand c \<Rightarrow> ui_command_step ue c a
      | InSettings i e \<Rightarrow>
          (if i < length (ua_settings a)
           then map_option (\<lambda>(f, w). a\<lparr>ua_world := w, ua_settings := (ua_settings a)[i := f]\<rparr>)
                  (settings_step ue e (ua_settings a ! i, ua_world a))
           else Some a)
      | HelpClosed \<Rightarrow> Some (close_help a)
      | HelpLink uri \<Rightarrow> Some (a\<lparr>ua_outside := ua_outside a @ [open_external uri]\<rparr>)
      | ScanStatus i s \<Rightarrow>
          Some (if i < length (ua_scans a)
                then a\<lparr>ua_scans := (ua_scans a)[i := scan_window_status s (ua_scans a ! i)]\<rparr> else a))"

end
