(* ===== verification/Program.thy ===== *)
theory Program
  imports Startup Ui
begin

text \<open>
  \<open>main.rs\<close>: the lock that keeps a second instance out, the start of the program up to its main loop,
  and its end. The environment adds to that of the windows what only \<open>main\<close> reads. The set-up of the
  logging is an answer of the crate tracing; its lines are left out. \<open>flock\<close> locks are held by
  processes: a second lock on the same file is refused until the holder ends.
\<close>

section \<open>One instance\<close>

definition lock_path :: "string option \<Rightarrow> nat \<Rightarrow> string" where
  "lock_path runtime_dir uid =
     push_str (case runtime_dir of Some d \<Rightarrow> d | None \<Rightarrow> ''/run/user/'' @ show_nat uid) ''syncgdrive.lock''"

text \<open>\<open>OpenOptions\<close> with \<open>write\<close> and \<open>create\<close>, without \<open>truncate\<close>.\<close>

definition open_or_create :: "int \<Rightarrow> path \<Rightarrow> disk \<Rightarrow> disk res" where
  "open_or_create now p dk =
     (case dk_nodes dk p of
        Some (FileNode _ _) \<Rightarrow> io OpWrite p dk (Inr dk)
      | _ \<Rightarrow> fs_write now p [] dk)"

datatype lock_outcome = LockHeld | LockBusy | LockPanic

text \<open>The holder writes its number into the file; that this fails is ignored.\<close>

definition acquire_instance_lock ::
  "int \<Rightarrow> path \<Rightarrow> nat \<Rightarrow> disk \<Rightarrow> (path \<Rightarrow> nat option) \<Rightarrow> lock_outcome \<times> disk \<times> (path \<Rightarrow> nat option)" where
  "acquire_instance_lock now p pid dk locks =
     (case open_or_create now p dk of
        Inl _ \<Rightarrow> (LockPanic, dk, locks)
      | Inr dk1 \<Rightarrow>
          if locks p \<noteq> None then (LockBusy, dk1, locks)
          else (LockHeld, (case fs_write now p (show_nat pid) dk1 of Inl _ \<Rightarrow> dk1 | Inr dk2 \<Rightarrow> dk2), locks(p \<mapsto> pid)))"

section \<open>From the start to the main loop\<close>

record ('k, 's) program_env = "('k, 's) ui_env" +
  pe_runtime_dir :: "string option"
  pe_uid :: nat
  pe_data_home :: "string option"
  pe_state_home :: "string option"
  pe_dry_run :: "string option"
  pe_logging :: "unit res"
  pe_sqlite :: sqlite_open
  pe_logs :: "path list"
  pe_autostart :: "int res"

text \<open>\<open>pe_autostart\<close> is the exit status of \<open>systemctl --user is-enabled syncgdrive.service\<close>.\<close>

definition is_autostart_enabled :: "int res \<Rightarrow> bool" where
  "is_autostart_enabled status = (case status of Inr code \<Rightarrow> code = 0 | Inl _ \<Rightarrow> False)"

text \<open>\<open>mpsc::channel\<close> of tokio panics on no place, and on more than \<open>usize::MAX >> 3\<close>.\<close>

definition channel_new :: "nat \<Rightarrow> 'm channel option" where
  "channel_new n =
     (if n = 0 \<or> n > 2 ^ 61 - 1 then None else Some \<lparr>ch_queue = [], ch_capacity = n, ch_open = True\<rparr>)"

record session =
  ms_config :: app_config
  ms_database :: database
  ms_dry_run :: bool
  ms_startup :: startup
  ms_status :: "engine_status list"
  ms_tray :: sync_tray

text \<open>
  How the start ends: a panic, the exit of a second instance, an error, a login in the browser that
  never comes back, or the main loop.
\<close>

datatype outcome = MainPanics | MainExits | MainFails anyhow | MainWaits | MainRuns session

definition migration_msg :: string where
  "migration_msg = E_acute @ ''chec lors de la migration ou du chargement de la configuration''"

definition open_db_msg :: string where
  "open_db_msg = ''Impossible d'' @ [CHR 0x27] @ ''ouvrir la base de donn'' @ e_acute @ ''es''"

text \<open>The channels, the first statuses and the tray.\<close>

definition begin_session ::
  "('k, 's, 'z) program_env_scheme \<Rightarrow> string \<Rightarrow> app_config \<Rightarrow> database \<Rightarrow> startup \<Rightarrow> outcome" where
  "begin_session pe logs cfg db su =
     (case channel_new (unat (av_engine_channel_capacity (cf_advanced cfg))) of
        None \<Rightarrow> MainPanics
      | Some commands \<Rightarrow>
          (let dry = dry_run_flag (pe_dry_run pe) in
           MainRuns \<lparr>ms_config = cfg, ms_database = db, ms_dry_run = dry, ms_startup = su,
             ms_status = Starting 0 # (case su_launch su of LaunchUnconfigured m \<Rightarrow> [Unconfigured m] | LaunchEngine _ \<Rightarrow> []),
             ms_tray = spawn_tray commands cfg (is_autostart_enabled (pe_autostart pe)) logs (su_open_settings su) dry\<rparr>))"

text \<open>
  Phase 2 and what follows: migrations, decision, old logs, database. The second opening of the database
  finds what the migration has left in the file.
\<close>

definition main_configure ::
  "('k, 's, 'z) program_env_scheme \<Rightarrow> string \<Rightarrow> int \<Rightarrow> disk \<Rightarrow> outcome \<times> disk" where
  "main_configure pe logs now dk =
     (case db_path (ue_vars pe) (pe_data_home pe) dk of (file, dk1) \<Rightarrow>
      case run_all_migrations (ue_toml pe) (ue_vars pe) now (pe_sqlite pe) (components file) dk1 of
        None \<Rightarrow> (MainPanics, dk1)
      | Some (Inl e, dk2) \<Rightarrow> (MainFails (migration_msg # e), dk2)
      | Some (Inr (cfg, db), dk2) \<Rightarrow>
          (case plan_startup (ue_vars pe) cfg dk2 of
             Inl e \<Rightarrow> (MainFails e, dk2)
           | Inr su \<Rightarrow>
               (case cleanup_old_logs now (av_log_retention_days (cf_advanced cfg)) (pe_logs pe) dk2 of
                  None \<Rightarrow> (MainPanics, dk2)
                | Some dk3 \<Rightarrow>
                    (case database_open (pe_sqlite pe) (components file) dk3 of
                       (Inl e, dk4) \<Rightarrow> (MainFails (open_db_msg # e), dk4)
                     | (Inr _, dk4) \<Rightarrow> (begin_session pe logs cfg db su, dk4)))))"

text \<open>Phase 1: the token is only asked for, whatever the answer; the question may not come back.\<close>

definition main_token ::
  "('k, 's, 'z) program_env_scheme \<Rightarrow> string \<Rightarrow> 's auth_world \<Rightarrow> outcome \<times> 's auth_world" where
  "main_token pe logs w =
     (case auth_new (ue_auth pe) (ue_vars pe) (ue_client_id pe) (ue_client_secret pe) of
        None \<Rightarrow> (MainPanics, w)
      | Some ga \<Rightarrow>
          (case get_valid_token (ue_auth pe) ga w of
             None \<Rightarrow> (MainWaits, w)
           | Some (_, w1) \<Rightarrow>
               (case main_configure pe logs (ac_unix (ue_auth pe) (aw_now w1)) (aw_disk w1) of
                  (r, dk) \<Rightarrow> (r, w1\<lparr>aw_disk := dk\<rparr>))))"

definition main_start ::
  "('k, 's, 'z) program_env_scheme \<Rightarrow> nat \<Rightarrow> 's auth_world \<times> (path \<Rightarrow> nat option)
   \<Rightarrow> outcome \<times> 's auth_world \<times> (path \<Rightarrow> nat option)" where
  "main_start pe pid wl =
     (case wl of (w, locks) \<Rightarrow>
        (case acquire_instance_lock (ac_unix (ue_auth pe) (aw_now w))
                (components (lock_path (pe_runtime_dir pe) (pe_uid pe))) pid (aw_disk w) locks of
           (LockPanic, dk, locks1) \<Rightarrow> (MainPanics, w\<lparr>aw_disk := dk\<rparr>, locks1)
         | (LockBusy, dk, locks1) \<Rightarrow> (MainExits, w\<lparr>aw_disk := dk\<rparr>, locks1)
         | (LockHeld, dk, locks1) \<Rightarrow>
             (case log_dir (ue_vars pe) (pe_state_home pe) dk of
                (logs, dk1) \<Rightarrow>
                  (case pe_logging pe of
                     Inl e \<Rightarrow> (MainFails e, w\<lparr>aw_disk := dk1\<rparr>, locks1)
                   | Inr _ \<Rightarrow>
                       (case main_token pe logs (w\<lparr>aw_disk := dk1\<rparr>) of (r, w1) \<Rightarrow> (r, w1, locks1))))))"

section \<open>The end of the program\<close>

text \<open>
  The last part of \<open>main\<close>: it waits for a signal or for the token, sends \<open>Shutdown\<close>, which waits for
  a place in the channel, and gives the engine \<open>shutdown_timeout_secs\<close>. The engine takes commands and
  ends on its own; when it ends, its end of the channel closes.
\<close>

datatype exit_phase = AwaitStop | SendShutdown | AwaitEngine | Exited bool

record main_loop =
  ml_phase :: exit_phase
  ml_cancelled :: bool
  ml_commands :: "engine_command channel"
  ml_engine_done :: bool

datatype exit_event = SignalReceived | StopSeen | SendTried | EngineSeen | TimeoutElapsed | EngineTakes | EngineEnds

definition exit_step :: "exit_event \<Rightarrow> main_loop \<Rightarrow> main_loop option" where
  "exit_step ev m =
     (case ev of
        EngineTakes \<Rightarrow>
          (if ml_engine_done m \<or> ch_queue (ml_commands m) = [] then None
           else Some (m\<lparr>ml_commands := (ml_commands m)\<lparr>ch_queue := tl (ch_queue (ml_commands m))\<rparr>\<rparr>))
      | EngineEnds \<Rightarrow> Some (m\<lparr>ml_engine_done := True, ml_commands := (ml_commands m)\<lparr>ch_open := False\<rparr>\<rparr>)
      | SignalReceived \<Rightarrow>
          (if ml_phase m = AwaitStop then Some (m\<lparr>ml_cancelled := True, ml_phase := SendShutdown\<rparr>) else None)
      | StopSeen \<Rightarrow>
          (if ml_phase m = AwaitStop \<and> ml_cancelled m then Some (m\<lparr>ml_phase := SendShutdown\<rparr>) else None)
      | SendTried \<Rightarrow>
          (if ml_phase m = SendShutdown \<and> (room (ml_commands m) > 0 \<or> \<not> ch_open (ml_commands m))
           then Some (m\<lparr>ml_commands := channel_send Shutdown (ml_commands m), ml_phase := AwaitEngine\<rparr>) else None)
      | EngineSeen \<Rightarrow>
          (if ml_phase m = AwaitEngine \<and> ml_engine_done m then Some (m\<lparr>ml_phase := Exited True\<rparr>) else None)
      | TimeoutElapsed \<Rightarrow>
          (if ml_phase m = AwaitEngine then Some (m\<lparr>ml_phase := Exited False\<rparr>) else None))"

end
