(* ===== verification/Tray_Laws.thy ===== *)
theory Tray_Laws
  imports Tray Engine_Laws
begin

text \<open>
  What the tray keeps in every run, what its menu sends, and how that meets the engine: the
  status messages of a paused engine can hide the pause.
\<close>

section \<open>Every run of the loop\<close>

definition shown_notifications :: "sync_tray \<Rightarrow> notification list" where
  "shown_notifications t = concat (map (\<lambda>x. case x of Notified n \<Rightarrow> [n] | _ \<Rightarrow> []) (sy_outside t))"

text \<open>
  A state of the tray is well formed when its frame is one of the eight, the icon moves only
  while the engine works, and at most one notification was shown, never before the flag is up.
\<close>

definition tray_ok :: "sync_tray \<Rightarrow> bool" where
  "tray_ok t =
     (sy_frame t < 8 \<and> (sy_animating t \<longrightarrow> is_active (sy_status t)) \<and>
      shown_notifications t \<in> {[], initial_sync_complete (sy_config t)} \<and>
      (shown_notifications t \<noteq> [] \<longrightarrow> sy_notified t))"

text \<open>What never changes, and what only grows.\<close>

definition tray_leads :: "sync_tray \<Rightarrow> sync_tray \<Rightarrow> bool" where
  "tray_leads t t' =
     (sy_config t' = sy_config t \<and> sy_dry_run t' = sy_dry_run t \<and> sy_log_dir t' = sy_log_dir t \<and>
      ch_capacity (sy_commands t') = ch_capacity (sy_commands t) \<and>
      prefix (sy_outside t) (sy_outside t') \<and> prefix (sy_ui t) (sy_ui t') \<and>
      (sy_notified t \<longrightarrow> sy_notified t') \<and> (sy_cancelled t \<longrightarrow> sy_cancelled t'))"

lemma shown_append:
  "sy_outside t' = sy_outside t @ xs \<Longrightarrow>
     shown_notifications t' = shown_notifications t @ concat (map (\<lambda>x. case x of Notified n \<Rightarrow> [n] | _ \<Rightarrow> []) xs)"
  by (simp add: shown_notifications_def)

lemma concat_notified: "concat (map ((\<lambda>x. case x of Notified n \<Rightarrow> [n] | _ \<Rightarrow> []) \<circ> Notified) ns) = ns"
  by (induction ns) simp_all

lemma tray_update_fields:
  "sy_status (tray_update s t) = s" "sy_animating (tray_update s t) = is_active s"
  "sy_frame (tray_update s t) = sy_frame t" "sy_config (tray_update s t) = sy_config t"
  "sy_commands (tray_update s t) = sy_commands t" "sy_dry_run (tray_update s t) = sy_dry_run t"
  "sy_log_dir (tray_update s t) = sy_log_dir t" "sy_ui (tray_update s t) = sy_ui t"
  "sy_cancelled (tray_update s t) = sy_cancelled t" "sy_running (tray_update s t) = sy_running t"
  "sy_autostart (tray_update s t) = sy_autostart t"
  by (auto simp: tray_update_def Let_def split: engine_status.split)

definition first_idle :: "engine_status \<Rightarrow> sync_tray \<Rightarrow> bool" where
  "first_idle s t = (s = Idle \<and> \<not> sy_notified t \<and> sy_last_synced t \<noteq> [])"

lemma tray_update_outside:
  "sy_outside (tray_update s t) =
     sy_outside t @ (if first_idle s t then map Notified (initial_sync_complete (sy_config t)) else [])"
  "sy_notified (tray_update s t) \<longleftrightarrow> sy_notified t \<or> first_idle s t"
  by (auto simp: tray_update_def first_idle_def Let_def split: engine_status.split)

lemma shown_update:
  "shown_notifications (tray_update s t) =
     shown_notifications t @ (if first_idle s t then initial_sync_complete (sy_config t) else [])"
  by (auto simp: shown_append[OF tray_update_outside(1)] concat_notified)

lemma tray_update_ok: "tray_ok t \<Longrightarrow> tray_ok (tray_update s t)"
  by (auto simp: tray_ok_def tray_update_fields shown_update tray_update_outside(2) first_idle_def)

lemma tray_update_leads: "tray_leads t (tray_update s t)"
  by (simp add: tray_leads_def tray_update_fields tray_update_outside)

text \<open>The fields a click leaves alone.\<close>

lemma activate_fields:
  "sy_status (activate a t) = sy_status t" "sy_animating (activate a t) = sy_animating t"
  "sy_frame (activate a t) = sy_frame t" "sy_config (activate a t) = sy_config t"
  "sy_notified (activate a t) = sy_notified t" "sy_dry_run (activate a t) = sy_dry_run t"
  "sy_log_dir (activate a t) = sy_log_dir t" "shown_notifications (activate a t) = shown_notifications t"
  by (auto simp: activate_def shown_notifications_def toggle_autostart_def split: menu_action.split)

lemma activate_ok: "tray_ok t \<Longrightarrow> tray_ok (activate a t)"
  by (simp add: tray_ok_def activate_fields)

lemma activate_leads: "tray_leads t (activate a t)"
  unfolding tray_leads_def by (auto simp: activate_def split: menu_action.split)

lemma click_SomeE:
  assumes "click i t = Some t'"
  obtains l ic a where "tray_menu t ! i = StandardItem l True ic a" "i < length (tray_menu t)" "t' = activate a t"
  using assms by (auto simp: click_def split: if_splits menu_item.splits)

lemma tray_step_cases:
  assumes "tray_step ev t = Some t'"
  obtains (stopped) "t' = t\<lparr>sy_running := False\<rparr>"
  | (tick) "t' = tray_tick t"
  | (message) s where "t' = tray_update s t"
  | (last_message) s where "t' = (tray_update s t)\<lparr>sy_cancelled := True, sy_running := False\<rparr>"
  | (clicked) a where "t' = activate a t"
  using assms
  by (auto simp: tray_step_def tray_receive_def Let_def split: if_splits tray_event.splits option.splits
      elim!: click_SomeE)

lemma tray_tick_ok: "tray_ok t \<Longrightarrow> tray_ok (tray_tick t)"
  by (auto simp: tray_ok_def tray_tick_def shown_notifications_def)

lemma tray_tick_leads: "tray_leads t (tray_tick t)"
  by (simp add: tray_leads_def tray_tick_def)

lemma tray_stop_ok:
  "tray_ok t \<Longrightarrow> tray_ok (t\<lparr>sy_running := False\<rparr>)"
  "tray_ok t \<Longrightarrow> tray_ok (t\<lparr>sy_cancelled := True, sy_running := False\<rparr>)"
  by (auto simp: tray_ok_def shown_notifications_def)

lemma tray_stop_leads:
  "tray_leads s t \<Longrightarrow> tray_leads s (t\<lparr>sy_running := False\<rparr>)"
  "tray_leads s t \<Longrightarrow> tray_leads s (t\<lparr>sy_cancelled := True, sy_running := False\<rparr>)"
  by (auto simp: tray_leads_def)

lemma tray_leads_refl: "tray_leads t t"
  by (simp add: tray_leads_def)

lemma tray_leads_trans: "tray_leads a b \<Longrightarrow> tray_leads b c \<Longrightarrow> tray_leads a c"
  by (auto simp: tray_leads_def intro: prefix_order.trans)

interpretation tray_loop: reactive tray_step tray_ok tray_leads
proof unfold_locales
  fix s s' e assume "tray_ok s" "tray_step e s = Some s'"
  from \<open>tray_step e s = Some s'\<close> \<open>tray_ok s\<close> show "tray_ok s'"
    by (cases rule: tray_step_cases) (auto intro: tray_update_ok tray_tick_ok activate_ok tray_stop_ok)
next
  fix s s' e assume "tray_ok s" "tray_step e s = Some s'"
  from \<open>tray_step e s = Some s'\<close> show "tray_leads s s'"
    by (cases rule: tray_step_cases)
      (auto intro: tray_update_leads tray_tick_leads activate_leads tray_stop_leads tray_leads_refl)
qed (auto intro: tray_leads_refl tray_leads_trans)

lemma spawn_tray_ok: "tray_ok (spawn_tray ch cfg auto ld os dry)"
  by (simp add: tray_ok_def spawn_tray_def shown_notifications_def)

text \<open>The icon that is asked for is one of those embedded, and its pixmap has the declared size.\<close>

lemma tray_pixmap_size: "svg_sound sv \<Longrightarrow> \<exists>px. tray_pixmap sv assets t = Some px \<and> length px = 24 * 24 * 4"
  using icon_pixmap_size[of sv assets "tray_icon_of t"] by (simp add: tray_pixmap_def)

text \<open>The number of an animated icon is the frame of the state.\<close>

lemma tray_icon_frame:
  "tray_ok t \<Longrightarrow> tray_icon_of t = IconScanning n \<or> tray_icon_of t = IconSync n \<Longrightarrow> n < 8"
  by (auto simp: tray_ok_def tray_icon_of_def split: engine_status.splits if_splits)

section \<open>The menu and the engine\<close>

definition main_command :: "engine_status \<Rightarrow> engine_command" where
  "main_command s = (if offers_resume s then Resume else if is_active s then Pause else ForceScan)"

lemma tray_menu_commands:
  "filter (\<lambda>a. \<exists>c. a = SendCommand c) (map item_action (filter (\<lambda>x. x \<noteq> MenuSeparator) (tray_menu t))) =
     [SendCommand (main_command (sy_status t))]"
  by (simp add: tray_menu_def Let_def main_entry_def main_command_def)

lemma click_main:
  "click 2 t = Some (t\<lparr>sy_commands := channel_send (main_command (sy_status t)) (sy_commands t)\<rparr>)"
  by (simp add: click_def tray_menu_def Let_def main_entry_def main_command_def activate_def)

text \<open>
  In every run of the tray the pop-up of the first synchronisation is shown at most once, and the
  configuration that decides it is the one the program started with: the tray keeps it for ever, so
  switching notifications on or off in the settings changes nothing before the next start.
\<close>

lemma initial_sync_is_announced_once:
  assumes "run_events tray_step evs (spawn_tray commands cfg autostart logs open_settings dry) = Some t"
  shows "length (shown_notifications t) \<le> 1 \<and> sy_config t = cfg \<and>
    shown_notifications t \<in> {[], initial_sync_complete cfg} \<and>
    (\<not> cf_notifications cfg \<longrightarrow> shown_notifications t = [])"
proof -
  from tray_loop.run_keeps[OF spawn_tray_ok assms] have "tray_ok t" "sy_config t = cfg"
    by (simp_all add: tray_leads_def spawn_tray_def)
  then show ?thesis by (auto simp: tray_ok_def initial_sync_complete_def notif_send_def)
qed

end
