(* ===== verification/Ui_Laws.thy ===== *)
theory Ui_Laws
  imports Ui Tray_Laws Auth_Laws Startup
begin

text \<open>
  What the windows do to the rest of the program: the settings keep the pairs, the file and the
  channel in a known relation to what was loaded; opening them panics without an active pair;
  and what the engine makes of the commands they send.
\<close>

section \<open>The account button leaves the rest alone\<close>

text \<open>Same channel, same configuration file.\<close>

definition same_rest :: "path \<Rightarrow> 's ui_world \<Rightarrow> 's ui_world \<Rightarrow> bool" where
  "same_rest p w w' =
     (uw_commands w' = uw_commands w \<and> keeps_other_nodes p (aw_disk w) (aw_disk w'))"

lemma same_rest_refl [simp]: "same_rest p w w"
  by (simp add: same_rest_def)

lemma same_rest_trans: "same_rest p a b \<Longrightarrow> same_rest p b c \<Longrightarrow> same_rest p a c"
  unfolding same_rest_def using keeps_other_nodes_trans by fastforce

lemma commands_of_more: "auth_world.more w' = auth_world.more w \<Longrightarrow> uw_commands (w' :: 's ui_world) = uw_commands w"
  by (cases w; cases w') simp

lemma get_user_email_frame:
  assumes "get_user_email ac ga w = Some (r, w')"
  shows "auth_world.more w' = auth_world.more w \<and> keeps_other_nodes (ga_path ga) (aw_disk w) (aw_disk w')"
proof -
  obtain q w1 where v: "get_valid_token ac ga w = Some (q, w1)"
    using assms by (auto simp: get_user_email_def split: option.splits)
  have "aw_disk w' = aw_disk w1 \<and> auth_world.more w' = auth_world.more w1"
    using assms v by (auto simp: get_user_email_def split: sum.splits prod.splits)
  with get_valid_token_more[OF v] get_valid_token_keeps[OF v] show ?thesis by simp
qed

lemma revoke_token_frame:
  assumes "revoke_token ac ga w = (r, w')"
  shows "auth_world.more w' = auth_world.more w \<and> keeps_other_nodes (ga_path ga) (aw_disk w) (aw_disk w')"
proof -
  obtain w1 where w1: "aw_disk w1 = aw_disk w" "auth_world.more w1 = auth_world.more w"
    "w' = w1\<lparr>aw_disk := snd (storage_clear ga (aw_disk w1))\<rparr>"
  proof
    let ?w1 = "case storage_load ac ga (aw_disk w) of
        Inr (Some tokens) \<Rightarrow>
          (case ac_http ac (revoke_request tokens) (aw_now w) (aw_net w) of
             (_, t, s) \<Rightarrow> w\<lparr>aw_now := t, aw_net := s\<rparr>)
      | _ \<Rightarrow> w"
    show "aw_disk ?w1 = aw_disk w" "auth_world.more ?w1 = auth_world.more w"
      by (auto split: sum.splits option.splits prod.splits)
    show "w' = ?w1\<lparr>aw_disk := snd (storage_clear ga (aw_disk ?w1))\<rparr>"
      using assms by (simp add: revoke_token_def Let_def split: prod.splits)
  qed
  then show ?thesis using storage_clear_keeps[of ga "aw_disk w"] by simp
qed

lemma google_auth_path: "google_auth_of ue = Some ga \<Longrightarrow> ga_path ga = tokens_path (ue_vars ue)"
  by (auto simp: google_auth_of_def auth_new_def split: option.splits)

lemma fetch_auth_info_rest:
  assumes "fetch_auth_info ue w = Some (Some (info, w'))"
  shows "same_rest (tokens_path (ue_vars ue)) w w'"
  using assms get_user_email_frame commands_of_more google_auth_path
  by (fastforce simp: fetch_auth_info_def same_rest_def)

text \<open>The part of the form that is not the account row.\<close>

definition same_form :: "settings_form \<Rightarrow> settings_form \<Rightarrow> bool" where
  "same_form f f' =
     (f'\<lparr>sf_account := sf_account f, sf_loading := sf_loading f, sf_toasts := sf_toasts f\<rparr> = f)"

lemma same_form_fields:
  assumes "same_form f f'"
  shows "sf_config f' = sf_config f" "sf_primary f' = sf_primary f" "sf_local f' = sf_local f"
    "sf_remote f' = sf_remote f" "sf_can_save f' = sf_can_save f" "sf_patterns f' = sf_patterns f"
    "sf_workers f' = sf_workers f" "sf_notifications f' = sf_notifications f"
    "sf_saved f' = sf_saved f" "sf_open f' = sf_open f"
  using assms by (cases f; cases f'; simp add: same_form_def)+

lemma same_form_simps [simp]:
  "same_form f f"
  "same_form f (on_row h g) = same_form f g"
  "same_form f (toast title n g) = same_form f g"
  "same_form f (g\<lparr>sf_loading := b\<rparr>) = same_form f g"
  by (cases f; cases g; simp add: same_form_def on_row_def toast_def)+

lemma show_linked_rest:
  assumes "show_linked ue (f, w) = Some (f', w')" "same_form f0 f"
  shows "same_form f0 f' \<and> same_rest (tokens_path (ue_vars ue)) w w'"
  using assms fetch_auth_info_rest
  by (fastforce simp: show_linked_def split: option.splits prod.splits)

lemma account_loaded_rest:
  assumes "account_loaded ue (f, w) = Some (f', w')"
  shows "same_form f f' \<and> same_rest (tokens_path (ue_vars ue)) w w'"
  using assms fetch_auth_info_rest
  by (fastforce simp: account_loaded_def split: option.splits prod.splits)

lemma link_clicked_rest:
  assumes ga: "google_auth_of ue = Some ga" and run: "link_clicked ue ga (f, w) = Some (f', w')"
  shows "same_form f f' \<and> same_rest (tokens_path (ue_vars ue)) w w'"
proof (cases "authenticate (ue_auth ue) (credentials_default (ue_client_id ue) (ue_client_secret ue)) w")
  case None
  then show ?thesis using run by (auto simp: link_clicked_def)
next
  case (Some rw)
  then obtain r w1 where a: "authenticate (ue_auth ue) (credentials_default (ue_client_id ue) (ue_client_secret ue)) w = Some (r, w1)"
    by (cases rw) simp
  have w1: "same_rest (tokens_path (ue_vars ue)) w w1"
    using authenticate_frame[OF a] commands_of_more[OF authenticate_more[OF a]] by (simp add: same_rest_def)
  show ?thesis
  proof (cases r)
    case (Inl e)
    with run a w1 show ?thesis by (auto simp: link_clicked_def)
  next
    case (Inr tokens)
    obtain q w2 where s: "save_tokens (ue_auth ue) ga tokens w1 = (q, w2)" by fastforce
    have "same_rest (tokens_path (ue_vars ue)) w1 w2"
      using storage_store_keeps[OF s[unfolded save_tokens_def]]
        commands_of_more[OF storage_store_more[OF s[unfolded save_tokens_def]]]
      by (simp add: same_rest_def google_auth_path[OF ga])
    with w1 have w2: "same_rest (tokens_path (ue_vars ue)) w w2" by (rule same_rest_trans)
    show ?thesis
    proof (cases q)
      case (Inl e)
      with run a s Inr w2 show ?thesis by (auto simp: link_clicked_def)
    next
      case (Inr u)
      let ?f2 = "on_row (\<lambda>r. r\<lparr>ar_sensitive := True\<rparr>) (on_row (\<lambda>r. r\<lparr>ar_sensitive := False,
        ar_label := ''En attente du navigateur...''\<rparr>) f)"
      have "show_linked ue (?f2, w2) = Some (f', w')"
        using run a s Inr \<open>r = Inr tokens\<close> by (auto simp: link_clicked_def Let_def)
      from show_linked_rest[OF this, of f] have "same_form f f'" "same_rest (tokens_path (ue_vars ue)) w2 w'"
        by simp_all
      with same_rest_trans[OF w2] show ?thesis by blast
    qed
  qed
qed

lemma account_clicked_rest:
  assumes run: "account_clicked ue (f, w) = Some (f', w')"
  shows "same_form f f' \<and> same_rest (tokens_path (ue_vars ue)) w w'"
proof -
  obtain ga where ga: "google_auth_of ue = Some ga"
    using run by (auto simp: account_clicked_def split: option.splits)
  show ?thesis
  proof (cases "is_locally_connected (ue_auth ue) ga (aw_disk w)")
    case False
    with run ga have "link_clicked ue ga (f, w) = Some (f', w')" by (auto simp: account_clicked_def)
    then show ?thesis by (rule link_clicked_rest[OF ga])
  next
    case True
    obtain r w1 where v: "revoke_token (ue_auth ue) ga w = (r, w1)" by fastforce
    from revoke_token_frame[OF v] have "same_rest (tokens_path (ue_vars ue)) w w1"
      using commands_of_more[of w1 w] by (simp add: same_rest_def google_auth_path[OF ga])
    with run ga True v show ?thesis
      by (auto simp: account_clicked_def revoke_clicked_def split: sum.splits)
  qed
qed

section \<open>Two files of one directory\<close>

lemma last_components_in_dir:
  assumes "CHR ''/'' \<notin> set n" "n \<noteq> []" "n \<noteq> ''.''"
  shows "last (components (d @ ''/'' @ n)) = n"
proof -
  have pl: "plain_parts (ps @ [n]) = plain_parts ps @ [n]" for ps
    using assms by (simp add: plain_parts_def)
  have sp: "split_on CHR ''/'' (d @ ''/'' @ n) = split_on CHR ''/'' d @ [n]"
    using split_on_append_sep[of "CHR ''/''" d n] split_on_no_sep[OF assms(1)] by simp
  obtain q qs where q: "split_on CHR ''/'' d = q # qs" by (meson neq_Nil_conv split_on_not_Nil)
  have "plain_parts (q # qs @ [n]) = plain_parts (q # qs) @ [n]" using pl[of "q # qs"] by simp
  with q pl[of qs] show ?thesis unfolding components_def sp by (simp add: pl)
qed

lemma config_dir_ends: "config_dir env \<noteq> [] \<and> \<not> ends_with (config_dir env) ''/''"
  by (auto simp: config_dir_def push_str_def Let_def ends_with_def starts_with_def)

lemma last_component_config: "last (components (config_path env)) = ''config.toml''"
  using config_dir_ends[of env] last_components_in_dir[of "''config.toml''" "config_dir env"]
  by (simp add: config_path_def push_str_def starts_with_def)

lemma last_component_tokens: "last (tokens_path env) = ''tokens.enc''"
  using config_dir_ends[of env] last_components_in_dir[of "''tokens.enc''" "config_dir env"]
  by (simp add: tokens_path_def push_str_def starts_with_def)

lemma config_file_not_tokens: "components (config_path env) \<noteq> tokens_path env"
proof
  assume "components (config_path env) = tokens_path env"
  from arg_cong[OF this, of last] show False by (simp add: last_component_config last_component_tokens)
qed

section \<open>Every run of the settings window\<close>

definition config_file :: "('k, 's) ui_env \<Rightarrow> path" where
  "config_file ue = components (config_path (ue_vars ue))"

text \<open>
  \<open>cfg\<close> is what the window was opened on, \<open>ch\<close> the channel and \<open>body\<close> the node of the configuration
  file at that moment. While the window is open nothing was sent and the file is as it was. Once it
  is closed, either nothing was saved and \<open>Resume\<close> was sent, or the form's configuration is in the
  file and was sent before \<open>Resume\<close>. The pairs are those of \<open>cfg\<close> in any case.
\<close>

definition settings_sent :: "engine_command channel \<Rightarrow> settings_form \<Rightarrow> engine_command channel" where
  "settings_sent ch f =
     (if sf_open f then ch
      else if sf_saved f then channel_send Resume (channel_send (ApplyConfig (sf_config f)) ch) else channel_send Resume ch)"

definition form_ok :: "settings_form \<Rightarrow> bool" where
  "form_ok f =
     (1 \<le> sf_workers f \<and> sf_workers f \<le> 16 \<and> (sf_can_save f \<longrightarrow> is_remote_valid (sf_remote f)) \<and>
      (sf_open f \<longrightarrow> \<not> sf_saved f))"

definition file_ok :: "('k, 's) ui_env \<Rightarrow> node \<Rightarrow> settings_form \<Rightarrow> disk \<Rightarrow> bool" where
  "file_ok ue body f dk =
     (if sf_saved f
      then (\<exists>s t. config_text (ue_toml ue) (sf_config f) = Inr s \<and> dk_nodes dk (config_file ue) = Some (FileNode s t))
      else dk_nodes dk (config_file ue) = Some body)"

fun settings_ok ::
  "('k, 's) ui_env \<Rightarrow> app_config \<Rightarrow> engine_command channel \<Rightarrow> node \<Rightarrow> settings_form \<times> 's ui_world \<Rightarrow> bool" where
  "settings_ok ue cfg ch body (f, w) =
     (cf_sync_pairs cfg \<noteq> [] \<and> cf_sync_pairs (sf_config f) = cf_sync_pairs cfg \<and>
      (\<not> sf_saved f \<longrightarrow> sf_config f = cfg) \<and> form_ok f \<and>
      uw_commands w = settings_sent ch f \<and> file_ok ue body f (aw_disk w))"

fun settings_leads :: "settings_form \<times> 's ui_world \<Rightarrow> settings_form \<times> 's ui_world \<Rightarrow> bool" where
  "settings_leads (f, w) (f', w') =
     (sf_primary f' = sf_primary f \<and> dk_fault (aw_disk w') = dk_fault (aw_disk w) \<and>
      (\<not> sf_open f \<longrightarrow> (f', w') = (f, w)))"

lemma check_local_fields:
  "check_local env dk f = Some f' \<Longrightarrow> \<exists>ic. f' = f\<lparr>sf_local_icon := ic\<rparr>"
  by (auto simp: check_local_def)

lemma check_save_fields:
  "check_save env dk f = Some f' \<Longrightarrow> \<exists>ok. f' = f\<lparr>sf_can_save := ok\<rparr> \<and> (ok \<longrightarrow> is_remote_valid (sf_remote f))"
  by (auto simp: check_save_def update_save_sensitivity_def)

lemma toast_fields [simp]:
  "sf_config (toast t n f) = sf_config f" "sf_saved (toast t n f) = sf_saved f" "sf_open (toast t n f) = sf_open f"
  "sf_primary (toast t n f) = sf_primary f" "form_ok (toast t n f) = form_ok f"
  "settings_sent ch (toast t n f) = settings_sent ch f" "file_ok ue body (toast t n f) dk = file_ok ue body f dk"
  by (simp_all add: toast_def form_ok_def settings_sent_def file_ok_def)

lemma edited_pairs:
  "cf_sync_pairs (sf_config f) \<noteq> [] \<Longrightarrow> cf_sync_pairs (fst (edited_config f)) = cf_sync_pairs (sf_config f)"
  by (simp add: edited_config_def Let_def)

text \<open>Saving: refused, failed on the disk, or done.\<close>

lemma save_clicked_cases:
  assumes "save_clicked ue (f, w) = (f', w')"
  obtains (refused) e where "f' = toast (show_config_error e) 4 f" "w' = w"
  | (failed) e dk where "config_save (ue_toml ue) (ue_vars ue) (wall_clock ue w) (fst (edited_config f)) (aw_disk w) = (Inl e, dk)"
      "f' = toast (''Erreur sauvegarde : '' @ show_err e) 4 f" "w' = w\<lparr>aw_disk := dk\<rparr>"
  | (saved) dk where "config_save (ue_toml ue) (ue_vars ue) (wall_clock ue w) (fst (edited_config f)) (aw_disk w) = (Inr (), dk)"
      "is_valid (aw_disk w) (fst (edited_config f))"
      "f' = f\<lparr>sf_config := fst (edited_config f), sf_saved := True, sf_open := False\<rparr>"
      "w' = w\<lparr>aw_disk := dk,
         uw_commands := channel_send Resume (channel_send (ApplyConfig (fst (edited_config f))) (uw_commands w))\<rparr>"
proof (cases "app_validate (aw_disk w) (fst (edited_config f))")
  case (Inl e)
  with assms show thesis by (auto simp: save_clicked_def Let_def intro: refused)
next
  case (Inr u)
  obtain r dk where c: "config_save (ue_toml ue) (ue_vars ue) (wall_clock ue w) (fst (edited_config f)) (aw_disk w) = (r, dk)"
    by fastforce
  show thesis
  proof (cases r)
    case (Inl e)
    with assms c Inr show thesis by (auto simp: save_clicked_def Let_def intro: failed)
  next
    case (Inr u')
    with assms c \<open>app_validate _ _ = Inr u\<close> show thesis
      by (intro saved[of dk]) (auto simp: save_clicked_def Let_def close_request_def on_save_def send_command_def is_valid_def)
  qed
qed

lemma config_save_node:
  assumes "config_save tc env now c dk = (r, dk')" "dk_nodes dk (components (config_path env)) = Some n"
  shows "dk_fault dk' = dk_fault dk \<and>
    (case r of Inl _ \<Rightarrow> dk_nodes dk' (components (config_path env)) = Some n
     | Inr _ \<Rightarrow> \<exists>s. config_text tc c = Inr s \<and> dk_nodes dk' (components (config_path env)) = Some (FileNode s now))"
proof -
  let ?p = "components (config_path env)"
  obtain q dk1 where d: "ensure_parent ?p dk = (q, dk1)" by fastforce
  have nd: "only_new_dirs dk dk1" using ensure_parent_new_dirs[OF d] .
  then have n1: "dk_nodes dk1 ?p = Some n" "dk_fault dk1 = dk_fault dk"
    using only_new_dirs_node[OF nd] only_new_dirs_fault[OF nd] assms(2) by auto
  with assms(1) d show ?thesis
    by (auto simp: config_save_def save_to_path_def split: sum.splits dest: fs_write_Inr)
qed

lemma remaining_node:
  "same_rest (tokens_path (ue_vars ue)) w w' \<Longrightarrow> dk_nodes (aw_disk w) (config_file ue) = Some n \<Longrightarrow>
   dk_nodes (aw_disk w') (config_file ue) = Some n"
  using config_file_not_tokens[of "ue_vars ue"] by (auto simp: same_rest_def keeps_other_nodes_def config_file_def)

text \<open>An event that edits a field of the open form.\<close>

lemma settings_ok_edit:
  assumes "settings_ok ue cfg ch body (f, w)" "sf_open f" "sf_config f' = sf_config f" "sf_saved f' = sf_saved f"
    "sf_open f' = sf_open f" "form_ok f'"
  shows "settings_ok ue cfg ch body (f', w)"
  using assms by (auto simp: settings_sent_def file_ok_def)

lemma settings_ok_account:
  assumes "settings_ok ue cfg ch body (f, w)" "sf_open f" "same_form f f'"
    "same_rest (tokens_path (ue_vars ue)) w w'"
  shows "settings_ok ue cfg ch body (f', w')"
proof -
  have "\<not> sf_saved f" using assms(1,2) by (simp add: form_ok_def)
  moreover have "uw_commands w' = uw_commands w" using assms(4) by (simp add: same_rest_def)
  moreover have "file_ok ue body f (aw_disk w')"
    using assms(1) \<open>\<not> sf_saved f\<close> remaining_node[OF assms(4)] by (simp add: file_ok_def)
  ultimately show ?thesis
    using assms(1) same_form_fields[OF assms(3)] by (simp add: form_ok_def settings_sent_def file_ok_def)
qed

lemma settings_ok_save:
  assumes ok: "settings_ok ue cfg ch body (f, w)" and op: "sf_open f"
    and run: "save_clicked ue (f, w) = (f', w')"
  shows "settings_ok ue cfg ch body (f', w') \<and> dk_fault (aw_disk w') = dk_fault (aw_disk w)"
proof -
  have ns: "\<not> sf_saved f" "dk_nodes (aw_disk w) (config_file ue) = Some body" "uw_commands w = ch"
    using ok op by (simp_all add: form_ok_def file_ok_def settings_sent_def)
  from run show ?thesis
  proof (cases rule: save_clicked_cases)
    case (refused e)
    with ok show ?thesis by simp
  next
    case (failed e dk)
    from config_save_node[OF failed(1)] ns(2)
    have "dk_nodes dk (config_file ue) = Some body" "dk_fault dk = dk_fault (aw_disk w)"
      by (simp_all add: config_file_def)
    with ok failed ns show ?thesis by (simp add: file_ok_def)
  next
    case (saved dk)
    from config_save_node[OF saved(1)] ns(2) have "dk_fault dk = dk_fault (aw_disk w)"
      "\<exists>s. config_text (ue_toml ue) (fst (edited_config f)) = Inr s \<and>
         dk_nodes dk (config_file ue) = Some (FileNode s (wall_clock ue w))"
      by (simp_all add: config_file_def)
    with ok saved ns edited_pairs[of f] show ?thesis
      by (auto simp: file_ok_def form_ok_def settings_sent_def)
  qed
qed

lemma settings_step_kept:
  assumes ok: "settings_ok ue cfg ch body (f, w)" and run: "settings_step ue ev (f, w) = Some (f', w')"
  shows "settings_ok ue cfg ch body (f', w') \<and> settings_leads (f, w) (f', w')"
proof (cases "sf_open f")
  case False
  with ok run show ?thesis by (simp add: settings_step_def)
next
  case op: True
  have fo: "form_ok f" using ok by simp
  have plain: ?thesis
    if "w' = w \<and> sf_config f' = sf_config f \<and> sf_saved f' = sf_saved f \<and> sf_open f' = sf_open f \<and>
      sf_primary f' = sf_primary f \<and> form_ok f'"
    using that settings_ok_edit[OF ok op, of f'] op by simp
  show ?thesis
  proof (cases ev)
    case (EditLocal raw)
    with run op obtain g ic k where "f' = g\<lparr>sf_can_save := k\<rparr>" "g = f\<lparr>sf_local := raw, sf_local_icon := ic\<rparr>" "w' = w"
      "k \<longrightarrow> is_remote_valid (sf_remote g)"
      by (auto simp: settings_step_def bind_eq_Some_conv dest!: check_local_fields check_save_fields)
    with fo op show ?thesis by (intro plain) (simp add: form_ok_def)
  next
    case (EditRemote raw)
    with run op obtain k where "f' = (check_remote (f\<lparr>sf_remote := raw\<rparr>))\<lparr>sf_can_save := k\<rparr>" "w' = w"
      "k \<longrightarrow> is_remote_valid raw"
      by (auto simp: settings_step_def check_remote_def dest!: check_save_fields)
    with fo op show ?thesis by (intro plain) (simp add: form_ok_def check_remote_def)
  next
    case AccountClicked
    then have "f' = f \<and> w' = w \<or> account_clicked ue (f, w) = Some (f', w')"
      using run op by (auto simp: settings_step_def split: if_splits)
    then have r: "same_form f f'" "same_rest (tokens_path (ue_vars ue)) w w'"
      using account_clicked_rest[of ue f w f' w'] by auto
    from settings_ok_account[OF ok op this] same_form_fields[OF r(1)] r(2) op show ?thesis
      by (simp add: same_rest_def keeps_other_nodes_def)
  next
    case AccountLoaded
    then have "f' = f \<and> w' = w \<or> account_loaded ue (f, w) = Some (f', w')"
      using run op by (auto simp: settings_step_def split: if_splits)
    then have r: "same_form f f'" "same_rest (tokens_path (ue_vars ue)) w w'"
      using account_loaded_rest[of ue f w f' w'] by auto
    from settings_ok_account[OF ok op this] same_form_fields[OF r(1)] r(2) op show ?thesis
      by (simp add: same_rest_def keeps_other_nodes_def)
  next
    case SaveClicked
    show ?thesis
    proof (cases "sf_can_save f")
      case True
      with SaveClicked run op have s: "save_clicked ue (f, w) = (f', w')" by (simp add: settings_step_def)
      have "sf_primary f' = sf_primary f" using s by (cases rule: save_clicked_cases) simp_all
      with settings_ok_save[OF ok op s] op show ?thesis by simp
    next
      case False
      with SaveClicked run op ok show ?thesis by (simp add: settings_step_def)
    qed
  next
    case CloseClicked
    with run op ok show ?thesis
      by (auto simp: settings_step_def close_request_def form_ok_def settings_sent_def file_ok_def send_command_def)
  qed (rule plain; use run op fo in \<open>auto simp: settings_step_def form_ok_def Let_def toast_def add_glob_def browse_exclude_def
      remove_pattern_def spin_workers_def split: if_splits\<close>)+
qed

interpretation settings_loop: reactive "settings_step ue" "settings_ok ue cfg ch body" settings_leads
  for ue cfg ch body
proof unfold_locales
  fix s s' e
  assume "settings_ok ue cfg ch body s" "settings_step ue e s = Some s'"
  then show "settings_ok ue cfg ch body s'" "settings_leads s s'"
    using settings_step_kept[of ue cfg ch body "fst s" "snd s" e "fst s'" "snd s'"] by simp_all
next
  fix s s' s'' :: "settings_form \<times> 'b ui_world"
  show "settings_leads s s" by (cases s) simp
  assume "settings_leads s s'" "settings_leads s' s''"
  then show "settings_leads s s''" by (cases s; cases s'; cases s'') auto
qed

section \<open>Opening\<close>

lemma settings_expand_tilde_eq: "settings_expand_tilde = expand_tilde"
  by (intro ext) (simp add: settings_expand_tilde_def expand_tilde_def)

lemma expand_tilde_None_iff: "expand_tilde env s = None \<longleftrightarrow> s = ''~''"
  by (auto simp: expand_tilde_def slice_from_def starts_with_iff)

lemma is_local_valid_None_iff: "is_local_valid env dk s = None \<longleftrightarrow> trim s = ''~''"
  by (auto simp: is_local_valid_def settings_expand_tilde_eq expand_tilde_None_iff)

lemma check_local_None_iff: "check_local env dk f = None \<longleftrightarrow> trim (sf_local f) = ''~''"
  by (auto simp: check_local_def update_local_status_def is_local_valid_None_iff)

lemma check_save_None_iff: "check_save env dk f = None \<longleftrightarrow> trim (sf_local f) = ''~''"
  by (simp add: check_save_def update_save_sensitivity_def is_local_valid_None_iff)

lemma check_local_local: "check_local env dk f = Some f' \<Longrightarrow> sf_local f' = sf_local f"
  by (auto simp: check_local_def)

lemma edit_local_None_iff:
  assumes "sf_open f"
  shows "settings_step ue (EditLocal raw) (f, w) = None \<longleftrightarrow> trim raw = ''~''"
  using assms check_local_None_iff[of "ue_vars ue" "aw_disk w" "f\<lparr>sf_local := raw\<rparr>"]
    check_local_local[of "ue_vars ue" "aw_disk w" "f\<lparr>sf_local := raw\<rparr>"]
  by (cases "check_local (ue_vars ue) (aw_disk w) (f\<lparr>sf_local := raw\<rparr>)")
    (auto simp: settings_step_def check_save_None_iff)

lemma settings_open_Inl_iff: "(\<exists>e. settings_open ue cfg dk = Some (Inl e)) \<longleftrightarrow> get_primary_pair cfg = None"
  by (auto simp: settings_open_def split: option.splits)

lemma settings_open_form:
  assumes "settings_open ue cfg dk = Some (Inr f)"
  shows "cf_sync_pairs cfg \<noteq> [] \<and> get_primary_pair cfg = Some (sf_primary f) \<and> sf_config f = cfg \<and>
    sf_open f \<and> \<not> sf_saved f \<and> form_ok f"
proof -
  obtain pr ga f1 where pr: "get_primary_pair cfg = Some pr"
    and f1: "check_local (ue_vars ue) dk (initial_form cfg pr (is_locally_connected (ue_auth ue) ga dk)) = Some f1"
    and f: "check_save (ue_vars ue) dk (check_remote f1) = Some f"
    using assms by (auto simp: settings_open_def bind_eq_Some_conv split: option.splits)
  from pr have "cf_sync_pairs cfg \<noteq> []" by (auto simp: get_primary_pair_def)
  with pr check_local_fields[OF f1] check_save_fields[OF f] show ?thesis
    by (auto simp: initial_form_def form_ok_def check_remote_def spin_workers_def)
qed

text \<open>The window that opens, and the state it starts from.\<close>

lemma show_settings_Some:
  assumes run: "show_settings_in_app ue w = Some (f, w1)"
    and fault: "dk_fault (aw_disk w) OpStat (config_file ue) = None"
  shows "\<exists>b body. load_or_create (ue_toml ue) (ue_vars ue) (wall_clock ue w) (aw_disk w) = Some (Inr (sf_config f, b), aw_disk w1) \<and>
    settings_ok ue (sf_config f) (channel_send OpenSettings (uw_commands w)) body (f, w1) \<and>
    get_primary_pair (sf_config f) = Some (sf_primary f)"
proof -
  have clock: "wall_clock ue (send_command OpenSettings w) = wall_clock ue w" "aw_disk (send_command OpenSettings w) = aw_disk w"
    by (simp_all add: send_command_def wall_clock_def)
  obtain r dk where l: "load_or_create (ue_toml ue) (ue_vars ue) (wall_clock ue w) (aw_disk w) = Some (r, dk)"
    and o: "settings_open ue (case r of Inl _ \<Rightarrow> app_default | Inr (c, _) \<Rightarrow> c) dk = Some (Inr f)"
    and w1: "w1 = (send_command OpenSettings w)\<lparr>aw_disk := dk\<rparr>"
    using run by (auto simp: show_settings_in_app_def clock Let_def split: option.splits sum.splits)
  have "get_primary_pair app_default = None" by (simp add: get_primary_pair_def app_default_def)
  then obtain c b where r: "r = Inr (c, b)"
    using o by (cases r) (auto simp: settings_open_def)
  with l have "seen (config_file ue) dk"
    using load_from_path_seen[of "ue_toml ue" "ue_vars ue"] fault by (simp add: load_or_create_def config_file_def)
  then obtain body where "dk_nodes dk (config_file ue) = Some body" by (auto simp: seen_def)
  with settings_open_form[of ue c dk f] o r l w1 show ?thesis
    by (auto simp: settings_sent_def file_ok_def send_command_def)
qed

section \<open>The first start\<close>

text \<open>The file that loading creates is read back as the default configuration, which has no pair.\<close>

lemma created_config:
  assumes "toml_faithful tc" "load_or_create tc env now dk = Some (Inr (cfg, True), dk1)"
    and "dk_fault dk OpStat (components (config_path env)) = None" "dk_fault dk OpRead (components (config_path env)) = None"
  shows "cfg = app_default \<and> load_or_create tc env now' dk1 = Some (Inr (app_default, False), dk1)"
proof -
  let ?p = "components (config_path env)"
  have np: "\<not> path_exists ?p dk"
    using assms(2) by (auto simp: load_or_create_def load_from_path_def Let_def split: if_splits sum.splits prod.splits)
  then obtain u dkp u' where d: "ensure_parent ?p dk = (Inr u, dkp)"
    and s: "save_to_path tc now app_default ?p dkp = (Inr u', dk1)" and c: "cfg = app_default"
    using assms(2) by (auto simp: load_or_create_def load_from_path_def split: sum.splits prod.splits)
  have "dk_fault dkp = dk_fault dk" using only_new_dirs_fault[OF ensure_parent_new_dirs[OF d]] .
  moreover have "expand_tildes env app_default = Some app_default"
    by (simp add: expand_tildes_def app_default_def)
  ultimately show ?thesis using load_saved[OF assms(1) s] assms(3,4) c by (simp add: load_or_create_def)
qed

lemma default_has_no_pair: "get_primary_pair app_default = None" "\<not> is_valid dk app_default"
  by (simp_all add: get_primary_pair_def app_default_def is_valid_def app_validate_def bind_res_def
      advanced_validate_def advanced_default_def)

lemma first_start_facts:
  assumes "toml_faithful (ue_toml ue)" "load_or_create (ue_toml ue) (ue_vars ue) now dk = Some (Inr (cfg, True), dk1)"
    and "dk_fault dk OpStat (config_file ue) = None" "dk_fault dk OpRead (config_file ue) = None"
  shows "\<exists>su reason. plan_startup (ue_vars ue) cfg dk1 = Inr su \<and> su_launch su = LaunchUnconfigured reason \<and>
    su_open_settings su"
proof -
  have "cfg = app_default" using created_config[OF assms(1,2)] assms(3,4) by (simp add: config_file_def)
  with default_has_no_pair(2)[of dk1] show ?thesis
    by (auto simp: plan_startup_def Let_def is_valid_def is_ok_def split: sum.splits)
qed

lemma first_settings_panic:
  assumes "toml_faithful (ue_toml ue)" "load_or_create (ue_toml ue) (ue_vars ue) now dk = Some (Inr (cfg, True), dk1)"
    and "dk_fault dk OpStat (config_file ue) = None" "dk_fault dk OpRead (config_file ue) = None"
    and "aw_disk w = dk1"
  shows "show_settings_in_app ue w = None"
proof -
  have "load_or_create (ue_toml ue) (ue_vars ue) now' dk1 = Some (Inr (app_default, False), dk1)" for now'
    using created_config[OF assms(1,2)] assms(3,4) by (simp add: config_file_def)
  with assms(5) show ?thesis
    by (simp add: show_settings_in_app_def send_command_def settings_open_def default_has_no_pair)
qed

text \<open>
  Editing the local folder of an open settings window panics exactly when the text, without surrounding
  blanks, is \<open>~\<close>. Each key pressed is an edit, so a user who types \<open>~/Documents\<close> ends
  the whole program with the first character.
\<close>

lemma typing_a_tilde_ends_the_program:
  assumes "sf_open f"
  shows "(settings_step ue (EditLocal raw) (f, w) = None \<longleftrightarrow> trim raw = ''~'') \<and>
    run_events (settings_step ue) (map EditLocal (''~'' # texts)) (f, w) = None"
proof -
  have one: "settings_step ue (EditLocal raw) (f, w) = None \<longleftrightarrow> trim raw = ''~''" for raw
    using assms by (rule edit_local_None_iff)
  have "trim ''~'' = ''~''" by code_simp
  with one[of "''~''"] one[of raw] show ?thesis by simp
qed

end
