(* ===== verification/Desktop.thy ===== *)
theory Desktop
  imports Ui_Laws
begin

text \<open>
  The windows and the tray with the engine: the commands that wait in the channel are received one
  after the other, and the tray receives the statuses the engine sends.
\<close>

section \<open>The engine on the commands of the windows\<close>

definition feed ::
  "('g, 's, 'p) engine_env \<Rightarrow> disk \<Rightarrow> engine_command list \<Rightarrow> 'p engine \<Rightarrow> 'p engine option" where
  "feed env dk cs e = run_events (\<lambda>c. engine_step env (MainCommand (Some c) [] 0 dk)) cs e"

text \<open>An engine that runs and is never cancelled from outside.\<close>

definition awake :: "'p engine \<Rightarrow> bool" where
  "awake e = (en_phase e = Running \<and> w_cancel (en_world e) = None)"

lemma awake_command:
  "awake e \<Longrightarrow> engine_step env (MainCommand c cmds n dk) e =
     (if en_paused e then on_command_paused env dk c cmds n e else on_command env dk c cmds n e)"
  by (simp add: awake_def engine_step_def main_step_def)

lemma awake_simps [simp]:
  "awake (send_st s e) = awake e" "awake (e\<lparr>en_paused := b\<rparr>) = awake e"
  "awake (e\<lparr>en_cfg := c\<rparr>) = awake e" "awake (e\<lparr>en_rescan_on_resume := b\<rparr>) = awake e"
  by (simp_all add: awake_def send_st_def send_status_def)

lemma send_st_simps [simp]:
  "en_paused (send_st s e) = en_paused e" "en_cfg (send_st s e) = en_cfg e"
  "en_local_root (send_st s e) = en_local_root e" "en_offline (send_st s e) = en_offline e"
  "en_rescan_on_resume (send_st s e) = en_rescan_on_resume e" "en_phase (send_st s e) = en_phase e"
  by (simp_all add: send_st_def)

lemma last_status_send_st [simp]: "last (w_status (en_world (send_st s e))) = s"
  by (simp add: send_st_def send_status_def)

lemma paused_twice [simp]: "en_paused e \<Longrightarrow> e\<lparr>en_paused := True\<rparr> = e"
  by (cases e) simp

lemma feed_open:
  "awake e \<Longrightarrow> engine_step env (MainCommand (Some OpenSettings) cmds n dk) e =
     Some (send_st StatusSettings (e\<lparr>en_paused := True\<rparr>))"
  "awake e \<Longrightarrow> engine_step env (MainCommand (Some OpenHelp) cmds n dk) e =
     Some (send_st StatusHelp (e\<lparr>en_paused := True\<rparr>))"
  by (auto simp: awake_command on_command_paused_def on_command_def)

text \<open>A scan that no command cuts leaves the pause as it is, and always comes to an end in the model.\<close>

lemma run_whole_scan_paused:
  assumes "\<And>r e. en_paused (k r e) = en_paused e"
  shows "en_paused (run_whole_scan cx ign k e) = en_paused e"
  using assms by (simp add: run_whole_scan_def split: prod.splits)

lemma after_scan_paused: "en_paused (after_scan r e) = en_paused e"
  by (auto simp: after_scan_def cancel_token_def split: sum.splits)

lemma start_scan_uncut:
  "\<exists>e'. start_scan env dk pr [] n e = Some e' \<and> en_paused e' = en_paused e"
  by (auto simp: start_scan_def await_scan_def return_err_def Let_def run_whole_scan_paused after_scan_paused
      split: option.splits sum.splits)

lemma feed_resume:
  assumes "awake e" "en_paused e"
  shows "\<exists>e'. engine_step env (MainCommand (Some Resume) [] 0 dk) e = Some e' \<and> \<not> en_paused e'"
proof -
  obtain e1 where "start_scan env dk (get_primary_pair (en_cfg e)) [] 0
      (e\<lparr>en_paused := False, en_rescan_on_resume := False\<rparr>) = Some e1" "\<not> en_paused e1"
    using start_scan_uncut[of env dk "get_primary_pair (en_cfg e)" 0 "e\<lparr>en_paused := False, en_rescan_on_resume := False\<rparr>"]
    by auto
  with assms show ?thesis
    by (auto simp: awake_command on_command_paused_def Let_def idle_if_running_def)
qed

text \<open>The pairs of a new configuration being those in use, the root stays and the engine stays paused.\<close>

lemma feed_apply:
  assumes "awake e" "en_paused e" "get_primary_pair c = Some p" "pair_base p = en_local_root e"
  shows "engine_step env (MainCommand (Some (ApplyConfig c)) [] 0 dk) e =
    Some (e\<lparr>en_cfg := c, en_rescan_on_resume := True\<rparr>)"
  using assms by (simp add: awake_command on_command_paused_def Let_def)

text \<open>What the settings window sends makes the engine leave the pause it was put in.\<close>

lemma feed_settings:
  assumes "awake e" "get_primary_pair c = Some p" "pair_base p = en_local_root e"
  shows "\<exists>e'. feed env dk [OpenSettings, Resume] e = Some e' \<and> \<not> en_paused e'"
    "\<exists>e'. feed env dk [OpenSettings, ApplyConfig c, Resume] e = Some e' \<and> \<not> en_paused e'"
proof -
  let ?e1 = "send_st StatusSettings (e\<lparr>en_paused := True\<rparr>)"
  have e1: "awake ?e1" "en_paused ?e1" "pair_base p = en_local_root ?e1" using assms by simp_all
  show "\<exists>e'. feed env dk [OpenSettings, Resume] e = Some e' \<and> \<not> en_paused e'"
    using feed_resume[OF e1(1,2), of env dk] by (auto simp: feed_def feed_open(1)[OF assms(1)])
  let ?e2 = "?e1\<lparr>en_cfg := c, en_rescan_on_resume := True\<rparr>"
  have "awake ?e2" "en_paused ?e2" using e1 by simp_all
  from feed_resume[OF this, of env dk] show "\<exists>e'. feed env dk [OpenSettings, ApplyConfig c, Resume] e = Some e' \<and> \<not> en_paused e'"
    by (auto simp: feed_def feed_open(1)[OF assms(1)] feed_apply[OF e1(1,2) assms(2) e1(3)])
qed

lemma feed_help:
  assumes "awake e"
  shows "\<exists>e'. feed env dk [OpenHelp, Resume] e = Some e' \<and> \<not> en_paused e'"
proof -
  let ?e1 = "send_st StatusHelp (e\<lparr>en_paused := True\<rparr>)"
  have "awake ?e1" "en_paused ?e1" using assms by simp_all
  from feed_resume[OF this, of env dk] show ?thesis by (auto simp: feed_def feed_open(2)[OF assms])
qed

section \<open>A paused engine and its tray\<close>

lemma paused_ignores:
  "awake e \<Longrightarrow> en_paused e \<Longrightarrow> c = Pause \<or> c = ForceScan \<Longrightarrow>
     engine_step env (MainCommand (Some c) cmds n dk) e = Some e"
  by (auto simp: awake_command on_command_paused_def)

definition unfinished :: "'p engine \<Rightarrow> bool" where
  "unfinished e =
     (tk_total_files (w_tracker (en_world e)) > 0 \<and>
      tk_done_files (w_tracker (en_world e)) < tk_total_files (w_tracker (en_world e)))"

lemma snapshot_counts: "ps_total_files (snapshot tk) = tk_total_files tk" "ps_done_files (snapshot tk) = tk_done_files tk"
  by (simp_all add: snapshot_def Let_def)

lemma publish_unfinished:
  "awake e \<Longrightarrow> unfinished e \<Longrightarrow>
     engine_step env BgPublish e = Some (send_st (SyncProgress (snapshot (w_tracker (en_world e)))) e)"
  by (simp add: awake_def unfinished_def engine_step_def bg_step_def publish_progress_def snapshot_counts Let_def)

text \<open>The tray after all statuses of a list.\<close>

definition tray_follow :: "engine_status list \<Rightarrow> sync_tray \<Rightarrow> sync_tray" where
  "tray_follow ss t = fold tray_update ss t"

lemma tray_follow_status: "ss \<noteq> [] \<Longrightarrow> sy_status (tray_follow ss t) = last ss"
  by (cases ss rule: rev_cases) (simp_all add: tray_follow_def tray_update_fields)

section \<open>The engine's own notifications\<close>

text \<open>What \<open>run_with_provider\<close> hands to \<open>notif.rs\<close> in one step of the engine.\<close>

definition is_reachable :: "health_status res \<Rightarrow> bool" where
  "is_reachable r = (case r of Inr (HealthOk _ _ _) \<Rightarrow> True | Inr AuthExpired \<Rightarrow> True | _ \<Rightarrow> False)"

definition health_notices :: "('g, 's, 'p) engine_env \<Rightarrow> 'p engine \<Rightarrow> notification list" where
  "health_notices env e =
     (let up = is_reachable (fst (rp_check_health (ev_provider env) (w_drive (en_world e)))) in
      if up then (if en_offline e then connection_restored (en_cfg e) else [])
      else if \<not> en_offline e then connection_lost (en_cfg e) else [])"

definition job_notices :: "('g, 's, 'p) engine_env \<Rightarrow> disk \<Rightarrow> nat \<Rightarrow> 'p engine \<Rightarrow> notification list" where
  "job_notices env dk i e =
     (if i \<ge> length (en_jobs e) then []
      else case en_jobs e ! i of (t, cfg, pats) \<Rightarrow>
        (case is_cancelled (en_world e) of
           (Inr False, w) \<Rightarrow>
             (case from_patterns (ev_globs env) pats of
                Inl _ \<Rightarrow> []
              | Inr gs \<Rightarrow>
                  (case handle (engine_ctx env cfg (en_dry_run e) dk) (is_ignored (ev_globs env) gs) t w of
                     (Inr _, w') \<Rightarrow> []
                   | (Inl m, w') \<Rightarrow>
                       if \<not> is_shutdown_err m \<and> fst (is_cancelled w') = Inr False \<and> is_quota_err m
                       then quota_exceeded cfg else []))
         | _ \<Rightarrow> []))"

definition step_notices :: "('g, 's, 'p) engine_env \<Rightarrow> engine_event \<Rightarrow> 'p engine \<Rightarrow> notification list" where
  "step_notices env ev e =
     (case ev of
        MainHealth \<Rightarrow>
          (if en_phase e = Running \<and> fst (is_cancelled (en_world e)) = Inr False \<and> \<not> en_paused e
           then health_notices env e else [])
      | BgJob i dk \<Rightarrow> if en_phase e = Aborted then [] else job_notices env dk i e
      | _ \<Rightarrow> [])"

lemma flush_now_offline [simp]: "en_offline (flush_now e) = en_offline e"
  by (simp add: flush_now_def split: prod.splits)

text \<open>A health check announces exactly the changes of the offline flag.\<close>

lemma on_health_offline:
  "en_offline (on_health env e) \<longleftrightarrow>
     \<not> is_reachable (fst (rp_check_health (ev_provider env) (w_drive (en_world e))))"
  by (auto simp: on_health_def is_reachable_def drive_act_def Let_def split: prod.splits sum.splits health_status.splits)

lemma network_notices_follow_the_offline_flag:
  assumes "engine_step env MainHealth e = Some e'"
  shows "step_notices env MainHealth e =
    (if en_offline e' = en_offline e then []
     else if en_offline e' then connection_lost (en_cfg e) else connection_restored (en_cfg e))"
proof (cases "is_cancelled (en_world e)" rule: prod.exhaust)
  case (Pair r w)
  from assms have run: "en_phase e = Running" by (auto simp: engine_step_def main_step_def split: if_splits)
  show ?thesis
  proof (cases "r = Inr False")
    case True
    with Pair have d: "w_drive w = w_drive (en_world e)"
      using is_cancelled_frame(1)[of "en_world e"] by simp
    from assms run Pair True have "\<not> en_paused e" "e' = on_health env (e\<lparr>en_world := w\<rparr>)"
      by (auto simp: engine_step_def main_step_def split: if_splits)
    with run Pair True d show ?thesis
      by (auto simp: step_notices_def health_notices_def on_health_offline)
  next
    case False
    with assms run Pair have "e' = finish (e\<lparr>en_world := w\<rparr>)"
      by (auto simp: engine_step_def main_step_def split: sum.splits bool.splits)
    with run Pair False show ?thesis by (simp add: step_notices_def finish_def send_st_def)
  qed
qed

text \<open>
  An engine that the user has paused, and an empty channel: opening and closing the help window
  sends \<open>OpenHelp\<close> and \<open>Resume\<close>, and the engine that receives them is not paused any more.
\<close>

lemma closing_the_help_ends_a_pause:
  assumes "ch_queue (uw_commands (ua_world a)) = []" "2 \<le> room (uw_commands (ua_world a))"
    and "awake e" "en_paused e"
  shows "\<exists>a' e'. run_events (ui_step ue) [UiCommand ShowHelp, HelpClosed] a = Some a' \<and>
    feed env dk (ch_queue (uw_commands (ua_world a'))) e = Some e' \<and> \<not> en_paused e'"
proof -
  let ?a' = "close_help (show_help_in_app a)"
  have run: "run_events (ui_step ue) [UiCommand ShowHelp, HelpClosed] a = Some ?a'"
    by (simp add: ui_step_def ui_command_step_def)
  have "uw_commands (ua_world ?a') = fold channel_send [OpenHelp, Resume] (uw_commands (ua_world a))"
    by (simp add: close_help_def show_help_in_app_def send_command_def)
  then have "ch_queue (uw_commands (ua_world ?a')) = [OpenHelp, Resume]"
    using assms(1,2) queue_after_sends[of "[OpenHelp, Resume]"] by simp
  with run feed_help[OF assms(3), of env dk] show ?thesis by metis
qed

end
