(* ===== verification/Program_Laws.thy ===== *)
theory Program_Laws
  imports Program Desktop
begin

text \<open>
  What holds of \<open>main.rs\<close>: one instance per lock file in every run of starts and exits, what the
  program knows when its main loop begins, and when it ends.
\<close>

section \<open>The lock\<close>

lemma open_or_create_keeps:
  "open_or_create now p dk = Inr dk' \<Longrightarrow>
     dk_fault dk' = dk_fault dk \<and> (\<forall>q. dk_nodes dk q \<noteq> None \<longrightarrow> dk_nodes dk' q \<noteq> None)"
  by (auto simp: open_or_create_def io_Inr_iff dest!: fs_write_Inr split: option.splits node.splits)

lemma acquire_cases:
  assumes "acquire_instance_lock now p pid dk locks = (r, dk', locks')"
  shows "dk_fault dk' = dk_fault dk \<and> (\<forall>q. dk_nodes dk q \<noteq> None \<longrightarrow> dk_nodes dk' q \<noteq> None) \<and>
    (if r = LockHeld then locks p = None \<and> locks' = locks(p \<mapsto> pid) else locks' = locks)"
  using assms open_or_create_keeps[of now p dk]
  by (auto simp: acquire_instance_lock_def dest!: fs_write_Inr split: sum.splits if_splits)

text \<open>Instances that start and end; the locks of an instance end with it.\<close>

record instances =
  is_disk :: disk
  is_locks :: "path \<Rightarrow> nat option"
  is_running :: "(nat \<times> path) list"

datatype instance_event = InstanceStarts int path nat | InstanceEnds nat

definition instance_step :: "instance_event \<Rightarrow> instances \<Rightarrow> instances option" where
  "instance_step ev s =
     (case ev of
        InstanceStarts now p pid \<Rightarrow>
          (if pid \<in> fst ` set (is_running s) then None
           else case acquire_instance_lock now p pid (is_disk s) (is_locks s) of
             (r, dk, locks) \<Rightarrow>
               Some (s\<lparr>is_disk := dk, is_locks := locks,
                 is_running := (if r = LockHeld then (pid, p) # is_running s else is_running s)\<rparr>))
      | InstanceEnds pid \<Rightarrow>
          Some (s\<lparr>is_locks := (\<lambda>p. if is_locks s p = Some pid then None else is_locks s p),
            is_running := filter (\<lambda>x. fst x \<noteq> pid) (is_running s)\<rparr>))"

definition instances_ok :: "instances \<Rightarrow> bool" where
  "instances_ok s = (\<forall>pid p. (pid, p) \<in> set (is_running s) \<longrightarrow> is_locks s p = Some pid)"

definition files_stay :: "instances \<Rightarrow> instances \<Rightarrow> bool" where
  "files_stay s s' = (\<forall>q. dk_nodes (is_disk s) q \<noteq> None \<longrightarrow> dk_nodes (is_disk s') q \<noteq> None)"

lemma instance_step_keeps:
  assumes "instances_ok s" "instance_step ev s = Some s'"
  shows "instances_ok s' \<and> files_stay s s'"
proof (cases ev)
  case (InstanceStarts now p pid)
  obtain r dk locks where a: "acquire_instance_lock now p pid (is_disk s) (is_locks s) = (r, dk, locks)"
    by (cases "acquire_instance_lock now p pid (is_disk s) (is_locks s)")
  from acquire_cases[OF a] assms a InstanceStarts show ?thesis
    by (auto simp: instance_step_def instances_ok_def files_stay_def split: if_splits)
next
  case (InstanceEnds pid)
  with assms show ?thesis by (auto simp: instance_step_def instances_ok_def files_stay_def)
qed

interpretation instance_loop: reactive instance_step instances_ok files_stay
  by unfold_locales (use instance_step_keeps in \<open>auto simp: files_stay_def\<close>)

text \<open>Whatever instances start and end, two that run with the same lock file are one.\<close>

lemma one_instance_per_lock:
  assumes "run_events instance_step evs \<lparr>is_disk = dk, is_locks = Map.empty, is_running = []\<rparr> = Some s"
    and "(a, p) \<in> set (is_running s)" "(b, p) \<in> set (is_running s)"
  shows "a = b"
proof -
  have "instances_ok \<lparr>is_disk = dk, is_locks = Map.empty, is_running = []\<rparr>" by (simp add: instances_ok_def)
  from instance_loop.run_keeps[OF this assms(1)] have "instances_ok s" by simp
  with assms(2,3) have "is_locks s p = Some a" "is_locks s p = Some b"
    unfolding instances_ok_def by blast+
  then show ?thesis by simp
qed

section \<open>The start\<close>

lemma log_dir_fault: "log_dir env v dk = (d, dk') \<Longrightarrow> dk_fault dk' = dk_fault dk"
  using only_new_dirs_fault[OF create_dir_all_only_new_dirs] by (auto simp: log_dir_def Let_def)

lemma db_path_fault: "db_path env v dk = (d, dk') \<Longrightarrow> dk_fault dk' = dk_fault dk"
  using only_new_dirs_fault[OF create_dir_all_only_new_dirs] by (auto simp: db_path_def Let_def)

text \<open>What a session starts with.\<close>

lemma begin_session_facts:
  assumes "begin_session pe logs cfg db su = MainRuns s"
  shows "ms_config s = cfg \<and> ms_startup s = su \<and> ms_database s = db \<and>
    room (sy_commands (ms_tray s)) = unat (av_engine_channel_capacity (cf_advanced cfg)) \<and>
    room (sy_commands (ms_tray s)) > 0 \<and> sy_ui (ms_tray s) = (if su_open_settings su then [ShowSettings] else []) \<and>
    tray_ok (ms_tray s)"
  using assms
  by (auto simp: begin_session_def channel_new_def room_def spawn_tray_def tray_ok_def shown_notifications_def Let_def
      split: if_splits)

lemma main_configure_runs:
  assumes "main_configure pe logs now dk = (MainRuns s, dk')"
  obtains db_file dk1 dk2 where "dk_fault dk1 = dk_fault dk"
    "run_all_migrations (ue_toml pe) (ue_vars pe) now (pe_sqlite pe) (components db_file) dk1 =
       Some (Inr (ms_config s, ms_database s), dk2)"
    "plan_startup (ue_vars pe) (ms_config s) dk2 = Inr (ms_startup s)"
    "begin_session pe logs (ms_config s) (ms_database s) (ms_startup s) = MainRuns s"
proof -
  obtain db_file dk1 where f: "db_path (ue_vars pe) (pe_data_home pe) dk = (db_file, dk1)"
    by (cases "db_path (ue_vars pe) (pe_data_home pe) dk")
  obtain cfg db dk2 su where m:
    "run_all_migrations (ue_toml pe) (ue_vars pe) now (pe_sqlite pe) (components db_file) dk1 = Some (Inr (cfg, db), dk2)"
    "plan_startup (ue_vars pe) cfg dk2 = Inr su" and b: "begin_session pe logs cfg db su = MainRuns s"
    using assms f by (auto simp: main_configure_def split: prod.splits option.splits sum.splits)
  from begin_session_facts[OF b] m b db_path_fault[OF f] show ?thesis by (auto intro: that)
qed

lemma main_start_runs:
  assumes "main_start pe pid (w, locks) = (MainRuns s, w', locks')"
  obtains logs now dk dk' where "dk_fault dk = dk_fault (aw_disk w)" "main_configure pe logs now dk = (MainRuns s, dk')"
    "locks (components (lock_path (pe_runtime_dir pe) (pe_uid pe))) = None"
    "locks' = locks(components (lock_path (pe_runtime_dir pe) (pe_uid pe)) \<mapsto> pid)"
proof -
  let ?now = "ac_unix (ue_auth pe) (aw_now w)" and ?p = "components (lock_path (pe_runtime_dir pe) (pe_uid pe))"
  obtain dk0 dk1 logs where a: "acquire_instance_lock ?now ?p pid (aw_disk w) locks = (LockHeld, dk0, locks')"
    "log_dir (ue_vars pe) (pe_state_home pe) dk0 = (logs, dk1)"
    "main_token pe logs (w\<lparr>aw_disk := dk1\<rparr>) = (MainRuns s, w')"
    using assms by (auto simp: main_start_def split: prod.splits lock_outcome.splits sum.splits)
  from a(3) obtain ga r w1 where t: "get_valid_token (ue_auth pe) ga (w\<lparr>aw_disk := dk1\<rparr>) = Some (r, w1)"
    and c: "main_configure pe logs (ac_unix (ue_auth pe) (aw_now w1)) (aw_disk w1) = (MainRuns s, aw_disk w')"
    by (auto simp: main_token_def split: option.splits prod.splits)
  have "dk_fault (aw_disk w1) = dk_fault (aw_disk w)"
    using get_valid_token_keeps[OF t] log_dir_fault[OF a(2)] acquire_cases[OF a(1)]
    by (simp add: keeps_other_nodes_def)
  from that[OF this c] acquire_cases[OF a(1)] show ?thesis by simp
qed

lemma plan_startup_facts:
  assumes "plan_startup env cfg dk = Inr su" "seen (components (config_path env)) dk"
  shows "\<not> su_first_run su \<and> (su_open_settings su \<longleftrightarrow> \<not> is_valid dk cfg) \<and>
    (if is_valid dk cfg then su_launch su = LaunchEngine cfg \<and> get_primary_pair cfg \<noteq> None
     else \<exists>reason. su_launch su = LaunchUnconfigured reason)"
  using assms seen_path_exists[OF assms(2)]
  by (auto simp: plan_startup_def is_valid_def is_ok_def Let_def split: sum.splits option.splits)

text \<open>A channel without a place, or with too many, ends the program: an invalid number of places is not repaired.\<close>

lemma no_places_no_program:
  assumes "av_engine_channel_capacity (cf_advanced cfg) = 0"
  shows "begin_session pe logs cfg db su = MainPanics"
  using assms by (simp add: begin_session_def channel_new_def)

text \<open>
  A token that has expired, a refresh that fails, and a login page that nobody answers: the program
  waits before it has read its configuration or shown its icon.
\<close>

lemma start_waits_for_the_login:
  assumes "auth_new (ue_auth pe) (ue_vars pe) (ue_client_id pe) (ue_client_secret pe) = Some ga"
    and "storage_load (ue_auth pe) ga (aw_disk w) = Inr (Some old)"
    and "\<not> gt_expires_at old > wrap_i64 (ac_unix (ue_auth pe) (aw_now w) + 300)"
    and "ac_token (ue_auth pe) (ga_creds ga) (RefreshGrant (gt_refresh_token old)) (aw_now w) (aw_net w) = (Inl err, t, n)"
    and "\<And>dk. authenticate (ue_auth pe) (ga_creds ga) (w\<lparr>aw_now := t, aw_net := n, aw_disk := dk\<rparr>) = None"
  shows "main_token pe logs w = (MainWaits, w)"
  using assms by (simp add: main_token_def get_valid_token_load refresh_token_def reconnect_def Let_def)

text \<open>A program that runs holds the lock, has a migrated database, and starts the engine on a valid configuration only.\<close>

lemma main_start_facts:
  assumes "main_start pe pid (w, locks) = (MainRuns s, w', locks')"
    and "dk_fault (aw_disk w) OpStat (components (config_path (ue_vars pe))) = None"
    and "\<And>dk p db0. pe_sqlite pe p dk = Inr db0 \<Longrightarrow> db_empty db0 \<or> db_v1 db0 \<or> db_ok db0"
  shows "locks (components (lock_path (pe_runtime_dir pe) (pe_uid pe))) = None \<and>
    locks' (components (lock_path (pe_runtime_dir pe) (pe_uid pe))) = Some pid"
    "db_ok (ms_database s)" "\<not> su_first_run (ms_startup s)"
    "sy_ui (ms_tray s) = (if su_launch (ms_startup s) = LaunchEngine (ms_config s) then [] else [ShowSettings])"
    "su_launch (ms_startup s) = LaunchEngine (ms_config s) \<Longrightarrow> get_primary_pair (ms_config s) \<noteq> None"
    "0 < room (sy_commands (ms_tray s))" "tray_ok (ms_tray s)"
proof -
  from assms(1) obtain logs now dk dk' where fault: "dk_fault dk = dk_fault (aw_disk w)"
    and c: "main_configure pe logs now dk = (MainRuns s, dk')"
    and l: "locks (components (lock_path (pe_runtime_dir pe) (pe_uid pe))) = None"
      "locks' = locks(components (lock_path (pe_runtime_dir pe) (pe_uid pe)) \<mapsto> pid)"
    by (rule main_start_runs)
  from c obtain db_file dk1 dk2 where f1: "dk_fault dk1 = dk_fault dk"
    and m: "run_all_migrations (ue_toml pe) (ue_vars pe) now (pe_sqlite pe) (components db_file) dk1 =
       Some (Inr (ms_config s, ms_database s), dk2)"
    and p: "plan_startup (ue_vars pe) (ms_config s) dk2 = Inr (ms_startup s)"
    and b: "begin_session pe logs (ms_config s) (ms_database s) (ms_startup s) = MainRuns s"
    by (rule main_configure_runs)
  from run_all_migrations_Inr[OF m] f1 fault assms(2) obtain db0
    where seen: "seen (components (config_path (ue_vars pe))) dk2"
      and db: "pe_sqlite pe (components db_file) dk2 = Inr db0" "db_init_and_migrate db0 = Inr (ms_database s)" by auto
  show "locks (components (lock_path (pe_runtime_dir pe) (pe_uid pe))) = None \<and>
    locks' (components (lock_path (pe_runtime_dir pe) (pe_uid pe))) = Some pid" using l by simp
  show "db_ok (ms_database s)" using migrated_ok[OF db(2) assms(3)[OF db(1)]] .
  show "\<not> su_first_run (ms_startup s)"
    "sy_ui (ms_tray s) = (if su_launch (ms_startup s) = LaunchEngine (ms_config s) then [] else [ShowSettings])"
    "su_launch (ms_startup s) = LaunchEngine (ms_config s) \<Longrightarrow> get_primary_pair (ms_config s) \<noteq> None"
    using plan_startup_facts[OF p seen] begin_session_facts[OF b] by (auto split: if_splits)
  show "0 < room (sy_commands (ms_tray s))" "tray_ok (ms_tray s)" using begin_session_facts[OF b] by simp_all
qed

section \<open>The end\<close>

text \<open>With a place in the channel a signal ends the program within the time limit, whatever the engine does.\<close>

lemma signal_ends_the_program:
  assumes "ml_phase m = AwaitStop" "room (ml_commands m) > 0 \<or> \<not> ch_open (ml_commands m)"
  shows "\<exists>m'. run_events exit_step [SignalReceived, SendTried, TimeoutElapsed] m = Some m' \<and>
    ml_phase m' = Exited False \<and> ml_cancelled m'"
  using assms by (auto simp: exit_step_def)

definition stuck_sending :: "main_loop \<Rightarrow> bool" where
  "stuck_sending m = (ml_phase m = SendShutdown \<and> ch_open (ml_commands m) \<and> room (ml_commands m) = 0)"

text \<open>
  The time limit counts only after \<open>Shutdown\<close> was sent: while the channel is full and the engine takes
  nothing from it, no signal and no time ends the program.
\<close>

lemma full_channel_blocks_the_exit:
  assumes "stuck_sending m" "EngineTakes \<notin> set evs" "EngineEnds \<notin> set evs"
    and "run_events exit_step evs m = Some m'"
  shows "m' = m"
  using assms
proof (induction evs)
  case (Cons ev evs)
  then have "exit_step ev m = None" by (cases ev) (auto simp: exit_step_def stuck_sending_def)
  with Cons.prems(4) show ?case by simp
qed simp

end
