(* ===== verification/Gtk_Thread.thy ===== *)
theory Gtk_Thread
  imports Ui
begin

text \<open>
  \<open>start_ui_server\<close> of \<open>ui/mod.rs\<close>: the thread of the windows. The application prepares its theme at start-up; its
  first activation takes the receiving end of the channel, holds the application and spawns the
  listener, which shows a window for each command and quits when the senders are gone. GTK may
  activate an application several times. The channel has no bound.
\<close>

section \<open>State and steps\<close>

record 's gtk_app =
  ga_prefer_dark :: bool
  ga_queue :: "ui_command list"
  ga_senders :: bool
  ga_rx :: bool
  ga_holds :: nat
  ga_listening :: bool
  ga_windows :: "'s ui_app"
  ga_quit :: bool

text \<open>\<open>ga_rx\<close>: the receiver is still in its cell, nobody has taken it.\<close>

definition start_ui_server :: "'s ui_world \<Rightarrow> 's gtk_app" where
  "start_ui_server w =
     \<lparr>ga_prefer_dark = False, ga_queue = [], ga_senders = True, ga_rx = True, ga_holds = 0,
      ga_listening = False, ga_windows = ui_start w, ga_quit = False\<rparr>"

datatype gtk_event =
    AppStartup
  | AppActivate
  | SendCommandToUi ui_command
  | SendersGone
  | ListenerTurn
  | InWindow ui_event

definition on_startup :: "'s gtk_app \<Rightarrow> 's gtk_app" where
  "on_startup g = g\<lparr>ga_prefer_dark := True\<rparr>"

definition on_activate :: "'s gtk_app \<Rightarrow> 's gtk_app" where
  "on_activate g =
     (if ga_rx g then g\<lparr>ga_rx := False, ga_holds := ga_holds g + 1, ga_listening := True\<rparr> else g)"

text \<open>
  One turn of \<open>while let Some(cmd) = rx.recv().await\<close>: \<open>recv\<close> gives \<open>None\<close> when the channel is empty
  and has no sender left; the guard of the application is dropped with the loop.
\<close>

definition listener_turn :: "('k, 's) ui_env \<Rightarrow> 's gtk_app \<Rightarrow> 's gtk_app option" where
  "listener_turn ue g =
     (case ga_queue g of
        c # cs \<Rightarrow> map_option (\<lambda>a. g\<lparr>ga_queue := cs, ga_windows := a\<rparr>) (ui_command_step ue c (ga_windows g))
      | [] \<Rightarrow>
          Some (if ga_senders g then g
                else g\<lparr>ga_listening := False, ga_holds := ga_holds g - 1, ga_quit := True\<rparr>))"

definition is_command :: "ui_event \<Rightarrow> bool" where
  "is_command e = (case e of UiCommand _ \<Rightarrow> True | _ \<Rightarrow> False)"

text \<open>\<open>None\<close> is a panic, or an event that cannot happen: nothing happens in a thread that has ended.\<close>

definition gtk_step :: "('k, 's) ui_env \<Rightarrow> gtk_event \<Rightarrow> 's gtk_app \<Rightarrow> 's gtk_app option" where
  "gtk_step ue ev g =
     (if ga_quit g then None
      else case ev of
        AppStartup \<Rightarrow> Some (on_startup g)
      | AppActivate \<Rightarrow> Some (on_activate g)
      | SendCommandToUi c \<Rightarrow> if ga_senders g then Some (g\<lparr>ga_queue := ga_queue g @ [c]\<rparr>) else None
      | SendersGone \<Rightarrow> Some (g\<lparr>ga_senders := False\<rparr>)
      | ListenerTurn \<Rightarrow> if ga_listening g then listener_turn ue g else None
      | InWindow e \<Rightarrow>
          if is_command e then None
          else map_option (\<lambda>a. g\<lparr>ga_windows := a\<rparr>) (ui_step ue e (ga_windows g)))"

section \<open>The thread refines the windows\<close>

definition sent_commands :: "gtk_event list \<Rightarrow> ui_command list" where
  "sent_commands evs = List.map_filter (\<lambda>e. case e of SendCommandToUi c \<Rightarrow> Some c | _ \<Rightarrow> None) evs"

definition shown_commands :: "ui_event list \<Rightarrow> ui_command list" where
  "shown_commands vs = List.map_filter (\<lambda>e. case e of UiCommand c \<Rightarrow> Some c | _ \<Rightarrow> None) vs"

lemma sent_commands_snoc [simp]:
  "sent_commands (evs @ [e]) = sent_commands evs @ (case e of SendCommandToUi c \<Rightarrow> [c] | _ \<Rightarrow> [])"
  by (simp add: sent_commands_def List.map_filter_def split: gtk_event.split)

lemma shown_commands_snoc [simp]:
  "shown_commands (vs @ [e]) = shown_commands vs @ (case e of UiCommand c \<Rightarrow> [c] | _ \<Rightarrow> [])"
  by (simp add: shown_commands_def List.map_filter_def split: ui_event.split)

lemma sent_commands_Nil [simp]: "sent_commands [] = []"
  by (simp add: sent_commands_def List.map_filter_def)

lemma shown_commands_Nil [simp]: "shown_commands [] = []"
  by (simp add: shown_commands_def List.map_filter_def)

lemma run_events_snoc:
  "run_events step (es @ [e]) s = Option.bind (run_events step es s) (step e)"
  by (induction es arbitrary: s) (auto split: option.split)

text \<open>The well-formed states of the thread.\<close>

definition gtk_ok :: "'s gtk_app \<Rightarrow> bool" where
  "gtk_ok g = (ga_holds g = (if ga_listening g then 1 else 0) \<and> (ga_rx g \<longrightarrow> \<not> ga_listening g) \<and>
     (\<not> ga_quit g \<longrightarrow> ga_rx g \<or> ga_listening g) \<and>
     (ga_quit g \<longrightarrow> \<not> ga_senders g \<and> ga_queue g = [] \<and> \<not> ga_listening g))"

lemma gtk_step_ok: "gtk_step ue ev g = Some g' \<Longrightarrow> gtk_ok g \<Longrightarrow> gtk_ok g'"
  by (auto simp: gtk_step_def gtk_ok_def on_startup_def on_activate_def listener_turn_def
      split: gtk_event.splits if_splits list.splits)

text \<open>
  A run of the thread is a run of the windows in which the commands arrive in the order in which
  they were sent, and those not yet shown are in the channel.
\<close>

definition refines_windows :: "('k, 's) ui_env \<Rightarrow> 's ui_world \<Rightarrow> gtk_event list \<Rightarrow> 's gtk_app \<Rightarrow> bool" where
  "refines_windows ue w evs g =
     (\<exists>vs. run_events (ui_step ue) vs (ui_start w) = Some (ga_windows g) \<and>
       shown_commands vs @ ga_queue g = sent_commands evs)"

lemma refines_step:
  assumes "gtk_step ue ev g = Some g'" "refines_windows ue w evs g"
  shows "refines_windows ue w (evs @ [ev]) g'"
proof -
  from assms(2) obtain vs where vs: "run_events (ui_step ue) vs (ui_start w) = Some (ga_windows g)"
    "shown_commands vs @ ga_queue g = sent_commands evs" by (auto simp: refines_windows_def)
  have same: ?thesis if "ga_windows g' = ga_windows g" "shown_commands vs @ ga_queue g' = sent_commands (evs @ [ev])"
    using that vs(1) unfolding refines_windows_def by auto
  have more: ?thesis if "ui_step ue e (ga_windows g) = Some (ga_windows g')"
      "shown_commands (vs @ [e]) @ ga_queue g' = sent_commands (evs @ [ev])" for e
    using that vs(1) unfolding refines_windows_def by (intro exI[of _ "vs @ [e]"]) (simp add: run_events_snoc)
  show ?thesis
  proof (cases ev)
    case (SendCommandToUi c)
    with assms(1) vs(2) show ?thesis by (intro same) (auto simp: gtk_step_def split: if_splits)
  next
    case ListenerTurn
    with assms(1) have turn: "listener_turn ue g = Some g'" by (auto simp: gtk_step_def split: if_splits)
    show ?thesis
    proof (cases "ga_queue g")
      case Nil
      with turn vs(2) ListenerTurn show ?thesis by (intro same) (auto simp: listener_turn_def)
    next
      case (Cons c cs)
      with turn vs(2) ListenerTurn show ?thesis
        by (intro more[of "UiCommand c"]) (auto simp: listener_turn_def ui_step_def)
    qed
  next
    case (InWindow e)
    with assms(1) vs(2) show ?thesis
      by (intro more[of e]) (auto simp: gtk_step_def is_command_def split: if_splits ui_event.splits)
  qed (rule same; use assms(1) vs(2) in \<open>auto simp: gtk_step_def on_startup_def on_activate_def split: if_splits\<close>)+
qed

lemma gtk_run:
  "run_events (gtk_step ue) evs (start_ui_server w) = Some g \<Longrightarrow> gtk_ok g \<and> refines_windows ue w evs g"
proof (induction evs arbitrary: g rule: rev_induct)
  case Nil
  then show ?case
    by (auto simp: start_ui_server_def gtk_ok_def refines_windows_def intro: exI[of _ "[]"])
next
  case (snoc ev evs)
  then show ?case by (auto simp: run_events_snoc bind_eq_Some_conv intro: gtk_step_ok refines_step)
qed

text \<open>Only the first activation counts.\<close>

lemma on_activate_again: "on_activate (on_activate g) = on_activate g"
  by (simp add: on_activate_def)

end
