(* ===== verification/Widgets.thy ===== *)
theory Widgets
  imports Ui
begin

text \<open>
  What the windows of \<open>ui/settings.rs\<close>, \<open>ui/scan_window.rs\<close> and \<open>ui/help_window.rs\<close> are made of: trees of widgets, as
  functions of the state of the window. A widget has its class, the properties the code sets and its
  children, in the order in which the code adds them; a child added as a suffix comes behind the
  row's own parts. \<open>reads\<close> and \<open>clicks\<close> collect what the user can change and press.
\<close>

section \<open>Trees\<close>

datatype prop_value = PText string | PNum int | PRat rat | PFlag bool | PList "string list"

datatype widget = Widget string "(string \<times> prop_value) list" "widget list"

fun w_class :: "widget \<Rightarrow> string" where "w_class (Widget c ps ws) = c"
fun w_props :: "widget \<Rightarrow> (string \<times> prop_value) list" where "w_props (Widget c ps ws) = ps"
fun w_children :: "widget \<Rightarrow> widget list" where "w_children (Widget c ps ws) = ws"

text \<open>The widgets of a tree that satisfy a test, from the outside in and from first to last.\<close>

fun w_select :: "(widget \<Rightarrow> bool) \<Rightarrow> widget \<Rightarrow> widget list" where
  "w_select P (Widget c ps ws) = (if P (Widget c ps ws) then [Widget c ps ws] else []) @ concat (map (w_select P) ws)"

definition prop_of :: "string \<Rightarrow> widget \<Rightarrow> prop_value option" where
  "prop_of k w = map_of (w_props w) k"

definition margins :: "int \<Rightarrow> int \<Rightarrow> int \<Rightarrow> int \<Rightarrow> (string \<times> prop_value) list" where
  "margins t b s e = [(''margin_top'', PNum t), (''margin_bottom'', PNum b), (''margin_start'', PNum s), (''margin_end'', PNum e)]"

definition vbox :: "widget list \<Rightarrow> widget" where
  "vbox ws = Widget ''Box'' [(''orientation'', PText ''Vertical'')] ws"

definition header_bar :: widget where
  "header_bar = Widget ''HeaderBar'' [] []"

text \<open>An icon with the name and the tooltip it has now.\<close>

definition status_icon :: "row_icon \<Rightarrow> widget" where
  "status_icon ic = Widget ''Image''
     ((''valign'', PText ''Center'')
      # (case fst ic of None \<Rightarrow> [] | Some n \<Rightarrow> [(''icon_name'', PText n)])
      @ (case snd ic of None \<Rightarrow> [] | Some t \<Rightarrow> [(''tooltip_text'', PText t)])) []"

section \<open>The settings\<close>

definition local_row :: "settings_form \<Rightarrow> widget" where
  "local_row f = Widget ''EntryRow'' [(''title'', PText ''Dossier local''), (''text'', PText (sf_local f))]
     [status_icon (sf_local_icon f),
      Widget ''Button'' [(''icon_name'', PText ''folder-open-symbolic''), (''valign'', PText ''Center''),
        (''tooltip_text'', PText (''Parcourir'' @ sym_ellipsis)), (''css_classes'', PList [''flat''])] []]"

definition remote_row :: "settings_form \<Rightarrow> widget" where
  "remote_row f = Widget ''EntryRow''
     [(''title'', PText (''ID du dossier Google Drive (ex: 1oIpwg... ou '' @ apostrophe @ ''root'' @ apostrophe @ '')'')), (''text'', PText (sf_remote f))]
     [status_icon (sf_remote_icon f)]"

definition auth_row :: "account_row \<Rightarrow> widget" where
  "auth_row r = Widget ''ActionRow'' [(''title'', PText ''Authentification''), (''subtitle'', PText (ar_subtitle r))]
     [Widget ''Button''
       (margins 12 12 24 0 @ [(''label'', PText (ar_label r)), (''css_classes'', PList (ar_classes r)),
        (''sensitive'', PFlag (ar_sensitive r))]) []]"

definition paths_group :: "settings_form \<Rightarrow> widget" where
  "paths_group f = Widget ''PreferencesGroup'' [(''title'', PText ''Chemins'')]
     [auth_row (sf_account f), local_row f, remote_row f]"

definition ignore_row :: "string \<Rightarrow> widget" where
  "ignore_row pattern = Widget ''ActionRow'' [(''title'', PText pattern)]
     [Widget ''Button'' [(''icon_name'', PText ''edit-delete-symbolic''),
        (''css_classes'', PList [''flat'', ''circular'', ''error'']), (''valign'', PText ''Center''),
        (''tooltip_text'', PText ''Retirer cette exclusion'')] []]"

definition ignore_list :: "string list \<Rightarrow> widget" where
  "ignore_list patterns = Widget ''ListBox''
     [(''selection_mode'', PText ''None''), (''css_classes'', PList [''boxed-list''])] (map ignore_row patterns)"

definition add_glob_button :: widget where
  "add_glob_button = Widget ''Button'' [(''icon_name'', PText ''list-add-symbolic''),
     (''tooltip_text'', PText ''Ajouter un pattern glob (ex: **/build/**)'')] []"

definition browse_button :: widget where
  "browse_button = Widget ''Button'' [(''icon_name'', PText ''folder-open-symbolic''), (''label'', PText (''Parcourir'' @ sym_ellipsis)),
     (''tooltip_text'', PText (''Choisir des fichiers ou dossiers '' @ a_grave @ '' exclure''))] []"

definition ignore_group :: "settings_form \<Rightarrow> widget" where
  "ignore_group f = Widget ''PreferencesGroup'' [(''title'', PText ''Exclusions''),
     (''description'', PText (''Dossiers et fichiers '' @ a_grave @ '' ne pas synchroniser''))]
     [ignore_list (sf_patterns f),
      Widget ''Box'' [(''orientation'', PText ''Horizontal''), (''spacing'', PNum 8), (''margin_top'', PNum 6),
        (''halign'', PText ''Start'')] [add_glob_button, browse_button]]"

definition options_group :: "settings_form \<Rightarrow> widget" where
  "options_group f = Widget ''PreferencesGroup'' [(''title'', PText ''Options'')]
     [Widget ''SpinRow'' [(''title'', PText (''Workers parall'' @ e_grave @ ''les'')), (''value'', PNum (int (sf_workers f))),
        (''lower'', PNum 1), (''upper'', PNum 16), (''step_increment'', PNum 1), (''page_increment'', PNum 1),
        (''page_size'', PNum 0), (''climb_rate'', PNum 1), (''digits'', PNum 0)] [],
      Widget ''SwitchRow'' [(''title'', PText ''Notifications bureau''), (''active'', PFlag (sf_notifications f))] []]"

definition save_button :: "settings_form \<Rightarrow> widget" where
  "save_button f = Widget ''Button'' ([(''label'', PText ''Enregistrer''),
     (''css_classes'', PList [''suggested-action'', ''pill''])] @ margins 12 12 24 24 @ [(''sensitive'', PFlag (sf_can_save f))]) []"

definition settings_frame :: "widget list \<Rightarrow> widget \<Rightarrow> widget" where
  "settings_frame groups save = Widget ''Window'' [(''title'', PText (''SyncGDrive '' @ em_dash @ '' R'' @ e_acute @ ''glages'')),
     (''default_width'', PNum 580), (''default_height'', PNum 640)]
     [Widget ''ToastOverlay'' []
       [vbox [header_bar,
          Widget ''ScrolledWindow'' [(''hscrollbar_policy'', PText ''Never''), (''vexpand'', PFlag True)]
            [Widget ''PreferencesPage'' [] groups],
          save]]]"

definition settings_view :: "settings_form \<Rightarrow> widget" where
  "settings_view f = settings_frame [paths_group f, ignore_group f, options_group f] (save_button f)"

text \<open>The windows that lie over it: the file dialogs and the one that asks for a pattern.\<close>

definition choose_folder_dialog :: widget where
  "choose_folder_dialog = Widget ''FileDialog'' [(''title'', PText (''Choisir le dossier local '' @ a_grave @ '' synchroniser'')),
     (''modal'', PFlag True)] []"

definition exclude_dialog :: "disk \<Rightarrow> string \<Rightarrow> widget" where
  "exclude_dialog dk local_text = Widget ''FileDialog''
     ([(''title'', PText (E_acute @ ''l'' @ e_acute @ ''ments '' @ a_grave @ '' exclure (s'' @ e_acute @ ''lection multiple)'')), (''modal'', PFlag True)]
      @ (if local_text \<noteq> [] \<and> path_is_dir (components local_text) dk
         then [(''initial_folder'', PText local_text)] else [])) []"

definition glob_dialog :: "string \<Rightarrow> widget" where
  "glob_dialog entered = Widget ''Window'' [(''title'', PText (''Ajouter un pattern d'' @ apostrophe @ ''exclusion'')),
     (''default_width'', PNum 420), (''default_height'', PNum 160), (''modal'', PFlag True), (''transient_for'', PText (''SyncGDrive '' @ em_dash @ '' R'' @ e_acute @ ''glages''))]
     [vbox [header_bar,
        Widget ''EntryRow'' [(''title'', PText ''Pattern glob (ex: **/build/**, **/*.log)''), (''text'', PText entered),
          (''margin_start'', PNum 12), (''margin_end'', PNum 12), (''margin_top'', PNum 12)] [],
        Widget ''Button'' ([(''label'', PText ''Ajouter''), (''css_classes'', PList [''suggested-action'', ''pill''])]
          @ margins 12 12 24 24) []]]"

section \<open>The scan window\<close>

definition scan_progress :: "scan_window \<Rightarrow> widget" where
  "scan_progress sw = Widget ''ProgressBar'' ([(''show_text'', PFlag True), (''valign'', PText ''Center''), (''fraction'', PRat (sw_fraction sw))]
     @ (case sw_text sw of None \<Rightarrow> [] | Some t \<Rightarrow> [(''text'', PText t)])) []"

definition scan_card :: "scan_window \<Rightarrow> widget" where
  "scan_card sw = Widget ''Box'' [(''orientation'', PText ''Vertical''), (''css_classes'', PList [''card''])]
     [Widget ''Box'' ([(''orientation'', PText ''Vertical''), (''spacing'', PNum 12)] @ margins 20 20 20 20)
       [scan_progress sw,
        Widget ''Label'' [(''label'', PText (sw_path sw)), (''ellipsize'', PText ''Middle''),
          (''css_classes'', PList [''dim-label'', ''monospace'']), (''halign'', PText ''Center'')] []]]"

definition scan_content :: "scan_window \<Rightarrow> widget" where
  "scan_content sw = Widget ''Box'' [(''orientation'', PText ''Vertical''), (''spacing'', PNum 24)]
     [Widget ''Spinner'' [(''spinning'', PFlag True), (''halign'', PText ''Center''), (''width_request'', PNum 64),
        (''height_request'', PNum 64)] [],
      Widget ''Label'' [(''label'', PText (sw_phase sw)), (''css_classes'', PList [''title-2'']), (''halign'', PText ''Center'')] [],
      scan_card sw]"

definition scan_window_view :: "scan_window \<Rightarrow> widget" where
  "scan_window_view sw = Widget ''Window'' [(''title'', PText ''Synchronisation SyncGDrive''), (''default_width'', PNum 540),
     (''default_height'', PNum 380), (''modal'', PFlag True), (''deletable'', PFlag False)]
     [vbox [Widget ''HeaderBar'' [(''show_start_title_buttons'', PFlag False), (''show_end_title_buttons'', PFlag False)] [],
        Widget ''Clamp'' ((''maximum_size'', PNum 460) # margins 32 32 24 24) [scan_content sw]]]"

section \<open>The help\<close>

definition dquote :: string where "dquote = [CHR 0x22]"
definition bullet :: string where "bullet = [CHR 0xE2, CHR 0x80, CHR 0xA2]"

definition help_lines :: "string list" where
  "help_lines =
    [[],
     (''<span size='' @ dquote @ ''x-large'' @ dquote @ '' weight='' @ dquote @ ''bold'' @ dquote @ ''>Bienvenue dans SyncGDrive</span>''),
     [],
     (''Ce logiciel synchronise vos fichiers locaux avec Google Drive de mani'' @ e_grave @ ''re transparente et s'' @ e_acute @ ''curis'' @ e_acute @ ''e.''),
     [],
     (''<span size='' @ dquote @ ''large'' @ dquote @ '' weight='' @ dquote @ ''bold'' @ dquote @ ''>1. Configuration du compte Google</span>''),
     (''Pour que l'' @ apostrophe @ ''application puisse acc'' @ e_acute @ ''der '' @ a_grave @ '' votre Drive, vous devez lui fournir des identifiants (Client ID et Secret).''),
     [],
     (bullet @ '' Allez sur la <a href='' @ dquote @ ''https://console.cloud.google.com'' @ dquote @ ''>Console Google Cloud</a>.''),
     (bullet @ '' Cr'' @ e_acute @ ''ez un nouveau projet.''),
     (bullet @ '' Dans '' @ dquote @ ''API et services'' @ dquote @ '', activez l'' @ apostrophe @ ''API <b>Google Drive API</b>.''),
     (bullet @ '' Allez dans '' @ dquote @ E_acute @ ''cran de consentement OAuth'' @ dquote @ '' et configurez-le en mode '' @ dquote @ ''Externe'' @ dquote @ '' (ajoutez votre adresse email dans les utilisateurs tests).''),
     (bullet @ '' Allez dans '' @ dquote @ ''Identifiants'' @ dquote @ '', cliquez sur '' @ dquote @ ''Cr'' @ e_acute @ ''er des identifiants'' @ dquote @ '' > '' @ dquote @ ''ID client OAuth'' @ dquote @ ''.''),
     (bullet @ '' Choisissez le type <b>Application de bureau</b>.''),
     [],
     (''<span size='' @ dquote @ ''large'' @ dquote @ '' weight='' @ dquote @ ''bold'' @ dquote @ ''>2. Enregistrement des identifiants</span>''),
     (''Copiez le <b>Client ID</b> et le <b>Client Secret</b> fournis par Google, puis ins'' @ e_acute @ ''rez-les dans le fichier <tt>.env</tt> situ'' @ e_acute @ '' '' @ a_grave @ '' la racine du projet ou dans votre dossier de configuration :''),
     [],
     (''<tt>SYNCGDRIVE_CLIENT_ID='' @ dquote @ ''votre_client_id'' @ dquote),
     (''SYNCGDRIVE_CLIENT_SECRET='' @ dquote @ ''votre_client_secret'' @ dquote @ ''</tt>''),
     [],
     (''<span size='' @ dquote @ ''large'' @ dquote @ '' weight='' @ dquote @ ''bold'' @ dquote @ ''>3. Premi'' @ e_grave @ ''re synchronisation</span>''),
     (''Au d'' @ e_acute @ ''marrage, l'' @ apostrophe @ ''application ouvrira votre navigateur Web. Connectez-vous avec votre compte Google et autorisez l'' @ apostrophe @ ''acc'' @ e_grave @ ''s. Un jeton s'' @ e_acute @ ''curis'' @ e_acute @ '' sera alors chiffr'' @ e_acute @ '' et sauvegard'' @ e_acute @ '' localement sur votre machine.''),
     [],
     (''<span size='' @ dquote @ ''large'' @ dquote @ '' weight='' @ dquote @ ''bold'' @ dquote @ ''>D'' @ e_acute @ ''pannage</span>''),
     (''Si votre jeton expire ou est r'' @ e_acute @ ''voqu'' @ e_acute @ '', l'' @ apostrophe @ ''application passera en mode <i>Hors-Ligne</i>. Elle vous demandera automatiquement de vous reconnecter lors de la prochaine tentative de synchronisation.''),
     []]"

definition help_text :: string where
  "help_text = join_with newline help_lines"

definition help_view :: widget where
  "help_view = Widget ''Window'' [(''title'', PText ''Aide & Configuration''), (''default_width'', PNum 600),
     (''default_height'', PNum 500), (''modal'', PFlag True)]
     [vbox [header_bar,
        Widget ''ScrolledWindow'' [(''hscrollbar_policy'', PText ''Never''), (''vexpand'', PFlag True)]
          [Widget ''Clamp'' ((''maximum_size'', PNum 540) # margins 32 32 24 24)
            [Widget ''Label'' [(''use_markup'', PFlag True), (''wrap'', PFlag True), (''xalign'', PNum 0),
               (''label'', PText help_text)] []]]]]"

section \<open>What the user can do\<close>

text \<open>What the user reads and changes in the input widgets of a tree.\<close>

definition is_input :: "widget \<Rightarrow> bool" where
  "is_input w = (w_class w \<in> {''EntryRow'', ''SpinRow'', ''SwitchRow''})"

definition input_value :: "widget \<Rightarrow> prop_value option" where
  "input_value w =
     (if w_class w = ''EntryRow'' then prop_of ''text'' w
      else if w_class w = ''SpinRow'' then prop_of ''value'' w else prop_of ''active'' w)"

text \<open>
  The ways to act on a window: its buttons, and the title buttons of a header bar, which close the
  window, when it can be closed and they are shown.
\<close>

definition is_press :: "bool \<Rightarrow> widget \<Rightarrow> bool" where
  "is_press deletable w =
     (w_class w = ''Button'' \<or> w_class w = ''HeaderBar'' \<and> deletable \<and>
      (prop_of ''show_start_title_buttons'' w \<noteq> Some (PFlag False) \<or>
       prop_of ''show_end_title_buttons'' w \<noteq> Some (PFlag False)))"

definition presses :: "widget \<Rightarrow> widget list" where
  "presses w = w_select (is_press (prop_of ''deletable'' w \<noteq> Some (PFlag False))) w"

lemmas tree_simps = prop_of_def margins_def vbox_def header_bar_def status_icon_def is_input_def is_press_def

lemma select_ignore_rows:
  "concat (map (w_select is_input) (map ignore_row ps)) = []"
  "concat (map (w_select (is_press b)) (map ignore_row ps)) =
     concat (map (\<lambda>p. w_children (ignore_row p)) ps)"
  by (induction ps) (simp_all add: ignore_row_def tree_simps)

text \<open>The settings show the form: the four inputs hold what is saved, in this order.\<close>

lemma settings_inputs:
  "map input_value (w_select is_input (settings_view f)) =
     map Some [PText (sf_local f), PText (sf_remote f), PNum (int (sf_workers f)), PFlag (sf_notifications f)]"
  using select_ignore_rows(1)[of "sf_patterns f"]
  by (simp add: settings_view_def settings_frame_def paths_group_def ignore_group_def options_group_def
      auth_row_def local_row_def remote_row_def save_button_def ignore_list_def add_glob_button_def
      browse_button_def tree_simps input_value_def)

text \<open>The titles of the rows of the list are the exclusions, which \<open>collect_patterns\<close> reads back.\<close>

lemma ignore_list_titles:
  "map (\<lambda>w. prop_of ''title'' w) (w_children (ignore_list ps)) = map (\<lambda>p. Some (PText p)) ps"
  by (simp add: ignore_list_def ignore_row_def prop_of_def)

text \<open>The user can close the settings and the help, but has nothing to press in the scan window.\<close>

lemma scan_window_offers_nothing:
  "presses (scan_window_view sw) = []" "w_select is_input (scan_window_view sw) = []"
  by (simp_all add: presses_def scan_window_view_def scan_content_def scan_card_def scan_progress_def tree_simps)

lemma help_can_be_closed: "presses help_view = [header_bar]"
  by (simp add: presses_def help_view_def tree_simps)

lemma settings_can_be_closed: "header_bar \<in> set (presses (settings_view f))"
  by (simp add: presses_def settings_view_def settings_frame_def tree_simps)

end
