(* ===== verification/Demo_Ui.thy ===== *)
theory Demo_Ui
  imports Demo_Drive Program_Laws Gtk_Thread Widgets
begin

text \<open>
  A concrete desktop, on which the properties of the windows and of the tray are applied: the start
  disk of Demo_Drive, a settings window that is opened, edited and saved on it, an SVG crate, and a start
  of the whole program.
\<close>

definition demo_saved_cfg :: app_config where
  "demo_saved_cfg = demo_cfg\<lparr>cf_max_workers := 3, cf_notifications := True\<rparr>"

definition demo_saved_doc :: toml where
  "demo_saved_doc = the (toml_of_app_config demo_saved_cfg)"

definition demo_default_doc :: toml where
  "demo_default_doc = the (toml_of_app_config app_default)"

definition demo_ui_toml :: toml_crate where
  "demo_ui_toml = \<lparr>tc_parse = (\<lambda>s. if s = ''A'' then Inr demo_doc else if s = ''S'' then Inr demo_saved_doc
       else if s = ''D'' then Inr demo_default_doc else Inl ''bad''),
     tc_print = (\<lambda>v. if v = demo_doc then Inr ''A'' else if v = demo_saved_doc then Inr ''S''
       else if v = demo_default_doc then Inr ''D'' else Inl ''no''),
     tc_shape_error = (\<lambda>_. ''shape''), tc_range_error = ''range''\<rparr>"

lemma demo_ui_toml_faithful: "toml_faithful demo_ui_toml"
  by (auto simp: toml_faithful_def demo_ui_toml_def split: if_splits)

definition demo_ue :: "(string, string list) ui_env" where
  "demo_ue = \<lparr>ue_auth = demo_ac, ue_toml = demo_ui_toml, ue_vars = demo_env_vars, ue_client_id = None,
     ue_client_secret = Some ''k''\<rparr>"

definition demo_commands :: "engine_command channel" where
  "demo_commands = \<lparr>ch_queue = [], ch_capacity = 8, ch_open = True\<rparr>"

definition demo_ui_world :: "disk \<Rightarrow> string list ui_world" where
  "demo_ui_world dk = \<lparr>aw_disk = dk, aw_now = 0, aw_net = [], uw_commands = demo_commands\<rparr>"

lemma demo_ui_world_simps [simp]:
  "uw_commands (demo_ui_world dk) = demo_commands" "aw_disk (demo_ui_world dk) = dk"
  "ch_queue demo_commands = []" "room demo_commands = 8"
  by (simp_all add: demo_ui_world_def demo_commands_def room_def)

lemma demo_start_disk_fault [simp]: "dk_fault demo_start_disk op q = None"
  by (simp add: demo_start_disk_def)

text \<open>The window as it opens, after four edits, and as the save leaves it.\<close>

definition demo_form :: settings_form where
  "demo_form = (case settings_open demo_ue demo_cfg demo_start_disk of Some (Inr f) \<Rightarrow> f)"

definition demo_opened :: "settings_form \<times> string list ui_world" where
  "demo_opened = (demo_form, send_command OpenSettings (demo_ui_world demo_start_disk))"

lemma demo_load_from:
  assumes "dk_nodes dk [''/'', ''c'', ''syncgdrive'', ''config.toml''] = Some (FileNode ''A'' 5)"
    and "dk_fault dk OpStat [''/'', ''c'', ''syncgdrive'', ''config.toml''] = None"
    and "dk_fault dk OpRead [''/'', ''c'', ''syncgdrive'', ''config.toml''] = None"
  shows "load_or_create demo_ui_toml demo_env_vars now dk = Some (Inr (demo_cfg, False), dk)"
proof -
  have parse: "parse_and_migrate demo_ui_toml ''A'' = Inr (demo_cfg, False)"
    and tilde: "expand_tildes demo_env_vars demo_cfg = Some demo_cfg"
    and path: "components (config_path demo_env_vars) = [''/'', ''c'', ''syncgdrive'', ''config.toml'']" by code_simp+
  show ?thesis
    using load_existing[OF assms(2,3,1) parse, of demo_env_vars now] tilde by (simp add: load_or_create_def path)
qed

lemma demo_load: "load_or_create demo_ui_toml demo_env_vars now demo_start_disk = Some (Inr (demo_cfg, False), demo_start_disk)"
  by (rule demo_load_from) (simp_all add: demo_start_disk_def)

lemma demo_opened_run: "show_settings_in_app demo_ue (demo_ui_world demo_start_disk) = Some demo_opened"
proof -
  have "case settings_open demo_ue demo_cfg demo_start_disk of Some (Inr _) \<Rightarrow> True | _ \<Rightarrow> False" by code_simp
  then have "settings_open demo_ue demo_cfg demo_start_disk = Some (Inr demo_form)"
    by (auto simp: demo_form_def split: option.splits sum.splits)
  moreover have "ue_toml demo_ue = demo_ui_toml" "ue_vars demo_ue = demo_env_vars" by (simp_all add: demo_ue_def)
  ultimately show ?thesis
    by (simp add: show_settings_in_app_def demo_load demo_opened_def send_command_def Let_def)
qed

definition demo_edits :: "settings_event list" where
  "demo_edits = [EditRemote ''root'', SetWorkers 3, SetNotifications True, AddGlob '' *.tmp '']"

text \<open>The form after the edits; nothing but the form has changed.\<close>

definition demo_edited_form :: settings_form where
  "demo_edited_form = demo_form\<lparr>sf_remote := ''root'', sf_remote_icon := update_remote_status ''root'', sf_can_save := True,
     sf_workers := 3, sf_notifications := True, sf_patterns := [''*.tmp'']\<rparr>"

definition demo_edited :: "settings_form \<times> string list ui_world" where
  "demo_edited = (demo_edited_form, snd demo_opened)"

lemma demo_form_facts:
  "sf_open demo_form" "sf_patterns demo_form = []" "sf_local demo_form = ''/s''" "\<not> sf_saved demo_form"
  "sf_config demo_form = demo_cfg" "sf_primary demo_form = demo_pair"
  by code_simp+

lemma demo_edited_run: "run_events (settings_step demo_ue) demo_edits demo_opened = Some demo_edited"
proof -
  have v: "is_local_valid demo_env_vars demo_start_disk ''/s'' = Some True" "is_remote_valid ''root''" "trim '' *.tmp '' = ''*.tmp''"
    by code_simp+
  have "ue_vars demo_ue = demo_env_vars" by (simp add: demo_ue_def)
  with v demo_form_facts show ?thesis
    by (simp add: demo_edits_def demo_opened_def demo_edited_def demo_edited_form_def settings_step_def check_save_def
        check_remote_def update_save_sensitivity_def send_command_def add_glob_def spin_workers_def)
qed

definition demo_saved :: "settings_form \<times> string list ui_world" where
  "demo_saved = save_clicked demo_ue demo_edited"

lemma demo_saved_run: "settings_step demo_ue SaveClicked demo_edited = Some demo_saved"
  using demo_form_facts(1) by (simp add: settings_step_def demo_saved_def demo_edited_def demo_edited_form_def)

lemma demo_saved_form: "fst demo_saved = demo_edited_form\<lparr>sf_config := demo_saved_cfg, sf_saved := True, sf_open := False\<rparr>"
proof -
  have s: "sf_saved (fst demo_saved)" by code_simp
  have c: "fst (edited_config demo_edited_form) = demo_saved_cfg" "\<not> sf_saved demo_edited_form" by code_simp+
  have "save_clicked demo_ue (demo_edited_form, snd demo_opened) = (fst demo_saved, snd demo_saved)"
    by (simp add: demo_saved_def demo_edited_def)
  then show ?thesis using s c by (cases rule: save_clicked_cases) simp_all
qed

lemma demo_saved_facts: "sf_saved (fst demo_saved)" "sf_config (fst demo_saved) = demo_saved_cfg"
  "sf_remote (fst demo_saved) = ''root''" "sf_patterns (fst demo_saved) = [''*.tmp'']"
  "cf_sync_pairs (sf_config (fst demo_saved)) = [demo_pair]" "\<not> sf_open (fst demo_saved)"
  using demo_form_facts
  by (simp_all add: demo_saved_form demo_edited_form_def demo_saved_cfg_def demo_cfg_def demo_pair_def app_default_def)

text \<open>A tray that sees a transfer, and one that sees the end of it.\<close>

definition demo_pixel :: pixel where
  "demo_pixel = \<lparr>px_red = 1, px_green = 2, px_blue = 3, px_alpha = 4\<rparr>"

definition demo_svg :: "string svg_crate" where
  "demo_svg = \<lparr>sv_from_data = Some, sv_size = (\<lambda>_. (24, 24)),
     sv_render = (\<lambda>_ _ _ w h. replicate (w * h) demo_pixel)\<rparr>"

lemma demo_svg_sound: "svg_sound demo_svg"
  by (simp add: svg_sound_def demo_svg_def)

definition demo_tray :: sync_tray where
  "demo_tray = spawn_tray demo_commands demo_saved_cfg False ''/l'' False False"

definition demo_snap :: progress_snapshot where
  "demo_snap = \<lparr>ps_total_files = 2, ps_done_files = 1, ps_total_bytes = 3, ps_sent_bytes = 1,
     ps_current_file_size = 2, ps_current_bytes_sent = 0, ps_current_dir = ''d'', ps_current_name = ''b'',
     ps_speed_bps = 0, ps_eta_string = ''1s''\<rparr>"

definition demo_tray_events :: "tray_event list" where
  "demo_tray_events = [Tick, Received (Some (Syncing 0)), Clicked 7, Received (Some (SyncProgress demo_snap)), Tick]"

definition demo_idle_events :: "tray_event list" where
  "demo_idle_events = demo_tray_events @ [Received (Some Idle), Received (Some (Syncing 0)), Received (Some Idle)]"

lemma demo_tray_run: "run_events tray_step demo_tray_events demo_tray = Some (the (run_events tray_step demo_tray_events demo_tray))"
  and demo_idle_run: "run_events tray_step demo_idle_events demo_tray = Some (the (run_events tray_step demo_idle_events demo_tray))"
proof -
  have "\<not> Option.is_none (run_events tray_step demo_tray_events demo_tray)"
    "\<not> Option.is_none (run_events tray_step demo_idle_events demo_tray)" by code_simp+
  then show "run_events tray_step demo_tray_events demo_tray = Some (the (run_events tray_step demo_tray_events demo_tray))"
    "run_events tray_step demo_idle_events demo_tray = Some (the (run_events tray_step demo_idle_events demo_tray))"
    by (auto simp: Option.is_none_def)
qed

section \<open>A start of the program\<close>

definition demo_pe :: "(string, string list) program_env" where
  "demo_pe = \<lparr>ue_auth = demo_ac, ue_toml = demo_ui_toml, ue_vars = demo_env_vars, ue_client_id = None,
     ue_client_secret = Some ''k'', pe_runtime_dir = Some ''/s'', pe_uid = 1000, pe_data_home = Some ''/s'',
     pe_state_home = Some ''/s'', pe_dry_run = None, pe_logging = Inr (), pe_sqlite = (\<lambda>_ _. Inr demo_db),
     pe_logs = [], pe_autostart = Inr 1\<rparr>"

definition demo_power_on :: "string list auth_world" where
  "demo_power_on = \<lparr>aw_disk = demo_start_disk, aw_now = 0, aw_net = []\<rparr>"

text \<open>The disk after the lock, with the directory of the logs, and with that of the database.\<close>

definition demo_locked :: disk where
  "demo_locked = fst (snd (acquire_instance_lock 100 [''/'', ''s'', ''syncgdrive.lock''] 7 demo_start_disk Map.empty))"

definition demo_logged :: disk where
  "demo_logged = snd (log_dir demo_env_vars (Some ''/s'') demo_locked)"

definition demo_ready :: disk where
  "demo_ready = snd (db_path demo_env_vars (Some ''/s'') demo_logged)"

definition demo_index :: path where
  "demo_index = [''/'', ''s'', ''syncgdrive'', ''index.db'']"

definition demo_migrated :: disk where
  "demo_migrated = snd (ensure_parent demo_index demo_ready)"

lemma demo_start_steps:
  "acquire_instance_lock 100 [''/'', ''s'', ''syncgdrive.lock''] 7 demo_start_disk Map.empty =
     (LockHeld, demo_locked, [[''/'', ''s'', ''syncgdrive.lock''] \<mapsto> 7])"
  "log_dir demo_env_vars (Some ''/s'') demo_locked = (''/s/syncgdrive/logs'', demo_logged)"
  "db_path demo_env_vars (Some ''/s'') demo_logged = (''/s/syncgdrive/index.db'', demo_ready)"
  "ensure_parent demo_index demo_ready = (Inr (), demo_migrated)"
proof -
  have "fst (acquire_instance_lock 100 [''/'', ''s'', ''syncgdrive.lock''] 7 demo_start_disk Map.empty) = LockHeld" by code_simp
  from run_pair[OF this] show "acquire_instance_lock 100 [''/'', ''s'', ''syncgdrive.lock''] 7 demo_start_disk Map.empty =
      (LockHeld, demo_locked, [[''/'', ''s'', ''syncgdrive.lock''] \<mapsto> 7])"
    by (auto simp: demo_locked_def acquire_instance_lock_def split: sum.splits if_splits)
  have "fst (log_dir demo_env_vars (Some ''/s'') demo_locked) = ''/s/syncgdrive/logs''"
    "fst (db_path demo_env_vars (Some ''/s'') demo_logged) = ''/s/syncgdrive/index.db''"
    "fst (ensure_parent demo_index demo_ready) = Inr ()" by code_simp+
  from this[THEN run_pair] show "log_dir demo_env_vars (Some ''/s'') demo_locked = (''/s/syncgdrive/logs'', demo_logged)"
    "db_path demo_env_vars (Some ''/s'') demo_logged = (''/s/syncgdrive/index.db'', demo_ready)"
    "ensure_parent demo_index demo_ready = (Inr (), demo_migrated)"
    by (simp_all add: demo_logged_def demo_ready_def demo_migrated_def)
qed

lemma demo_migrated_facts:
  "is_valid demo_migrated demo_cfg" "path_exists [''/'', ''s'', ''syncgdrive''] demo_ready"
  "path_exists (components (config_path demo_env_vars)) demo_migrated"
  "is_ok (fst (ensure_parent demo_index demo_migrated))" "storage_load demo_ac demo_ga demo_logged = Inr None"
  "unat (av_engine_channel_capacity (cf_advanced demo_cfg)) = 1024"
  "av_log_retention_days (cf_advanced demo_cfg) = 7"
  "components ''/s/syncgdrive/index.db'' = demo_index" "path_parent demo_index = Some [''/'', ''s'', ''syncgdrive'']"
  "components (lock_path (Some ''/s'') 1000) = [''/'', ''s'', ''syncgdrive.lock'']"
  "auth_new demo_ac demo_env_vars None (Some ''k'') = Some demo_ga" "get_primary_pair demo_cfg = Some demo_pair"
  by code_simp+

lemma demo_ready_load:
  "load_or_create demo_ui_toml demo_env_vars now demo_ready = Some (Inr (demo_cfg, False), demo_ready)"
  by (rule demo_load_from) code_simp+

lemma demo_cleanup: "cleanup_old_logs 100 7 [] dk = Some dk"
  by (simp add: cleanup_old_logs_def)

lemma demo_pe_simps [simp]:
  "ue_auth demo_pe = demo_ac" "ue_toml demo_pe = demo_ui_toml" "ue_vars demo_pe = demo_env_vars"
  "ue_client_id demo_pe = None" "ue_client_secret demo_pe = Some ''k''" "pe_runtime_dir demo_pe = Some ''/s''"
  "pe_uid demo_pe = 1000" "pe_data_home demo_pe = Some ''/s''" "pe_state_home demo_pe = Some ''/s''"
  "pe_logging demo_pe = Inr ()" "pe_sqlite demo_pe = (\<lambda>_ _. Inr demo_db)" "pe_logs demo_pe = []"
  by (simp_all add: demo_pe_def)

definition demo_plan :: startup where
  "demo_plan = \<lparr>su_launch = LaunchEngine demo_cfg, su_first_run = False, su_open_settings = False\<rparr>"

lemma demo_migrations:
  "run_all_migrations demo_ui_toml demo_env_vars 100 (\<lambda>_ _. Inr demo_db) demo_index demo_ready =
     Some (Inr (demo_cfg, demo_db), demo_migrated)"
  "plan_startup demo_env_vars demo_cfg demo_migrated = Inr demo_plan"
  "\<exists>dk. database_open (\<lambda>_ _. Inr demo_db) demo_index demo_migrated = (Inr demo_db, dk)"
proof -
  show "run_all_migrations demo_ui_toml demo_env_vars 100 (\<lambda>_ _. Inr demo_db) demo_index demo_ready =
      Some (Inr (demo_cfg, demo_db), demo_migrated)"
    using db_migrate_ok_id[OF demo_db_ok] demo_migrated_facts(2)
    by (simp add: run_all_migrations_def demo_ready_load migrate_database_def demo_migrated_facts(9) database_open_def
        demo_start_steps(4) with_context_def)
  show "plan_startup demo_env_vars demo_cfg demo_migrated = Inr demo_plan"
    using demo_migrated_facts(1,3,12)
    by (auto simp: plan_startup_def demo_plan_def is_valid_def is_ok_def Let_def split: sum.splits)
  show "\<exists>dk. database_open (\<lambda>_ _. Inr demo_db) demo_index demo_migrated = (Inr demo_db, dk)"
    using demo_migrated_facts(4) by (auto simp: database_open_def is_ok_def split: prod.split sum.splits)
qed

lemma demo_main: "\<exists>s w locks. main_start demo_pe 7 (demo_power_on, Map.empty) = (MainRuns s, w, locks) \<and>
  ms_config s = demo_cfg \<and> ms_startup s = demo_plan"
proof -
  obtain s dk where c: "main_configure demo_pe ''/s/syncgdrive/logs'' 100 demo_logged = (MainRuns s, dk)"
      "ms_config s = demo_cfg" "ms_startup s = demo_plan"
    using demo_migrations(3)
    by (auto simp: main_configure_def demo_start_steps(3) demo_migrated_facts(6-8,12) demo_migrations(1,2)
        begin_session_def channel_new_def demo_cleanup Let_def)
  have "get_valid_token demo_ac demo_ga (demo_power_on\<lparr>aw_disk := demo_logged\<rparr>)
      = Some (Inl [no_token_msg], demo_power_on\<lparr>aw_disk := demo_logged\<rparr>)"
    using demo_migrated_facts(5) by (simp add: get_valid_token_def bind_res_def context_opt_def)
  with c have "main_token demo_pe ''/s/syncgdrive/logs'' (demo_power_on\<lparr>aw_disk := demo_logged\<rparr>)
      = (MainRuns s, demo_power_on\<lparr>aw_disk := dk\<rparr>)"
    by (simp add: main_token_def demo_migrated_facts(11))
  with c show ?thesis
    using demo_start_steps(1,2)
    by (simp add: main_start_def demo_power_on_def demo_migrated_facts(10))
qed

text \<open>The GTK thread is asked for two windows before it is activated, and activated twice.\<close>

definition demo_gtk_events :: "gtk_event list" where
  "demo_gtk_events = [AppStartup, SendCommandToUi ShowHelp, AppActivate, SendCommandToUi ShowAbout, ListenerTurn,
     AppActivate, InWindow HelpClosed, ListenerTurn, ListenerTurn, SendersGone, ListenerTurn]"

end
