(* ===== verification/Spec2Isabelle.thy ===== *)
theory Spec2Isabelle
  imports Demo_Ui
begin

text \<open>
  SyncGDrive mirrors a local directory to a folder of Google Drive. This library models the Rust
  program under \<open>src/src/\<close> and proves what makes its parts correct. Where the code does not do
  what it is meant to, the theorem states what it does.

  \<^bold>\<open>How the program works.\<close> \<open>main.rs\<close> migrates the configuration and the database and starts
  the engine (\<open>engine/mod.rs\<close>). The engine scans (\<open>engine/scan.rs\<close>): it lists the drive, walks
  the local tree, makes missing remote directories, compares, and queues tasks. Events of the
  file system (\<open>engine/watcher.rs\<close>) are debounced by a dispatcher and queued as tasks too, or
  stored in the database while the network is down and replayed by \<open>engine/offline.rs\<close>. Workers
  (\<open>engine/worker.rs\<close>), bounded by a semaphore, run the tasks: upload with verification
  (\<open>engine/integrity.rs\<close>), deletion, renaming. All of them share the SQLite index (\<open>db.rs\<close>), the
  cache of drive identifiers (\<open>remote/path_cache.rs\<close>), the progress tracker and the bandwidth
  limiter (\<open>engine/bandwidth.rs\<close>) and the provider (\<open>remote/mod.rs\<close>), which is the Drive client
  (\<open>remote/gdrive.rs\<close>) with its rate limiter (\<open>engine/rate_limiter.rs\<close>) and the session of
  \<open>auth/\<close>. The engine reports its status to the icon in the tray (\<open>ui/tray.rs\<close>), whose menu sends
  commands back and opens windows (\<open>ui/mod.rs\<close>); the settings window (\<open>ui/settings.rs\<close>) pauses the
  engine, saves the configuration and hands it over.

  \<^bold>\<open>Theories and source files.\<close>
  \<^item> \<open>Prelude\<close>: results (\<open>anyhow\<close> chains in a sum), strings as bytes, generic lemmas. \<open>Paths\<close>:
    \<open>std::path\<close> and the key helpers of \<open>worker.rs\<close>. \<open>Disk\<close>: the file system with faults as data.
    \<open>Stores\<close>: the interfaces as locales (\<open>keyed_store\<close>, \<open>fifo_store\<close>, \<open>token_bucket\<close>), each
    interpreted by the component that provides it.
  \<^item> \<open>Config\<close>, \<open>Ignore\<close>, \<open>Path_Display\<close>: \<open>config.rs\<close>, \<open>ignore.rs\<close>, \<open>utils/path_display.rs\<close>.
  \<^item> \<open>Database\<close>, \<open>Database_Laws\<close>: every statement of \<open>db.rs\<close>; \<open>db_ok\<close>, kept by every writer, and
    the refinement of \<open>file_index\<close> to a map and of \<open>offline_queue\<close> to a queue.
  \<^item> \<open>Path_Cache\<close>: \<open>remote/path_cache.rs\<close>; removal is removal of a subtree.
  \<^item> \<open>Bandwidth\<close>, \<open>Rate_Limiter\<close>: the two limiters as token buckets, and the tracker.
  \<^item> \<open>Http\<close>, \<open>Auth\<close>, \<open>Auth_Laws\<close>, \<open>Token_Storage\<close>: JSON, requests and answers;
    \<open>auth/storage.rs\<close>, \<open>auth/google_auth.rs\<close>, \<open>auth/oauth2.rs\<close>; what is on the disk after each
    call; the trait \<open>TokenStorage\<close> as a locale that makes the file a cell.
  \<^item> \<open>Remote\<close>, \<open>Gdrive\<close>, \<open>Gdrive_Laws\<close>: the provider as a record of functions, and the Drive
    client; \<open>gdrive_provider\<close> is the latter as the former. The listing against the tree, the
    effect of the bandwidth limit, the answers taken for success.
  \<^item> \<open>World\<close>, \<open>Worker\<close>, \<open>Worker_Laws\<close>: the state the engine's parts share, their actions, the
    locale \<open>frame\<close> (a relation between states that every action keeps), and the tasks.
  \<^item> \<open>Scan\<close>, \<open>Scan_Laws\<close>: the phases of a scan, and the exact list of tasks it queues. \<open>Mirror\<close>:
    a scan followed by its tasks, row by row of the index, which ends up as the image of the folder.
  \<^item> \<open>Offline\<close>, \<open>Dispatch\<close>: the stored queue, the watcher's channel, the debounced dispatcher.
  \<^item> \<open>Engine\<close>, \<open>Engine_Laws\<close>: the \<open>select!\<close> loop as a step function over events, reachability, and
    the invariants of every reachable state.
  \<^item> \<open>Ui_Base\<close>, \<open>Notif\<close>, \<open>Icons\<close>: the texts, numbers and channels of the windows and the locale
    \<open>reactive\<close> (runs of a step function); \<open>notif.rs\<close>; \<open>ui/icons.rs\<close>.
  \<^item> \<open>Tray\<close>, \<open>Tray_Laws\<close>: \<open>ui/tray.rs\<close>, its loop, texts, icon and menu; what every run keeps.
  \<^item> \<open>Settings\<close>, \<open>Ui\<close>, \<open>Ui_Laws\<close>: \<open>ui/settings.rs\<close>, then \<open>ui/mod.rs\<close> and the help and scan windows:
    what the widgets hold and what each callback does; what no use of the settings changes.
    \<open>Gtk_Thread\<close>: the thread around them, which refines them. \<open>Widgets\<close>: the trees of widgets as
    functions of what the windows hold, and what the user can change and press in them.
  \<^item> \<open>Desktop\<close>: the windows and the tray together with the engine: the commands it receives from
    them, the statuses they receive from it, its notifications.
  \<^item> \<open>Startup\<close>: \<open>migration.rs\<close>, \<open>Database::open\<close>, and what \<open>main.rs\<close> decides. \<open>Program\<close>,
    \<open>Program_Laws\<close>: \<open>main.rs\<close> from the lock of the single instance to its main loop, and its end.
  \<^item> \<open>Demo\<close>, \<open>Demo_Drive\<close>, \<open>Demo_Ui\<close>: concrete worlds on which the properties are applied.

  \<^bold>\<open>State.\<close> A method that locks a mutex once is one step on the value it guards. Actions pass the
  state explicitly (\<open>seq_act\<close> in \<open>World\<close>, \<open>gseq\<close> in \<open>Gdrive\<close>). Another task may cancel the
  shutdown token at any time: \<open>w_cancel\<close> says after how many looks it is found cancelled, and every
  statement holds for each such moment. Spawned workers, the dispatcher and the publisher
  interleave with the main loop at the granularity of one task, one tick or one message. The tray, the
  windows and the end of \<open>main\<close> are step functions over the user's and the engine's events, with
  \<open>None\<close> for what cannot happen or ends in a panic; the channel towards the engine is a list with a
  capacity. Machine
  integers are words where they can wrap (counters, limits, tokens' times), \<open>f64\<close> is an exact
  rational, an \<open>Instant\<close> a number of nanoseconds. The local disk does not change during one task.

  \<^bold>\<open>Loops and bounds.\<close> The upload loop has the measure \<open>max_attempts - attempt\<close>; the phases of
  a scan recurse on lists. Loops that may run for ever are partial functions with result \<open>None\<close>:
  both \<open>acquire\<close> loops, the body stream, the listing. That they return, or do not, is proved:
  \<open>bandwidth_acquire_returns_iff_it_fits\<close>, \<open>api_acquire_returns_after_the_lock\<close>,
  \<open>listing_of_a_finite_tree_returns\<close>, \<open>small_upload_above_the_limit_never_returns\<close>. No fuel is
  used. The channel of 1024 tasks is a list; \<open>blocks\<close> says when a sender would wait, and
  \<open>long_flush_blocks_the_engine\<close> what that means.

  \<^bold>\<open>Parameters.\<close> Code outside \<open>src/\<close> is a parameter, with what the program relies on as
  hypotheses: MD5 (\<open>cx_md5\<close>), walkdir (\<open>cx_walk\<close>), the iteration order of hash sets (\<open>cx_order\<close>),
  notify (\<open>event_kind\<close>), globset (\<open>globset_crate\<close>, \<open>globset_sound\<close>), toml (\<open>toml_crate\<close>,
  \<open>toml_faithful\<close>), AES-GCM, SHA-256, serde_json, oauth2, url, chrono and the browser
  (\<open>auth_crates\<close>, \<open>crates_faithful\<close>), usvg and resvg (\<open>svg_crate\<close>, \<open>svg_sound\<close>), SQLite as the
  database found in a file (\<open>sqlite_open\<close>), tracing's set-up (\<open>pe_logging\<close>), reqwest and the servers (\<open>gv_http\<close>, \<open>serves\<close>,
  \<open>answers_pages\<close>), the scheduler's clock (\<open>gv_wake\<close>, \<open>sleeps_long_enough\<close>: a sleep lasts at least
  as long as asked).

  \<^bold>\<open>Simplifications.\<close> Log lines are left out. A panic is an error value
  or an outer \<open>None\<close>. The release profile ends the process there (\<open>panic = "abort"\<close>), so what the
  model does after a panic of a worker does not happen in it. A scan is interrupted where the code
  looks at the token. Provider calls of the Drive client do not interleave with each other; a call
  that never returns makes the provider's state \<open>None\<close>. The text that a crate puts below a context
  message is not reproduced. Reads of an open file do not fail. GTK clamps the number of workers to
  the bounds of its row and delivers no click on an insensitive button; what the user picks in a file
  dialog is an event. What a background thread reports to a closed window is left out. The lock file
  is known by its path.

  \<^bold>\<open>Not modelled.\<close> What GTK draws from the trees of widgets. The protocol of the tray (ksni) and of
  the notification service. The \<open>watch\<close> channel of the scan window: the statuses it lets through are
  events. Of \<open>main.rs\<close>: the layers of the logging and the signal
  handlers, whose effect is the event \<open>SignalReceived\<close>. \<open>RemoteProvider::shutdown\<close> only cancels the
  token. Permission bits of the token file, disk failures of SQLite. The tests of the repository.
\<close>

text \<open>
  C1: A whole round: a scan on an empty queue ends well, and then its tasks, in whatever order and as often
  as one likes, as long as each of them is run and ends well and the program is not told to stop. The names are well formed
  and a row that carries the time of its file carries its hash (the code takes an equal time for an
  equal content). Then the index is the image of the folder: each file found that is not empty and
  can be read has a row with the hash of its content and its time, whether it was up to date, touched, adopted
  from the drive or uploaded; and each well-formed path that is not one of the files found, nor ignored, has no row.
\<close>

theorem a_round_mirrors_the_folder:
  assumes "scan_run cx ign w = (Inr (), w1)" "run_tasks cx ign ts w1 = (Inr (), w2)" "set ts = set (w_queue w1)"
    and "get_primary_pair (cx_cfg cx) = Some primary" "\<not> cx_dry_run cx" "w_queue w = []" "w_cancel w2 \<noteq> Some 0"
    and "db_ok (w_db w)" "\<And>ps. set (cx_order cx ps) = set ps" "plain_names cx ign primary w"
    and "base = pair_base primary" "files = set (walk_files (walked cx ign base))"
    and "\<And>r. base @ r \<in> files \<Longrightarrow> trusted_row cx (base @ r) (file_index_get (w_db w) (path_string r))"
    and "rel_ok r"
  shows "(base @ r \<in> files \<and> file_len (base @ r) (cx_disk cx) > 0 \<and> hash_of cx (base @ r) = Inr h \<longrightarrow>
      file_index_get (w_db w2) (path_string r) = Some (h, mtime_of (base @ r) (cx_disk cx))) \<and>
    (base @ r \<notin> files \<and> \<not> ign (base @ r) (path_is_dir (base @ r) (cx_disk cx)) \<longrightarrow>
      file_index_get (w_db w2) (path_string r) = None)"
proof -
  note files = assms(12)[unfolded assms(11)]
  note rows = scan_run_rows[OF assms(1,4,5,8,9,6,10), folded assms(11), folded assms(3)]
  note tasks = round_row[OF assms(2,4,5) rows(2) assms(7) rows(1)[unfolded assms(11)] assms(14), folded assms(11)]
  show ?thesis
  proof (cases "base @ r \<in> files")
    case True
    then have keep: "Delete (base @ r) \<notin> set ts" using rows(4) assms(12) by blast
    have isf: "path_is_file (base @ r) (cx_disk cx)" "\<not> ign (base @ r) False"
      using assms(10) True by (auto simp: plain_names_def assms(11,12))
    have "mirrored cx (base @ r) (index_of w2 (path_string r))"
      if "file_len (base @ r) (cx_disk cx) > 0" "hash_of cx (base @ r) = Inr h"
      using rows(5)[OF assms(14) _ assms(13) that(2,1)] True tasks(1,2)[OF keep] isf that assms(12) by blast
    with True show ?thesis by (auto simp: mirrored_def split: option.splits)
  next
    case False
    then have "SyncFile (base @ r) \<notin> set ts" using rows(3) assms(12) by blast
    with False tasks(3,4) rows(6)[OF assms(14)] show ?thesis by (auto simp: assms(12))
  qed
qed

lemma a_round_mirrors_the_folder_witness:
  "file_index_get (w_db demo_world) ''gone'' \<noteq> None \<and>
   (\<exists>w1 w2. scan_run (demo_cx False) nothing_ignored demo_world = (Inr (), w1) \<and>
     run_tasks (demo_cx False) nothing_ignored (rev (w_queue w1)) w1 = (Inr (), w2) \<and>
     file_index_get (w_db w2) ''d/b'' = Some (''#BB'', 7) \<and> file_index_get (w_db w2) ''gone'' = None)"
proof -
  define w1 where "w1 = snd (scan_run (demo_cx False) nothing_ignored demo_world)"
  define w2 where "w2 = snd (run_tasks (demo_cx False) nothing_ignored (rev (w_queue w1)) w1)"
  have s: "scan_run (demo_cx False) nothing_ignored demo_world = (Inr (), w1)"
    using run_pair[OF demo_scan] by (simp add: w1_def)
  have "fst (run_tasks (demo_cx False) nothing_ignored (rev (w_queue w1)) w1) = Inr () \<and> w_cancel w2 = None"
    unfolding w2_def unfolding w1_def by code_simp
  then have t: "run_tasks (demo_cx False) nothing_ignored (rev (w_queue w1)) w1 = (Inr (), w2)" and go: "w_cancel w2 = None"
    using run_pair[of "run_tasks (demo_cx False) nothing_ignored (rev (w_queue w1)) w1" "Inr ()"] by (simp_all add: w2_def)
  have found: "walk_files (walked (demo_cx False) nothing_ignored [''/'', ''s'']) =
      [[''/'', ''s'', ''a''], [''/'', ''s'', ''d'', ''b'']]"
    by code_simp
  have rows: "file_index_get demo_db = [''gone'' \<mapsto> (''h'', 1)]"
    by (rule ext) (simp add: file_index_get_def demo_db_def db_get_def with_table_def db_lock_def need_def select_row_def)
  have listed: "ri_files (remote_listing (demo_cx False) ''R'' demo_world) = ri_files demo_listing"
    by (simp add: remote_listing_def demo_provider_def)
  have names: "rel_ok [''a'']" "rel_ok [''d'', ''b'']" "rel_ok [''gone'']" "rel_ok [''z'']" by code_simp+
  have keys: "path_string [''a''] = ''a''" "path_string [''d'', ''b''] = ''d/b''"
    "path_string [''gone''] = ''gone''" "path_string [''z''] = ''z''" by code_simp+
  have there: "path_is_file [''/'', ''s'', ''a''] demo_disk" "path_is_file [''/'', ''s'', ''d'', ''b''] demo_disk" by code_simp+
  have plain: "plain_names (demo_cx False) nothing_ignored demo_pair demo_world"
    unfolding plain_names_def
    using names keys by (auto simp: found there rows listed demo_listing_def nothing_ignored_def split: if_splits intro: exI[of _ "[_]"])
  have trust: "trusted_row (demo_cx False) ([''/'', ''s''] @ r) (file_index_get (w_db demo_world) (path_string r))"
    if "[''/'', ''s''] @ r \<in> {[''/'', ''s'', ''a''], [''/'', ''s'', ''d'', ''b'']}" for r
    using that keys by (auto simp: rows trusted_row_def)
  have q: "(r = [''a''] \<or> r = [''d'', ''b'']) \<and> file_len ([''/'', ''s''] @ r) demo_disk > 0 \<and>
      hash_of (demo_cx False) ([''/'', ''s''] @ r) = Inr h \<longrightarrow>
      file_index_get (w_db w2) (path_string r) = Some (h, mtime_of ([''/'', ''s''] @ r) demo_disk)"
    "r \<noteq> [''a''] \<and> r \<noteq> [''d'', ''b''] \<longrightarrow> file_index_get (w_db w2) (path_string r) = None" if "rel_ok r" for r h
    using a_round_mirrors_the_folder[OF s t _ demo_primary _ _ _ _ _ plain refl refl _ that, of h] trust
    by (auto simp: found go demo_db_ok nothing_ignored_def)
  have "file_len [''/'', ''s'', ''d'', ''b''] demo_disk > 0" "hash_of (demo_cx False) [''/'', ''s'', ''d'', ''b''] = Inr ''#BB''"
    "mtime_of [''/'', ''s'', ''d'', ''b''] demo_disk = 7" by code_simp+
  with q(1)[of "[''d'', ''b'']" "''#BB''"] q(2)[of "[''gone'']"] names keys s t rows show ?thesis by auto
qed

text \<open>
  C2: A scan that ends has appended to the task queue exactly the list \<open>expected_tasks\<close>: an
  upload for each walked non-empty file that needs one, a deletion for each indexed path with no
  local file, a deletion for each file of the remote listing that is neither local, nor indexed,
  nor a local directory, nor ignored.
\<close>

theorem scan_queues_exactly_the_expected_tasks:
  assumes "scan_run cx ign w = (Inr (), w')" "\<not> cx_dry_run cx"
    and "get_primary_pair (cx_cfg cx) = Some primary"
    and "distinct (local_rel_set (pair_base primary) (walk_files (walked cx ign (pair_base primary))))"
  shows "\<exists>paths. db_all_paths (w_db w) = Inr paths \<and>
    w_queue w' = w_queue w @ expected_tasks cx ign (pair_base primary) (cx_order cx paths) (w_cache w') (w_db w)
      (ri_files (remote_listing cx (sp_remote_folder_id primary) w))"
  using scan_run_queue[OF assms] by metis

lemma scan_queues_exactly_the_expected_tasks_witness:
  "\<exists>paths. db_all_paths demo_db = Inr paths \<and>
    w_queue (snd (scan_run (demo_cx False) nothing_ignored demo_world)) =
      expected_tasks (demo_cx False) nothing_ignored [''/'', ''s''] paths
        (w_cache (snd (scan_run (demo_cx False) nothing_ignored demo_world))) demo_db
        (ri_files (remote_listing (demo_cx False) ''R'' demo_world))"
proof -
  have "scan_run (demo_cx False) nothing_ignored demo_world =
      (Inr (), snd (scan_run (demo_cx False) nothing_ignored demo_world))"
    by (rule run_pair[OF demo_scan])
  from scan_queues_exactly_the_expected_tasks[OF this _ demo_primary, unfolded demo_pair_simps]
  show ?thesis using demo_walked_distinct by (simp add: demo_cx_simps)
qed

text \<open>
  C3: Once \<open>sync_file\<close> has returned \<open>Ok\<close> (it uploaded, or refreshed the index, or had
  nothing to do, or was stopped), running it again in the state it left returns \<open>Ok\<close> and leaves
  the drive, the index, the cache and the tracker as they are.
\<close>

theorem synchronised_file_stays_synchronised:
  assumes "sync_file cx ign p w = (Inr (), w')"
  shows "sync_file cx ign p w' = (Inr (), w')"
  using assms by (rule sync_file_again)

lemma synchronised_file_stays_synchronised_witness:
  "w_drive (snd (sync_file (demo_cx False) nothing_ignored [''/'', ''s'', ''a''] demo_world)) = [''up a''] \<and>
   sync_file (demo_cx False) nothing_ignored [''/'', ''s'', ''a'']
       (snd (sync_file (demo_cx False) nothing_ignored [''/'', ''s'', ''a''] demo_world)) =
     (Inr (), snd (sync_file (demo_cx False) nothing_ignored [''/'', ''s'', ''a''] demo_world))"
proof
  have r: "fst (sync_file (demo_cx False) nothing_ignored [''/'', ''s'', ''a''] demo_world) = Inr ()"
    by code_simp
  show "w_drive (snd (sync_file (demo_cx False) nothing_ignored [''/'', ''s'', ''a''] demo_world)) = [''up a'']"
    by code_simp
  show "sync_file (demo_cx False) nothing_ignored [''/'', ''s'', ''a'']
       (snd (sync_file (demo_cx False) nothing_ignored [''/'', ''s'', ''a''] demo_world)) =
     (Inr (), snd (sync_file (demo_cx False) nothing_ignored [''/'', ''s'', ''a''] demo_world))"
    by (rule synchronised_file_stays_synchronised[OF run_pair[OF r]])
qed

text \<open>
  C4: What an \<open>Ok\<close> of \<open>sync_file\<close> means: the state did not change; or the token was found
  cancelled and neither drive, index nor cache changed; or the index holds the key of the file with
  the hash of its present content and its modification time, and the cache knows its drive
  identifier.
\<close>

theorem sync_file_records_what_it_uploaded:
  assumes "sync_file cx ign p w = (Inr (), w')"
  shows "w' = w \<or> w_db w' = w_db w \<and> w_cache w' = w_cache w \<and> w_drive w' = w_drive w \<and> w_cancel w' = Some 0
    \<or> (\<exists>primary r content mt. get_primary_pair (cx_cfg cx) = Some primary \<and> p = pair_base primary @ r \<and>
         fs_read p (cx_disk cx) = Inr content \<and> file_mtime p (cx_disk cx) = Inr mt \<and>
         recorded (path_string r) (cx_md5 cx content) mt w')"
  using assms by (rule sync_file_outcome)

lemma sync_file_records_what_it_uploaded_witness:
  "\<exists>primary r content mt. get_primary_pair demo_cfg = Some primary \<and> [''/'', ''s'', ''a''] = pair_base primary @ r \<and>
     fs_read [''/'', ''s'', ''a''] demo_disk = Inr content \<and> file_mtime [''/'', ''s'', ''a''] demo_disk = Inr mt \<and>
     recorded (path_string r) (demo_md5 content) mt
       (snd (sync_file (demo_cx False) nothing_ignored [''/'', ''s'', ''a''] demo_world))"
proof -
  let ?w = "snd (sync_file (demo_cx False) nothing_ignored [''/'', ''s'', ''a''] demo_world)"
  have r: "fst (sync_file (demo_cx False) nothing_ignored [''/'', ''s'', ''a''] demo_world) = Inr ()"
    by code_simp
  have d: "w_drive ?w = [''up a'']" by code_simp
  have run: "sync_file (demo_cx False) nothing_ignored [''/'', ''s'', ''a''] demo_world = (Inr (), ?w)"
    by (rule run_pair[OF r])
  have moved: "?w \<noteq> demo_world" "w_drive ?w \<noteq> w_drive demo_world" using d by auto
  from sync_file_records_what_it_uploaded[OF run] moved show ?thesis by auto
qed

text \<open>
  C5: The upload loop calls the provider at most \<open>max 1 max_attempts\<close> times, whatever it
  answers (any count of calls that one upload raises by at most one); and it returns an upload only
  if its checksum is that of the local file.
\<close>

theorem upload_ends_verified_within_the_bound:
  assumes "\<And>d p pid nm prev tk.
      calls (fst (snd (rp_upload (cx_provider cx) d p pid nm prev tk))) \<le> Suc (calls d)"
    and "upload_from cx 1 p parent_id file_name last_id w = (res, w')"
  shows "calls (w_drive w') \<le> calls (w_drive w) + max 1 (max_attempts cx) \<and>
    (\<forall>up. res = Inr up \<longrightarrow>
      (\<exists>content. fs_read p (cx_disk cx) = Inr content \<and> ur_md5_checksum up = cx_md5 cx content))"
proof (intro conjI allI impI)
  show "calls (w_drive w') \<le> calls (w_drive w) + max 1 (max_attempts cx)"
    using upload_from_calls[of calls cx 1 p parent_id file_name last_id w] assms by simp
  fix up assume "res = Inr up"
  then show "\<exists>content. fs_read p (cx_disk cx) = Inr content \<and> ur_md5_checksum up = cx_md5 cx content"
    using assms(2) upload_from_verified[of cx 1 p parent_id file_name last_id w up w'] verify_upload_ok_iff by blast
qed

lemma upload_ends_verified_within_the_bound_witness:
  "length (w_drive (snd (upload_from (demo_cx False) 1 [''/'', ''s'', ''a''] ''R'' ''a'' None demo_world))) \<le> 3"
proof -
  have one: "length (fst (snd (rp_upload (cx_provider (demo_cx False)) d p pid nm prev tk))) \<le> Suc (length d)"
    for d p pid nm prev tk
    by (simp add: demo_cx_def demo_provider_def demo_upload_def split: sum.split)
  have m: "max_attempts (demo_cx False) = 3" by code_simp
  show ?thesis
    using upload_ends_verified_within_the_bound[of length "demo_cx False" "[''/'', ''s'', ''a'']" "''R''" "''a''" None
        demo_world, OF one prod.collapse[symmetric]] m
    by (simp add: demo_world_def)
qed

text \<open>
  C6: The worker over the Drive provider: an upload that the loop accepts rests on a request with
  a file body that the server answered with success, and on the checksum of that answer being the
  one of the local file's content.
\<close>

theorem recorded_upload_was_acknowledged:
  assumes "cx_provider cx = gdrive_provider gv"
    and "upload_from cx attempt p parent_id file_name last_id w = (Inr up, w')"
  shows "\<exists>content sent data. fs_read p (cx_disk cx) = Inr content \<and> acknowledged gv sent data \<and>
    up = parse_upload_result data \<and> str_or [] data ''md5Checksum'' = cx_md5 cx content"
  using assms by (rule drive_upload_verified)

lemma recorded_upload_was_acknowledged_witness:
  "\<exists>sent data. acknowledged (demo_gv 5000 0) sent data \<and> str_or [] data ''md5Checksum'' = demo_md5 ''A''"
proof -
  have "\<exists>up w'. upload_from demo_drive_cx 1 [''/'', ''s'', ''a''] ''R'' ''a'' None demo_drive_world = (Inr up, w')"
    using demo_drive_uploads by blast
  then obtain up w' where r: "upload_from demo_drive_cx 1 [''/'', ''s'', ''a''] ''R'' ''a'' None demo_drive_world = (Inr up, w')"
    by blast
  have "cx_provider demo_drive_cx = gdrive_provider (demo_gv 5000 0)" by (simp add: demo_drive_cx_def)
  from recorded_upload_was_acknowledged[OF this r] show ?thesis
    by (auto simp: demo_drive_cx_def fs_read_Inr_iff demo_disk_def)
qed

text \<open>
  C7: When the listing of an unchanging drive returns an index, the folders and the files of the
  index are exactly the items of the tree below the root, over every page of every folder, each
  with the path of its folder. The drive may refuse any number of requests with HTTP 429 meanwhile.
\<close>

theorem drive_listing_is_the_tree:
  assumes "serves gv pages" "list_remote gv root_id g = Some (Inr ix, g')"
  shows "set (ri_dirs ix) = tree_dirs (entries pages (tree pages {(root_id, [])})) \<and>
    set (ri_files ix) = tree_files gv (entries pages (tree pages {(root_id, [])}))"
  using assms by (rule list_remote_tree)

lemma drive_listing_is_the_tree_witness:
  "\<exists>ix g'. list_remote (demo_gv 0 0) ''R'' (demo_drive_on demo_session_disk 0) = Some (Inr ix, g') \<and>
     set (ri_dirs ix) = tree_dirs (entries demo_pages (tree demo_pages {(''R'', [])}))"
proof -
  have tok: "token_at_hand (demo_gv 0 0) (aw_disk (demo_drive_on demo_session_disk 0))"
    using demo_token_at_hand by (simp add: demo_drive_on_def)
  have wake: "sleeps_long_enough (gv_wake (demo_gv 0 0))" using demo_wake_ok by simp
  obtain ix g' where r: "list_remote (demo_gv 0 0) ''R'' (demo_drive_on demo_session_disk 0) = Some (Inr ix, g')"
    using list_loop_returns[OF demo_answers tok wake demo_finite_tree] unfolding list_remote_def by blast
  with drive_listing_is_the_tree[OF demo_serves r] show ?thesis by blast
qed



text \<open>
  C9: Renaming a file that is cached and indexed: when it returns \<open>Ok\<close>, the new path has the same
  drive identifier and the same index row, the old path is neither cached nor indexed, and the whole
  run is the same whatever the provider's \<open>upload\<close> is: the file is not sent again.
\<close>

theorem rename_moves_a_known_file:
  assumes "\<not> cx_dry_run cx" "get_primary_pair (cx_cfg cx) = Some primary"
    and "from = pair_base primary @ a" "to = pair_base primary @ b"
    and "path_string a \<noteq> []" "path_string a \<noteq> path_string b"
    and "\<not> (ign from (path_is_dir from (cx_disk cx)) \<and> ign to (path_is_dir to (cx_disk cx)))"
    and "pc_lookup (w_cache w) (path_string a) = Some entry" "db_get (w_db w) (path_string a) = Inr (Some e)"
    and "handle cx ign (Rename from to) w = (Inr (), w')"
  shows "map_option ce_drive_id (pc_lookup (w_cache w') (path_string b)) = Some (ce_drive_id entry) \<and>
    db_get (w_db w') (path_string b) = Inr (Some (e\<lparr>fe_path := path_string b\<rparr>)) \<and>
    db_get (w_db w') (path_string a) = Inr None \<and> pc_lookup (w_cache w') (path_string a) = None \<and>
    handle (cx\<lparr>cx_provider := (cx_provider cx)\<lparr>rp_upload := u\<rparr>\<rparr>) ign (Rename from to) w = (Inr (), w')"
proof -
  let ?cx = "cx\<lparr>cx_provider := (cx_provider cx)\<lparr>rp_upload := u\<rparr>\<rparr>"
  have known: "rename_file c ign from to w = rename_known c primary entry (path_string a) (path_string b) to w"
    if "c = cx \<or> c = ?cx" for c
    using that assms by (intro rename_file_known) auto
  have run: "rename_known cx primary entry (path_string a) (path_string b) to w = (Inr (), w')"
    using assms(1,10) known[of cx] by (simp add: handle_def)
  have "handle ?cx ign (Rename from to) w = (Inr (), w')"
    using known[of ?cx] rename_known_no_upload[of u cx primary] run assms(1) by (simp add: handle_def)
  with rename_known_ok[OF run assms(9)] assms(6) show ?thesis by simp
qed

lemma rename_moves_a_known_file_witness:
  "map_option ce_drive_id (pc_lookup (w_cache (snd (handle (demo_cx False) nothing_ignored
     (Rename [''/'', ''s'', ''gone''] [''/'', ''s'', ''here'']) demo_known))) ''here'') = Some ''g''"
proof -
  let ?run = "handle (demo_cx False) nothing_ignored (Rename [''/'', ''s'', ''gone''] [''/'', ''s'', ''here'']) demo_known"
  have "fst ?run = Inr ()" by code_simp
  note run = run_pair[OF this]
  have names: "path_string [''gone''] = ''gone''" "path_string [''here''] = ''here''" by code_simp+
  have cached: "pc_lookup (w_cache demo_known) ''gone'' = Some \<lparr>ce_drive_id = ''g'', ce_parent_id = ''R''\<rparr>"
    by (simp add: demo_known_def pc_lookup_def)
  have row: "db_get (w_db demo_known) ''gone'' = Inr (Some \<lparr>fe_path = ''gone'', fe_hash = ''h'', fe_mtime = 1\<rparr>)"
    by code_simp
  show ?thesis
    using rename_moves_a_known_file[OF _ demo_primary _ _ _ _ _ _ _ run, of "[''gone'']" "[''here'']", unfolded names, OF _ _ _ _ _ _ cached row]
    by (simp add: nothing_ignored_def)
qed







text \<open>
  C13: In every reachable state the active counter is the number of spawned workers, and this is at
  most \<open>max 1 max_workers\<close> of the configuration the engine was started with.
\<close>

theorem running_workers_bounded:
  assumes "run_with_provider env dk cmds n (engine_new cfg dry drive db) = Some e0"
    and "engine_reach env e0 e"
  shows "en_active e = length (en_jobs e) \<and> length (en_jobs e) \<le> max 1 (unat (cf_max_workers cfg))"
proof -
  have new: "en_jobs (engine_new cfg dry drive db) = []" "en_active (engine_new cfg dry drive db) = 0"
    "en_permits (engine_new cfg dry drive db) = 0" "en_cfg (engine_new cfg dry drive db) = cfg"
    by (simp_all add: engine_new_def)
  note w0 = run_with_provider_workers[OF assms(1) new(1,2)]
  note p0 = run_with_provider_permits[OF assms(1) new(3), unfolded new(4)]
  from engine_reach_workers[OF assms(2) w0] p0 show ?thesis
    by (auto simp: workers_ok_def fixed_parts_def)
qed

lemma running_workers_bounded_witness:
  "en_active (demo_run [MainTask, BgJob 0 demo_disk,
     MainCommand (Some (ApplyConfig (demo_cfg\<lparr>cf_max_workers := 9\<rparr>))) [] 0 demo_disk]) \<le> 1"
  using running_workers_bounded[OF demo_started demo_reached] by (simp add: demo_cfg_def app_default_def)

text \<open>
  C14: The thread of the windows refines the windows: whatever GTK does (a start-up, any number of activations) and
  however the turns of the listener, the sends of the tray and the uses of the windows interleave, the windows are in
  a state that their own model reaches by a run in which the commands come in the order in which they were
  sent, none twice; the commands not yet shown are those in the channel. The application is held once while the
  listener runs, and the thread ends only when the senders are gone and every command was shown.
\<close>

theorem windows_open_in_the_order_asked:
  assumes "run_events (gtk_step ue) evs (start_ui_server w) = Some g"
  shows "\<exists>vs. run_events (ui_step ue) vs (ui_start w) = Some (ga_windows g) \<and>
      shown_commands vs @ ga_queue g = sent_commands evs \<and>
      ga_holds g = (if ga_listening g then 1 else 0) \<and>
      (ga_quit g \<longrightarrow> shown_commands vs = sent_commands evs \<and> \<not> ga_senders g \<and> ga_holds g = 0)"
  using gtk_run[OF assms] by (auto simp: gtk_ok_def refines_windows_def)

lemma windows_open_in_the_order_asked_witness:
  "\<exists>g vs. run_events (gtk_step demo_ue) demo_gtk_events (start_ui_server (demo_ui_world demo_start_disk)) = Some g \<and>
     ga_quit g \<and> run_events (ui_step demo_ue) vs (ui_start (demo_ui_world demo_start_disk)) = Some (ga_windows g) \<and>
     shown_commands vs = [ShowHelp, ShowAbout]"
proof -
  let ?r = "run_events (gtk_step demo_ue) demo_gtk_events (start_ui_server (demo_ui_world demo_start_disk))"
  have "\<not> Option.is_none ?r" by code_simp
  then obtain g where g: "?r = Some g" by (auto simp: Option.is_none_def)
  have "ga_quit (the ?r)" "sent_commands demo_gtk_events = [ShowHelp, ShowAbout]" by code_simp+
  with windows_open_in_the_order_asked[OF g] g show ?thesis by auto
qed

text \<open>
  C15: When \<open>main\<close> reaches its main loop, on a database that is empty, of the first version or valid:
  the lock was free and is now held; the database is a valid one of version 2; the configuration file
  exists, so that the flag for a first run, computed afterwards, is never set; the engine is launched on
  the loaded configuration, which then has an active pair, or else the tray asks for the settings; and
  the channel towards the engine has room.
\<close>

theorem startup_brings_everything_up_to_date:
  assumes "main_start pe pid (w, held) = (MainRuns s, w', held')"
    and "dk_fault (aw_disk w) OpStat (components (config_path (ue_vars pe))) = None"
    and "\<And>dk p db0. pe_sqlite pe p dk = Inr db0 \<Longrightarrow> db_empty db0 \<or> db_v1 db0 \<or> db_ok db0"
  shows "held (components (lock_path (pe_runtime_dir pe) (pe_uid pe))) = None \<and>
    held' (components (lock_path (pe_runtime_dir pe) (pe_uid pe))) = Some pid \<and>
    db_ok (ms_database s) \<and> db_schema_version (ms_database s) = Inr 2 \<and> \<not> su_first_run (ms_startup s) \<and>
    (if su_launch (ms_startup s) = LaunchEngine (ms_config s)
     then get_primary_pair (ms_config s) \<noteq> None \<and> sy_ui (ms_tray s) = []
     else sy_ui (ms_tray s) = [ShowSettings]) \<and>
    0 < room (sy_commands (ms_tray s))"
  using main_start_facts[OF assms] by (simp add: db_ok_version)

lemma startup_brings_everything_up_to_date_witness:
  "\<exists>s w held. main_start demo_pe 7 (demo_power_on, Map.empty) = (MainRuns s, w, held) \<and>
    held [''/'', ''s'', ''syncgdrive.lock''] = Some 7 \<and> sy_ui (ms_tray s) = []"
proof -
  obtain s w held where run: "main_start demo_pe 7 (demo_power_on, Map.empty) = (MainRuns s, w, held)"
    and s: "ms_config s = demo_cfg" "ms_startup s = demo_plan"
    using demo_main by blast
  from startup_brings_everything_up_to_date[OF run] demo_db_ok s run demo_migrated_facts(10) show ?thesis
    by (auto simp: demo_power_on_def demo_plan_def)
qed







text \<open>
  C19: With an upload limit of \<open>kbps\<close>, a file above the resumable threshold is only ever uploaded
  when it has at most \<open>31 * kbps * 1024\<close> bytes: the body is throttled, and the client's timeout of
  thirty seconds counts the body. A larger file fails at every try.
\<close>

theorem limited_upload_fits_in_31_seconds:
  assumes "limited gv g" "bl_limit_bps (gd_bw g) = kbps * 1024" "unat kbps * 1024 < 2 ^ 64"
    and "has_content gv p content g" "unat (av_chunk_threshold (gv_config gv)) < length content"
    and "31 * (unat kbps * 1024) < length content"
  shows "upload gv p parent_id file_name existing_id g \<noteq> Some (Inr up, g')"
  using upload_resumable_bound[OF _ assms(1-4), of parent_id file_name existing_id "length content" up g']
    upload_is_resumable[OF assms(4,5)] assms(6) by auto

lemma limited_upload_fits_in_31_seconds_witness:
  "\<forall>up g'. upload (demo_gv 100 1) [''/'', ''s'', ''big''] ''R'' ''big'' None
     (demo_drive_on (demo_disk\<lparr>dk_nodes := (dk_nodes demo_disk)([''/'', ''s'', ''big''] \<mapsto> FileNode (replicate 40000 CHR ''x'') 1)\<rparr>) 1)
   \<noteq> Some (Inr up, g')"
proof (intro allI, rule limited_upload_fits_in_31_seconds[where kbps = 1 and content = "replicate 40000 CHR ''x''"])
  show "limited (demo_gv 100 1) (demo_drive_on dk 1)" for dk
  proof -
    have "bl_ok (gd_bw (demo_drive_on dk 1))" by (simp add: demo_drive_on_def bl_new_ok)
    moreover have "bl_limit_bps (gd_bw (demo_drive_on dk 1)) \<noteq> 0" by (simp add: demo_drive_on_def bl_new_def Let_def)
    moreover have "sending_takes_time (demo_gv 100 1)" by (simp add: sending_takes_time_def demo_gv_def)
    ultimately show ?thesis using demo_wake_ok by (simp add: limited_def)
  qed
qed (simp_all add: demo_drive_on_def bl_new_def Let_def has_content_def fs_read_Inr_iff demo_ga_path demo_disk_def)

text \<open>
  C20: Tokens that were stored are loaded back unchanged, through JSON, the cipher, the nonce in
  front of the ciphertext and the file; and the session counts as connected.
\<close>

theorem tokens_round_trip_through_the_file:
  assumes "crates_faithful ac" "tokens_ok tokens" "token_file_readable ga (aw_disk w)"
    and "storage_store ac ga tokens w = (Inr (), w')"
  shows "storage_load ac ga (aw_disk w') = Inr (Some tokens) \<and> is_locally_connected ac ga (aw_disk w')"
  using store_then_load[OF assms] by (auto simp: is_locally_connected_iff)

lemma tokens_round_trip_through_the_file_witness:
  "storage_load demo_ac demo_ga (aw_disk (demo_session ''new'' 1000)) = Inr (Some (demo_tokens ''new'' 1000))"
proof -
  note run = run_pair[OF demo_stores(1)]
  from tokens_round_trip_through_the_file[OF demo_crates_faithful demo_stores(4) _ run] demo_readable show ?thesis
    by (simp add: demo_session_def demo_auth_world_def)
qed

text \<open>
  C21: A paused engine with unfinished files: the next tick of the progress publisher (every 200 ms)
  keeps it paused but sends a progress message, on which the tray's main entry sends \<open>Pause\<close>, and the
  paused engine ignores that command. The entry \<open>Resume\<close> is gone while the pause lasts.
\<close>

theorem published_progress_hides_the_pause:
  assumes "awake e" "en_paused e" "unfinished e"
  shows "\<exists>e'. engine_step env BgPublish e = Some e' \<and> en_paused e' \<and> unfinished e' \<and>
    (let t' = tray_update (last (w_status (en_world e'))) t in
     click 2 t' = Some (t'\<lparr>sy_commands := channel_send Pause (sy_commands t')\<rparr>) \<and>
     SendCommand Resume \<notin> item_action ` set (filter (\<lambda>x. x \<noteq> MenuSeparator) (tray_menu t'))) \<and>
    engine_step env (MainCommand (Some Pause) cmds n dk) e' = Some e'"
proof (intro exI conjI)
  let ?e' = "send_st (SyncProgress (snapshot (w_tracker (en_world e)))) e"
  let ?t' = "tray_update (last (w_status (en_world ?e'))) t"
  show "engine_step env BgPublish e = Some ?e'" using publish_unfinished[OF assms(1,3)] .
  show "en_paused ?e'" "unfinished ?e'"
    using assms by (simp_all add: unfinished_def send_st_def send_status_def)
  then show "engine_step env (MainCommand (Some Pause) cmds n dk) ?e' = Some ?e'"
    using assms(1) by (intro paused_ignores) simp_all
  have m: "main_command (sy_status ?t') = Pause"
    by (simp add: tray_update_fields main_command_def offers_resume_def is_active_def)
  have "SendCommand Resume \<notin> set (filter (\<lambda>a. \<exists>c. a = SendCommand c)
      (map item_action (filter (\<lambda>x. x \<noteq> MenuSeparator) (tray_menu ?t'))))"
    unfolding tray_menu_commands m by simp
  with click_main[of ?t'] show "let t' = ?t' in
     click 2 t' = Some (t'\<lparr>sy_commands := channel_send Pause (sy_commands t')\<rparr>) \<and>
     SendCommand Resume \<notin> item_action ` set (filter (\<lambda>x. x \<noteq> MenuSeparator) (tray_menu t'))"
    unfolding Let_def m by auto
qed

lemma published_progress_hides_the_pause_witness:
  "\<exists>e'. engine_step demo_env BgPublish (demo_run [MainCommand (Some Pause) [] 0 demo_disk]) = Some e' \<and> en_paused e' \<and>
    engine_step demo_env (MainCommand (Some Pause) [] 0 demo_disk) e' = Some e'"
proof -
  have "en_phase (demo_run [MainCommand (Some Pause) [] 0 demo_disk]) = Running"
    "Option.is_none (w_cancel (en_world (demo_run [MainCommand (Some Pause) [] 0 demo_disk])))" by code_simp+
  then have a: "awake (demo_run [MainCommand (Some Pause) [] 0 demo_disk])" by (simp add: awake_def Option.is_none_def)
  have p: "en_paused (demo_run [MainCommand (Some Pause) [] 0 demo_disk])"
    and u: "unfinished (demo_run [MainCommand (Some Pause) [] 0 demo_disk])" by code_simp+
  from published_progress_hides_the_pause[OF a p u, of demo_env demo_tray "[]" 0 demo_disk] show ?thesis by blast
qed

text \<open>
  C22: The settings window opens only on a configuration that has a pair, and whatever the user then types,
  chooses or removes: after a save the configuration in the file and the one sent to the engine have
  exactly the pairs that were loaded. The edited local folder, drive folder and exclusions are lost.
  The channel gets \<open>OpenSettings\<close>, \<open>ApplyConfig\<close> and \<open>Resume\<close> as far as it has room.
\<close>

theorem settings_never_change_the_pairs:
  assumes "show_settings_in_app ue w = Some (f, w1)" "dk_fault (aw_disk w) OpStat (config_file ue) = None"
    and "run_events (settings_step ue) evs (f, w1) = Some (f', w')" "sf_saved f'"
  shows "\<exists>cfg b s t. load_or_create (ue_toml ue) (ue_vars ue) (wall_clock ue w) (aw_disk w) = Some (Inr (cfg, b), aw_disk w1) \<and>
    cf_sync_pairs cfg \<noteq> [] \<and> cf_sync_pairs (sf_config f') = cf_sync_pairs cfg \<and>
    config_text (ue_toml ue) (sf_config f') = Inr s \<and> dk_nodes (aw_disk w') (config_file ue) = Some (FileNode s t) \<and>
    ch_queue (uw_commands w') = ch_queue (uw_commands w) @
      take (room (uw_commands w)) [OpenSettings, ApplyConfig (sf_config f'), Resume]"
proof -
  from show_settings_Some[OF assms(1,2)] obtain b body where
    l: "load_or_create (ue_toml ue) (ue_vars ue) (wall_clock ue w) (aw_disk w) = Some (Inr (sf_config f, b), aw_disk w1)"
    and ok: "settings_ok ue (sf_config f) (channel_send OpenSettings (uw_commands w)) body (f, w1)" by blast
  from settings_loop.run_keeps[OF ok assms(3)]
  have ok': "settings_ok ue (sf_config f) (channel_send OpenSettings (uw_commands w)) body (f', w')" by blast
  then have "\<not> sf_open f'" using assms(4) by (auto simp: form_ok_def)
  with ok' assms(4) have "uw_commands w' = fold channel_send [OpenSettings, ApplyConfig (sf_config f'), Resume] (uw_commands w)"
    by (simp add: settings_sent_def)
  then have "ch_queue (uw_commands w') = ch_queue (uw_commands w) @
      take (room (uw_commands w)) [OpenSettings, ApplyConfig (sf_config f'), Resume]"
    by (simp only: queue_after_sends)
  moreover obtain s t where "config_text (ue_toml ue) (sf_config f') = Inr s"
    "dk_nodes (aw_disk w') (config_file ue) = Some (FileNode s t)"
    using ok' assms(4) by (auto simp: file_ok_def)
  ultimately show ?thesis using ok' l by auto
qed

lemma settings_never_change_the_pairs_witness:
  "run_events (settings_step demo_ue) (demo_edits @ [SaveClicked]) demo_opened = Some demo_saved \<and>
   sf_remote (fst demo_saved) = ''root'' \<and> sf_patterns (fst demo_saved) = [''*.tmp''] \<and>
   cf_sync_pairs (sf_config (fst demo_saved)) = [demo_pair] \<and>
   ch_queue (uw_commands (snd demo_saved)) = [OpenSettings, ApplyConfig demo_saved_cfg, Resume]"
proof -
  have run: "run_events (settings_step demo_ue) (demo_edits @ [SaveClicked]) demo_opened = Some demo_saved"
    using demo_edited_run demo_saved_run by (simp add: run_events_append)
  note q = settings_never_change_the_pairs[of demo_ue "demo_ui_world demo_start_disk" "fst demo_opened" "snd demo_opened"
      "demo_edits @ [SaveClicked]" "fst demo_saved" "snd demo_saved"]
  have "ch_queue (uw_commands (snd demo_saved)) = [OpenSettings, ApplyConfig demo_saved_cfg, Resume]"
    using q demo_opened_run run demo_saved_facts by auto
  with run demo_saved_facts show ?thesis by blast
qed

text \<open>
  C23: On a valid database, seen through \<open>file_index_get\<close> as a map from paths to hash and time:
  \<open>upsert\<close> is the update, \<open>delete\<close> the removal, \<open>rename\<close> moves one binding and fails exactly when
  both paths are bound, \<open>clear\<close> gives the empty map, and \<open>all_paths\<close> and \<open>count\<close> give the domain
  and its size.
\<close>

theorem file_index_refines_a_map:
  assumes "db_ok db"
  shows "(\<exists>db'. db_upsert e db = Inr db' \<and> file_index_get db' = (file_index_get db)(fe_path e \<mapsto> (fe_hash e, fe_mtime e))) \<and>
    (\<exists>db'. db_delete p db = Inr db' \<and> file_index_get db' = (file_index_get db)(p := None)) \<and>
    (if a \<noteq> b \<and> file_index_get db a \<noteq> None \<and> file_index_get db b \<noteq> None then \<exists>m. db_rename a b db = Inl m
     else \<exists>db'. db_rename a b db = Inr db' \<and> file_index_get db' =
       (if file_index_get db a = None then file_index_get db
        else (file_index_get db)(a := None, b := file_index_get db a))) \<and>
    (\<exists>db'. db_clear db = Inr db' \<and> file_index_get db' = Map.empty) \<and>
    (\<exists>ps. db_all_paths db = Inr ps \<and> distinct ps \<and> set ps = dom (file_index_get db)) \<and>
    db_count db = Inr (card (dom (file_index_get db)))"
  using index_upsert_map[OF assms] index_delete_map[OF assms] index_rename_map[OF assms]
    index_clear_map[OF assms] index_paths_map[OF assms] index_count_map[OF assms] by blast

lemma file_index_refines_a_map_witness:
  "db_count demo_db = Inr (card (dom (file_index_get demo_db)))"
  using file_index_refines_a_map[OF demo_db_ok] by blast





text \<open>
  C26: The listing ends with an index whenever every page is answered, a token is at hand, sleeps
  end, and the tree of pages and folders is finite (it has a rank that every page exceeds by the
  sum of what it leads to).
\<close>

theorem listing_of_a_finite_tree_returns:
  assumes "answers_pages gv pages" "token_at_hand gv (aw_disk g)" "sleeps_long_enough (gv_wake gv)"
    and "finite_tree pages rank"
  shows "\<exists>ix g'. list_remote gv root_id g = Some (Inr ix, g')"
  unfolding list_remote_def using assms by (rule list_loop_returns)

lemma listing_of_a_finite_tree_returns_witness:
  "\<exists>ix g'. list_remote (demo_gv 0 0) ''R'' (demo_drive_on demo_session_disk 0) = Some (Inr ix, g')"
  by (rule listing_of_a_finite_tree_returns[OF demo_answers _ _ demo_finite_tree])
     (use demo_token_at_hand demo_wake_ok in \<open>simp_all add: demo_drive_on_def\<close>)

text \<open>
  C27: When the stored token has expired and the refresh fails for any reason, being offline
  included, the stored session is gone: if the call then fails, nothing is connected any more,
  although the refresh token may still be good.
\<close>

theorem failed_refresh_forgets_the_session:
  assumes "storage_load ac ga (aw_disk w) = Inr (Some old)"
    and "\<not> gt_expires_at old > wrap_i64 (ac_unix ac (aw_now w) + 300)"
    and "fst (ac_token ac (ga_creds ga) (RefreshGrant (gt_refresh_token old)) (aw_now w) (aw_net w)) = Inl err"
    and "dk_fault (aw_disk w) OpUnlink (ga_path ga) = None"
    and "get_valid_token ac ga w = Some (Inl e, w')"
  shows "is_locally_connected ac ga (aw_disk w) \<and> \<not> is_locally_connected ac ga (aw_disk w')"
  using refresh_error_forgets[OF assms] assms(1) by (auto simp: is_locally_connected_iff)

lemma failed_refresh_forgets_the_session_witness:
  "\<not> is_locally_connected demo_ac demo_ga (aw_disk (snd (the (get_valid_token demo_ac demo_ga (demo_session ''old'' 50)))))"
proof -
  let ?w = "demo_session ''old'' 50" and ?t = "demo_tokens ''old'' 50"
  have load: "storage_load demo_ac demo_ga (aw_disk ?w) = Inr (Some ?t)"
    and fault: "dk_fault (aw_disk ?w) OpUnlink (ga_path demo_ga) = None"
    using demo_session_load[OF demo_stores(2,5)] by simp_all
  have old: "gt_expires_at ?t = 50" "gt_refresh_token ?t = ''old''" by (simp_all add: demo_tokens_def)
  have unix: "wrap_i64 (ac_unix demo_ac n + 300) = 400" for n by (simp add: wrap_i64_id)
  have refused: "fst (ac_token demo_ac (ga_creds demo_ga) (RefreshGrant (gt_refresh_token ?t)) (aw_now ?w) (aw_net ?w)) = Inl ''offline''"
    by (simp add: old demo_token_def)
  obtain e w' where r: "get_valid_token demo_ac demo_ga ?w = Some (Inl e, w')"
    using unix by (simp add: get_valid_token_load[OF load] old refresh_token_def reconnect_def authenticate_def demo_token_def)
  from failed_refresh_forgets_the_session[OF load _ refused fault r] r unix show ?thesis by (simp add: old)
qed

text \<open>
  C28: A file at most as large as the resumable threshold, but larger than one second of the
  upload limit, is never sent and the call never returns: it asks the bucket for more than the
  bucket can hold, and only a shutdown ends the wait.
\<close>

theorem small_upload_above_the_limit_never_returns:
  assumes "has_content gv p content g" "length content \<le> unat (av_chunk_threshold (gv_config gv))"
    and "gv_cancel_at gv = None" "0 < av_upload_limit_kbps (gv_config gv)"
    and "bl_limit_bps (gd_bw g) \<noteq> 0" "unat (bl_limit_bps (gd_bw g)) < length content"
    and "api_acquire gv g = Some (Inr (), g1)" "get_token gv g1 = Some (Inr token, g2)"
  shows "upload gv p parent_id file_name existing_id g = None"
proof -
  have "length content < 2 ^ 64"
    using assms(2) unsigned_less[of "av_chunk_threshold (gv_config gv)", where 'a = nat] by simp
  with upload_is_simple[OF assms(1,2)] upload_simple_stuck[OF assms(1,3-6) _ assms(7,8)] show ?thesis by simp
qed

lemma small_upload_above_the_limit_never_returns_witness:
  "upload (demo_gv 5000 1) [''/'', ''s'', ''big''] ''R'' ''big'' None
     (demo_drive_on (demo_session_disk\<lparr>dk_nodes := (dk_nodes demo_session_disk)([''/'', ''s'', ''big''] \<mapsto> FileNode (replicate 2000 CHR ''x'') 1)\<rparr>) 1)
   = None"
proof -
  let ?dk = "demo_session_disk\<lparr>dk_nodes := (dk_nodes demo_session_disk)([''/'', ''s'', ''big''] \<mapsto> FileNode (replicate 2000 CHR ''x'') 1)\<rparr>"
  let ?g = "demo_drive_on ?dk 1"
  have fault: "dk_fault demo_session_disk op q = None" for op q
    using demo_session_fault by simp
  have load: "storage_load demo_ac demo_ga ?dk = Inr (Some (demo_tokens ''new'' 1000))"
    using demo_storage_load
    by (auto simp: storage_load_Some_iff path_exists_def is_ok_iff fs_metadata_Inr_iff fs_read_Inr_iff demo_ga_path)
  have api: "api_acquire (demo_gv 5000 1) ?g = Some (Inr (), ?g)"
    by (simp add: api_acquire_def demo_drive_on_def rl_acquire_def rl_new_def)
  have tok: "get_token (demo_gv 5000 1) ?g = Some (Inr ''A'', ?g)"
    using load by (intro demo_token_load) (simp add: demo_drive_on_def)
  show ?thesis
    by (rule small_upload_above_the_limit_never_returns[OF _ _ _ _ _ _ api tok, where content = "replicate 2000 CHR ''x''"])
       (simp_all add: demo_drive_on_def bl_new_def Let_def has_content_def fs_read_Inr_iff demo_ga_path fault)
qed

text \<open>
  C29: When a click on the save button closes the window, the configuration it holds is valid, has the chosen
  number of workers (between 1 and 16) and the chosen switch, and loading the configuration
  file afterwards gives it back, up to the expansion of leading tildes, without a first-run flag and without writing.
\<close>

theorem saved_settings_load_back:
  assumes "toml_faithful (ue_toml ue)"
    and "dk_fault (aw_disk w) OpStat (config_file ue) = None" "dk_fault (aw_disk w) OpRead (config_file ue) = None"
    and "settings_step ue SaveClicked (f, w) = Some (f', w')" "sf_open f" "sf_saved f'" "form_ok f"
  shows "is_valid (aw_disk w) (sf_config f') \<and> unat (cf_max_workers (sf_config f')) = sf_workers f \<and>
    sf_workers f \<in> {1..16} \<and> cf_notifications (sf_config f') = sf_notifications f \<and> \<not> sf_open f' \<and>
    load_or_create (ue_toml ue) (ue_vars ue) now (aw_disk w') =
      map_option (\<lambda>c. (Inr (c, False), aw_disk w')) (expand_tildes (ue_vars ue) (sf_config f'))"
proof -
  have ns: "\<not> sf_saved f" and workers: "sf_workers f \<in> {1..16}" using assms(5,7) by (simp_all add: form_ok_def)
  then have "sf_can_save f" using assms(4-6) by (auto simp: settings_step_def split: if_splits)
  with assms(4,5) have "save_clicked ue (f, w) = (f', w')" by (simp add: settings_step_def)
  then show ?thesis
  proof (cases rule: save_clicked_cases)
    case (saved dk)
    have "unat (of_nat (sf_workers f) :: 64 word) = sf_workers f"
      using workers by (simp add: unat_of_nat)
    moreover have "load_or_create (ue_toml ue) (ue_vars ue) now dk =
        map_option (\<lambda>c. (Inr (c, False), dk)) (expand_tildes (ue_vars ue) (fst (edited_config f)))"
      using load_saved[OF assms(1) saved(1)[unfolded config_save_def]] assms(2,3)
      by (simp add: load_or_create_def config_file_def)
    ultimately show ?thesis using saved workers by (simp add: edited_config_def Let_def)
  qed (use assms(6) ns in simp_all)
qed

lemma saved_settings_load_back_witness:
  "is_valid (aw_disk (snd demo_edited)) demo_saved_cfg \<and>
   map_option fst (load_or_create demo_ui_toml demo_env_vars 7 (aw_disk (snd demo_saved))) = Some (Inr (demo_saved_cfg, False))"
proof -
  have f: "dk_fault (aw_disk (snd demo_edited)) op q = None" for op q
    by (simp add: demo_edited_def demo_opened_def send_command_def)
  have "is_remote_valid ''root''" by code_simp
  then have o: "sf_open (fst demo_edited)" "form_ok (fst demo_edited)"
    using demo_form_facts by (simp_all add: demo_edited_def demo_edited_form_def form_ok_def)
  have tilde: "expand_tildes demo_env_vars demo_saved_cfg = Some demo_saved_cfg" by code_simp
  have step: "settings_step demo_ue SaveClicked (fst demo_edited, snd demo_edited) = Some (fst demo_saved, snd demo_saved)"
    using demo_saved_run by simp
  show ?thesis
    using saved_settings_load_back[OF _ _ _ step o(1) demo_saved_facts(1) o(2), of 7] demo_ui_toml_faithful f tilde
      demo_saved_facts(2)
    by (simp add: demo_ue_def)
qed

text \<open>
  C30: When loading has just created the configuration file, \<open>main\<close> starts without an engine and the tray
  asks for the settings window; opening that window panics, because it expects an active pair. A new
  user never sees the window that would let him configure the program.
\<close>

theorem first_start_ends_in_a_panic:
  assumes "toml_faithful (ue_toml ue)"
    and "load_or_create (ue_toml ue) (ue_vars ue) now dk = Some (Inr (cfg, True), dk1)"
    and "dk_fault dk OpStat (config_file ue) = None" "dk_fault dk OpRead (config_file ue) = None"
    and "aw_disk (ua_world a) = dk1"
  shows "(\<exists>su reason. plan_startup (ue_vars ue) cfg dk1 = Inr su \<and> su_launch su = LaunchUnconfigured reason \<and>
      ShowSettings \<in> set (sy_ui (spawn_tray commands cfg autostart logs (su_open_settings su) dry))) \<and>
    ui_step ue (UiCommand ShowSettings) a = None"
  using first_start_facts[OF assms(1-4)] first_settings_panic[OF assms(1-4)] assms(5)
  by (auto simp: spawn_tray_def ui_step_def ui_command_step_def)

lemma first_start_ends_in_a_panic_witness:
  "\<exists>dk1. load_or_create demo_ui_toml demo_env_vars 1 demo_disk = Some (Inr (app_default, True), dk1) \<and>
    ui_step demo_ue (UiCommand ShowSettings) (ui_start (demo_ui_world dk1)) = None"
proof -
  let ?run = "load_or_create demo_ui_toml demo_env_vars 1 demo_disk"
  have "\<not> Option.is_none ?run" "fst (the ?run) = Inr (app_default, True)" by code_simp+
  then have run: "?run = Some (Inr (app_default, True), snd (the ?run))"
    by (cases ?run) (auto simp: Option.is_none_def)
  have "ui_step demo_ue (UiCommand ShowSettings) (ui_start (demo_ui_world (snd (the ?run)))) = None"
    by (rule first_start_ends_in_a_panic[where now = 1 and dk = demo_disk and cfg = app_default, THEN conjunct2])
      (use run demo_ui_toml_faithful in \<open>simp_all add: demo_ue_def demo_disk_def ui_start_def\<close>)
  with run show ?thesis by blast
qed



text \<open>
  C32: Once the cancellation token is set, no step of any part of the engine changes the drive any
  more, and the next step of the main loop is to report \<open>Stopped\<close> and return \<open>Ok\<close>.
\<close>

theorem cancelled_engine_leaves_the_drive:
  assumes "w_cancel (en_world e) = Some 0" "engine_reach env e e'"
  shows "w_drive (en_world e') = w_drive (en_world e) \<and>
    (\<forall>ev e''. engine_step env ev e' = Some e'' \<longrightarrow>
       (\<exists>i dk. ev = BgJob i dk) \<or> e'' = finish e')"
  using engine_reach_stopped[OF assms(2,1)] engine_step_stopped by blast

lemma cancelled_engine_leaves_the_drive_witness:
  "w_drive (en_world (the (engine_step demo_env (BgJob 0 demo_disk) (cancel_token (demo_run [MainTask]))))) =
      w_drive (en_world (cancel_token (demo_run [MainTask])))"
proof -
  let ?e = "cancel_token (demo_run [MainTask])" and ?e' = "the (engine_step demo_env (BgJob 0 demo_disk) (cancel_token (demo_run [MainTask])))"
  have "\<not> Option.is_none (engine_step demo_env (BgJob 0 demo_disk) ?e)" by code_simp
  then have "engine_step demo_env (BgJob 0 demo_disk) ?e = Some ?e'" by (auto simp: Option.is_none_def)
  then have "engine_reach demo_env ?e ?e'" by (rule engine_reach.step[OF engine_reach.start])
  moreover have "w_cancel (en_world ?e) = Some 0" by (simp add: cancel_token_def)
  ultimately show ?thesis using cancelled_engine_leaves_the_drive by blast
qed

text \<open>
  C33: After a scan that ended without error, the lookup of the parent folder that precedes an upload
  succeeds for every directory the walk has met: no task queued for a file in it fails with
  "parent not in the cache".
\<close>

theorem scan_prepares_the_parents:
  assumes "scan_run cx ign w = (Inr (), w')" "get_primary_pair (cx_cfg cx) = Some primary"
    and "rel_ok r" "r \<noteq> []" "pair_base primary @ r \<in> set (walk_dirs (pair_base primary) (walked cx ign (pair_base primary)))"
  shows "\<exists>i. parent_folder_id primary (path_string r) missing w' = (Inr i, w')"
proof -
  obtain e where "pc_lookup (w_cache w') (path_string r) = Some e"
    using scan_run_Inr[OF assms(1,2)] assms(3-5) by (metis option.exhaust)
  then show ?thesis by (auto simp: parent_folder_id_def ret_act_def read_act_def context_opt_def)
qed

lemma scan_prepares_the_parents_witness:
  "\<exists>i. parent_folder_id demo_pair ''d'' [] (snd (scan_run (demo_cx False) nothing_ignored demo_world)) =
     (Inr i, snd (scan_run (demo_cx False) nothing_ignored demo_world))"
proof -
  have walk: "[''/'', ''s'', ''d''] \<in> set (walk_dirs [''/'', ''s''] (walked (demo_cx False) nothing_ignored [''/'', ''s'']))"
    by code_simp
  have name: "name_ok ''d''" "path_string [''d''] = ''d''" by code_simp+
  show ?thesis
    using scan_prepares_the_parents[OF run_pair[OF demo_scan] demo_primary, of "[''d'']"] walk name by simp
qed



text \<open>
  C35: \<open>acquire(n)\<close> returns exactly when no limit is set or \<open>n\<close> is at most the bytes per second the
  limit allows. A larger request never returns: the bucket cannot hold that many tokens.
\<close>

theorem bandwidth_acquire_returns_iff_it_fits:
  assumes "sleeps_long_enough wake"
  shows "(\<exists>r. bl_acquire wake n now l = Some r) \<longleftrightarrow> bl_limit_bps l = 0 \<or> n \<le> bl_limit_bps l"
proof -
  have fits: "as_f64 n \<le> bl_limit l \<longleftrightarrow> n \<le> bl_limit_bps l"
    unfolding as_f64_def bl_limit_def of_nat_le_iff by (simp add: word_le_nat_alt)
  have pos: "bl_limit l > 0 \<longleftrightarrow> bl_limit_bps l \<noteq> 0"
    unfolding as_f64_def bl_limit_def of_nat_0_less_iff by (simp add: unat_gt_0)
  show ?thesis
    using bl_acquire_loop_stuck[of l n wake now] bl_acquire_loop_returns[OF assms, of n l now] fits pos
    by (auto simp: bl_acquire_def not_le)
qed

lemma bandwidth_acquire_returns_iff_it_fits_witness:
  "bl_acquire demo_wake 2000 0 (bl_new 1 0) = None \<and> bl_acquire demo_wake 1000 0 (bl_new 1 0) \<noteq> None"
proof -
  have "bl_limit_bps (bl_new 1 0) = 1024" by (simp add: bl_new_def)
  then show ?thesis
    using bandwidth_acquire_returns_iff_it_fits[OF demo_wake_ok, of 2000 0 "bl_new 1 0", folded not_None_eq]
      bandwidth_acquire_returns_iff_it_fits[OF demo_wake_ok, of 1000 0 "bl_new 1 0", folded not_None_eq]
    by (simp del: not_None_eq)
qed

text \<open>
  C36: With sleeps that last as long as asked, \<open>acquire\<close> returns from every state of the limiter; if a
  429 has locked it and \<open>max_rps\<close> is not zero, not before the lock ends.
\<close>

theorem api_acquire_returns_after_the_lock:
  assumes "sleeps_long_enough wake"
  shows "\<exists>t l'. rl_acquire wake now l = Some (t, l') \<and>
    (rl_max_rps l = 0 \<or> (\<forall>e. rl_locked_until l = Some e \<longrightarrow> e \<le> t))"
proof (cases "rl_max_rps l = 0")
  case False
  then obtain t l' where run: "rl_acquire_loop wake now l = Some (t, l')"
    using rl_acquire_loop_returns[OF assms rl_max_ge_one] by (metis surj_pair)
  with False rl_acquire_loop_locked[OF run] show ?thesis by (simp add: rl_acquire_def)
qed (simp add: rl_acquire_def)

lemma api_acquire_returns_after_the_lock_witness:
  "\<exists>t l'. rl_acquire demo_wake 0 (handle_rate_limit 0 2 (rl_new 10 0)) = Some (t, l') \<and> 2 * ns_per_sec \<le> t"
proof -
  have "rl_locked_until (handle_rate_limit 0 2 (rl_new 10 0)) = Some (2 * ns_per_sec)"
    "rl_max_rps (handle_rate_limit 0 2 (rl_new 10 0)) = 10"
    by (simp_all add: handle_rate_limit_def rl_new_def)
  with api_acquire_returns_after_the_lock[OF demo_wake_ok, of 0 "handle_rate_limit 0 2 (rl_new 10 0)"]
  show ?thesis by auto
qed

text \<open>
  C37: On an empty database or one with the first schema, the migration succeeds and gives a valid
  database of version 2 with the same files and directories; a second migration changes nothing.
\<close>

theorem migration_reaches_v2_and_keeps_the_files:
  assumes "db_empty db \<or> db_v1 db"
  shows "\<exists>db'. db_init_and_migrate db = Inr db' \<and> db_ok db' \<and> db_schema_version db' = Inr 2 \<and>
    file_index_get db' = file_index_get db \<and>
    (t_dir_index db \<noteq> None \<longrightarrow> map_option (map fst) (t_dir_index db') = map_option (map fst) (t_dir_index db)) \<and>
    db_init_and_migrate db' = Inr db'"
  using assms
proof
  assume "db_empty db"
  moreover from migrate_empty[OF this] obtain db' where
    m: "db_init_and_migrate db = Inr db'" "db_ok db'" "t_file_index db' = Some []" by blast
  ultimately have "file_index_get db' = file_index_get db" "t_dir_index db = None"
    by (auto simp: file_index_get_def db_get_def with_table_def need_def db_lock_def db_empty_def db_ok_def
        select_row_def bind_res_def bail_def)
  with m show ?thesis by (intro exI[of _ db']) (simp add: db_ok_version db_migrate_ok_id)
next
  assume v1: "db_v1 db"
  from migrate_v1[OF this] obtain db' where m: "db_init_and_migrate db = Inr db'" "db_ok db'"
    "t_file_index db' = t_file_index db" "map_option (map fst) (t_dir_index db') = map_option (map fst) (t_dir_index db)"
    by blast
  have "file_index_get db' = file_index_get db"
    using m(2,3) v1 by (auto simp: file_index_get_def db_get_def with_table_def db_lock_def db_v1_def db_ok_def fun_eq_iff)
  with m show ?thesis by (intro exI[of _ db']) (simp add: db_ok_version db_migrate_ok_id)
qed

lemma migration_reaches_v2_and_keeps_the_files_witness:
  "\<exists>db'. db_init_and_migrate db_fresh = Inr db' \<and> db_ok db' \<and> db_init_and_migrate db' = Inr db'"
  using migration_reaches_v2_and_keeps_the_files[of db_fresh] by (auto simp: db_empty_def db_fresh_def)

text \<open>
  C38: An online tick puts one \<open>SyncFile\<close> on the queue for each pending path whose last event is at least
  the debounce time old, in the map's order, removes exactly those from the map and keeps the others.
\<close>

theorem quiet_files_are_sent_once:
  assumes "w_rx_life w = None" "\<And>ps. set (dp_order dp ps) = set ps" "distinct (map fst pd)"
  shows "\<exists>w'. dispatch_tick dp (\<lambda>_. False) unix now pd w =
      (Inr (True, filter (\<lambda>(p, t). now - t < dp_debounce_ms dp) pd), w') \<and>
    w_queue w' = w_queue w @
      map SyncFile (dp_order dp (map fst (filter (\<lambda>(p, t). dp_debounce_ms dp \<le> now - t) pd))) \<and>
    w_db w' = w_db w"
proof -
  let ?ready = "ready_paths dp now pd"
  have one: "s = t" if "(p, s) \<in> set pd" "(p, t) \<in> set pd" for p s t
    using assms(3) that by (simp add: eq_key_imp_eq_value)
  have "set ?ready = {p. \<exists>t. (p, t) \<in> set pd \<and> dp_debounce_ms dp \<le> now - t}"
    unfolding ready_paths_def assms(2) by force
  then have "filter (\<lambda>(q, _). q \<notin> set ?ready) pd = filter (\<lambda>(p, t). now - t < dp_debounce_ms dp) pd"
    by (intro filter_cong) (auto dest: one simp: not_le[symmetric])
  with dispatch_paths_online[OF assms(1), of ?ready "\<lambda>_. False" dp unix pd] show ?thesis
    by (auto simp: dispatch_tick_def ready_paths_def)
qed

lemma quiet_files_are_sent_once_witness:
  "\<exists>w'. dispatch_tick (engine_dispatcher demo_env demo_disk demo_start) (\<lambda>_. False) 0 600
      [([''/'', ''s'', ''a''], 100), ([''/'', ''s'', ''b''], 400)] demo_world =
    (Inr (True, [([''/'', ''s'', ''b''], 400)]), w') \<and> w_queue w' = [SyncFile [''/'', ''s'', ''a'']]"
proof -
  let ?dp = "engine_dispatcher demo_env demo_disk demo_start"
  have dp: "dp_order ?dp ps = ps" for ps by (simp add: engine_dispatcher_def demo_env_def)
  have quiet: "dp_debounce_ms ?dp = 500" by code_simp
  show ?thesis
    using quiet_files_are_sent_once[of demo_world ?dp "[([''/'', ''s'', ''a''], 100), ([''/'', ''s'', ''b''], 400)]" 0 600]
    by (auto simp: dp quiet)
qed

text \<open>
  C39: The walk drops the entries it cannot read. When all of them fail (an unreadable or unmounted root), a
  scan that ends without error has queued a deletion for every file of the index.
\<close>

theorem unreadable_root_deletes_every_indexed_file:
  assumes "scan_run cx ign w = (Inr (), w')" "\<not> cx_dry_run cx" "get_primary_pair (cx_cfg cx) = Some primary"
    and "\<forall>x \<in> set (walked cx ign (pair_base primary)). \<exists>m. x = Inl m"
    and "db_ok (w_db w)" "\<And>ps. set (cx_order cx ps) = set ps" "k \<in> dom (file_index_get (w_db w))"
  shows "Delete (path_join (pair_base primary) (components k)) \<in> set (w_queue w')"
proof -
  have none: "walk_files (walked cx ign (pair_base primary)) = []" by (rule walk_files_unreadable[OF assms(4)])
  then have "distinct (local_rel_set (pair_base primary) (walk_files (walked cx ign (pair_base primary))))"
    by (simp add: local_rel_set_def map_filter_simps)
  from scan_run_queue[OF assms(1-3) this] obtain paths where q: "db_all_paths (w_db w) = Inr paths"
    "w_queue w' = w_queue w @ expected_tasks cx ign (pair_base primary) (cx_order cx paths) (w_cache w') (w_db w)
      (ri_files (remote_listing cx (sp_remote_folder_id primary) w))" by metis
  moreover have "k \<in> set paths" using index_paths_map[OF assms(5)] q(1) assms(7) by auto
  ultimately show ?thesis using assms(6) none
    by (auto simp: expected_tasks_def local_rel_set_def map_filter_simps)
qed

lemma unreadable_root_deletes_every_indexed_file_witness:
  "Delete [''/'', ''s'', ''gone''] \<in>
     set (w_queue (snd (scan_run (demo_cx False\<lparr>cx_walk := \<lambda>_ _. [Inl ''EACCES'']\<rparr>) nothing_ignored demo_world)))"
proof -
  let ?cx = "demo_cx False\<lparr>cx_walk := \<lambda>_ _. [Inl ''EACCES'']\<rparr>"
  have "fst (scan_run ?cx nothing_ignored demo_world) = Inr ()" by code_simp
  note run = run_pair[OF this]
  have primary: "get_primary_pair (cx_cfg ?cx) = Some demo_pair" using demo_primary by simp
  have indexed: "\<not> Option.is_none (file_index_get demo_db ''gone'')" by code_simp
  have target: "path_join [''/'', ''s''] (components ''gone'') = [''/'', ''s'', ''gone'']" by code_simp
  show ?thesis
    using unreadable_root_deletes_every_indexed_file[OF run _ primary, of "''gone''"] indexed demo_db_ok target
    by (auto simp: walked_def Option.is_none_def)
qed



end
